(* ===== verification/Prelude.thy ===== *)
theory Prelude
  imports Main "HOL-Library.Char_ord" "HOL-Library.List_Lexorder" "HOL-Library.Sublist"
    "HOL-Library.Countable"
begin

text \<open>
  Shared vocabulary of the development: the parts of Rust's \<^verbatim>\<open>str\<close> and integer parsing that the
  API uses, the \<^verbatim>\<open>serde_json::Value\<close> tree with its sorted object map, and the state-and-error
  actions in which the HTTP handlers are written, with the framing locale that carries the
  proofs about what a handler leaves alone.

  A Rust string is the list of its UTF-8 bytes (\<open>string\<close>), so \<open>length\<close> is \<^verbatim>\<open>str::len\<close>; functions that
  work on characters go through \<open>chars\<close>, which cuts the bytes into encoded characters.
  An instant (\<^verbatim>\<open>DateTime<Utc>\<close>) is an \<open>int\<close> counting nanoseconds since the Unix epoch.
\<close>

named_theorems str_simps \<open>evaluation rules of the string functions\<close>
named_theorems act_simps \<open>unfolding rules of the handler actions\<close>
named_theorems pres_intros \<open>rules that show that an action stays within a framing relation\<close>

type_synonym instant = int
type_synonym duration = int

definition nanos_per_sec :: int where
  "nanos_per_sec = 1000000000"

definition secs :: "int \<Rightarrow> duration" where
  "secs n = n * nanos_per_sec"

definition hours :: "int \<Rightarrow> duration" where
  "hours n = secs (n * 3600)"

definition days :: "int \<Rightarrow> duration" where
  "days n = hours (n * 24)"

text \<open>\<^verbatim>\<open>Duration::num_seconds\<close> truncates towards zero.\<close>

definition num_seconds :: "duration \<Rightarrow> int" where
  "num_seconds d = (if d < 0 then - ((- d) div nanos_per_sec) else d div nanos_per_sec)"

section \<open>Strings\<close>

definition byte :: "char \<Rightarrow> nat" where
  "byte c = of_char c"

definition is_cont :: "char \<Rightarrow> bool" where
  "is_cont c \<longleftrightarrow> 128 \<le> byte c \<and> byte c < 192"

lemma length_dropWhile_lt [termination_simp]: "length (dropWhile P xs) < Suc (length xs)"
  by (simp add: le_imp_less_Suc length_dropWhile_le)

text \<open>The characters of a UTF-8 string, each as its own byte sequence.\<close>

fun chars :: "string \<Rightarrow> string list" where
  "chars [] = []"
| "chars (c # cs) = (c # takeWhile is_cont cs) # chars (dropWhile is_cont cs)"

text \<open>The characters with the Unicode property \<open>White_Space\<close>, by their encodings.\<close>

definition is_whitespace :: "string \<Rightarrow> bool" where
  "is_whitespace ch \<longleftrightarrow>
     (let bs = map byte ch in
      (case bs of
        [b] \<Rightarrow> (9 \<le> b \<and> b \<le> 13) \<or> b = 32
      | [b1, b2] \<Rightarrow> b1 = 0xC2 \<and> (b2 = 0x85 \<or> b2 = 0xA0)
      | [b1, b2, b3] \<Rightarrow>
          (b1 = 0xE1 \<and> b2 = 0x9A \<and> b3 = 0x80)
        \<or> (b1 = 0xE2 \<and> b2 = 0x80 \<and> ((0x80 \<le> b3 \<and> b3 \<le> 0x8A) \<or> b3 = 0xA8 \<or> b3 = 0xA9 \<or> b3 = 0xAF))
        \<or> (b1 = 0xE2 \<and> b2 = 0x81 \<and> b3 = 0x9F)
        \<or> (b1 = 0xE3 \<and> b2 = 0x80 \<and> b3 = 0x80)
      | _ \<Rightarrow> False))"

text \<open>\<^verbatim>\<open>char::is_control\<close>: the C0 controls, DEL and the C1 controls.\<close>

definition is_control :: "string \<Rightarrow> bool" where
  "is_control ch \<longleftrightarrow>
     (case map byte ch of
        [b] \<Rightarrow> b < 32 \<or> b = 127
      | [b1, b2] \<Rightarrow> b1 = 0xC2 \<and> 0x80 \<le> b2 \<and> b2 \<le> 0x9F
      | _ \<Rightarrow> False)"

definition trim :: "string \<Rightarrow> string" where
  "trim s = concat (rev (dropWhile is_whitespace (rev (dropWhile is_whitespace (chars s)))))"

definition to_lower :: "char \<Rightarrow> char" where
  "to_lower c = (if 65 \<le> byte c \<and> byte c \<le> 90 then char_of (byte c + 32) else c)"

definition to_ascii_lowercase :: "string \<Rightarrow> string" where
  "to_ascii_lowercase = map to_lower"

definition is_digit :: "char \<Rightarrow> bool" where
  "is_digit c \<longleftrightarrow> 48 \<le> byte c \<and> byte c \<le> 57"

definition is_ascii_alphanumeric :: "char \<Rightarrow> bool" where
  "is_ascii_alphanumeric c \<longleftrightarrow> is_digit c \<or> (65 \<le> byte c \<and> byte c \<le> 90) \<or> (97 \<le> byte c \<and> byte c \<le> 122)"

definition is_ascii_hexdigit :: "char \<Rightarrow> bool" where
  "is_ascii_hexdigit c \<longleftrightarrow> is_digit c \<or> (65 \<le> byte c \<and> byte c \<le> 70) \<or> (97 \<le> byte c \<and> byte c \<le> 102)"

text \<open>\<^verbatim>\<open>str::split\<close> on an ASCII character (or on a set of them): never the empty list.\<close>

fun split_by :: "('a \<Rightarrow> bool) \<Rightarrow> 'a list \<Rightarrow> 'a list list" where
  "split_by p [] = [[]]"
| "split_by p (c # cs) =
     (if p c then [] # split_by p cs
      else (case split_by p cs of [] \<Rightarrow> [[c]] | w # ws \<Rightarrow> (c # w) # ws))"

abbreviation split_on :: "char \<Rightarrow> string \<Rightarrow> string list" where
  "split_on c \<equiv> split_by (\<lambda>x. x = c)"

definition split_whitespace :: "string \<Rightarrow> string list" where
  "split_whitespace s = map concat (filter (\<lambda>w. w \<noteq> []) (split_by is_whitespace (chars s)))"

text \<open>\<^verbatim>\<open>s.rsplit(p).next()\<close>: the last piece.\<close>

definition rsplit_next :: "(char \<Rightarrow> bool) \<Rightarrow> string \<Rightarrow> string" where
  "rsplit_next p s = last (split_by p s)"

text \<open>\<^verbatim>\<open>str::rsplit_once\<close> on an ASCII character.\<close>

fun split_once :: "char \<Rightarrow> string \<Rightarrow> (string \<times> string) option" where
  "split_once c [] = None"
| "split_once c (x # xs) =
     (if x = c then Some ([], xs) else map_option (\<lambda>(a, b). (x # a, b)) (split_once c xs))"

definition rsplit_once :: "char \<Rightarrow> string \<Rightarrow> (string \<times> string) option" where
  "rsplit_once c s = map_option (\<lambda>(a, b). (rev b, rev a)) (split_once c (rev s))"

definition trim_start_matches :: "char \<Rightarrow> string \<Rightarrow> string" where
  "trim_start_matches c = dropWhile (\<lambda>x. x = c)"

definition trim_end_matches :: "char \<Rightarrow> string \<Rightarrow> string" where
  "trim_end_matches c s = rev (dropWhile (\<lambda>x. x = c) (rev s))"

definition trim_matches :: "char \<Rightarrow> string \<Rightarrow> string" where
  "trim_matches c s = trim_end_matches c (trim_start_matches c s)"

definition strip_prefix :: "string \<Rightarrow> string \<Rightarrow> string option" where
  "strip_prefix p s = (if prefix p s then Some (drop (length p) s) else None)"

definition chr_nl :: char where "chr_nl = char_of (10::nat)"
definition chr_quote :: char where "chr_quote = char_of (34::nat)"
definition chr_backslash :: char where "chr_backslash = char_of (92::nat)"

text \<open>
  \<^verbatim>\<open>{:?}\<close> of a string: quoted, with the escapes of \<^verbatim>\<open>escape_debug\<close> for the ASCII range
  (characters beyond ASCII are printed as they are).
\<close>

fun hex_digit :: "nat \<Rightarrow> char" where
  "hex_digit n = (if n < 10 then char_of (48 + n) else char_of (87 + n))"

definition debug_char :: "char \<Rightarrow> string" where
  "debug_char c =
     (if c = chr_quote \<or> c = chr_backslash then [chr_backslash, c]
      else if byte c = 0 then [chr_backslash, CHR ''0'']
      else if byte c = 9 then [chr_backslash, CHR ''t'']
      else if byte c = 10 then [chr_backslash, CHR ''n'']
      else if byte c = 13 then [chr_backslash, CHR ''r'']
      else if byte c < 16 then [chr_backslash, CHR ''u'', CHR ''{'', hex_digit (byte c), CHR ''}'']
      else if byte c < 32 \<or> byte c = 127
        then [chr_backslash, CHR ''u'', CHR ''{'', hex_digit (byte c div 16), hex_digit (byte c mod 16), CHR ''}'']
      else [c])"

definition debug_str :: "string \<Rightarrow> string" where
  "debug_str s = [chr_quote] @ concat (map debug_char s) @ [chr_quote]"

section \<open>Integers in text\<close>

fun show_nat :: "nat \<Rightarrow> string" where
  "show_nat n = (if n < 10 then [char_of (48 + n)] else show_nat (n div 10) @ [char_of (48 + n mod 10)])"

declare show_nat.simps [simp del]

definition show_int :: "int \<Rightarrow> string" where
  "show_int i = (if i < 0 then CHR ''-'' # show_nat (nat (- i)) else show_nat (nat i))"

definition i64_max :: int where "i64_max = 9223372036854775807"
definition i64_min :: int where "i64_min = - 9223372036854775808"

definition digits_value :: "string \<Rightarrow> nat" where
  "digits_value ds = foldl (\<lambda>a c. 10 * a + (byte c - 48)) 0 ds"

text \<open>\<^verbatim>\<open>str::parse::<i64>\<close>: an optional sign, one or more digits, and the range of the type.\<close>

definition parse_i64 :: "string \<Rightarrow> int option" where
  "parse_i64 s =
     (let (neg, ds) = (case s of [] \<Rightarrow> (False, [])
                       | c # cs \<Rightarrow> if c = CHR ''-'' then (True, cs)
                                  else if c = CHR ''+'' then (False, cs) else (False, s)) in
      if ds = [] \<or> \<not> list_all is_digit ds then None
      else (let v = (if neg then - int (digits_value ds) else int (digits_value ds)) in
            if i64_min \<le> v \<and> v \<le> i64_max then Some v else None))"

lemma byte_digit [simp]: "d < 10 \<Longrightarrow> byte (char_of (48 + d)) = 48 + d"
  by (simp add: byte_def)

lemma is_digit_char_of [simp]: "(d::nat) < 10 \<Longrightarrow> is_digit (char_of (48 + d))"
  by (simp add: is_digit_def)

lemma show_nat_digits: "list_all is_digit (show_nat n)"
proof (induction n rule: show_nat.induct)
  case (1 n)
  then show ?case
    by (subst show_nat.simps) simp
qed

lemma show_nat_nonempty: "show_nat n \<noteq> []"
  by (subst show_nat.simps) simp

lemma digits_value_snoc [simp]: "digits_value (ds @ [c]) = 10 * digits_value ds + (byte c - 48)"
  by (simp add: digits_value_def)

lemma digits_value_show_nat [simp]: "digits_value (show_nat n) = n"
proof (induction n rule: show_nat.induct)
  case (1 n)
  show ?case
  proof (cases "n < 10")
    case True
    then show ?thesis by (subst show_nat.simps) (simp add: digits_value_def)
  next
    case False
    with 1 show ?thesis by (subst show_nat.simps) simp
  qed
qed

lemma show_nat_not_sign: "show_nat n = c # cs \<Longrightarrow> c \<noteq> CHR ''-'' \<and> c \<noteq> CHR ''+''"
  using show_nat_digits [of n] by (auto simp: is_digit_def byte_def)

lemma parse_show_int [simp]:
  assumes "i64_min \<le> i" and "i \<le> i64_max"
  shows "parse_i64 (show_int i) = Some i"
proof (cases "i < 0")
  case True
  then show ?thesis
    using assms show_nat_digits show_nat_nonempty by (simp add: parse_i64_def show_int_def)
next
  case False
  then obtain c cs where s: "show_nat (nat i) = c # cs"
    using show_nat_nonempty by (cases "show_nat (nat i)") auto
  have "digits_value (c # cs) = nat i" and "list_all is_digit (c # cs)"
    using digits_value_show_nat [of "nat i"] show_nat_digits [of "nat i"] by (simp_all add: s del: digits_value_show_nat)
  then show ?thesis
    using False assms show_nat_not_sign [OF s] by (simp add: parse_i64_def show_int_def s)
qed

section \<open>JSON values\<close>

text \<open>
  \<^verbatim>\<open>serde_json::Number\<close> is a \<^verbatim>\<open>u64\<close>, a negative \<^verbatim>\<open>i64\<close> or an \<^verbatim>\<open>f64\<close>; a float is represented by its
  printed form. \<^verbatim>\<open>serde_json::Map\<close> is a \<^verbatim>\<open>BTreeMap\<close> (the \<^verbatim>\<open>preserve_order\<close> feature is not
  enabled), here the list of its entries in key order.
\<close>

datatype jnum = PosInt nat | NegInt int | Float string

datatype json =
    JNull
  | JBool bool
  | JNum jnum
  | JStr string
  | JArr "json list"
  | JObj "(string \<times> json) list"

instance jnum :: countable by countable_datatype
instance json :: countable by countable_datatype

type_synonym 'v btree = "(string \<times> 'v) list"

fun map_insert :: "string \<Rightarrow> 'v \<Rightarrow> 'v btree \<Rightarrow> 'v btree" where
  "map_insert k v [] = [(k, v)]"
| "map_insert k v ((k', v') # m) =
     (if k = k' then (k, v) # m
      else if k < k' then (k, v) # (k', v') # m
      else (k', v') # map_insert k v m)"

definition btree_of :: "(string \<times> 'v) list \<Rightarrow> 'v btree" where
  "btree_of kvs = fold (\<lambda>(k, v). map_insert k v) kvs []"

definition sorted_keys :: "'v btree \<Rightarrow> bool" where
  "sorted_keys m \<longleftrightarrow> sorted_wrt (<) (map fst m)"

definition json_obj :: "(string \<times> json) list \<Rightarrow> json" where
  "json_obj kvs = JObj (btree_of kvs)"

text \<open>
  The values whose text is read back exactly: sorted objects and integers in range. Floats are
  left out, because \<^verbatim>\<open>serde_json\<close> without \<^verbatim>\<open>float_roundtrip\<close> may read a nearby float.
\<close>

fun json_wf :: "json \<Rightarrow> bool" and json_wf_list :: "json list \<Rightarrow> bool"
  and json_wf_entries :: "(string \<times> json) list \<Rightarrow> bool" where
  "json_wf (JArr vs) = json_wf_list vs"
| "json_wf (JObj m) = (sorted_keys m \<and> json_wf_entries m)"
| "json_wf (JNum (PosInt n)) = (n < 2 ^ 64)"
| "json_wf (JNum (NegInt i)) = (i64_min \<le> i \<and> i < 0)"
| "json_wf (JNum (Float _)) = False"
| "json_wf v = True"
| "json_wf_list [] = True"
| "json_wf_list (v # vs) = (json_wf v \<and> json_wf_list vs)"
| "json_wf_entries [] = True"
| "json_wf_entries ((k, v) # m) = (json_wf v \<and> json_wf_entries m)"

definition jget :: "json \<Rightarrow> string \<Rightarrow> json option" where
  "jget v k = (case v of JObj m \<Rightarrow> map_of m k | _ \<Rightarrow> None)"

definition as_str :: "json \<Rightarrow> string option" where
  "as_str v = (case v of JStr s \<Rightarrow> Some s | _ \<Rightarrow> None)"

definition as_bool :: "json \<Rightarrow> bool option" where
  "as_bool v = (case v of JBool b \<Rightarrow> Some b | _ \<Rightarrow> None)"

definition as_array :: "json \<Rightarrow> json list option" where
  "as_array v = (case v of JArr vs \<Rightarrow> Some vs | _ \<Rightarrow> None)"

definition as_object :: "json \<Rightarrow> json btree option" where
  "as_object v = (case v of JObj m \<Rightarrow> Some m | _ \<Rightarrow> None)"

definition as_i64 :: "json \<Rightarrow> int option" where
  "as_i64 v = (case v of JNum (PosInt n) \<Rightarrow> if int n \<le> i64_max then Some (int n) else None
                       | JNum (NegInt i) \<Rightarrow> Some i | _ \<Rightarrow> None)"

definition jint :: "int \<Rightarrow> json" where
  "jint i = JNum (if i < 0 then NegInt i else PosInt (nat i))"

definition jopt :: "('a \<Rightarrow> json) \<Rightarrow> 'a option \<Rightarrow> json" where
  "jopt f x = (case x of None \<Rightarrow> JNull | Some a \<Rightarrow> f a)"

definition jget_str :: "json \<Rightarrow> string \<Rightarrow> string option" where
  "jget_str v k = Option.bind (jget v k) as_str"

definition opt_filter :: "('a \<Rightarrow> bool) \<Rightarrow> 'a option \<Rightarrow> 'a option" where
  "opt_filter p x = (case x of None \<Rightarrow> None | Some a \<Rightarrow> if p a then Some a else None)"

definition or_else :: "'a option \<Rightarrow> 'a option \<Rightarrow> 'a option" where
  "or_else x y = (case x of None \<Rightarrow> y | Some a \<Rightarrow> Some a)"

definition unwrap_or :: "'a \<Rightarrow> 'a option \<Rightarrow> 'a" where
  "unwrap_or d x = (case x of None \<Rightarrow> d | Some a \<Rightarrow> a)"

lemma map_of_map_insert [simp]: "map_of (map_insert k v m) = (map_of m)(k \<mapsto> v)"
  by (induction m) (auto simp: fun_eq_iff)

lemma keys_map_insert: "fst ` set (map_insert k v m) = insert k (fst ` set m)"
  by (simp flip: dom_map_of_conv_image_fst)

lemma sorted_keys_map_insert: "sorted_keys m \<Longrightarrow> sorted_keys (map_insert k v m)"
proof (induction m)
  case Nil
  then show ?case by (simp add: sorted_keys_def)
next
  case (Cons e m)
  obtain k' v' where e: "e = (k', v')" by (cases e)
  from Cons.prems e have m: "sorted_keys m" and lt: "\<forall>x \<in> fst ` set m. k' < x"
    by (auto simp: sorted_keys_def)
  from Cons.IH [OF m] lt m e show ?case
    using keys_map_insert [of k v m] by (fastforce simp: sorted_keys_def)
qed

lemma map_of_fold_insert:
  "map_of (fold (\<lambda>(k, v). map_insert k v) kvs m) k = (map_of m ++ map_of (rev kvs)) k"
  by (induction kvs arbitrary: m) (auto simp: map_add_def split: option.splits)

lemma map_of_btree_of [simp]: "map_of (btree_of kvs) k = map_of (rev kvs) k"
  by (simp add: btree_of_def map_of_fold_insert)

lemma sorted_keys_fold_insert:
  "sorted_keys m \<Longrightarrow> sorted_keys (fold (\<lambda>(k, v). map_insert k v) kvs m)"
  by (induction kvs arbitrary: m) (auto intro: sorted_keys_map_insert)

lemma sorted_keys_btree_of: "sorted_keys (btree_of kvs)"
  unfolding btree_of_def by (rule sorted_keys_fold_insert) (simp add: sorted_keys_def)

lemma sorted_keys_distinct: "sorted_keys m \<Longrightarrow> distinct (map fst m)"
  by (simp add: sorted_keys_def strict_sorted_iff)

lemma map_insert_larger: "\<forall>k' \<in> fst ` set m. k' < k \<Longrightarrow> map_insert k v m = m @ [(k, v)]"
  by (induction m) auto

lemma fold_insert_sorted:
  "sorted_wrt (<) (map fst acc @ map fst m) \<Longrightarrow> fold (\<lambda>(k, v). map_insert k v) m acc = acc @ m"
proof (induction m arbitrary: acc)
  case (Cons e m)
  obtain k v where e: "e = (k, v)" by (cases e)
  from Cons.prems have "\<forall>k' \<in> fst ` set acc. k' < k" by (auto simp: e sorted_wrt_append)
  then have "map_insert k v acc = acc @ [(k, v)]" by (rule map_insert_larger)
  with Cons.IH [of "acc @ [(k, v)]"] Cons.prems show ?case by (simp add: e)
qed simp

lemma btree_of_sorted: "sorted_keys m \<Longrightarrow> btree_of m = m"
  using fold_insert_sorted [of "[]" m] by (simp add: btree_of_def sorted_keys_def)

lemma set_map_insert: "e \<in> set (map_insert k v m) \<Longrightarrow> e = (k, v) \<or> e \<in> set m"
  by (induction m) (auto split: if_splits)

lemma set_btree_of: "set (btree_of m) \<subseteq> set m"
proof -
  have "set (fold (\<lambda>(k, v). map_insert k v) m acc) \<subseteq> set acc \<union> set m" for acc :: "(string \<times> 'a) list"
    by (induction m arbitrary: acc) (auto dest!: set_map_insert subsetD)
  from this [of "[]"] show ?thesis by (simp add: btree_of_def)
qed

lemma as_object_Some: "as_object v = Some m \<longleftrightarrow> v = JObj m"
  by (cases v) (auto simp: as_object_def)

lemma json_wf_list_iff: "json_wf_list vs \<longleftrightarrow> (\<forall>v \<in> set vs. json_wf v)"
  by (induction vs) auto

lemma json_wf_entries_iff: "json_wf_entries m \<longleftrightarrow> list_all (\<lambda>e. json_wf (snd e)) m"
  by (induction m) auto

lemma list_all_map_insert:
  "list_all (\<lambda>e. P (snd e)) m \<Longrightarrow> P v \<Longrightarrow> list_all (\<lambda>e. P (snd e)) (map_insert k v m)"
  by (induction m) auto

lemma list_all_fold_insert:
  "list_all (\<lambda>e. P (snd e)) m \<Longrightarrow> list_all (\<lambda>e. P (snd e)) kvs \<Longrightarrow>
   list_all (\<lambda>e. P (snd e)) (fold (\<lambda>(k, v). map_insert k v) kvs m)"
  by (induction kvs arbitrary: m) (auto simp: list_all_map_insert)

lemma json_wf_json_obj: "list_all (\<lambda>e. json_wf (snd e)) kvs \<Longrightarrow> json_wf (json_obj kvs)"
  by (simp add: json_obj_def sorted_keys_btree_of json_wf_entries_iff)
    (simp add: btree_of_def list_all_fold_insert)

lemma jget_json_obj [simp]: "jget (json_obj kvs) k = map_of (rev kvs) k"
  by (simp add: jget_def json_obj_def)

lemma concat_chars [simp]: "concat (chars s) = s"
  by (induction s rule: chars.induct) simp_all

lemma dropWhile_none: "list_all (\<lambda>x. \<not> P x) xs \<Longrightarrow> dropWhile P xs = xs"
  by (cases xs) simp_all

lemma trim_id: "\<not> list_ex is_whitespace (chars s) \<Longrightarrow> trim s = s"
  by (simp add: trim_def dropWhile_none list_ex_iff list_all_iff)

lemma trim_nonempty:
  assumes "\<not> is_whitespace (c # takeWhile is_cont cs)"
  shows "trim (c # cs) \<noteq> []"
proof -
  let ?x = "c # takeWhile is_cont cs" and ?xs = "chars (dropWhile is_cont cs)"
  have "?x \<in> set (dropWhile is_whitespace (rev ?xs @ [?x]))"
    using assms by (simp add: dropWhile_append)
  then show ?thesis using assms by (auto simp: trim_def)
qed

lemma byte_lt: "byte c < 256"
  unfolding byte_def of_char_def by (cases c) (simp add: horner_sum_simps)

lemma to_lower_idem [simp]: "to_lower (to_lower c) = to_lower c"
  by (auto simp: to_lower_def byte_def)

lemma to_ascii_lowercase_idem [simp]: "to_ascii_lowercase (to_ascii_lowercase s) = to_ascii_lowercase s"
  by (simp add: to_ascii_lowercase_def comp_def)

lemma split_once_Some: "split_once c s = Some (a, b) \<Longrightarrow> s = a @ c # b \<and> c \<notin> set a"
  by (induction s arbitrary: a b) (auto split: if_splits)

lemma rsplit_once_Some: "rsplit_once c s = Some (a, b) \<Longrightarrow> s = a @ c # b \<and> c \<notin> set b"
proof -
  assume "rsplit_once c s = Some (a, b)"
  then have "split_once c (rev s) = Some (rev b, rev a)" by (auto simp: rsplit_once_def)
  then have "rev s = rev b @ c # rev a \<and> c \<notin> set (rev b)" by (rule split_once_Some)
  then have "rev (rev s) = rev (rev b @ c # rev a) \<and> c \<notin> set (rev b)" by simp
  then show ?thesis by simp
qed

lemma split_by_nonempty [simp]: "split_by p s \<noteq> []"
  by (cases s) (auto split: list.splits)

lemma length_split_by: "length (split_by p s) = Suc (length (filter p s))"
  by (induction s) (auto split: list.splits)

lemma set_split_by: "w \<in> set (split_by p s) \<Longrightarrow> c \<in> set w \<Longrightarrow> c \<in> set s \<and> \<not> p c"
proof (induction s arbitrary: w)
  case (Cons x s)
  obtain v vs where v: "split_by p s = v # vs" using split_by_nonempty by (meson list.exhaust)
  with Cons.IH [of v] Cons.IH [of w] Cons.prems show ?case
    by (auto simp: v split: if_splits)
qed simp

lemma as_simps [simp]:
  "as_str (JStr s) = Some s" "as_str (JObj m) = None" "as_str JNull = None" "as_str (JArr vs) = None"
  "as_str (JNum n) = None" "as_str (JBool b) = None" "as_bool (JBool b) = Some b"
  "as_array (JArr vs) = Some vs" "as_object (JObj m) = Some m"
  "as_str (json_obj kvs) = None" "as_object (json_obj kvs) = Some (btree_of kvs)"
  by (auto simp: as_str_def as_bool_def as_array_def as_object_def json_obj_def)

lemma as_str_Some: "as_str v = Some s \<longleftrightarrow> v = JStr s"
  by (cases v) (auto simp: as_str_def)

lemma jget_str_Some: "jget_str v k = Some s \<longleftrightarrow> jget v k = Some (JStr s)"
  by (auto simp: jget_str_def as_str_Some bind_eq_Some_conv)

lemma as_i64_jint [simp]: "as_i64 (jint i) = (if i \<le> i64_max then Some i else None)"
  by (auto simp: as_i64_def jint_def i64_max_def)

lemma opt_filter_Some [simp]: "opt_filter p x = Some a \<longleftrightarrow> x = Some a \<and> p a"
  by (auto simp: opt_filter_def split: option.splits)

lemma unwrap_or_simps [simp]: "unwrap_or d None = d" "unwrap_or d (Some a) = a"
  by (simp_all add: unwrap_or_def)

lemma or_else_simps [simp]: "or_else None y = y" "or_else (Some a) y = Some a"
  by (simp_all add: or_else_def)

text \<open>
  A derived \<^verbatim>\<open>Deserialize\<close> takes an object, or an array of the fields in order, of which those without
  \<^verbatim>\<open>#[serde(default)]\<close> must be there. Unknown keys are ignored.
\<close>

definition struct_form :: "string list \<Rightarrow> nat \<Rightarrow> json \<Rightarrow> json option" where
  "struct_form names mandatory v =
     (case v of
        JObj m \<Rightarrow> Some v
      | JArr vs \<Rightarrow> if mandatory \<le> length vs \<and> length vs \<le> length names then Some (json_obj (zip names vs)) else None
      | _ \<Rightarrow> None)"

lemma struct_form_obj [simp]: "struct_form names n (JObj m) = Some (JObj m)" "struct_form names n (json_obj kvs) = Some (json_obj kvs)"
  by (simp_all add: struct_form_def json_obj_def)

section \<open>Actions\<close>

text \<open>
  A handler runs on a world and either fails with an error or returns a value; the world it
  leaves behind is returned in both cases, because a handler that fails late has already
  written. \<open>bindE\<close> is the \<^verbatim>\<open>?\<close> operator.
\<close>

type_synonym ('w, 'e, 'a) act = "'w \<Rightarrow> ('e + 'a) \<times> 'w"

definition ok :: "'a \<Rightarrow> ('w, 'e, 'a) act" where
  "ok x = (\<lambda>w. (Inr x, w))"

definition throw :: "'e \<Rightarrow> ('w, 'e, 'a) act" where
  "throw e = (\<lambda>w. (Inl e, w))"

definition bindE :: "('w, 'e, 'a) act \<Rightarrow> ('a \<Rightarrow> ('w, 'e, 'b) act) \<Rightarrow> ('w, 'e, 'b) act" where
  "bindE m f = (\<lambda>w. case m w of (Inl e, w') \<Rightarrow> (Inl e, w') | (Inr x, w') \<Rightarrow> f x w')"

definition gets :: "('w \<Rightarrow> 'a) \<Rightarrow> ('w, 'e, 'a) act" where
  "gets f = (\<lambda>w. (Inr (f w), w))"

definition modify :: "('w \<Rightarrow> 'w) \<Rightarrow> ('w, 'e, unit) act" where
  "modify f = (\<lambda>w. (Inr (), f w))"

definition state_act :: "('w \<Rightarrow> 'a \<times> 'w) \<Rightarrow> ('w, 'e, 'a) act" where
  "state_act f = (\<lambda>w. let (x, w') = f w in (Inr x, w'))"

definition lift :: "'e + 'a \<Rightarrow> ('w, 'e, 'a) act" where
  "lift r = (\<lambda>w. (r, w))"

definition guardE :: "bool \<Rightarrow> 'e \<Rightarrow> ('w, 'e, unit) act" where
  "guardE b e = (if b then ok () else throw e)"

definition ok_or :: "'e \<Rightarrow> 'a option \<Rightarrow> 'e + 'a" where
  "ok_or e x = (case x of None \<Rightarrow> Inl e | Some a \<Rightarrow> Inr a)"

definition result :: "('e + 'a) \<times> 'w \<Rightarrow> 'e + 'a" where "result = fst"
definition final :: "('e + 'a) \<times> 'w \<Rightarrow> 'w" where "final = snd"

text \<open>\<open>mapE\<close> is \<^verbatim>\<open>map_err\<close>; \<open>tryE\<close> hands the outcome on as a value, as a \<^verbatim>\<open>match\<close> on a result does.\<close>

definition mapE :: "('e \<Rightarrow> 'f) \<Rightarrow> ('w, 'e, 'a) act \<Rightarrow> ('w, 'f, 'a) act" where
  "mapE f m = (\<lambda>w. case m w of (Inl e, w') \<Rightarrow> (Inl (f e), w') | (Inr x, w') \<Rightarrow> (Inr x, w'))"

definition tryE :: "('w, 'e, 'a) act \<Rightarrow> ('w, 'f, 'e + 'a) act" where
  "tryE m = (\<lambda>w. case m w of (r, w') \<Rightarrow> (Inr r, w'))"

text \<open>An action stays within \<open>R\<close> when every run, failed or not, relates the worlds by \<open>R\<close>.\<close>

definition preserves :: "('w \<Rightarrow> 'w \<Rightarrow> bool) \<Rightarrow> ('w, 'e, 'a) act \<Rightarrow> bool" where
  "preserves R m \<longleftrightarrow> (\<forall>w. R w (snd (m w)))"

locale framing =
  fixes R :: "'w \<Rightarrow> 'w \<Rightarrow> bool"
  assumes frame_refl: "R w w"
    and frame_trans: "R w w' \<Longrightarrow> R w' w'' \<Longrightarrow> R w w''"
begin

lemma pres_ok: "preserves R (ok x)"
  by (simp add: preserves_def ok_def frame_refl)

lemma pres_throw: "preserves R (throw e)"
  by (simp add: preserves_def throw_def frame_refl)

lemma pres_gets: "preserves R (gets f)"
  by (simp add: preserves_def gets_def frame_refl)

lemma pres_lift: "preserves R (lift r)"
  by (simp add: preserves_def lift_def frame_refl)

lemma pres_guard: "preserves R (guardE b e)"
  by (simp add: guardE_def pres_ok pres_throw)

lemma pres_modify: "(\<And>w. R w (f w)) \<Longrightarrow> preserves R (modify f)"
  by (simp add: preserves_def modify_def)

lemma pres_state: "(\<And>w. R w (snd (f w))) \<Longrightarrow> preserves R (state_act f)"
  by (simp add: preserves_def state_act_def split_beta Let_def)

lemma pres_bind:
  assumes "preserves R m" and "\<And>x. preserves R (f x)"
  shows "preserves R (bindE m f)"
  unfolding preserves_def
proof
  fix w
  show "R w (snd (bindE m f w))"
    using assms frame_trans unfolding preserves_def bindE_def
    by (auto split: prod.splits sum.splits) (metis snd_conv)+
qed

lemma pres_mapE: "preserves R m \<Longrightarrow> preserves R (mapE f m)"
  unfolding preserves_def mapE_def by (auto split: prod.splits sum.splits) (metis snd_conv)+

lemma pres_tryE: "preserves R m \<Longrightarrow> preserves R (tryE m)"
  unfolding preserves_def tryE_def by (auto split: prod.splits) (metis snd_conv)

lemma pres_if: "(b \<Longrightarrow> preserves R m) \<Longrightarrow> (\<not> b \<Longrightarrow> preserves R n) \<Longrightarrow> preserves R (if b then m else n)"
  by simp

lemma pres_option:
  "preserves R m \<Longrightarrow> (\<And>x. preserves R (f x)) \<Longrightarrow> preserves R (case x of None \<Rightarrow> m | Some x \<Rightarrow> f x)"
  by (cases x) auto

lemma pres_sum:
  "(\<And>e. preserves R (f e)) \<Longrightarrow> (\<And>x. preserves R (g x)) \<Longrightarrow> preserves R (case r of Inl e \<Rightarrow> f e | Inr x \<Rightarrow> g x)"
  by (cases r) auto

lemma pres_prod: "(\<And>x y. preserves R (f x y)) \<Longrightarrow> preserves R (case p of (x, y) \<Rightarrow> f x y)"
  by (cases p) auto

lemmas pres_rules = pres_ok pres_throw pres_gets pres_lift pres_guard pres_modify pres_state
  pres_bind pres_mapE pres_tryE pres_if pres_option pres_sum pres_prod

end

text \<open>Running an action to a known outcome.\<close>

lemma bindE_Inr: "bindE m f w = (Inr y, w'') \<longleftrightarrow> (\<exists>x w'. m w = (Inr x, w') \<and> f x w' = (Inr y, w''))"
  by (auto simp: bindE_def split: prod.splits sum.splits)

lemma snd_bindE_ok [simp]: "snd (bindE m (\<lambda>x. ok (f x)) w) = snd (m w)"
  by (auto simp: bindE_def ok_def split: prod.splits sum.splits)

lemma bindE_assoc: "bindE (bindE m f) g = bindE m (\<lambda>x. bindE (f x) g)"
  by (auto simp: bindE_def fun_eq_iff split: prod.splits sum.splits)

lemma bindE_ok: "bindE (ok x) f = f x"
  by (simp add: bindE_def ok_def)

lemma bindE_cases:
  assumes "bindE m f w = (res, w')"
  obtains e where "m w = (Inl e, w')" and "res = Inl e"
  | x w1 where "m w = (Inr x, w1)" and "f x w1 = (res, w')"
  using assms by (auto simp: bindE_def split: prod.splits sum.splits)

lemma bindE_tryE: "m w = (r, w') \<Longrightarrow> bindE (tryE m) f w = f r w'"
  by (simp add: bindE_def tryE_def)

lemma guardE_Inr [act_simps]: "guardE b e w = (Inr x, w') \<longleftrightarrow> b \<and> w' = w"
  by (auto simp: guardE_def ok_def throw_def)

lemma gets_Inr [act_simps]: "gets f w = (Inr x, w') \<longleftrightarrow> x = f w \<and> w' = w"
  by (auto simp: gets_def)

lemma ok_Inr [act_simps]: "ok y w = (Inr x, w') \<longleftrightarrow> x = y \<and> w' = w"
  by (auto simp: ok_def)

lemma lift_Inr [act_simps]: "lift r w = (Inr x, w') \<longleftrightarrow> r = Inr x \<and> w' = w"
  by (auto simp: lift_def)

lemma throw_Inr [act_simps]: "throw e w = (Inr x, w') \<longleftrightarrow> False"
  by (simp add: throw_def)

lemma modify_Inr [act_simps]: "modify f w = (Inr x, w') \<longleftrightarrow> w' = f w"
  by (auto simp: modify_def)

lemma state_act_Inr [act_simps]: "state_act f w = (Inr x, w') \<longleftrightarrow> f w = (x, w')"
  by (auto simp: state_act_def split: prod.splits)

lemma mapE_Inr [act_simps]: "mapE f m w = (Inr x, w') \<longleftrightarrow> m w = (Inr x, w')"
  by (auto simp: mapE_def split: prod.splits sum.splits)

lemma tryE_Inr [act_simps]: "tryE m w = (Inr r, w') \<longleftrightarrow> m w = (r, w')"
  by (auto simp: tryE_def split: prod.splits)

lemma ok_or_Inr [act_simps]: "ok_or e x = Inr y \<longleftrightarrow> x = Some y"
  by (auto simp: ok_or_def split: option.splits)

declare bindE_Inr [act_simps]

section \<open>Runs of a step relation\<close>

text \<open>A predicate that every step keeps holds along every run.\<close>

locale kept_by_steps =
  fixes step :: "'s \<Rightarrow> 's \<Rightarrow> bool" and I :: "'s \<Rightarrow> bool"
  assumes step_keeps: "step s s' \<Longrightarrow> I s \<Longrightarrow> I s'"
begin

lemma run_keeps: "step\<^sup>*\<^sup>* s s' \<Longrightarrow> I s \<Longrightarrow> I s'"
  by (induction rule: rtranclp_induct) (auto intro: step_keeps)

end

section \<open>HTTP replies seen by a client\<close>

text \<open>
  What an outgoing request can come back with: the client could not be built, the connection
  was refused, sending failed later (a timeout, a lost response), the body could not be read,
  or a status with its body.
\<close>

datatype http_reply =
    ClientFailed string
  | ConnectFailed string
  | SendFailed string
  | BodyFailed nat string
  | Reply nat string

definition is_success :: "nat \<Rightarrow> bool" where
  "is_success status \<longleftrightarrow> 200 \<le> status \<and> status < 300"

end
