(* ===== verification/Api_Error.thy ===== *)
theory Api_Error
  imports Prelude
begin

text \<open>
  The error type of every handler (\<^verbatim>\<open>src/apps/api/src/error.rs\<close>) and its rendering as an HTTP
  response. The variants that wrap a library error carry that error's text.
\<close>

datatype api_error =
    NotFound
  | Forbidden
  | LicenseRequired string
  | Unauthorized
  | BadRequest string
  | Conflict string
  | ValidationFailed string
  | Database string
  | JsonErr string
  | IoErr string
  | External string
  | Internal string

type_synonym 'a api_result = "api_error + 'a"

fun status_and_code :: "api_error \<Rightarrow> nat \<times> string" where
  "status_and_code NotFound = (404, ''not_found'')"
| "status_and_code Forbidden = (403, ''forbidden'')"
| "status_and_code (LicenseRequired _) = (402, ''license_required'')"
| "status_and_code Unauthorized = (401, ''unauthorized'')"
| "status_and_code (BadRequest _) = (400, ''bad_request'')"
| "status_and_code (ValidationFailed _) = (422, ''validation_failed'')"
| "status_and_code (Conflict _) = (409, ''conflict'')"
| "status_and_code (Database _) = (500, ''internal_error'')"
| "status_and_code (JsonErr _) = (500, ''internal_error'')"
| "status_and_code (IoErr _) = (500, ''internal_error'')"
| "status_and_code (Internal _) = (500, ''internal_error'')"
| "status_and_code (External _) = (502, ''external_error'')"

text \<open>The \<^verbatim>\<open>#[error(...)]\<close> display strings.\<close>

fun api_error_display :: "api_error \<Rightarrow> string" where
  "api_error_display NotFound = ''not found''"
| "api_error_display Forbidden = ''forbidden''"
| "api_error_display (LicenseRequired m) = ''license required: '' @ m"
| "api_error_display Unauthorized = ''unauthorized''"
| "api_error_display (BadRequest m) = ''bad request: '' @ m"
| "api_error_display (Conflict m) = ''conflict: '' @ m"
| "api_error_display (ValidationFailed m) = ''validation failed: '' @ m"
| "api_error_display (Database _) = ''database error''"
| "api_error_display (JsonErr _) = ''json error''"
| "api_error_display (IoErr _) = ''io error''"
| "api_error_display (External m) = ''external service error: '' @ m"
| "api_error_display (Internal _) = ''internal error''"

definition error_message :: "api_error \<Rightarrow> string" where
  "error_message e =
     (case e of Database _ \<Rightarrow> ''An unexpected error occurred''
      | JsonErr _ \<Rightarrow> ''An unexpected error occurred''
      | IoErr _ \<Rightarrow> ''An unexpected error occurred''
      | Internal _ \<Rightarrow> ''An unexpected error occurred''
      | other \<Rightarrow> api_error_display other)"

definition error_envelope :: "string \<Rightarrow> string \<Rightarrow> json" where
  "error_envelope code message =
     json_obj [(''error'', json_obj [(''code'', JStr code), (''message'', JStr message)])]"

definition into_response :: "api_error \<Rightarrow> nat \<times> json" where
  "into_response e =
     (let (status, code) = status_and_code e in (status, error_envelope code (error_message e)))"

text \<open>Whether a status is a server error.\<close>

definition is_server_error :: "nat \<Rightarrow> bool" where
  "is_server_error s \<longleftrightarrow> 500 \<le> s \<and> s < 600"

text \<open>
  A response with status 500 is the same for every error behind it: nothing of a database,
  JSON, I/O or internal error text reaches the client. All other statuses are those of the
  client errors and of a failed external service.
\<close>

theorem internal_errors_are_redacted:
  "into_response e = (500, error_envelope ''internal_error'' ''An unexpected error occurred'')
   \<or> fst (into_response e) \<in> {400, 401, 402, 403, 404, 409, 422, 502}
      \<and> snd (into_response e) = error_envelope (snd (status_and_code e)) (api_error_display e)"
  by (cases e) (simp_all add: into_response_def error_message_def)

end
