(* ===== verification/License.thy ===== *)
theory License
  imports Api_Error
begin

text \<open>
  The license subsystem of an API process (\<^verbatim>\<open>src/apps/api/src/security/license.rs\<close> and
  \<^verbatim>\<open>security/fingerprint.rs\<close>): the signed document, its validity at an instant, the process-wide
  state, loading, trial activation, the heartbeat tick and the runtime gate.

  The static \<^verbatim>\<open>STATE\<close>, \<^verbatim>\<open>ENFORCE\<close> and \<^verbatim>\<open>FINGERPRINT\<close> are the record \<open>license_proc\<close>; the files the
  code reads and writes are a map from paths to contents with a modification time. Libraries
  (serde\_json's text format, base64, RSA, chrono's timestamp format, UUIDs, SHA-256) and the
  network are arguments, collected in the record \<open>libs\<close> and in functions that answer requests.
  Log lines and counters are not modelled; the two gauges are.
\<close>

section \<open>The document\<close>

datatype license_kind = Trial | Commercial

record license_doc =
  ld_licensee :: string
  ld_expires_at :: instant
  ld_features :: "string list"
  ld_max_seats :: "nat option"
  ld_issued_at :: "instant option"
  ld_kind :: license_kind
  ld_fingerprint :: "string option"
  ld_requires_heartbeat :: bool

datatype license_problem =
    Expired
  | FingerprintMismatch
  | HeartbeatGraceExpired
  | MissingIssuedAt
  | Revoked

fun problem_as_str :: "license_problem \<Rightarrow> string" where
  "problem_as_str Expired = ''expired''"
| "problem_as_str FingerprintMismatch = ''fingerprint_mismatch''"
| "problem_as_str HeartbeatGraceExpired = ''heartbeat_grace_expired''"
| "problem_as_str MissingIssuedAt = ''missing_issued_at''"
| "problem_as_str Revoked = ''revoked''"

definition HEARTBEAT_INTERVAL :: duration where "HEARTBEAT_INTERVAL = hours 24"
definition HEARTBEAT_GRACE :: duration where "HEARTBEAT_GRACE = hours 72"
definition HEARTBEAT_RETRY :: duration where "HEARTBEAT_RETRY = hours 1"

lemmas heartbeat_consts = HEARTBEAT_INTERVAL_def HEARTBEAT_GRACE_def HEARTBEAT_RETRY_def
  hours_def secs_def nanos_per_sec_def

section \<open>Process state\<close>

type_synonym stamp = "instant \<times> nat"

record license_state =
  ls_doc :: "license_doc option"
  ls_raw :: "string option"
  ls_revoked_reason :: "string option"
  ls_last_heartbeat_attempt :: "instant option"
  ls_last_heartbeat_error :: "string option"
  ls_store_stamp :: "stamp option"

definition initial_state :: license_state where
  "initial_state = \<lparr>ls_doc = None, ls_raw = None, ls_revoked_reason = None,
     ls_last_heartbeat_attempt = None, ls_last_heartbeat_error = None, ls_store_stamp = None\<rparr>"

record license_proc =
  lp_state :: license_state
  lp_enforce :: "bool option"
  lp_fingerprint :: "string option"

definition initial_proc :: license_proc where
  "initial_proc = \<lparr>lp_state = initial_state, lp_enforce = None, lp_fingerprint = None\<rparr>"

definition enforce_enabled :: "license_proc \<Rightarrow> bool" where
  "enforce_enabled p = unwrap_or False (lp_enforce p)"

definition process_fingerprint :: "license_proc \<Rightarrow> string" where
  "process_fingerprint p = unwrap_or ''unavailable'' (lp_fingerprint p)"

type_synonym env = "string \<Rightarrow> string option"

definition env_flag :: "env \<Rightarrow> string \<Rightarrow> bool" where
  "env_flag env name =
     (case env name of None \<Rightarrow> False
      | Some v \<Rightarrow> to_ascii_lowercase (trim v) \<in> set [''true'', ''1'', ''yes'', ''on''])"

section \<open>Validity at an instant\<close>

definition validity :: "license_doc \<Rightarrow> string \<Rightarrow> instant \<Rightarrow> license_problem + unit" where
  "validity doc local_fp now =
     (if ld_expires_at doc \<le> now then Inl Expired
      else if (case ld_fingerprint doc of None \<Rightarrow> False
               | Some bound \<Rightarrow> local_fp \<noteq> [] \<and> bound \<noteq> local_fp) then Inl FingerprintMismatch
      else if ld_requires_heartbeat doc then
        (case ld_issued_at doc of
           None \<Rightarrow> Inl MissingIssuedAt
         | Some issued \<Rightarrow> if HEARTBEAT_GRACE < now - issued then Inl HeartbeatGraceExpired else Inr ())
      else Inr ())"

definition problem_for :: "license_state \<Rightarrow> string \<Rightarrow> instant \<Rightarrow> license_problem option" where
  "problem_for state local_fp now =
     (if ls_revoked_reason state \<noteq> None then Some Revoked
      else (case ls_doc state of None \<Rightarrow> None
            | Some doc \<Rightarrow> (case validity doc local_fp now of Inl p \<Rightarrow> Some p | Inr _ \<Rightarrow> None)))"

definition current_problem :: "license_proc \<Rightarrow> instant \<Rightarrow> license_problem option" where
  "current_problem p now = problem_for (lp_state p) (process_fingerprint p) now"

definition is_licensed :: "license_proc \<Rightarrow> instant \<Rightarrow> bool" where
  "is_licensed p now \<longleftrightarrow>
     ls_doc (lp_state p) \<noteq> None \<and> problem_for (lp_state p) (process_fingerprint p) now = None"

definition grace_until :: "license_doc \<Rightarrow> instant option" where
  "grace_until doc =
     (if \<not> ld_requires_heartbeat doc then None
      else map_option (\<lambda>t. t + HEARTBEAT_GRACE) (ld_issued_at doc))"

text \<open>An interval beyond the range of the clock library, where building the duration panics, is not distinguished.\<close>

definition heartbeat_interval :: "env \<Rightarrow> duration" where
  "heartbeat_interval env =
     unwrap_or HEARTBEAT_INTERVAL
       (map_option secs
         (opt_filter (\<lambda>s. 0 < s) (Option.bind (env ''LICENSE_HEARTBEAT_INTERVAL_SECS'') parse_i64)))"

definition heartbeat_due :: "env \<Rightarrow> license_state \<Rightarrow> instant \<Rightarrow> bool" where
  "heartbeat_due env state now =
     (case ls_doc state of
        None \<Rightarrow> False
      | Some doc \<Rightarrow>
          if \<not> ld_requires_heartbeat doc then False
          else if ls_revoked_reason state \<noteq> None then
            (case ls_last_heartbeat_attempt state of
               Some prev \<Rightarrow> HEARTBEAT_RETRY \<le> now - prev
             | None \<Rightarrow> True)
          else
            (case ld_issued_at doc of
               None \<Rightarrow> True
             | Some issued \<Rightarrow>
                 if heartbeat_interval env \<le> now - issued then
                   (case (ls_last_heartbeat_attempt state, ls_last_heartbeat_error state) of
                      (Some prev, Some _) \<Rightarrow> HEARTBEAT_RETRY \<le> now - prev
                    | _ \<Rightarrow> True)
                 else False))"

definition days_remaining :: "license_doc \<Rightarrow> instant \<Rightarrow> int" where
  "days_remaining doc now =
     (let s = num_seconds (ld_expires_at doc - now) in
      if s \<le> 0 then 0 else (s + 86399) div 86400)"

section \<open>Trial e-mail addresses\<close>

datatype email_error = EmailLength | EmailWhitespace | EmailNoAt | EmailEmptyPart | EmailDomain

definition validate_trial_email :: "string \<Rightarrow> email_error + string" where
  "validate_trial_email raw =
     (let email = to_ascii_lowercase (trim raw) in
      if length email < 6 \<or> 254 < length email then Inl EmailLength
      else if list_ex (\<lambda>c. is_whitespace c \<or> is_control c) (chars email) then Inl EmailWhitespace
      else (case rsplit_once (CHR ''@'') email of
              None \<Rightarrow> Inl EmailNoAt
            | Some (loc, domain) \<Rightarrow>
                if loc = [] \<or> domain = [] \<or> CHR ''@'' \<in> set loc then Inl EmailEmptyPart
                else (let labels = split_on (CHR ''.'') domain in
                      if length labels < 2
                        \<or> list_ex (\<lambda>l. l = [] \<or> \<not> list_all (\<lambda>c. is_ascii_alphanumeric c \<or> c = CHR ''-'') l) labels
                      then Inl EmailDomain
                      else Inr email)))"

section \<open>Libraries\<close>

text \<open>
  What the code calls and this repository does not contain. \<open>lib_parse\<close> and \<open>lib_print\<close> are
  serde\_json's reader and compact writer, \<open>lib_pretty\<close> its pretty writer; keys are named by their
  PEM text. \<open>lib_parse_ts\<close>/\<open>lib_fmt_ts\<close> are chrono's serde format, \<open>lib_show_ts\<close> its display form,
  \<open>lib_rfc3339\<close>/\<open>lib_parse_rfc3339\<close> its RFC 3339 functions and \<open>lib_parse_naive\<close> the reader of
  \<^verbatim>\<open>%Y-%m-%d %H:%M:%S\<close>. \<open>lib_json_error\<close> is the text of serde\_json's error for a text it does not read and
  \<open>lib_status_text\<close> the display form of a status, with its reason phrase.
\<close>

record libs =
  lib_parse :: "string \<Rightarrow> json option"
  lib_print :: "json \<Rightarrow> string"
  lib_pretty :: "json \<Rightarrow> string"
  lib_b64_decode :: "string \<Rightarrow> string option"
  lib_b64_encode :: "string \<Rightarrow> string"
  lib_sig_wf :: "string \<Rightarrow> bool"
  lib_verify :: "string \<Rightarrow> string \<Rightarrow> string \<Rightarrow> bool"
  lib_sign :: "string \<Rightarrow> string \<Rightarrow> string"
  lib_private_key :: "string \<Rightarrow> bool"
  lib_public_key :: "string \<Rightarrow> bool"
  lib_public_of :: "string \<Rightarrow> string"
  lib_embedded_key :: string
  lib_parse_ts :: "string \<Rightarrow> instant option"
  lib_fmt_ts :: "instant \<Rightarrow> string"
  lib_show_ts :: "instant \<Rightarrow> string"
  lib_rfc3339 :: "instant \<Rightarrow> string"
  lib_parse_rfc3339 :: "string \<Rightarrow> instant option"
  lib_parse_naive :: "string \<Rightarrow> instant option"
  lib_json_error :: "string \<Rightarrow> string"
  lib_status_text :: "nat \<Rightarrow> string"

section \<open>Documents as JSON\<close>

text \<open>
  The derived serde instances of \<^verbatim>\<open>LicenseDoc\<close>: \<open>fingerprint\<close> and \<open>requires_heartbeat\<close> are left out
  when absent or false, and every field with \<^verbatim>\<open>#[serde(default)]\<close> may be missing. Both are also read from the
  array of their fields. Of a key that is repeated in the text of a license file the last value counts here, where serde refuses the file.
\<close>

fun kind_json :: "license_kind \<Rightarrow> json" where
  "kind_json Trial = JStr ''trial''"
| "kind_json Commercial = JStr ''commercial''"

definition doc_to_json :: "libs \<Rightarrow> license_doc \<Rightarrow> json" where
  "doc_to_json L d =
     json_obj
       ([(''licensee'', JStr (ld_licensee d)),
         (''expires_at'', JStr (lib_fmt_ts L (ld_expires_at d))),
         (''features'', JArr (map JStr (ld_features d))),
         (''max_seats'', jopt (\<lambda>n. JNum (PosInt n)) (ld_max_seats d)),
         (''issued_at'', jopt (\<lambda>t. JStr (lib_fmt_ts L t)) (ld_issued_at d)),
         (''kind'', kind_json (ld_kind d))]
        @ (case ld_fingerprint d of None \<Rightarrow> [] | Some f \<Rightarrow> [(''fingerprint'', JStr f)])
        @ (if ld_requires_heartbeat d then [(''requires_heartbeat'', JBool True)] else []))"

text \<open>A field of type \<^verbatim>\<open>Option<T>\<close> with a default: absent and null both mean none.\<close>

definition read_opt :: "(json \<Rightarrow> 'a option) \<Rightarrow> json option \<Rightarrow> 'a option option" where
  "read_opt f v = (case v of None \<Rightarrow> Some None | Some JNull \<Rightarrow> Some None
                   | Some j \<Rightarrow> map_option Some (f j))"

text \<open>A field of any other type with a default: absent means the default.\<close>

definition read_default :: "'a \<Rightarrow> (json \<Rightarrow> 'a option) \<Rightarrow> json option \<Rightarrow> 'a option" where
  "read_default d f v = (case v of None \<Rightarrow> Some d | Some j \<Rightarrow> f j)"

definition read_strings :: "json \<Rightarrow> string list option" where
  "read_strings v = Option.bind (as_array v) (\<lambda>vs. those (map as_str vs))"

definition read_u32 :: "json \<Rightarrow> nat option" where
  "read_u32 v = (case v of JNum (PosInt n) \<Rightarrow> if n < 2 ^ 32 then Some n else None | _ \<Rightarrow> None)"

definition read_kind :: "json \<Rightarrow> license_kind option" where
  "read_kind v = (case v of JStr s \<Rightarrow> if s = ''trial'' then Some Trial
                    else if s = ''commercial'' then Some Commercial else None | _ \<Rightarrow> None)"

definition read_ts :: "libs \<Rightarrow> json \<Rightarrow> instant option" where
  "read_ts L v = Option.bind (as_str v) (lib_parse_ts L)"

definition doc_from_json :: "libs \<Rightarrow> json \<Rightarrow> license_doc option" where
  "doc_from_json L v0 =
     Option.bind (struct_form [''licensee'', ''expires_at'', ''features'', ''max_seats'', ''issued_at'', ''kind'', ''fingerprint'',
       ''requires_heartbeat''] 2 v0) (\<lambda>v.
     Option.bind (Option.bind (jget v ''licensee'') as_str) (\<lambda>licensee.
     Option.bind (Option.bind (jget v ''expires_at'') (read_ts L)) (\<lambda>expires_at.
     Option.bind (read_default [] read_strings (jget v ''features'')) (\<lambda>features.
     Option.bind (read_opt read_u32 (jget v ''max_seats'')) (\<lambda>max_seats.
     Option.bind (read_opt (read_ts L) (jget v ''issued_at'')) (\<lambda>issued_at.
     Option.bind (read_default Commercial read_kind (jget v ''kind'')) (\<lambda>kind.
     Option.bind (read_opt as_str (jget v ''fingerprint'')) (\<lambda>fingerprint.
     Option.bind (read_default False as_bool (jget v ''requires_heartbeat'')) (\<lambda>requires_heartbeat.
       Some \<lparr>ld_licensee = licensee, ld_expires_at = expires_at, ld_features = features,
         ld_max_seats = max_seats, ld_issued_at = issued_at, ld_kind = kind,
         ld_fingerprint = fingerprint, ld_requires_heartbeat = requires_heartbeat\<rparr>)))))))))"

text \<open>\<^verbatim>\<open>LicenseFile\<close>: the signed value and its signature.\<close>

definition file_from_json :: "json \<Rightarrow> (json \<times> string) option" where
  "file_from_json v0 =
     Option.bind (struct_form [''license'', ''signature''] 2 v0) (\<lambda>v.
     Option.bind (jget v ''license'') (\<lambda>l.
     Option.bind (Option.bind (jget v ''signature'') as_str) (\<lambda>s. Some (l, s))))"

definition file_to_json :: "json \<Rightarrow> string \<Rightarrow> json" where
  "file_to_json l s = json_obj [(''license'', l), (''signature'', JStr s)]"

section \<open>Signing and verifying\<close>

datatype verify_error =
    NotJson
  | NotBase64
  | MalformedSignature
  | SignatureFailed
  | InvalidShape
  | LicenseExpired string instant

fun verify_error_display :: "libs \<Rightarrow> verify_error \<Rightarrow> string" where
  "verify_error_display L NotJson = ''license file is not valid JSON''"
| "verify_error_display L NotBase64 = ''license signature is not valid base64''"
| "verify_error_display L MalformedSignature = ''malformed signature''"
| "verify_error_display L SignatureFailed = ''license signature verification FAILED (tampered or wrong key)''"
| "verify_error_display L InvalidShape = ''license payload has an invalid shape''"
| "verify_error_display L (LicenseExpired l t) =
     ''license for '' @ debug_str l @ '' expired at '' @ lib_show_ts L t"

definition canonical_bytes :: "libs \<Rightarrow> json \<Rightarrow> string" where
  "canonical_bytes L l = lib_print L l"

definition verify_license :: "libs \<Rightarrow> instant \<Rightarrow> string \<Rightarrow> string \<Rightarrow> verify_error + license_doc" where
  "verify_license L now raw key =
     (case Option.bind (lib_parse L raw) file_from_json of
        None \<Rightarrow> Inl NotJson
      | Some (l, s) \<Rightarrow>
          (case lib_b64_decode L s of
             None \<Rightarrow> Inl NotBase64
           | Some sig_bytes \<Rightarrow>
               if \<not> lib_sig_wf L sig_bytes then Inl MalformedSignature
               else if \<not> lib_verify L key (canonical_bytes L l) sig_bytes then Inl SignatureFailed
               else (case doc_from_json L l of
                       None \<Rightarrow> Inl InvalidShape
                     | Some doc \<Rightarrow>
                         if ld_expires_at doc \<le> now
                         then Inl (LicenseExpired (ld_licensee doc) (ld_expires_at doc))
                         else Inr doc)))"

definition sign_license :: "libs \<Rightarrow> license_doc \<Rightarrow> string \<Rightarrow> string option" where
  "sign_license L doc private_pem =
     (if \<not> lib_private_key L private_pem then None
      else (let l = doc_to_json L doc;
                s = lib_sign L private_pem (canonical_bytes L l)
            in Some (lib_pretty L (file_to_json l (lib_b64_encode L s)))))"

section \<open>Files\<close>

record stored_file =
  f_content :: string
  f_mtime :: instant

type_synonym files = "string \<Rightarrow> stored_file option"

definition file_stamp :: "files \<Rightarrow> string \<Rightarrow> stamp option" where
  "file_stamp fs path = map_option (\<lambda>f. (f_mtime f, length (f_content f))) (fs path)"

definition DEFAULT_STORE_PATH :: string where
  "DEFAULT_STORE_PATH = ''/var/lib/migration/license.json''"

definition store_path :: "env \<Rightarrow> string" where
  "store_path env = unwrap_or DEFAULT_STORE_PATH (opt_filter (\<lambda>p. p \<noteq> []) (env ''LICENSE_STORE_PATH''))"

text \<open>\<^verbatim>\<open>Path\<close> equality compares components: repeated separators and inner dots do not count.\<close>

definition path_components :: "string \<Rightarrow> bool \<times> string list" where
  "path_components s =
     (let absolute = prefix ''/'' s; ps = split_on (CHR ''/'') s in
      (absolute,
       (if \<not> absolute \<and> hd ps = ''.'' then [''.''] else [])
         @ filter (\<lambda>c. c \<noteq> [] \<and> c \<noteq> ''.'') ps))"

definition path_eq :: "string \<Rightarrow> string \<Rightarrow> bool" where
  "path_eq a b \<longleftrightarrow> path_components a = path_components b"

record loaded_license =
  ll_doc :: license_doc
  ll_raw :: string
  ll_store_stamp :: "stamp option"

datatype license_error =
    ReadFailed string
  | VerifyFailed verify_error
  | BoundElsewhere
  | KeyUnavailable
  | EmailInvalid email_error
  | ServerUnconfigured
  | ServerCall string
  | ServerStatus nat string
  | NotATrial
  | TrialBoundElsewhere
  | PersistFailed string
  | FingerprintUnavailable
  | InstallIdUnavailable string

definition load_public_key :: "libs \<Rightarrow> env \<Rightarrow> files \<Rightarrow> license_error + string" where
  "load_public_key L env fs =
     (let pem = (case opt_filter (\<lambda>p. p \<noteq> []) (env ''LICENSE_PUBLIC_KEY_PATH'') of
                   Some p \<Rightarrow> map_option f_content (fs p)
                 | None \<Rightarrow> Some (lib_embedded_key L)) in
      case pem of None \<Rightarrow> Inl KeyUnavailable
      | Some k \<Rightarrow> if lib_public_key L k then Inr k else Inl KeyUnavailable)"

definition load_and_verify_path ::
    "libs \<Rightarrow> env \<Rightarrow> files \<Rightarrow> instant \<Rightarrow> string \<Rightarrow> string \<Rightarrow> string \<Rightarrow> license_error + loaded_license" where
  "load_and_verify_path L env fs now path key fp =
     (case fs path of
        None \<Rightarrow> Inl (ReadFailed path)
      | Some f \<Rightarrow>
          (case verify_license L now (f_content f) key of
             Inl e \<Rightarrow> Inl (VerifyFailed e)
           | Inr doc \<Rightarrow>
               if (case ld_fingerprint doc of None \<Rightarrow> False | Some bound \<Rightarrow> bound \<noteq> fp)
               then Inl BoundElsewhere
               else Inr \<lparr>ll_doc = doc, ll_raw = f_content f,
                 ll_store_stamp = (if path_eq path (store_path env)
                                   then file_stamp fs (store_path env) else None)\<rparr>))"

text \<open>The first candidate that loads wins; a rejected one is skipped.\<close>

fun first_loadable :: "('p \<Rightarrow> license_error + loaded_license) \<Rightarrow> 'p list \<Rightarrow> loaded_license option" where
  "first_loadable f [] = None"
| "first_loadable f (p # ps) = (case f p of Inr l \<Rightarrow> Some l | Inl _ \<Rightarrow> first_loadable f ps)"

definition local_candidates :: "env \<Rightarrow> files \<Rightarrow> string list" where
  "local_candidates env fs =
     (case opt_filter (\<lambda>p. p \<noteq> []) (env ''LICENSE_FILE'') of None \<Rightarrow> [] | Some p \<Rightarrow> [p])
     @ (if fs (store_path env) \<noteq> None then [store_path env] else [])"

definition try_load_local ::
    "libs \<Rightarrow> env \<Rightarrow> files \<Rightarrow> instant \<Rightarrow> string \<Rightarrow> license_error + loaded_license option" where
  "try_load_local L env fs now fp =
     (case load_public_key L env fs of
        Inl e \<Rightarrow> Inl e
      | Inr key \<Rightarrow>
          Inr (first_loadable (\<lambda>path. load_and_verify_path L env fs now path key fp)
                 (local_candidates env fs)))"

text \<open>
  The store is replaced by a rename, so it holds the old or the new content; \<open>io\<close> is the I/O
  failure that stops the write, if any.
\<close>

definition persist_license ::
    "env \<Rightarrow> string option \<Rightarrow> instant \<Rightarrow> string \<Rightarrow> files \<Rightarrow> (license_error + stamp option) \<times> files" where
  "persist_license env io now raw fs =
     (case io of
        Some e \<Rightarrow> (Inl (PersistFailed e), fs)
      | None \<Rightarrow> (let path = store_path env; fs' = fs(path \<mapsto> \<lparr>f_content = raw, f_mtime = now\<rparr>)
                 in (Inr (file_stamp fs' path), fs')))"

section \<open>The license server as seen by the process\<close>

record license_server =
  sv_base_url :: string
  sv_token :: string

definition server_from_env :: "env \<Rightarrow> license_server option" where
  "server_from_env env =
     Option.bind (opt_filter (\<lambda>u. trim u \<noteq> []) (env ''LICENSE_SERVER_URL'')) (\<lambda>base_url.
     Option.bind (opt_filter (\<lambda>t. trim t \<noteq> []) (env ''LICENSE_SERVER_TOKEN'')) (\<lambda>token.
       Some \<lparr>sv_base_url = trim_end_matches (CHR ''/'') (trim base_url), sv_token = token\<rparr>))"

text \<open>The network: URL, bearer token and body of a POST, and what comes back.\<close>

type_synonym post = "string \<Rightarrow> string \<Rightarrow> json \<Rightarrow> http_reply"

definition PRODUCT_NAME :: string where "PRODUCT_NAME = ''migration-platform''"
definition PRODUCT_VERSION :: string where "PRODUCT_VERSION = ''0.1.0''"

definition unwrap_license_response :: "libs \<Rightarrow> string \<Rightarrow> string" where
  "unwrap_license_response L raw =
     (case lib_parse L raw of
        None \<Rightarrow> raw
      | Some v \<Rightarrow>
          if jget v ''license'' \<noteq> None \<and> jget v ''signature'' \<noteq> None then raw
          else (case jget v ''license_file'' of
                  Some inner \<Rightarrow> lib_print L inner
                | None \<Rightarrow> (case jget_str v ''license_json'' of Some s \<Rightarrow> s | None \<Rightarrow> raw)))"

definition activate_trial_phone_home ::
    "libs \<Rightarrow> env \<Rightarrow> post \<Rightarrow> string option \<Rightarrow> instant \<Rightarrow> string \<Rightarrow> string \<Rightarrow> files
     \<Rightarrow> (license_error + loaded_license) \<times> files" where
  "activate_trial_phone_home L env net io now fp email0 fs =
     (case validate_trial_email email0 of
        Inl e \<Rightarrow> (Inl (EmailInvalid e), fs)
      | Inr email \<Rightarrow>
     (case server_from_env env of
        None \<Rightarrow> (Inl ServerUnconfigured, fs)
      | Some server \<Rightarrow>
     (let body = json_obj [(''fingerprint'', JStr fp), (''email'', JStr email),
            (''product'', JStr PRODUCT_NAME), (''version'', JStr PRODUCT_VERSION)] in
      case net (sv_base_url server @ ''/v1/trial/start'') (sv_token server) body of
        ClientFailed e \<Rightarrow> (Inl (ServerCall e), fs)
      | ConnectFailed e \<Rightarrow> (Inl (ServerCall e), fs)
      | SendFailed e \<Rightarrow> (Inl (ServerCall e), fs)
      | BodyFailed _ e \<Rightarrow> (Inl (ServerCall e), fs)
      | Reply status raw \<Rightarrow>
          if \<not> is_success status then (Inl (ServerStatus status raw), fs)
          else
            (let raw_file = unwrap_license_response L raw in
             case load_public_key L env fs of
               Inl e \<Rightarrow> (Inl e, fs)
             | Inr key \<Rightarrow>
                 (case verify_license L now raw_file key of
                    Inl e \<Rightarrow> (Inl (VerifyFailed e), fs)
                  | Inr doc \<Rightarrow>
                      if ld_kind doc \<noteq> Trial then (Inl NotATrial, fs)
                      else if ld_fingerprint doc \<noteq> Some fp then (Inl TrialBoundElsewhere, fs)
                      else (case persist_license env io now raw_file fs of
                              (Inl e, fs') \<Rightarrow> (Inl e, fs')
                            | (Inr st, fs') \<Rightarrow>
                                (Inr \<lparr>ll_doc = doc, ll_raw = raw_file, ll_store_stamp = st\<rparr>, fs')))))))"

datatype heartbeat_outcome =
    Refreshed loaded_license
  | Denied nat string
  | Unavailable string

definition extract_error_message :: "libs \<Rightarrow> string \<Rightarrow> string" where
  "extract_error_message L text =
     unwrap_or (concat (take 200 (chars (trim text))))
       (Option.bind (lib_parse L text) (\<lambda>v.
        Option.bind (jget v ''error'') (\<lambda>e.
        Option.bind (or_else (jget e ''message'') (Some e)) as_str)))"

definition heartbeat_once ::
    "libs \<Rightarrow> post \<Rightarrow> instant \<Rightarrow> license_server \<Rightarrow> string \<Rightarrow> string \<Rightarrow> string \<Rightarrow> heartbeat_outcome" where
  "heartbeat_once L net now server fp raw_license key =
     (case lib_parse L raw_license of
        None \<Rightarrow> Unavailable (''stored license unreadable: '' @ lib_json_error L raw_license)
      | Some license_file \<Rightarrow>
     (let body = json_obj [(''fingerprint'', JStr fp), (''license_file'', license_file),
            (''product'', JStr PRODUCT_NAME), (''version'', JStr PRODUCT_VERSION)];
          url = sv_base_url server @ ''/v1/heartbeat'' in
      case net url (sv_token server) body of
        ClientFailed e \<Rightarrow> Unavailable e
      | ConnectFailed e \<Rightarrow> Unavailable (''calling '' @ url @ '': '' @ e)
      | SendFailed e \<Rightarrow> Unavailable (''calling '' @ url @ '': '' @ e)
      | BodyFailed _ e \<Rightarrow> Unavailable (''reading response: '' @ e)
      | Reply status text \<Rightarrow>
          if status = 200 then
            (let raw_file = unwrap_license_response L text in
             case verify_license L now raw_file key of
               Inr doc \<Rightarrow>
                 if ld_fingerprint doc = Some fp
                 then Refreshed \<lparr>ll_doc = doc, ll_raw = raw_file, ll_store_stamp = None\<rparr>
                 else Unavailable ''heartbeat response is bound to a different install''
             | Inl e \<Rightarrow> Unavailable (''heartbeat response rejected: '' @ verify_error_display L e))
          else if status = 402 \<or> status = 403 then Denied status (extract_error_message L text)
          else Unavailable (''license server returned '' @ lib_status_text L status @ '': '' @ text)))"

section \<open>State transitions of the process\<close>

record lic_world =
  lw_proc :: license_proc
  lw_files :: files

abbreviation upd_state :: "(license_state \<Rightarrow> license_state) \<Rightarrow> lic_world \<Rightarrow> lic_world" where
  "upd_state f w \<equiv> w\<lparr>lw_proc := (lw_proc w)\<lparr>lp_state := f (lp_state (lw_proc w))\<rparr>\<rparr>"

definition activate :: "loaded_license \<Rightarrow> lic_world \<Rightarrow> lic_world" where
  "activate l = upd_state (\<lambda>s. s\<lparr>ls_doc := Some (ll_doc l), ls_raw := Some (ll_raw l),
     ls_revoked_reason := None, ls_last_heartbeat_error := None, ls_store_stamp := ll_store_stamp l\<rparr>)"

definition should_adopt :: "license_state \<Rightarrow> license_doc \<Rightarrow> string \<Rightarrow> instant \<Rightarrow> bool" where
  "should_adopt current candidate local_fp now =
     (case ls_doc current of
        None \<Rightarrow> True
      | Some cur \<Rightarrow>
          if cur = candidate then False
          else if validity candidate local_fp now \<noteq> Inr () then False
          else if problem_for current local_fp now \<noteq> None then True
          else (case (ld_kind cur, ld_kind candidate) of
                  (Trial, Commercial) \<Rightarrow> True
                | (Commercial, Trial) \<Rightarrow> False
                | _ \<Rightarrow> unwrap_or 0 (ld_issued_at cur) < unwrap_or 0 (ld_issued_at candidate)))"

definition reload_store_if_changed :: "libs \<Rightarrow> env \<Rightarrow> instant \<Rightarrow> lic_world \<Rightarrow> lic_world" where
  "reload_store_if_changed L env now w =
     (let path = store_path env; fs = lw_files w; current = lp_state (lw_proc w) in
      case file_stamp fs path of
        None \<Rightarrow> w
      | Some st \<Rightarrow>
          if ls_store_stamp current = Some st then w
          else
            (let fp = process_fingerprint (lw_proc w) in
             case load_public_key L env fs of
               Inl _ \<Rightarrow> w
             | Inr key \<Rightarrow>
                 (case load_and_verify_path L env fs now path key fp of
                    Inr loaded \<Rightarrow>
                      if should_adopt current (ll_doc loaded) fp now then activate loaded w
                      else upd_state (\<lambda>s. s\<lparr>ls_store_stamp := Some st\<rparr>) w
                  | Inl _ \<Rightarrow> upd_state (\<lambda>s. s\<lparr>ls_store_stamp := Some st\<rparr>) w)))"

text \<open>
  One background tick. \<open>meanwhile\<close> is what other tasks of the process do to the world while the
  heartbeat request is in flight (an administrator may start a trial then); the outcome is
  written to the state found afterwards.
\<close>

definition UNCONFIGURED_MSG :: string where
  "UNCONFIGURED_MSG = ''license requires heartbeat but LICENSE_SERVER_URL/LICENSE_SERVER_TOKEN are unset''"

definition apply_outcome ::
    "env \<Rightarrow> string option \<Rightarrow> instant \<Rightarrow> heartbeat_outcome \<Rightarrow> lic_world \<Rightarrow> lic_world" where
  "apply_outcome env io now outcome w =
     (case outcome of
        Refreshed loaded \<Rightarrow>
          (let (r, fs') = persist_license env io now (ll_raw loaded) (lw_files w);
               stamp = (case r of Inr st \<Rightarrow> st | Inl _ \<Rightarrow> None) in
           upd_state (\<lambda>s. s\<lparr>ls_doc := Some (ll_doc loaded), ls_raw := Some (ll_raw loaded),
               ls_revoked_reason := None, ls_last_heartbeat_error := None,
               ls_store_stamp := or_else stamp (ls_store_stamp s)\<rparr>) (w\<lparr>lw_files := fs'\<rparr>))
      | Denied status reason \<Rightarrow>
          upd_state (\<lambda>s. s\<lparr>ls_revoked_reason := Some (show_nat status @ '': '' @ reason),
               ls_last_heartbeat_error := Some reason\<rparr>) w
      | Unavailable err \<Rightarrow> upd_state (\<lambda>s. s\<lparr>ls_last_heartbeat_error := Some err\<rparr>) w)"

definition heartbeat_tick ::
    "libs \<Rightarrow> env \<Rightarrow> post \<Rightarrow> string option \<Rightarrow> (lic_world \<Rightarrow> lic_world) \<Rightarrow> instant \<Rightarrow> lic_world \<Rightarrow> lic_world" where
  "heartbeat_tick L env net io meanwhile now w0 =
     (let w = reload_store_if_changed L env now w0; state = lp_state (lw_proc w) in
      if \<not> heartbeat_due env state now then w
      else (case (ls_raw state, ls_doc state) of
         (Some raw, Some doc) \<Rightarrow>
           (let w1 = upd_state (\<lambda>s. s\<lparr>ls_last_heartbeat_attempt := Some now\<rparr>) w in
            case server_from_env env of
              None \<Rightarrow> upd_state (\<lambda>s. s\<lparr>ls_last_heartbeat_error := Some UNCONFIGURED_MSG\<rparr>) w1
            | Some server \<Rightarrow>
                (case load_public_key L env (lw_files w1) of
                   Inl _ \<Rightarrow> w1
                 | Inr key \<Rightarrow>
                     apply_outcome env io now
                       (heartbeat_once L net now server (process_fingerprint (lw_proc w1)) raw key)
                       (meanwhile w1)))
       | _ \<Rightarrow> w))"

definition start_trial ::
    "libs \<Rightarrow> env \<Rightarrow> post \<Rightarrow> string option \<Rightarrow> instant \<Rightarrow> string \<Rightarrow> lic_world
     \<Rightarrow> (license_error + license_doc) \<times> lic_world" where
  "start_trial L env net io now email w =
     (let fp = process_fingerprint (lw_proc w) in
      if fp = ''unavailable'' then (Inl FingerprintUnavailable, w)
      else (case activate_trial_phone_home L env net io now fp email (lw_files w) of
              (Inl e, fs') \<Rightarrow> (Inl e, w\<lparr>lw_files := fs'\<rparr>)
            | (Inr loaded, fs') \<Rightarrow> (Inr (ll_doc loaded), activate loaded (w\<lparr>lw_files := fs'\<rparr>))))"

definition once_set :: "'a \<Rightarrow> 'a option \<Rightarrow> 'a option" where
  "once_set x cell = (case cell of None \<Rightarrow> Some x | Some y \<Rightarrow> Some y)"

text \<open>\<open>install_fp\<close> is the result of \<^verbatim>\<open>install_fingerprint()\<close>, modelled below.\<close>

definition enforce_at_startup ::
    "libs \<Rightarrow> env \<Rightarrow> post \<Rightarrow> string option \<Rightarrow> license_error + string \<Rightarrow> instant \<Rightarrow> lic_world
     \<Rightarrow> (license_error + unit) \<times> lic_world" where
  "enforce_at_startup L env net io install_fp now w0 =
     (let enforce = env_flag env ''LICENSE_ENFORCE'';
          w1 = w0\<lparr>lw_proc := (lw_proc w0)\<lparr>lp_enforce := once_set enforce (lp_enforce (lw_proc w0))\<rparr>\<rparr> in
      case install_fp of
        Inl e \<Rightarrow> (Inl e, w1)
      | Inr fp \<Rightarrow>
          (let w = w1\<lparr>lw_proc := (lw_proc w1)\<lparr>lp_fingerprint := once_set fp (lp_fingerprint (lw_proc w1))\<rparr>\<rparr> in
           case try_load_local L env (lw_files w) now fp of
             Inl e \<Rightarrow> (Inl e, w)
           | Inr (Some loaded) \<Rightarrow> (Inr (), activate loaded w)
           | Inr None \<Rightarrow>
               if enforce then
                 (case opt_filter (\<lambda>e. trim e \<noteq> []) (env ''LICENSE_TRIAL_EMAIL'') of
                    Some email \<Rightarrow>
                      (case activate_trial_phone_home L env net io now fp email (lw_files w) of
                         (Inr loaded, fs') \<Rightarrow> (Inr (), activate loaded (w\<lparr>lw_files := fs'\<rparr>))
                       | (Inl e, fs') \<Rightarrow> (Inr (), w\<lparr>lw_files := fs'\<rparr>))
                  | None \<Rightarrow> (Inr (), w))
               else (Inr (), w)))"

section \<open>Gauges\<close>

text \<open>
  What \<^verbatim>\<open>publish_gauges\<close> sets, from the state of the process at two readings of the clock: the gauge that says whether the process is
  licensed, and the seconds of offline grace that are left.
\<close>

record gauges =
  ga_license_valid :: int
  ga_grace_seconds :: int

definition publish_gauges :: "license_proc \<Rightarrow> instant \<Rightarrow> instant \<Rightarrow> gauges" where
  "publish_gauges p now now' =
     (let state = lp_state p;
          licensed = (ls_doc state \<noteq> None \<and> problem_for state (process_fingerprint p) now = None) in
      \<lparr>ga_license_valid = (if licensed then 1 else 0),
        ga_grace_seconds = unwrap_or 0 (map_option (\<lambda>t. max 0 (num_seconds (t - now'))) (Option.bind (ls_doc state) grace_until))\<rparr>)"

section \<open>The runtime gate\<close>

definition license_hint :: "license_problem option \<Rightarrow> string" where
  "license_hint p =
     (case p of
        Some HeartbeatGraceExpired \<Rightarrow>
          ''The license could not be re-attested with the license server for more than 72 hours. Restore connectivity to LICENSE_SERVER_URL or mount a commercial LICENSE_FILE.''
      | Some Revoked \<Rightarrow>
          ''The license server revoked this license. Contact the vendor or mount a new LICENSE_FILE.''
      | Some Expired \<Rightarrow> ''The license has expired. Mount a renewed commercial LICENSE_FILE.''
      | _ \<Rightarrow> ''A valid license is required. Start a trial from Settings '' @ map char_of [0xE2::nat, 0x86, 0x92]
          @ '' License or mount a commercial LICENSE_FILE.'')"

definition require_licensed :: "license_proc \<Rightarrow> instant \<Rightarrow> api_error + unit" where
  "require_licensed p now =
     (if \<not> enforce_enabled p then Inr ()
      else
        (let problem = problem_for (lp_state p) (process_fingerprint p) now in
         if ls_doc (lp_state p) \<noteq> None \<and> problem = None then Inr ()
         else (let reason = (case problem of Some x \<Rightarrow> problem_as_str x | None \<Rightarrow> ''missing'') in
               Inl (LicenseRequired (license_hint problem @ '' (reason: '' @ reason @ '')'')))))"

section \<open>Installation identity\<close>

text \<open>
  \<^verbatim>\<open>uuid::Uuid::parse_str\<close> is \<open>parse_uuid\<close>: the canonical text and whether it is the nil UUID;
  \<open>new_id\<close> is a fresh version 4 UUID, \<open>raced\<close> the file another replica created first, if any. The creation can fail
  before the file is there, or while it is written: then what was written so far stays.
\<close>

datatype id_fault = No_fault | Fault_before string | Fault_writing string string

definition validate_installation_id ::
    "(string \<Rightarrow> (string \<times> bool) option) \<Rightarrow> string \<Rightarrow> license_error + string" where
  "validate_installation_id parse_uuid raw =
     (case parse_uuid (trim raw) of
        None \<Rightarrow> Inl (InstallIdUnavailable ''installation ID is not a UUID'')
      | Some (canon, nil) \<Rightarrow>
          if nil then Inl (InstallIdUnavailable ''installation ID must not be nil'') else Inr canon)"

definition load_or_create_installation_id ::
    "(string \<Rightarrow> (string \<times> bool) option) \<Rightarrow> id_fault \<Rightarrow> instant \<Rightarrow> string \<Rightarrow> stored_file option \<Rightarrow> string
     \<Rightarrow> files \<Rightarrow> (license_error + string) \<times> files" where
  "load_or_create_installation_id parse_uuid io now new_id raced path fs =
     (case fs path of
        Some f \<Rightarrow> (validate_installation_id parse_uuid (f_content f), fs)
      | None \<Rightarrow>
          (case (io, raced) of
             (Fault_before e, _) \<Rightarrow> (Inl (InstallIdUnavailable e), fs)
           | (_, Some f) \<Rightarrow> (validate_installation_id parse_uuid (f_content f), fs(path \<mapsto> f))
           | (Fault_writing e part, None) \<Rightarrow> (Inl (InstallIdUnavailable e), fs(path \<mapsto> \<lparr>f_content = part, f_mtime = now\<rparr>))
           | (No_fault, None) \<Rightarrow> (Inr new_id, fs(path \<mapsto> \<lparr>f_content = new_id, f_mtime = now\<rparr>))))"

definition installation_id_path :: "env \<Rightarrow> string" where
  "installation_id_path env =
     unwrap_or ''/var/lib/migration/installation-id''
       (opt_filter (\<lambda>v. v \<noteq> []) (env ''LICENSE_INSTALLATION_ID_PATH''))"

definition install_fingerprint ::
    "(string \<Rightarrow> (string \<times> bool) option) \<Rightarrow> (string \<Rightarrow> string) \<Rightarrow> env \<Rightarrow> id_fault \<Rightarrow> instant \<Rightarrow> string
     \<Rightarrow> stored_file option \<Rightarrow> files \<Rightarrow> (license_error + string) \<times> files" where
  "install_fingerprint parse_uuid sha256_hex env io now new_id raced fs =
     (case load_or_create_installation_id parse_uuid io now new_id raced (installation_id_path env) fs of
        (Inl e, fs') \<Rightarrow> (Inl e, fs')
      | (Inr uid, fs') \<Rightarrow> (Inr (sha256_hex (''installation-id:'' @ uid)), fs'))"

definition short_fingerprint :: "string \<Rightarrow> string" where
  "short_fingerprint full = concat (take 12 (chars full))"

end
