(* ===== verification/License_Facts.thy ===== *)
theory License_Facts
  imports License
begin

text \<open>
  What holds of the license subsystem: when a document is usable and what the gate answers, that
  an active document is always one whose signature was verified and that is bound to this
  install, that an unreachable server never takes a usable license away, that a refusal blocks
  at once, and the adoption order of store documents.
\<close>

section \<open>Validity\<close>

definition bound_here :: "license_doc \<Rightarrow> string \<Rightarrow> bool" where
  "bound_here doc fp \<longleftrightarrow> (\<forall>b. ld_fingerprint doc = Some b \<longrightarrow> fp = [] \<or> b = fp)"

text \<open>The first instant at which the document is no longer usable without a new attestation.\<close>

definition deadline :: "license_doc \<Rightarrow> instant option" where
  "deadline doc =
     (if \<not> ld_requires_heartbeat doc then Some (ld_expires_at doc)
      else map_option (\<lambda>g. min (ld_expires_at doc) (g + 1)) (grace_until doc))"

lemma validity_iff:
  "validity doc fp now = Inr () \<longleftrightarrow>
     bound_here doc fp \<and> (\<exists>t. deadline doc = Some t \<and> now < t)"
  by (auto simp: validity_def bound_here_def deadline_def grace_until_def split: option.splits)

lemma validity_antimono: "validity doc fp now = Inr () \<Longrightarrow> now' \<le> now \<Longrightarrow> validity doc fp now' = Inr ()"
  by (auto simp: validity_iff)

lemma problem_for_None:
  "problem_for s fp now = None \<longleftrightarrow>
     ls_revoked_reason s = None \<and> (\<forall>d. ls_doc s = Some d \<longrightarrow> validity d fp now = Inr ())"
  by (auto simp: problem_for_def split: option.splits sum.splits)

lemma is_licensed_iff:
  "is_licensed p now \<longleftrightarrow>
     ls_revoked_reason (lp_state p) = None
     \<and> (\<exists>d. ls_doc (lp_state p) = Some d \<and> validity d (process_fingerprint p) now = Inr ())"
  by (auto simp: is_licensed_def problem_for_None)

text \<open>
  C6: With enforcement on, the gate in front of work-producing operations lets a request through
  exactly when a document is active, was not revoked, is bound to this install (or to none) and
  the instant lies before its deadline: its expiry, and for heartbeat licenses also the end of
  the 72 hours after the signed issue time. Otherwise the request fails with 402.
\<close>

theorem gate_exact:
  assumes "enforce_enabled p"
  shows "case require_licensed p now of
           Inr _ \<Rightarrow> ls_revoked_reason (lp_state p) = None
             \<and> (\<exists>d t. ls_doc (lp_state p) = Some d \<and> bound_here d (process_fingerprint p)
                    \<and> deadline d = Some t \<and> now < t)
         | Inl e \<Rightarrow> fst (into_response e) = 402
             \<and> \<not> (ls_revoked_reason (lp_state p) = None
                  \<and> (\<exists>d t. ls_doc (lp_state p) = Some d \<and> bound_here d (process_fingerprint p)
                         \<and> deadline d = Some t \<and> now < t))"
proof -
  have "is_licensed p now \<longleftrightarrow> ls_revoked_reason (lp_state p) = None
      \<and> (\<exists>d t. ls_doc (lp_state p) = Some d \<and> bound_here d (process_fingerprint p)
             \<and> deadline d = Some t \<and> now < t)"
    by (auto simp: is_licensed_iff validity_iff)
  with assms show ?thesis
    by (simp add: require_licensed_def is_licensed_def Let_def into_response_def split: sum.splits)
qed

definition demo_doc :: license_doc where
  "demo_doc = \<lparr>ld_licensee = ''a@b.example'', ld_expires_at = days 10, ld_features = [''core''],
     ld_max_seats = Some 5, ld_issued_at = Some 0, ld_kind = Trial, ld_fingerprint = Some ''f0'',
     ld_requires_heartbeat = True\<rparr>"

definition demo_proc :: license_proc where
  "demo_proc = \<lparr>lp_state = initial_state\<lparr>ls_doc := Some demo_doc, ls_raw := Some ''raw''\<rparr>,
     lp_enforce = Some True, lp_fingerprint = Some ''f0''\<rparr>"

lemmas demo_defs = demo_doc_def demo_proc_def initial_state_def process_fingerprint_def
  enforce_enabled_def days_def hours_def secs_def nanos_per_sec_def

theorem gate_exact_witness:
  "require_licensed demo_proc (hours 71) = Inr () \<and> require_licensed demo_proc (hours 73) \<noteq> Inr ()"
proof -
  have e: "enforce_enabled demo_proc" by (simp add: demo_defs)
  show ?thesis
    using gate_exact [OF e, of "hours 71"] gate_exact [OF e, of "hours 73"]
    by (auto simp: demo_defs bound_here_def deadline_def grace_until_def heartbeat_consts split: sum.splits)
qed

section \<open>An unreachable server\<close>

text \<open>Replies that carry no decision of the license server.\<close>

fun no_decision :: "http_reply \<Rightarrow> bool" where
  "no_decision (Reply status _) = (status \<notin> {200, 402, 403})"
| "no_decision _ = True"

lemma heartbeat_once_no_decision:
  "no_decision (net (sv_base_url server @ ''/v1/heartbeat'') (sv_token server)
      (json_obj [(''fingerprint'', JStr fp), (''license_file'', f),
        (''product'', JStr PRODUCT_NAME), (''version'', JStr PRODUCT_VERSION)]))
   \<Longrightarrow> lib_parse L raw = Some f \<Longrightarrow> \<exists>e. heartbeat_once L net now server fp raw key = Unavailable e"
  by (auto simp: heartbeat_once_def Let_def split: http_reply.splits)

lemma heartbeat_once_unreachable:
  assumes "\<And>u t b. no_decision (net u t b)"
  shows "\<exists>e. heartbeat_once L net now server fp raw key = Unavailable e"
proof (cases "lib_parse L raw")
  case None
  then show ?thesis by (simp add: heartbeat_once_def)
next
  case (Some f)
  then show ?thesis using heartbeat_once_no_decision assms by blast
qed

lemma is_licensed_upd [simp]:
  "is_licensed (p\<lparr>lp_state := s\<lparr>ls_last_heartbeat_error := e\<rparr>\<rparr>) now = is_licensed (p\<lparr>lp_state := s\<rparr>) now"
  "is_licensed (p\<lparr>lp_state := s\<lparr>ls_last_heartbeat_attempt := a\<rparr>\<rparr>) now = is_licensed (p\<lparr>lp_state := s\<rparr>) now"
  "is_licensed (p\<lparr>lp_state := s\<lparr>ls_store_stamp := st\<rparr>\<rparr>) now = is_licensed (p\<lparr>lp_state := s\<rparr>) now"
  by (simp_all add: is_licensed_iff process_fingerprint_def)

lemma should_adopt_valid:
  "should_adopt s cand fp now \<Longrightarrow> ls_doc s \<noteq> None \<Longrightarrow> validity cand fp now = Inr ()"
  by (auto simp: should_adopt_def split: if_splits)

lemma reload_keeps_licensed:
  assumes "is_licensed (lw_proc w) now"
  shows "is_licensed (lw_proc (reload_store_if_changed L env now w)) now"
proof -
  from assms have doc: "ls_doc (lp_state (lw_proc w)) \<noteq> None" by (simp add: is_licensed_def)
  show ?thesis
    using assms should_adopt_valid [OF _ doc]
    by (auto simp: reload_store_if_changed_def Let_def is_licensed_iff activate_def process_fingerprint_def
        split: option.splits sum.splits)
qed

text \<open>
  C14: While no answer of the license server arrives that decides anything (refused connections,
  timeouts, unreadable bodies, 401, 5xx, any status but 200, 402 and 403), a background tick
  never takes a usable license away, whatever the license store file holds at that moment and
  whatever other tasks that keep the license do meanwhile.
\<close>

theorem unreachable_server_never_denies:
  assumes "\<And>u t b. no_decision (net u t b)"
    and "\<And>x. is_licensed (lw_proc x) now \<Longrightarrow> is_licensed (lw_proc (meanwhile x)) now"
    and "is_licensed (lw_proc w) now"
  shows "is_licensed (lw_proc (heartbeat_tick L env net io meanwhile now w)) now"
proof -
  let ?r = "reload_store_if_changed L env now w"
  let ?r1 = "upd_state (\<lambda>s. s\<lparr>ls_last_heartbeat_attempt := Some now\<rparr>) ?r"
  have r: "is_licensed (lw_proc ?r) now" using assms(3) by (rule reload_keeps_licensed)
  have r1: "is_licensed (lw_proc ?r1) now"
    using r by simp
  have m: "is_licensed (lw_proc (meanwhile ?r1)) now" using assms(2) r1 by blast
  have out: "is_licensed (lw_proc (apply_outcome env io now
        (heartbeat_once L net now server fp raw key) (meanwhile ?r1))) now" for server fp raw key
    using heartbeat_once_unreachable [of net L now server fp raw key, OF assms(1)] m
    by (auto simp: apply_outcome_def)
  show ?thesis
    unfolding heartbeat_tick_def Let_def
    using r out by (simp split: option.splits sum.splits)
qed

theorem unreachable_server_never_denies_witness:
  "is_licensed (lw_proc (heartbeat_tick undefined (\<lambda>_. None) (\<lambda>_ _ _. SendFailed ''timeout'') None id
      (hours 30) \<lparr>lw_proc = demo_proc, lw_files = (\<lambda>_. None)\<rparr>)) (hours 30)"
  by (rule unreachable_server_never_denies)
    (simp_all add: is_licensed_iff validity_def demo_defs heartbeat_consts)

section \<open>An authoritative refusal\<close>

lemma heartbeat_once_denied:
  "net (sv_base_url server @ ''/v1/heartbeat'') (sv_token server)
      (json_obj [(''fingerprint'', JStr fp), (''license_file'', f),
        (''product'', JStr PRODUCT_NAME), (''version'', JStr PRODUCT_VERSION)]) = Reply status text
   \<Longrightarrow> status \<in> {402, 403} \<Longrightarrow> lib_parse L raw = Some f
   \<Longrightarrow> heartbeat_once L net now server fp raw key = Denied status (extract_error_message L text)"
  by (auto simp: heartbeat_once_def Let_def)

text \<open>
  C15: When a heartbeat is due and the license server answers 402 or 403, the process is
  unlicensed at every later instant until a new state is written, and with enforcement on the
  gate refuses every work-producing request.
\<close>

theorem refusal_blocks_at_once:
  assumes "r = reload_store_if_changed L env now w"
    and "heartbeat_due env (lp_state (lw_proc r)) now"
    and "ls_raw (lp_state (lw_proc r)) = Some raw" and "lib_parse L raw = Some f"
    and "server_from_env env = Some server" and "load_public_key L env (lw_files r) = Inr key"
    and "\<And>u t b. \<exists>status text. net u t b = Reply status text \<and> status \<in> {402, 403}"
    and "\<And>x. lp_enforce (lw_proc (meanwhile x)) = lp_enforce (lw_proc x)"
  shows "let p = lw_proc (heartbeat_tick L env net io meanwhile now w) in
     \<not> is_licensed p t
     \<and> (enforce_enabled (lw_proc r) \<longrightarrow>
         require_licensed p t = Inl (LicenseRequired (license_hint (Some Revoked) @ '' (reason: revoked)'')))"
proof -
  from assms(2) have doc: "ls_doc (lp_state (lw_proc r)) \<noteq> None"
    by (auto simp: heartbeat_due_def split: option.splits)
  let ?fp = "process_fingerprint (lw_proc r)"
  obtain st body where "net (sv_base_url server @ ''/v1/heartbeat'') (sv_token server)
      (json_obj [(''fingerprint'', JStr ?fp), (''license_file'', f),
        (''product'', JStr PRODUCT_NAME), (''version'', JStr PRODUCT_VERSION)]) = Reply st body"
    and "st \<in> {402, 403}" using assms(7) by blast
  from heartbeat_once_denied [of net server ?fp f, OF this assms(4)] obtain m where "heartbeat_once L net now server (process_fingerprint (lw_proc r)) raw key = Denied st m"
    by blast
  then have "\<exists>e. heartbeat_tick L env net io meanwhile now w =
      upd_state (\<lambda>s. s\<lparr>ls_revoked_reason := Some (show_nat st @ '': '' @ m), ls_last_heartbeat_error := Some e\<rparr>)
        (meanwhile (upd_state (\<lambda>s. s\<lparr>ls_last_heartbeat_attempt := Some now\<rparr>) r))"
    using assms(2-6) doc
    by (auto simp: heartbeat_tick_def Let_def apply_outcome_def process_fingerprint_def assms(1)[symmetric])
  then show ?thesis
    using assms(8)
    by (auto simp: is_licensed_iff require_licensed_def problem_for_def enforce_enabled_def Let_def)
qed

definition demo_libs :: libs where
  "demo_libs = \<lparr>lib_parse = (\<lambda>s. Some (from_nat (length s))), lib_print = (\<lambda>v. replicate (to_nat v) (CHR ''x'')),
     lib_pretty = (\<lambda>v. replicate (to_nat v) (CHR ''x'')), lib_b64_decode = Some, lib_b64_encode = id,
     lib_sig_wf = (\<lambda>_. True), lib_verify = (\<lambda>k m s. s = k @ m), lib_sign = (\<lambda>k m. k @ m),
     lib_private_key = (\<lambda>_. True), lib_public_key = (\<lambda>_. True), lib_public_of = id, lib_embedded_key = ''key'',
     lib_parse_ts = (\<lambda>s. Some (from_nat (length s))), lib_fmt_ts = (\<lambda>t. replicate (to_nat t) (CHR ''x'')),
     lib_show_ts = show_int, lib_rfc3339 = (\<lambda>t. replicate (to_nat t) (CHR ''x'')),
     lib_parse_rfc3339 = (\<lambda>s. Some (from_nat (length s))), lib_parse_naive = (\<lambda>_. None),
     lib_json_error = (\<lambda>_. ''expected value''), lib_status_text = show_nat\<rparr>"

definition demo_env :: env where
  "demo_env = [''LICENSE_SERVER_URL'' \<mapsto> ''https://l'', ''LICENSE_SERVER_TOKEN'' \<mapsto> ''t'']"

definition demo_lic_world :: lic_world where
  "demo_lic_world = \<lparr>lw_proc = demo_proc, lw_files = (\<lambda>_. None)\<rparr>"

lemma demo_server: "\<not> Option.is_none (server_from_env demo_env)"
  by code_simp

theorem refusal_blocks_at_once_witness:
  "\<not> is_licensed (lw_proc (heartbeat_tick demo_libs demo_env (\<lambda>_ _ _. Reply 403 ''revoked'') None id
       (hours 30) demo_lic_world)) (hours 30)"
proof -
  obtain server where sv: "server_from_env demo_env = Some server" using demo_server by (cases "server_from_env demo_env") auto
  have r: "reload_store_if_changed demo_libs demo_env (hours 30) demo_lic_world = demo_lic_world"
    by (simp add: reload_store_if_changed_def file_stamp_def demo_lic_world_def)
  have due: "heartbeat_due demo_env (lp_state (lw_proc demo_lic_world)) (hours 30)"
    by (simp add: heartbeat_due_def heartbeat_interval_def demo_lic_world_def demo_defs demo_env_def
        opt_filter_def heartbeat_consts)
  have "let p = lw_proc (heartbeat_tick demo_libs demo_env (\<lambda>_ _ _. Reply 403 ''revoked'') None id
       (hours 30) demo_lic_world) in
     \<not> is_licensed p (hours 30)
     \<and> (enforce_enabled (lw_proc demo_lic_world) \<longrightarrow>
         require_licensed p (hours 30) = Inl (LicenseRequired (license_hint (Some Revoked) @ '' (reason: revoked)'')))"
    by (rule refusal_blocks_at_once [OF r [symmetric] due _ _ sv])
      (simp_all add: demo_lic_world_def demo_proc_def demo_libs_def load_public_key_def demo_env_def opt_filter_def)
  then show ?thesis by (simp add: Let_def)
qed

section \<open>Adoption of store documents\<close>

definition usable :: "license_state \<Rightarrow> string \<Rightarrow> instant \<Rightarrow> bool" where
  "usable s fp now \<longleftrightarrow> ls_doc s \<noteq> None \<and> problem_for s fp now = None"

text \<open>
  A store document replaces a usable license only if it is itself usable now, is not a trial
  in place of a commercial license, and, being of the same kind, carries a strictly newer signed
  issue time. So two replicas that hold different usable documents never adopt each other's
  documents in turn. A license that is not usable gives way to every other usable document.
\<close>

theorem adoption_never_downgrades:
  "ls_doc s = Some cur \<Longrightarrow>
   (should_adopt s cand fp now \<longrightarrow> validity cand fp now = Inr ())
   \<and> (should_adopt s cand fp now \<and> usable s fp now \<longrightarrow>
        \<not> (ld_kind cur = Commercial \<and> ld_kind cand = Trial)
        \<and> (ld_kind cur = ld_kind cand \<longrightarrow>
             unwrap_or 0 (ld_issued_at cur) < unwrap_or 0 (ld_issued_at cand)))
   \<and> (should_adopt s cand fp now \<and> usable s fp now \<and> ls_doc s' = Some cand \<and> usable s' fp now
        \<longrightarrow> \<not> should_adopt s' cur fp now)
   \<and> (\<not> usable s fp now \<and> validity cand fp now = Inr () \<and> cand \<noteq> cur \<longrightarrow> should_adopt s cand fp now)"
  by (cases "ld_kind cur"; cases "ld_kind cand") (auto simp: should_adopt_def usable_def split: if_splits)

theorem adoption_never_downgrades_witness:
  "should_adopt (lp_state demo_proc) (demo_doc\<lparr>ld_issued_at := Some 1\<rparr>) ''f0'' 2
   \<and> \<not> should_adopt ((lp_state demo_proc)\<lparr>ls_doc := Some (demo_doc\<lparr>ld_issued_at := Some 1\<rparr>)\<rparr>) demo_doc ''f0'' 2"
proof -
  let ?s' = "(lp_state demo_proc)\<lparr>ls_doc := Some (demo_doc\<lparr>ld_issued_at := Some 1\<rparr>)\<rparr>"
  have 1: "ls_doc (lp_state demo_proc) = Some demo_doc" by (simp add: demo_proc_def)
  have 2: "usable (lp_state demo_proc) ''f0'' 2" and 3: "usable ?s' ''f0'' 2"
    and 4: "should_adopt (lp_state demo_proc) (demo_doc\<lparr>ld_issued_at := Some 1\<rparr>) ''f0'' 2"
    by (simp_all add: usable_def problem_for_def validity_def should_adopt_def demo_defs heartbeat_consts)
  from adoption_never_downgrades [OF 1, of "demo_doc\<lparr>ld_issued_at := Some 1\<rparr>" "''f0''" 2 ?s'] 2 3 4
  show ?thesis by simp
qed

section \<open>Signing and verifying\<close>

text \<open>What is relied on of the libraries: exact text round trips and valid signatures.\<close>

definition json_text_ok :: "libs \<Rightarrow> bool" where
  "json_text_ok L \<longleftrightarrow> (\<forall>v. json_wf v \<longrightarrow>
     lib_parse L (lib_print L v) = Some v \<and> lib_parse L (lib_pretty L v) = Some v)"

definition timestamps_ok :: "libs \<Rightarrow> bool" where
  "timestamps_ok L \<longleftrightarrow> (\<forall>t. lib_parse_ts L (lib_fmt_ts L t) = Some t)"

definition signatures_ok :: "libs \<Rightarrow> string \<Rightarrow> bool" where
  "signatures_ok L priv \<longleftrightarrow> lib_private_key L priv
     \<and> (\<forall>b. lib_b64_decode L (lib_b64_encode L b) = Some b)
     \<and> (\<forall>m. lib_sig_wf L (lib_sign L priv m) \<and> lib_verify L (lib_public_of L priv) m (lib_sign L priv m))"

definition seats_ok :: "license_doc \<Rightarrow> bool" where
  "seats_ok d \<longleftrightarrow> (\<forall>n. ld_max_seats d = Some n \<longrightarrow> n < 2 ^ 32)"

lemma those_map_Some [simp]: "those (map Some xs) = Some xs"
  by (induction xs) simp_all

lemma read_opt_jopt: "(\<And>a. x = Some a \<Longrightarrow> f (g a) = Some a \<and> g a \<noteq> JNull) \<Longrightarrow> read_opt f (Some (jopt g x)) = Some x"
  by (cases x) (auto simp: read_opt_def jopt_def split: json.splits)

lemma doc_json_roundtrip:
  assumes "timestamps_ok L" and "seats_ok d"
  shows "doc_from_json L (doc_to_json L d) = Some d"
proof -
  have ts: "read_ts L (JStr (lib_fmt_ts L t)) = Some t" for t
    using assms(1) by (simp add: read_ts_def timestamps_ok_def)
  have k: "read_kind (kind_json (ld_kind d)) = Some (ld_kind d)"
    by (cases "ld_kind d") (simp_all add: read_kind_def)
  have s: "read_opt read_u32 (Some (jopt (\<lambda>n. JNum (PosInt n)) (ld_max_seats d))) = Some (ld_max_seats d)"
    using assms(2) by (intro read_opt_jopt) (auto simp: read_u32_def seats_ok_def)
  have i: "read_opt (read_ts L) (Some (jopt (\<lambda>t. JStr (lib_fmt_ts L t)) (ld_issued_at d))) = Some (ld_issued_at d)"
    by (intro read_opt_jopt) (auto simp: ts)
  have f: "read_strings (JArr (map JStr fs)) = Some fs" for fs
    by (simp add: read_strings_def comp_def)
  show ?thesis
    by (cases "ld_fingerprint d"; cases "ld_requires_heartbeat d")
      (simp_all add: doc_to_json_def doc_from_json_def ts k s i f read_default_def, simp_all add: read_opt_def)
qed

lemma doc_to_json_wf: "seats_ok d \<Longrightarrow> json_wf (doc_to_json L d)"
  unfolding doc_to_json_def
  by (rule json_wf_json_obj, cases "ld_kind d")
    (auto simp: jopt_def seats_ok_def json_wf_list_iff split: option.split)

lemma file_json_wf: "json_wf l \<Longrightarrow> json_wf (file_to_json l s)"
  unfolding file_to_json_def by (rule json_wf_json_obj) auto

lemma file_json_roundtrip [simp]: "file_from_json (file_to_json l s) = Some (l, s)"
  by (simp add: file_from_json_def file_to_json_def)

lemma signed_verifies:
  assumes "json_text_ok L" and "timestamps_ok L" and "signatures_ok L priv" and "seats_ok doc" and "now < ld_expires_at doc"
    and "sign_license L doc priv = Some raw"
  shows "verify_license L now raw (lib_public_of L priv) = Inr doc"
proof -
  let ?l = "doc_to_json L doc"
  let ?f = "file_to_json ?l (lib_b64_encode L (lib_sign L priv (canonical_bytes L ?l)))"
  have "lib_parse L (lib_pretty L ?f) = Some ?f"
    using assms(1) file_json_wf [OF doc_to_json_wf [OF assms(4)]] by (simp add: json_text_ok_def)
  moreover have "raw = lib_pretty L ?f" using assms(6) by (simp add: sign_license_def Let_def split: if_splits)
  ultimately show ?thesis
    using assms(3,5) doc_json_roundtrip [OF assms(2,4)] by (simp add: verify_license_def signatures_ok_def)
qed

text \<open>
  A document signed with the vendor's private key verifies under the matching public key as
  long as it has not expired, and comes back field by field; the text that is signed on one side
  is the text that is checked on the other.
\<close>

theorem sign_verify_roundtrip:
  assumes "json_text_ok L" and "timestamps_ok L" and "signatures_ok L priv"
    and "seats_ok doc" and "now < ld_expires_at doc"
  shows "\<exists>raw. sign_license L doc priv = Some raw
     \<and> verify_license L now raw (lib_public_of L priv) = Inr doc"
proof -
  obtain raw where raw: "sign_license L doc priv = Some raw"
    using assms(3) by (simp add: sign_license_def signatures_ok_def Let_def)
  with signed_verifies [OF assms raw] show ?thesis by blast
qed

lemma demo_libs_ok: "json_text_ok demo_libs" "timestamps_ok demo_libs" "signatures_ok demo_libs priv"
  by (simp_all add: json_text_ok_def timestamps_ok_def signatures_ok_def demo_libs_def)

lemma demo_signed:
  "\<exists>raw. verify_license demo_libs (hours 5) raw ''key'' = Inr demo_doc"
proof -
  let ?l = "doc_to_json demo_libs demo_doc"
  let ?raw = "lib_pretty demo_libs (file_to_json ?l (''key'' @ canonical_bytes demo_libs ?l))"
  have "seats_ok demo_doc" and "hours 5 < ld_expires_at demo_doc"
    by (simp_all add: seats_ok_def demo_defs)
  moreover have "lib_parse demo_libs (lib_pretty demo_libs v) = Some v" "lib_b64_decode demo_libs x = Some x"
    "lib_sig_wf demo_libs x" "lib_verify demo_libs k m x = (x = k @ m)" for v x k m
    by (simp_all add: demo_libs_def)
  ultimately have "verify_license demo_libs (hours 5) ?raw ''key'' = Inr demo_doc"
    using doc_json_roundtrip [OF demo_libs_ok(2)] by (simp add: verify_license_def)
  then show ?thesis by blast
qed

theorem sign_verify_roundtrip_witness:
  "\<exists>raw. sign_license demo_libs demo_doc ''key'' = Some raw
     \<and> verify_license demo_libs (hours 5) raw (lib_public_of demo_libs ''key'') = Inr demo_doc"
  by (rule sign_verify_roundtrip [OF demo_libs_ok]) (simp_all add: seats_ok_def demo_defs)

text \<open>
  If signatures cannot be forged, that is, under the public key only texts verify that the
  vendor signed for one of the issued documents, then whatever bytes are presented, a successful
  verification yields one of the issued documents, unchanged and not expired.
\<close>

theorem only_issued_documents_verify:
  assumes "\<And>m s. lib_verify L key m s \<Longrightarrow> \<exists>d \<in> issued. m = canonical_bytes L (doc_to_json L d)"
    and "inj (lib_print L)" and "timestamps_ok L" and "\<And>d. d \<in> issued \<Longrightarrow> seats_ok d"
    and "verify_license L now raw key = Inr doc"
  shows "doc \<in> issued \<and> now < ld_expires_at doc"
proof -
  from assms(5) obtain l s where l: "doc_from_json L l = Some doc" "lib_verify L key (canonical_bytes L l) s"
    and exp: "now < ld_expires_at doc"
    by (auto simp: verify_license_def split: option.splits if_splits prod.splits)
  from assms(1) [OF l(2)] obtain d where d: "d \<in> issued" "canonical_bytes L l = canonical_bytes L (doc_to_json L d)"
    by blast
  then have "l = doc_to_json L d" using assms(2) by (simp add: canonical_bytes_def inj_eq)
  with l(1) doc_json_roundtrip [OF assms(3) assms(4) [OF d(1)]] d(1) exp show ?thesis by simp
qed

definition vendor_libs :: libs where
  "vendor_libs = demo_libs\<lparr>lib_verify := (\<lambda>k m s. m = canonical_bytes demo_libs (doc_to_json demo_libs demo_doc))\<rparr>"

theorem only_issued_documents_verify_witness:
  "\<exists>raw. verify_license vendor_libs 0 raw ''key'' = Inr demo_doc
     \<and> (\<exists>d. verify_license vendor_libs 0 raw ''key'' = Inr d \<and> d \<in> {demo_doc} \<and> 0 < ld_expires_at d)"
proof -
  have same: "canonical_bytes vendor_libs = canonical_bytes demo_libs" "doc_to_json vendor_libs = doc_to_json demo_libs"
    by (simp_all add: fun_eq_iff canonical_bytes_def doc_to_json_def vendor_libs_def)
  have ts: "timestamps_ok vendor_libs" and seats: "seats_ok demo_doc"
    using demo_libs_ok(2) by (simp_all add: timestamps_ok_def vendor_libs_def seats_ok_def demo_doc_def)
  let ?l = "doc_to_json demo_libs demo_doc"
  let ?raw = "lib_pretty vendor_libs (file_to_json ?l ''s'')"
  have demo_print: "lib_print vendor_libs = lib_pretty vendor_libs" by (simp add: vendor_libs_def demo_libs_def)
  have p: "lib_parse vendor_libs (lib_pretty vendor_libs v) = Some v"
    and q: "lib_b64_decode vendor_libs x = Some x" "lib_sig_wf vendor_libs x"
    and r: "lib_verify vendor_libs k (canonical_bytes demo_libs ?l) x" for v x k
    by (simp_all add: vendor_libs_def demo_libs_def)
  have "0 < ld_expires_at demo_doc" by (simp add: demo_defs)
  then have v: "verify_license vendor_libs 0 ?raw ''key'' = Inr demo_doc"
    using doc_json_roundtrip [OF ts seats] by (simp add: verify_license_def same p q r)
  have "demo_doc \<in> {demo_doc} \<and> 0 < ld_expires_at demo_doc"
  proof (rule only_issued_documents_verify [OF _ _ ts _ v])
    show "inj (lib_print vendor_libs)"
      by (rule injI) (metis p(1) demo_print option.inject)
  qed (auto simp: same seats, simp add: vendor_libs_def)
  with v show ?thesis by blast
qed

section \<open>Trial e-mail addresses\<close>

text \<open>
  An accepted trial address is in normal form: accepting it again returns it unchanged, it is
  6 to 254 bytes long, has exactly one at-sign with something on both sides, and its domain is a
  dotted name of letters, digits and hyphens.
\<close>

theorem trial_email_normal_form:
  assumes "validate_trial_email raw = Inr email"
  shows "validate_trial_email email = Inr email \<and> 6 \<le> length email \<and> length email \<le> 254
    \<and> (\<exists>loc domain. email = loc @ CHR ''@'' # domain \<and> loc \<noteq> [] \<and> CHR ''@'' \<notin> set (loc @ domain)
        \<and> CHR ''.'' \<in> set domain
        \<and> (\<forall>l \<in> set (split_on (CHR ''.'') domain). l \<noteq> []
             \<and> list_all (\<lambda>c. is_ascii_alphanumeric c \<or> c = CHR ''-'') l))"
proof -
  let ?e = "to_ascii_lowercase (trim raw)"
  from assms obtain loc domain where e: "email = ?e" and len: "6 \<le> length email" "length email \<le> 254"
    and ws: "\<not> list_ex (\<lambda>c. is_whitespace c \<or> is_control c) (chars email)"
    and sp: "rsplit_once (CHR ''@'') email = Some (loc, domain)"
    and parts: "loc \<noteq> []" "CHR ''@'' \<notin> set loc"
    and labels: "2 \<le> length (split_on (CHR ''.'') domain)"
      "\<forall>l \<in> set (split_on (CHR ''.'') domain). l \<noteq> [] \<and> list_all (\<lambda>c. is_ascii_alphanumeric c \<or> c = CHR ''-'') l"
    by (auto simp: validate_trial_email_def Let_def list_ex_iff split: if_splits option.splits prod.splits)
  from ws have "trim email = email" by (intro trim_id) (auto simp: list_ex_iff)
  then have "to_ascii_lowercase (trim email) = email" by (simp add: e)
  with assms e have idem: "validate_trial_email email = Inr email" by (simp add: validate_trial_email_def)
  from rsplit_once_Some [OF sp] have split: "email = loc @ CHR ''@'' # domain" "CHR ''@'' \<notin> set domain" by auto
  have "filter (\<lambda>x. x = CHR ''.'') domain \<noteq> []"
    using labels(1) by (auto simp: length_split_by)
  then have "CHR ''.'' \<in> set domain" by (auto simp: filter_empty_conv)
  with idem len split parts labels(2) show ?thesis by auto
qed

theorem trial_email_normal_form_witness:
  "validate_trial_email ''  Ops@Acme.Example '' = Inr ''ops@acme.example''
   \<and> validate_trial_email ''ops@acme.example'' = Inr ''ops@acme.example''"
proof -
  have "validate_trial_email ''  Ops@Acme.Example '' = Inr ''ops@acme.example''" by code_simp
  with trial_email_normal_form [OF this] show ?thesis by blast
qed

section \<open>Retry spacing\<close>

lemma tick_attempt:
  assumes "r = reload_store_if_changed L env now w"
    and "heartbeat_due env (lp_state (lw_proc r)) now" and "ls_raw (lp_state (lw_proc r)) \<noteq> None"
  shows "ls_last_heartbeat_attempt (lp_state (lw_proc (heartbeat_tick L env net io id now w))) = Some now"
proof -
  from assms(2) have "ls_doc (lp_state (lw_proc r)) \<noteq> None"
    by (auto simp: heartbeat_due_def split: option.splits)
  with assms show ?thesis
    by (auto simp: heartbeat_tick_def Let_def apply_outcome_def split: option.splits sum.splits
        heartbeat_outcome.splits prod.splits)
qed

text \<open>
  After a heartbeat attempt that did not succeed, the next attempt is at least one hour
  later: in between no tick finds a heartbeat due. This needs the signed issue time to be known
  or the license to be revoked; a license without one is retried at every tick.
\<close>

theorem failed_attempts_back_off:
  assumes "r = reload_store_if_changed L env now w"
    and "heartbeat_due env (lp_state (lw_proc r)) now" and "ls_raw (lp_state (lw_proc r)) \<noteq> None"
    and "s = lp_state (lw_proc (heartbeat_tick L env net io id now w))"
    and "ls_last_heartbeat_error s \<noteq> None"
    and "ls_revoked_reason s \<noteq> None \<or> (\<exists>d i. ls_doc s = Some d \<and> ld_issued_at d = Some i)"
    and "now' < now + HEARTBEAT_RETRY"
  shows "\<not> heartbeat_due env s now'"
  using tick_attempt [OF assms(1-3), of net io] assms(4-7)
  by (auto simp: heartbeat_due_def split: option.splits)

theorem failed_attempts_back_off_witness:
  "\<not> heartbeat_due demo_env (lp_state (lw_proc (heartbeat_tick demo_libs demo_env
      (\<lambda>_ _ _. SendFailed ''timeout'') None id (hours 30) demo_lic_world))) (hours 30 + secs 60)"
proof -
  obtain server where sv: "server_from_env demo_env = Some server"
    using demo_server by (cases "server_from_env demo_env") auto
  have r: "reload_store_if_changed demo_libs demo_env (hours 30) demo_lic_world = demo_lic_world"
    by (simp add: reload_store_if_changed_def file_stamp_def demo_lic_world_def)
  have due: "heartbeat_due demo_env (lp_state (lw_proc demo_lic_world)) (hours 30)"
    by (simp add: heartbeat_due_def heartbeat_interval_def demo_lic_world_def demo_defs demo_env_def
        opt_filter_def heartbeat_consts)
  have key: "load_public_key demo_libs demo_env fs = Inr ''key''" for fs
    by (simp add: load_public_key_def demo_env_def opt_filter_def demo_libs_def)
  have "\<exists>e. heartbeat_once demo_libs (\<lambda>_ _ _. SendFailed ''timeout'') (hours 30) server fp raw ''key'' = Unavailable e" for fp raw
    by (rule heartbeat_once_unreachable) simp
  then obtain e where e: "heartbeat_once demo_libs (\<lambda>_ _ _. SendFailed ''timeout'') (hours 30) server ''f0'' ''raw'' ''key'' = Unavailable e"
    by blast
  have st: "ls_raw (lp_state (lw_proc demo_lic_world)) = Some ''raw''"
    "ls_doc (lp_state (lw_proc demo_lic_world)) = Some demo_doc" "process_fingerprint (lw_proc demo_lic_world) = ''f0''"
    by (simp_all add: demo_lic_world_def demo_proc_def process_fingerprint_def)
  have fp: "process_fingerprint ((lw_proc demo_lic_world)\<lparr>lp_state := x\<rparr>) = ''f0''" for x
    using st(3) by (simp add: process_fingerprint_def)
  have tick: "heartbeat_tick demo_libs demo_env (\<lambda>_ _ _. SendFailed ''timeout'') None id (hours 30) demo_lic_world
    = upd_state (\<lambda>s. s\<lparr>ls_last_heartbeat_attempt := Some (hours 30), ls_last_heartbeat_error := Some e\<rparr>) demo_lic_world"
    by (simp add: heartbeat_tick_def r due Let_def st sv key fp e apply_outcome_def)
  show ?thesis
    by (rule failed_attempts_back_off [OF r [symmetric] due _ refl])
      (simp_all add: tick st, simp_all add: demo_doc_def heartbeat_consts)
qed

section \<open>Authenticity of the active document\<close>

text \<open>
  The runs of a process: it boots once, then background ticks, trial activations and changes of
  the files by other processes happen in any order, against any network. A trial activation or a
  file change may also fall between a heartbeat request and its answer.
\<close>

inductive lic_other :: "libs \<Rightarrow> env \<Rightarrow> lic_world \<Rightarrow> lic_world \<Rightarrow> bool" for L env where
  other_none: "lic_other L env w w"
| other_files: "lic_other L env w w' \<Longrightarrow> lic_other L env w (w'\<lparr>lw_files := fs\<rparr>)"
| other_trial: "lic_other L env w w' \<Longrightarrow>
     lic_other L env w (snd (start_trial L env net io now email w'))"

inductive lic_reach :: "libs \<Rightarrow> env \<Rightarrow> lic_world \<Rightarrow> bool" for L env where
  boot: "lic_reach L env (snd (enforce_at_startup L env net io install_fp now
     \<lparr>lw_proc = initial_proc, lw_files = fs\<rparr>))"
| others: "lic_reach L env w \<Longrightarrow> lic_other L env w w' \<Longrightarrow> lic_reach L env w'"
| tick: "lic_reach L env w \<Longrightarrow> (\<And>x. lic_other L env x (meanwhile x)) \<Longrightarrow>
     lic_reach L env (heartbeat_tick L env net io meanwhile now w)"

text \<open>The text \<open>raw\<close> carries a signature that verifies under \<open>key\<close> for a value that reads as \<open>doc\<close>.\<close>

definition attested :: "libs \<Rightarrow> string \<Rightarrow> string \<Rightarrow> license_doc \<Rightarrow> bool" where
  "attested L key raw doc \<longleftrightarrow>
     (\<exists>l s sig. Option.bind (lib_parse L raw) file_from_json = Some (l, s) \<and> lib_b64_decode L s = Some sig
        \<and> lib_verify L key (canonical_bytes L l) sig \<and> doc_from_json L l = Some doc)"

definition authentic :: "libs \<Rightarrow> string \<Rightarrow> license_proc \<Rightarrow> bool" where
  "authentic L key p \<longleftrightarrow>
     (\<forall>d. ls_doc (lp_state p) = Some d \<longrightarrow>
        (\<exists>raw. ls_raw (lp_state p) = Some raw \<and> attested L key raw d)
        \<and> (ld_fingerprint d = None \<or> ld_fingerprint d = Some (process_fingerprint p)))
     \<and> (ls_revoked_reason (lp_state p) \<noteq> None \<longrightarrow> ls_doc (lp_state p) \<noteq> None)"

definition embedded_key_only :: "env \<Rightarrow> bool" where
  "embedded_key_only env \<longleftrightarrow> opt_filter (\<lambda>p. p \<noteq> []) (env ''LICENSE_PUBLIC_KEY_PATH'') = None"

lemma load_embedded_key:
  "embedded_key_only env \<Longrightarrow> load_public_key L env fs = Inr key \<Longrightarrow> key = lib_embedded_key L"
  by (auto simp: load_public_key_def embedded_key_only_def split: if_splits)

lemma verify_attested: "verify_license L now raw key = Inr doc \<Longrightarrow> attested L key raw doc"
  unfolding verify_license_def attested_def
  by (auto split: option.splits if_splits prod.splits)

definition loaded_ok :: "libs \<Rightarrow> string \<Rightarrow> loaded_license \<Rightarrow> bool" where
  "loaded_ok L fp l \<longleftrightarrow> attested L (lib_embedded_key L) (ll_raw l) (ll_doc l)
     \<and> (ld_fingerprint (ll_doc l) = None \<or> ld_fingerprint (ll_doc l) = Some fp)"

lemma load_path_ok:
  "load_and_verify_path L env fs now path (lib_embedded_key L) fp = Inr l \<Longrightarrow> loaded_ok L fp l"
  by (auto simp: load_and_verify_path_def loaded_ok_def dest: verify_attested split: option.splits sum.splits if_splits)

lemma first_loadable_ok:
  "(\<And>p l. f p = Inr l \<Longrightarrow> P l) \<Longrightarrow> first_loadable f ps = Some l \<Longrightarrow> P l"
  by (induction ps) (auto split: sum.splits)

lemma try_load_ok:
  assumes "embedded_key_only env" and "try_load_local L env fs now fp = Inr (Some l)"
  shows "loaded_ok L fp l"
proof -
  from assms have "first_loadable (\<lambda>path. load_and_verify_path L env fs now path (lib_embedded_key L) fp)
      (local_candidates env fs) = Some l"
    by (auto simp: try_load_local_def dest: load_embedded_key split: sum.splits)
  then show ?thesis by (rule first_loadable_ok [rotated]) (rule load_path_ok)
qed

lemma phone_home_ok:
  assumes "embedded_key_only env" and "activate_trial_phone_home L env net io now fp email fs = (Inr l, fs')"
  shows "loaded_ok L fp l"
  using assms(2) load_embedded_key [OF assms(1)]
  by (auto simp: activate_trial_phone_home_def Let_def loaded_ok_def dest: verify_attested
      split: sum.splits option.splits http_reply.splits if_splits prod.splits)

lemma heartbeat_once_ok:
  "heartbeat_once L net now server fp raw (lib_embedded_key L) = Refreshed l \<Longrightarrow> loaded_ok L fp l"
  by (auto simp: heartbeat_once_def Let_def loaded_ok_def dest: verify_attested
      split: sum.splits option.splits http_reply.splits if_splits)

lemma authentic_activate:
  "loaded_ok L (process_fingerprint (lw_proc w)) l \<Longrightarrow> authentic L (lib_embedded_key L) (lw_proc (activate l w))"
  by (auto simp: authentic_def activate_def loaded_ok_def process_fingerprint_def)

lemma authentic_upd [simp]:
  "authentic L k (p\<lparr>lp_state := s\<lparr>ls_last_heartbeat_error := e\<rparr>\<rparr>) = authentic L k (p\<lparr>lp_state := s\<rparr>)"
  "authentic L k (p\<lparr>lp_state := s\<lparr>ls_last_heartbeat_attempt := a\<rparr>\<rparr>) = authentic L k (p\<lparr>lp_state := s\<rparr>)"
  "authentic L k (p\<lparr>lp_state := s\<lparr>ls_store_stamp := st\<rparr>\<rparr>) = authentic L k (p\<lparr>lp_state := s\<rparr>)"
  by (simp_all add: authentic_def process_fingerprint_def)

lemma start_trial_authentic:
  assumes "embedded_key_only env" and "authentic L (lib_embedded_key L) (lw_proc w)"
  shows "authentic L (lib_embedded_key L) (lw_proc (snd (start_trial L env net io now email w)))
    \<and> process_fingerprint (lw_proc (snd (start_trial L env net io now email w))) = process_fingerprint (lw_proc w)
    \<and> (ls_doc (lp_state (lw_proc w)) \<noteq> None \<longrightarrow>
        ls_doc (lp_state (lw_proc (snd (start_trial L env net io now email w)))) \<noteq> None)"
  using assms(2) phone_home_ok [OF assms(1)] authentic_activate
  by (auto simp: start_trial_def Let_def activate_def process_fingerprint_def authentic_def loaded_ok_def
      split: prod.splits sum.splits)

lemma other_authentic:
  assumes "lic_other L env w w'" and "embedded_key_only env" and "authentic L (lib_embedded_key L) (lw_proc w)"
  shows "authentic L (lib_embedded_key L) (lw_proc w')
    \<and> process_fingerprint (lw_proc w') = process_fingerprint (lw_proc w)
    \<and> (ls_doc (lp_state (lw_proc w)) \<noteq> None \<longrightarrow> ls_doc (lp_state (lw_proc w')) \<noteq> None)"
  using assms by induction (use start_trial_authentic in \<open>fastforce simp: process_fingerprint_def\<close>)+

lemma reload_authentic:
  assumes "embedded_key_only env" and "authentic L (lib_embedded_key L) (lw_proc w)"
  shows "authentic L (lib_embedded_key L) (lw_proc (reload_store_if_changed L env now w))
    \<and> process_fingerprint (lw_proc (reload_store_if_changed L env now w)) = process_fingerprint (lw_proc w)"
  using assms(2) load_embedded_key [OF assms(1)] authentic_activate load_path_ok
  by (fastforce simp: reload_store_if_changed_def Let_def activate_def process_fingerprint_def
      split: option.splits sum.splits)

lemma outcome_authentic:
  assumes "authentic L (lib_embedded_key L) (lw_proc w)" and "ls_doc (lp_state (lw_proc w)) \<noteq> None"
    and "\<And>l. outcome = Refreshed l \<Longrightarrow> loaded_ok L (process_fingerprint (lw_proc w)) l"
  shows "authentic L (lib_embedded_key L) (lw_proc (apply_outcome env io now outcome w))"
  using assms
  by (cases outcome) (auto simp: apply_outcome_def authentic_def loaded_ok_def process_fingerprint_def
      split: prod.splits)

lemma tick_authentic:
  assumes "embedded_key_only env" and "authentic L (lib_embedded_key L) (lw_proc w)"
    and "\<And>x. lic_other L env x (meanwhile x)"
  shows "authentic L (lib_embedded_key L) (lw_proc (heartbeat_tick L env net io meanwhile now w))"
proof -
  let ?r = "reload_store_if_changed L env now w"
  let ?r1 = "upd_state (\<lambda>s. s\<lparr>ls_last_heartbeat_attempt := Some now\<rparr>) ?r"
  have r: "authentic L (lib_embedded_key L) (lw_proc ?r)" using reload_authentic [OF assms(1,2)] by blast
  then have r1: "authentic L (lib_embedded_key L) (lw_proc ?r1)" by simp
  note m = other_authentic [OF assms(3) [of ?r1] assms(1) r1]
  have out: "ls_doc (lp_state (lw_proc ?r)) \<noteq> None \<Longrightarrow>
      authentic L (lib_embedded_key L) (lw_proc (apply_outcome env io now
        (heartbeat_once L net now server (process_fingerprint (lw_proc ?r1)) raw (lib_embedded_key L)) (meanwhile ?r1)))"
    for server raw
    using m heartbeat_once_ok by (intro outcome_authentic) (auto simp: process_fingerprint_def)
  show ?thesis
    unfolding heartbeat_tick_def Let_def
    using r out load_embedded_key [OF assms(1)] by (auto split: option.splits sum.splits)
qed

lemma boot_authentic:
  assumes "embedded_key_only env"
  shows "authentic L (lib_embedded_key L) (lw_proc (snd (enforce_at_startup L env net io install_fp now
     \<lparr>lw_proc = initial_proc, lw_files = fs\<rparr>)))"
  using try_load_ok [OF assms] phone_home_ok [OF assms]
  by (auto simp: enforce_at_startup_def Let_def initial_proc_def initial_state_def once_set_def authentic_def
      activate_def loaded_ok_def process_fingerprint_def split: sum.splits option.splits prod.splits)

text \<open>
  C3: In every reachable state of a process that uses the embedded vendor key, the active
  document was read from a text whose signature verifies under that key, the text is kept for the
  next heartbeat, and the document is bound to this install or to none; a revocation is only ever
  recorded for an active document. No server answer, store file or interleaving breaks this.
\<close>

theorem active_license_is_authentic:
  assumes "lic_reach L env w" and "embedded_key_only env"
  shows "authentic L (lib_embedded_key L) (lw_proc w)"
  using assms
proof induction
  case (boot net io install_fp now fs)
  then show ?case by (rule boot_authentic)
next
  case (others w w')
  then show ?case using other_authentic by blast
next
  case (tick w meanwhile net io now)
  then show ?case using tick_authentic by blast
qed

theorem active_license_is_authentic_witness:
  "\<exists>w. lic_reach demo_libs demo_env w \<and> ls_doc (lp_state (lw_proc w)) = Some demo_doc
     \<and> authentic demo_libs (lib_embedded_key demo_libs) (lw_proc w)"
proof -
  obtain raw where v: "verify_license demo_libs (hours 5) raw ''key'' = Inr demo_doc"
    using demo_signed by blast
  define fs where "fs = (\<lambda>p. if p = DEFAULT_STORE_PATH then Some \<lparr>f_content = raw, f_mtime = 0\<rparr> else None)"
  let ?w = "snd (enforce_at_startup demo_libs demo_env (\<lambda>_ _ _. SendFailed []) None (Inr ''f0'') (hours 5)
     \<lparr>lw_proc = initial_proc, lw_files = fs\<rparr>)"
  have sp: "store_path demo_env = DEFAULT_STORE_PATH"
    unfolding store_path_def by (simp add: demo_env_def opt_filter_def)
  have key: "load_public_key demo_libs demo_env f = Inr ''key''" for f
    by (simp add: load_public_key_def demo_env_def opt_filter_def demo_libs_def)
  have "fs DEFAULT_STORE_PATH = Some \<lparr>f_content = raw, f_mtime = 0\<rparr>" by (simp add: fs_def)
  then have load: "load_and_verify_path demo_libs demo_env fs (hours 5) DEFAULT_STORE_PATH ''key'' ''f0''
      = Inr \<lparr>ll_doc = demo_doc, ll_raw = raw, ll_store_stamp = file_stamp fs DEFAULT_STORE_PATH\<rparr>"
    using v by (simp add: load_and_verify_path_def sp path_eq_def) (simp add: demo_doc_def)
  have cand: "local_candidates demo_env fs = [DEFAULT_STORE_PATH]"
  proof -
    have "opt_filter (\<lambda>p. p \<noteq> []) (demo_env ''LICENSE_FILE'') = None" by (simp add: demo_env_def opt_filter_def)
    then show ?thesis by (simp add: local_candidates_def sp fs_def)
  qed
  have doc: "ls_doc (lp_state (lw_proc ?w)) = Some demo_doc"
    by (simp add: enforce_at_startup_def Let_def try_load_local_def key cand load activate_def)
  have reach: "lic_reach demo_libs demo_env ?w" by (rule lic_reach.boot)
  have "embedded_key_only demo_env" by (simp add: embedded_key_only_def demo_env_def opt_filter_def)
  with reach have "authentic demo_libs (lib_embedded_key demo_libs) (lw_proc ?w)"
    by (rule active_license_is_authentic)
  with reach doc show ?thesis by blast
qed

end
