(* ===== verification/License_Server.thy ===== *)
theory License_Server
  imports License "HOL-Library.Word" "HOL-Library.AList"
begin

text \<open>
  The vendor's license service (\<^verbatim>\<open>src/apps/api/src/license_server.rs\<close>): trials keyed by install
  fingerprint, heartbeats that re-sign a presented license, revocations, the bearer check and the
  two rate limiters. The SQLite tables are keyed by their primary keys; timestamps are kept
  as the text the code stores. A statement itself does not fail and no lock is poisoned. The wall
  clock (\<open>now\<close>) and the monotonic clock of the limiters (\<open>clk\<close>) are arguments, one reading of
  each per request.
\<close>

unbundle bit_operations_syntax

section \<open>State\<close>

record server_config =
  cfg_signing_key_pem :: string
  cfg_activation_token :: string
  cfg_trial_days :: int

definition MIN_TOKEN_LEN :: nat where "MIN_TOKEN_LEN = 32"
definition PER_FINGERPRINT_INTERVAL :: duration where "PER_FINGERPRINT_INTERVAL = secs 5"
definition GLOBAL_PER_SECOND :: nat where "GLOBAL_PER_SECOND = 20"

datatype config_error = TokenTooShort | TrialDaysRange | SigningKeyUnreadable

definition validate_config :: "libs \<Rightarrow> server_config \<Rightarrow> config_error + unit" where
  "validate_config L cfg =
     (if length (cfg_activation_token cfg) < MIN_TOKEN_LEN then Inl TokenTooShort
      else if \<not> (1 \<le> cfg_trial_days cfg \<and> cfg_trial_days cfg \<le> 30) then Inl TrialDaysRange
      else if \<not> lib_private_key L (cfg_signing_key_pem cfg) then Inl SigningKeyUnreadable
      else Inr ())"

record trial_row =
  tr_email :: "string option"
  tr_started_at :: string
  tr_expires_at :: string
  tr_product :: "string option"
  tr_version :: "string option"
  tr_last_heartbeat_at :: "string option"
  tr_heartbeat_count :: nat
  tr_revoked_at :: "string option"
  tr_revoked_reason :: "string option"

record revocation_row =
  rv_reason :: "string option"
  rv_revoked_at :: string

record server_state =
  ss_trials :: "string \<Rightarrow> trial_row option"
  ss_revocations :: "((string \<times> string) \<times> revocation_row) list"
  ss_per_fingerprint :: "instant btree"
  ss_global :: "instant \<times> nat"

definition new_state :: "instant \<Rightarrow> server_state" where
  "new_state clk = \<lparr>ss_trials = (\<lambda>_. None), ss_revocations = [],
     ss_per_fingerprint = [], ss_global = (clk, 0)\<rparr>"

record server_error =
  se_status :: nat
  se_code :: string
  se_message :: string

definition server_error_new :: "nat \<Rightarrow> string \<Rightarrow> string \<Rightarrow> server_error" where
  "server_error_new status code message = \<lparr>se_status = status, se_code = code, se_message = message\<rparr>"

definition internal :: server_error where
  "internal = server_error_new 500 ''internal_error'' ''internal error''"

section \<open>Guards\<close>

type_synonym byte_word = "8 word"

definition to_bytes :: "string \<Rightarrow> byte_word list" where
  "to_bytes s = map (\<lambda>c. word_of_nat (byte c)) s"

definition constant_time_eq :: "byte_word list \<Rightarrow> byte_word list \<Rightarrow> bool" where
  "constant_time_eq a b =
     (if length a \<noteq> length b then False
      else foldl (\<lambda>acc (x, y). acc OR (x XOR y)) 0 (zip a b) = 0)"

definition authorize :: "server_config \<Rightarrow> string option \<Rightarrow> server_error + unit" where
  "authorize cfg header =
     (let token = unwrap_or [] (Option.bind header (strip_prefix ''Bearer '')) in
      if \<not> constant_time_eq (to_bytes token) (to_bytes (cfg_activation_token cfg))
      then Inl (server_error_new 401 ''unauthorized'' ''unauthorized'') else Inr ())"

definition normalize_fingerprint :: "string \<Rightarrow> string option" where
  "normalize_fingerprint raw =
     (let fp = to_ascii_lowercase (trim raw) in
      if length fp < 16 \<or> 128 < length fp \<or> \<not> list_all is_ascii_hexdigit fp then None else Some fp)"

text \<open>The en dash of the message is given by its UTF-8 bytes.\<close>

definition bad_fingerprint :: server_error where
  "bad_fingerprint = server_error_new 400 ''bad_request''
     (''fingerprint must be 16'' @ map char_of [0xE2::nat, 0x80, 0x93] @ ''128 hex chars'')"

definition rate_limited :: server_error where
  "rate_limited = server_error_new 429 ''rate_limited'' ''slow down''"

text \<open>\<^verbatim>\<open>Instant::duration_since\<close> is zero for an earlier instant.\<close>

definition since :: "instant \<Rightarrow> instant \<Rightarrow> duration" where
  "since now earlier = max 0 (now - earlier)"

definition rate_limit :: "instant \<Rightarrow> string \<Rightarrow> server_state \<Rightarrow> (server_error + unit) \<times> server_state" where
  "rate_limit clk fp s =
     (let g = (if secs 1 \<le> since clk (fst (ss_global s)) then (clk, 0) else ss_global s) in
      if GLOBAL_PER_SECOND \<le> snd g then (Inl rate_limited, s\<lparr>ss_global := g\<rparr>)
      else
        (let s1 = s\<lparr>ss_global := (fst g, snd g + 1)\<rparr>; per = ss_per_fingerprint s in
         if (case map_of per fp of Some prev \<Rightarrow> since clk prev < PER_FINGERPRINT_INTERVAL | None \<Rightarrow> False)
         then (Inl rate_limited, s1)
         else
           (let per1 = map_insert fp clk per;
                per2 = (if 10000 < length per1 then filter (\<lambda>(_, seen). since clk seen < secs 300) per1
                        else per1)
            in (Inr (), s1\<lparr>ss_per_fingerprint := per2\<rparr>))))"

definition parse_stored_ts :: "libs \<Rightarrow> string \<Rightarrow> instant option" where
  "parse_stored_ts L s = or_else (lib_parse_rfc3339 L s) (lib_parse_naive L s)"

definition sign :: "libs \<Rightarrow> server_config \<Rightarrow> license_doc \<Rightarrow> server_error + json" where
  "sign L cfg doc =
     (case Option.bind (sign_license L doc (cfg_signing_key_pem cfg)) (lib_parse L) of
        None \<Rightarrow> Inl internal | Some v \<Rightarrow> Inr v)"

section \<open>Revocations\<close>

definition revoke ::
    "libs \<Rightarrow> instant \<Rightarrow> string \<Rightarrow> string \<Rightarrow> string \<Rightarrow> server_state \<Rightarrow> unit option \<times> server_state" where
  "revoke L now fingerprint licensee reason s =
     (case normalize_fingerprint fingerprint of
        None \<Rightarrow> (None, s)
      | Some fp \<Rightarrow>
          (let ts = lib_rfc3339 L now;
               s1 = s\<lparr>ss_revocations := AList.update (fp, licensee)
                      \<lparr>rv_reason = Some reason, rv_revoked_at = ts\<rparr> (ss_revocations s)\<rparr>;
               s2 = s1\<lparr>ss_trials := (ss_trials s1)(fp := map_option (\<lambda>r.
                      r\<lparr>tr_revoked_at := Some ts, tr_revoked_reason := Some reason\<rparr>) (ss_trials s1 fp))\<rparr>
           in (Some (), s2)))"

text \<open>One licensee's revocation of a fingerprint is deleted, or all of them; the number of rows is returned.\<close>

definition unrevoke ::
    "string \<Rightarrow> string option \<Rightarrow> server_state \<Rightarrow> nat option \<times> server_state" where
  "unrevoke fingerprint licensee s =
     (case normalize_fingerprint fingerprint of
        None \<Rightarrow> (None, s)
      | Some fp \<Rightarrow>
          (let hit = (\<lambda>((f, l), _). f = fp \<and> (licensee = None \<or> licensee = Some l));
               n = length (filter hit (ss_revocations s));
               s1 = s\<lparr>ss_revocations := filter (\<lambda>e. \<not> hit e) (ss_revocations s)\<rparr>;
               s2 = s1\<lparr>ss_trials := (ss_trials s1)(fp := map_option (\<lambda>r.
                      r\<lparr>tr_revoked_at := None, tr_revoked_reason := None\<rparr>) (ss_trials s1 fp))\<rparr>
           in (Some n, s2)))"

section \<open>\<open>POST /v1/trial/start\<close>\<close>

record trial_start_req =
  ts_fingerprint :: string
  ts_email :: "string option"
  ts_product :: "string option"
  ts_version :: "string option"

record trial_response =
  tp_license_file :: json
  tp_expires_at :: instant
  tp_reused :: bool

definition trial_response_json :: "libs \<Rightarrow> trial_response \<Rightarrow> json" where
  "trial_response_json L r = json_obj [(''license_file'', tp_license_file r),
     (''expires_at'', JStr (lib_fmt_ts L (tp_expires_at r))), (''reused'', JBool (tp_reused r))]"

fun email_error_display :: "email_error \<Rightarrow> string" where
  "email_error_display EmailLength = ''email must be between 6 and 254 characters''"
| "email_error_display EmailWhitespace = ''email must not contain whitespace''"
| "email_error_display EmailNoAt = ''email must contain '' @ [CHR 0x27, CHR ''@'', CHR 0x27]"
| "email_error_display EmailEmptyPart = ''email has an empty local part or domain''"
| "email_error_display EmailDomain = ''email domain must be a dotted hostname''"

definition trial_email :: "string option \<Rightarrow> server_error + string" where
  "trial_email e =
     (case opt_filter (\<lambda>x. x \<noteq> []) (map_option trim e) of
        Some x \<Rightarrow> (case validate_trial_email x of
             Inl err \<Rightarrow> Inl (server_error_new 400 ''invalid_email'' (email_error_display err))
           | Inr email \<Rightarrow> Inr email)
      | None \<Rightarrow> Inl (server_error_new 400 ''email_required'' ''a contact email is required to start a trial''))"

text \<open>The table access of a trial start: the expiry, whether it was reused, and the licensee.\<close>

definition trial_record ::
    "libs \<Rightarrow> server_config \<Rightarrow> instant \<Rightarrow> trial_start_req \<Rightarrow> string \<Rightarrow> string \<Rightarrow> server_state
     \<Rightarrow> (server_error + instant \<times> bool \<times> string) \<times> server_state" where
  "trial_record L cfg now req fp email s =
     (case ss_trials s fp of
        Some row \<Rightarrow>
          (case parse_stored_ts L (tr_expires_at row) of
             None \<Rightarrow> (Inl internal, s)
           | Some expires_at \<Rightarrow>
               (case tr_revoked_reason row of
                  Some reason \<Rightarrow> (Inl (server_error_new 403 ''revoked''
                      (''trial for this install was revoked: '' @ reason)), s)
                | None \<Rightarrow>
                    if expires_at \<le> now then (Inl (server_error_new 402 ''trial_expired''
                        (''trial for this install already expired at '' @ lib_show_ts L expires_at)), s)
                    else
                      (let s' = (if tr_email row = None
                           then s\<lparr>ss_trials := (ss_trials s)(fp \<mapsto> row\<lparr>tr_email := Some email\<rparr>)\<rparr> else s)
                       in (Inr (expires_at, True, unwrap_or email (tr_email row)), s'))))
      | None \<Rightarrow>
          (let expires_at = now + days (cfg_trial_days cfg);
               row = \<lparr>tr_email = Some email, tr_started_at = lib_rfc3339 L now,
                 tr_expires_at = lib_rfc3339 L expires_at,
                 tr_product = Some (unwrap_or ''migration-platform'' (ts_product req)),
                 tr_version = Some (unwrap_or [] (ts_version req)),
                 tr_last_heartbeat_at = Some (lib_rfc3339 L now), tr_heartbeat_count = 0,
                 tr_revoked_at = None, tr_revoked_reason = None\<rparr>
           in (Inr (expires_at, False, email), s\<lparr>ss_trials := (ss_trials s)(fp \<mapsto> row)\<rparr>)))"

definition trial_doc :: "instant \<Rightarrow> string \<Rightarrow> instant \<Rightarrow> string \<Rightarrow> license_doc" where
  "trial_doc now licensee expires_at fp =
     \<lparr>ld_licensee = licensee, ld_expires_at = expires_at, ld_features = [''core''], ld_max_seats = Some 5,
       ld_issued_at = Some now, ld_kind = Trial, ld_fingerprint = Some fp, ld_requires_heartbeat = True\<rparr>"

definition trial_start ::
    "libs \<Rightarrow> server_config \<Rightarrow> instant \<Rightarrow> instant \<Rightarrow> string option \<Rightarrow> trial_start_req \<Rightarrow> server_state
     \<Rightarrow> (server_error + trial_response) \<times> server_state" where
  "trial_start L cfg now clk header req s =
     (case authorize cfg header of Inl e \<Rightarrow> (Inl e, s) | Inr _ \<Rightarrow>
     (case normalize_fingerprint (ts_fingerprint req) of None \<Rightarrow> (Inl bad_fingerprint, s) | Some fp \<Rightarrow>
     (case trial_email (ts_email req) of Inl e \<Rightarrow> (Inl e, s) | Inr email \<Rightarrow>
     (case rate_limit clk fp s of (Inl e, s1) \<Rightarrow> (Inl e, s1) | (Inr _, s1) \<Rightarrow>
     (case trial_record L cfg now req fp email s1 of
        (Inl e, s2) \<Rightarrow> (Inl e, s2)
      | (Inr (expires_at, reused, licensee), s2) \<Rightarrow>
          (case sign L cfg (trial_doc now licensee expires_at fp) of
             Inl e \<Rightarrow> (Inl e, s2)
           | Inr license_file \<Rightarrow>
               (Inr \<lparr>tp_license_file = license_file, tp_expires_at = expires_at, tp_reused = reused\<rparr>, s2)))))))"

section \<open>\<open>POST /v1/heartbeat\<close>\<close>

record heartbeat_req =
  hb_fingerprint :: string
  hb_license_file :: json
  hb_product :: "string option"
  hb_version :: "string option"

record heartbeat_response =
  hp_license_file :: json
  hp_expires_at :: instant
  hp_issued_at :: instant

definition heartbeat_response_json :: "libs \<Rightarrow> heartbeat_response \<Rightarrow> json" where
  "heartbeat_response_json L r = json_obj [(''license_file'', hp_license_file r),
     (''expires_at'', JStr (lib_fmt_ts L (hp_expires_at r))), (''issued_at'', JStr (lib_fmt_ts L (hp_issued_at r)))]"

text \<open>
  The revocation that applies, if any. When both the licensee and the wildcard are revoked the
  query returns either row; \<open>wild_first\<close> says which.
\<close>

definition revocation_for :: "bool \<Rightarrow> server_state \<Rightarrow> string \<Rightarrow> string \<Rightarrow> string option" where
  "revocation_for wild_first s fp licensee =
     (let own = map_of (ss_revocations s) (fp, licensee);
          wild = map_of (ss_revocations s) (fp, ''*'') in
      map_option (\<lambda>r. unwrap_or ''revoked'' (rv_reason r))
        (if wild_first then or_else wild own else or_else own wild))"

text \<open>The server's record of a trial decides its expiry; a lost record is tolerated.\<close>

definition trial_heartbeat ::
    "libs \<Rightarrow> instant \<Rightarrow> heartbeat_req \<Rightarrow> string \<Rightarrow> license_doc \<Rightarrow> server_state
     \<Rightarrow> (server_error + license_doc) \<times> server_state" where
  "trial_heartbeat L now req fp doc s =
     (case ss_trials s fp of
        None \<Rightarrow> (Inr doc, s)
      | Some row \<Rightarrow>
          (case tr_revoked_reason row of
             Some reason \<Rightarrow> (Inl (server_error_new 403 ''revoked'' (''trial revoked: '' @ reason)), s)
           | None \<Rightarrow>
               (case parse_stored_ts L (tr_expires_at row) of
                  None \<Rightarrow> (Inl internal, s)
                | Some server_exp \<Rightarrow>
                    if server_exp \<le> now then (Inl (server_error_new 402 ''trial_expired''
                        (''trial expired at '' @ lib_show_ts L server_exp)), s)
                    else (Inr (doc\<lparr>ld_expires_at := server_exp\<rparr>),
                      s\<lparr>ss_trials := (ss_trials s)(fp \<mapsto> row\<lparr>
                          tr_last_heartbeat_at := Some (lib_rfc3339 L now),
                          tr_heartbeat_count := tr_heartbeat_count row + 1,
                          tr_product := or_else (hb_product req) (tr_product row),
                          tr_version := or_else (hb_version req) (tr_version row)\<rparr>)\<rparr>))))"

definition check_presented ::
    "libs \<Rightarrow> server_config \<Rightarrow> instant \<Rightarrow> json \<Rightarrow> string \<Rightarrow> server_error + license_doc" where
  "check_presented L cfg now license_file fp =
     (case verify_license L now (lib_print L license_file) (lib_public_of L (cfg_signing_key_pem cfg)) of
        Inl e \<Rightarrow>
          if sublist ''expired'' (verify_error_display L e)
          then Inl (server_error_new 402 ''expired'' (verify_error_display L e))
          else Inl (server_error_new 400 ''invalid_license'' ''presented license is not valid'')
      | Inr doc \<Rightarrow>
          if ld_fingerprint doc \<noteq> Some fp then Inl (server_error_new 400 ''fingerprint_mismatch''
              ''license is not bound to the presenting install'')
          else Inr doc)"

definition heartbeat ::
    "libs \<Rightarrow> server_config \<Rightarrow> instant \<Rightarrow> instant \<Rightarrow> bool \<Rightarrow> string option \<Rightarrow> heartbeat_req \<Rightarrow> server_state
     \<Rightarrow> (server_error + heartbeat_response) \<times> server_state" where
  "heartbeat L cfg now clk wild_first header req s =
     (case authorize cfg header of Inl e \<Rightarrow> (Inl e, s) | Inr _ \<Rightarrow>
     (case normalize_fingerprint (hb_fingerprint req) of None \<Rightarrow> (Inl bad_fingerprint, s) | Some fp \<Rightarrow>
     (case rate_limit clk fp s of (Inl e, s1) \<Rightarrow> (Inl e, s1) | (Inr _, s1) \<Rightarrow>
     (case check_presented L cfg now (hb_license_file req) fp of Inl e \<Rightarrow> (Inl e, s1) | Inr doc \<Rightarrow>
     (case revocation_for wild_first s1 fp (ld_licensee doc) of
        Some reason \<Rightarrow> (Inl (server_error_new 403 ''revoked'' (''license revoked: '' @ reason)), s1)
      | None \<Rightarrow>
     (case (if ld_kind doc = Trial then trial_heartbeat L now req fp doc s1 else (Inr doc, s1)) of
        (Inl e, s2) \<Rightarrow> (Inl e, s2)
      | (Inr doc1, s2) \<Rightarrow>
          (let doc2 = doc1\<lparr>ld_issued_at := Some now, ld_requires_heartbeat := True\<rparr> in
           case sign L cfg doc2 of
             Inl e \<Rightarrow> (Inl e, s2)
           | Inr license_file \<Rightarrow>
               (Inr \<lparr>hp_license_file = license_file, hp_expires_at = ld_expires_at doc2,
                  hp_issued_at = now\<rparr>, s2))))))))"

end
