(* ===== verification/License_Server_Facts.thy ===== *)
theory License_Server_Facts
  imports License_Server License_Facts
begin

text \<open>
  What holds of the license service: the bearer check accepts exactly the configured token, the
  limiters space requests out, an install never gets a second trial period, a revoked license is
  never renewed, and a renewal changes nothing but the attestation.
\<close>

section \<open>Bearer check\<close>

lemma or_xor_zero: "(acc :: byte_word) OR (x XOR y) = 0 \<longleftrightarrow> acc = 0 \<and> x = y"
  by (auto simp: bit_eq_iff bit_or_iff bit_xor_iff)

lemma foldl_or_xor:
  "foldl (\<lambda>acc (x, y). acc OR (x XOR y)) (acc :: byte_word) zs = 0 \<longleftrightarrow> acc = 0 \<and> (\<forall>(x, y) \<in> set zs. x = y)"
  by (induction zs arbitrary: acc) (auto simp: or_xor_zero)

lemma constant_time_eq_iff: "constant_time_eq a b \<longleftrightarrow> a = b"
proof (cases "length a = length b")
  case True
  then show ?thesis
    by (simp add: constant_time_eq_def foldl_or_xor list_eq_iff_zip_eq)
next
  case False
  then show ?thesis by (auto simp: constant_time_eq_def)
qed

lemma to_bytes_inj: "to_bytes a = to_bytes b \<longleftrightarrow> a = b"
proof -
  have "inj (\<lambda>c. word_of_nat (byte c) :: byte_word)"
  proof (rule injI)
    fix c d assume "word_of_nat (byte c) = (word_of_nat (byte d) :: byte_word)"
    then have "unat (word_of_nat (byte c) :: byte_word) = unat (word_of_nat (byte d) :: byte_word)" by simp
    then have "byte c = byte d" using byte_lt [of c] byte_lt [of d] by (simp add: unat_of_nat)
    then show "c = d" by (simp add: byte_def)
  qed
  then show ?thesis unfolding to_bytes_def by (simp add: inj_map_eq_map)
qed

text \<open>
  The constant-time comparison behind the bearer check is equality of strings: a request is
  authorized exactly when its Authorization header is the word Bearer, one space and the
  configured token, or when the token is empty and no such header is sent, which a validated
  configuration excludes.
\<close>

theorem authorize_exact:
  assumes "validate_config L cfg = Inr ()"
  shows "authorize cfg header = Inr () \<longleftrightarrow> header = Some (''Bearer '' @ cfg_activation_token cfg)"
proof -
  have t: "cfg_activation_token cfg \<noteq> []"
    using assms by (auto simp: validate_config_def MIN_TOKEN_LEN_def split: if_splits)
  show ?thesis
    using t by (auto simp: authorize_def Let_def constant_time_eq_iff to_bytes_inj strip_prefix_def prefix_def
        split: if_splits option.splits)
      (cases header; auto simp: strip_prefix_def prefix_def split: if_splits)
qed

definition demo_cfg :: server_config where
  "demo_cfg = \<lparr>cfg_signing_key_pem = ''key'', cfg_activation_token = replicate 32 (CHR ''t''), cfg_trial_days = 10\<rparr>"

theorem authorize_exact_witness:
  "authorize demo_cfg (Some (''Bearer '' @ replicate 32 (CHR ''t''))) = Inr ()
   \<and> authorize demo_cfg (Some ''Bearer x'') \<noteq> Inr ()"
proof -
  have "validate_config demo_libs demo_cfg = Inr ()"
    by (simp add: validate_config_def demo_cfg_def MIN_TOKEN_LEN_def demo_libs_def)
  note iff = authorize_exact [OF this]
  have "length (cfg_activation_token demo_cfg) \<noteq> length ''x''" by (simp add: demo_cfg_def)
  then have "cfg_activation_token demo_cfg \<noteq> ''x''" by metis
  then show ?thesis unfolding iff by (simp add: demo_cfg_def)
qed

section \<open>Fingerprints\<close>

lemma hexdigit_lower: "is_ascii_hexdigit c \<Longrightarrow> to_lower (to_lower c) = to_lower c"
  by simp

lemma normalize_Some: "normalize_fingerprint raw = Some fp \<Longrightarrow>
   fp = to_ascii_lowercase (trim raw) \<and> list_all is_ascii_hexdigit fp \<and> 16 \<le> length fp \<and> length fp \<le> 128"
  by (auto simp: normalize_fingerprint_def Let_def split: if_splits)

section \<open>Rate limits\<close>

lemma rate_limit_frame [simp]:
  "ss_trials (snd (rate_limit clk fp s)) = ss_trials s"
  "ss_revocations (snd (rate_limit clk fp s)) = ss_revocations s"
  by (simp_all add: rate_limit_def Let_def)

lemma map_of_filter_hit: "map_of m k = Some v \<Longrightarrow> P (k, v) \<Longrightarrow> map_of (filter P m) k = Some v"
  by (induction m) (auto split: if_splits)

text \<open>A sequence of requests, each with its clock reading and fingerprint, whatever their outcome.\<close>

fun limiter_run :: "(instant \<times> string) list \<Rightarrow> server_state \<Rightarrow> server_state" where
  "limiter_run [] s = s"
| "limiter_run ((t, f) # cs) s = limiter_run cs (snd (rate_limit t f s))"

definition seen_between :: "string \<Rightarrow> instant \<Rightarrow> instant \<Rightarrow> server_state \<Rightarrow> bool" where
  "seen_between fp t1 t2 s \<longleftrightarrow> (\<exists>p. map_of (ss_per_fingerprint s) fp = Some p \<and> t1 \<le> p \<and> p \<le> t2)"

lemma rate_limit_seen:
  assumes "seen_between fp t1 t2 s \<or> f = fp \<and> fst (rate_limit t f s) = Inr ()"
    and "t1 \<le> t" and "t \<le> t2" and "t2 - t1 < secs 300"
  shows "seen_between fp t1 t2 (snd (rate_limit t f s))"
proof -
  have keep: "since t p < secs 300" if "t1 \<le> p" for p
    using that assms(2-4) by (auto simp: since_def secs_def nanos_per_sec_def)
  have "map_of (filter (\<lambda>(_, seen). since t seen < secs 300) m) k = Some p"
    if "map_of m k = Some p" "t1 \<le> p" for m :: "instant btree" and k p
    using map_of_filter_hit [OF that(1), of "\<lambda>(_, seen). since t seen < secs 300"] keep [OF that(2)] by simp
  then show ?thesis
    using assms(1-3) unfolding seen_between_def rate_limit_def Let_def
    by (cases "f = fp") (auto split: if_splits option.splits)
qed

lemma limiter_run_seen:
  "seen_between fp t1 t2 s \<Longrightarrow> \<forall>(t, f) \<in> set cs. t1 \<le> t \<and> t \<le> t2 \<Longrightarrow> t2 - t1 < secs 300
   \<Longrightarrow> seen_between fp t1 t2 (limiter_run cs s)"
  by (induction cs arbitrary: s) (auto simp: rate_limit_seen)

text \<open>
  Two accepted requests of one install are at least five seconds apart, however many other
  requests are served in between and even when the table of recent requests is pruned.
\<close>

theorem per_install_spacing:
  assumes "rate_limit t1 fp s = (Inr (), s1)"
    and "\<forall>(t, f) \<in> set calls. t1 \<le> t \<and> t \<le> t2" and "t1 \<le> t2"
    and "rate_limit t2 fp (limiter_run calls s1) = (Inr (), s2)"
  shows "secs 5 \<le> t2 - t1"
proof (rule ccontr)
  assume "\<not> secs 5 \<le> t2 - t1"
  then have lt: "t2 - t1 < secs 5" "t2 - t1 < secs 300" by (simp_all add: secs_def nanos_per_sec_def)
  have "seen_between fp t1 t2 s1"
    using rate_limit_seen [of fp t1 t2 s fp t1] assms(1,3) lt(2) by simp
  with assms(2) lt(2) have "seen_between fp t1 t2 (limiter_run calls s1)" by (blast intro: limiter_run_seen)
  then obtain p where "map_of (ss_per_fingerprint (limiter_run calls s1)) fp = Some p" "t1 \<le> p" "p \<le> t2"
    by (auto simp: seen_between_def)
  moreover from this lt(1) have "since t2 p < PER_FINGERPRINT_INTERVAL"
    by (auto simp: since_def PER_FINGERPRINT_INTERVAL_def secs_def nanos_per_sec_def)
  ultimately show False using assms(4) by (auto simp: rate_limit_def Let_def split: if_splits)
qed

theorem per_install_spacing_witness:
  "fst (rate_limit 0 ''f'' (new_state 0)) = Inr ()
   \<and> fst (rate_limit (secs 6) ''f'' (limiter_run [(secs 2, ''g'')] (snd (rate_limit 0 ''f'' (new_state 0))))) = Inr ()
   \<and> secs 5 \<le> secs 6 - 0"
proof -
  let ?s1 = "snd (rate_limit 0 ''f'' (new_state 0))"
  let ?r2 = "rate_limit (secs 6) ''f'' (limiter_run [(secs 2, ''g'')] ?s1)"
  have fa: "fst (rate_limit 0 ''f'' (new_state 0)) = Inr ()" by code_simp
  have fb: "fst ?r2 = Inr ()" by code_simp
  have a: "rate_limit 0 ''f'' (new_state 0) = (Inr (), ?s1)" using fa by (metis prod.collapse)
  have b: "?r2 = (Inr (), snd ?r2)" using fb by (metis prod.collapse)
  have c: "\<forall>(t, f) \<in> set [(secs 2, ''g'')]. 0 \<le> t \<and> t \<le> secs 6" "0 \<le> secs 6"
    by (simp_all add: secs_def nanos_per_sec_def)
  show ?thesis using per_install_spacing [OF a c b] fa fb by simp
qed

fun accepted :: "(instant \<times> string) list \<Rightarrow> server_state \<Rightarrow> nat" where
  "accepted [] s = 0"
| "accepted ((t, f) # cs) s =
     (if fst (rate_limit t f s) = Inr () then 1 else 0) + accepted cs (snd (rate_limit t f s))"

lemma accepted_window:
  assumes "\<forall>(t, f) \<in> set cs. since t w < secs 1" and "ss_global s = (w, n)"
  shows "accepted cs s + min n GLOBAL_PER_SECOND \<le> GLOBAL_PER_SECOND"
  using assms
proof (induction cs arbitrary: s n)
  case Nil
  then show ?case by simp
next
  case (Cons c cs)
  obtain t f where c: "c = (t, f)" by (cases c)
  with Cons.prems have w: "\<not> secs 1 \<le> since t w" and cs: "\<forall>(t, f) \<in> set cs. since t w < secs 1" by auto
  show ?case
  proof (cases "GLOBAL_PER_SECOND \<le> n")
    case True
    with w Cons.prems(2) have r: "rate_limit t f s = (Inl rate_limited, s)"
      by (cases s) (simp add: rate_limit_def)
    then show ?thesis using Cons.IH [OF cs Cons.prems(2)] c by simp
  next
    case False
    with w Cons.prems(2) have "ss_global (snd (rate_limit t f s)) = (w, n + 1)"
      by (simp add: rate_limit_def Let_def)
    from Cons.IH [OF cs this] False c show ?thesis by (simp add: min_def split: if_splits)
  qed
qed

text \<open>
  Within one second of the start of a counting window the service accepts at most twenty
  requests, over all installs together.
\<close>

theorem global_limit:
  assumes "\<forall>(t, f) \<in> set calls. w \<le> t \<and> t < w + secs 1" and "fst (ss_global s) = w"
  shows "accepted calls s \<le> 20"
proof -
  obtain n where "ss_global s = (w, n)" using assms(2) by (cases "ss_global s") auto
  moreover have "\<forall>(t, f) \<in> set calls. since t w < secs 1"
    using assms(1) by (auto simp: since_def secs_def nanos_per_sec_def)
  ultimately have "accepted calls s + min n GLOBAL_PER_SECOND \<le> GLOBAL_PER_SECOND" by (rule accepted_window [rotated])
  then show ?thesis by (simp add: GLOBAL_PER_SECOND_def)
qed

theorem global_limit_witness:
  "accepted [(1, ''f''), (2, ''g'')] (new_state 0) \<le> 20"
  by (rule global_limit [of _ 0]) (simp_all add: new_state_def secs_def nanos_per_sec_def)

section \<open>Runs of the service\<close>

text \<open>
  One request or one operator action. Lifting a revocation is allowed for every fingerprint
  outside \<open>keep\<close>, so \<open>keep = {}\<close> is the unrestricted service.
\<close>

inductive srv_step :: "libs \<Rightarrow> server_config \<Rightarrow> string set \<Rightarrow> server_state \<Rightarrow> server_state \<Rightarrow> bool"
  for L cfg keep where
  srv_trial: "srv_step L cfg keep s (snd (trial_start L cfg now clk header req s))"
| srv_heartbeat: "srv_step L cfg keep s (snd (heartbeat L cfg now clk wild header hreq s))"
| srv_revoke: "srv_step L cfg keep s (snd (revoke L now f licensee reason s))"
| srv_unrevoke: "(\<And>fp. normalize_fingerprint f = Some fp \<Longrightarrow> fp \<notin> keep) \<Longrightarrow>
    srv_step L cfg keep s (snd (unrevoke f licensee_opt s))"

inductive_cases srv_stepE: "srv_step L cfg keep s s'"

text \<open>The trial of an install, with the expiry the stored text reads back as.\<close>

definition trial_until :: "libs \<Rightarrow> string \<Rightarrow> instant \<Rightarrow> server_state \<Rightarrow> bool" where
  "trial_until L fp e s \<longleftrightarrow> (\<exists>row. ss_trials s fp = Some row \<and> parse_stored_ts L (tr_expires_at row) = Some e)"

definition revoked_for :: "string \<Rightarrow> string \<Rightarrow> server_state \<Rightarrow> bool" where
  "revoked_for fp licensee s \<longleftrightarrow> map_of (ss_revocations s) (fp, licensee) \<noteq> None"

lemma trial_record_until:
  "trial_until L fp e s \<Longrightarrow> trial_until L fp e (snd (trial_record L cfg now req fp' email s))"
  by (auto simp: trial_until_def trial_record_def Let_def split: option.splits)

lemma trial_heartbeat_until:
  "trial_until L fp e s \<Longrightarrow> trial_until L fp e (snd (trial_heartbeat L now req fp' doc s))"
  by (auto simp: trial_until_def trial_heartbeat_def Let_def split: option.splits)

lemma until_rate_limit [simp]: "trial_until L fp e (snd (rate_limit clk f s)) = trial_until L fp e s"
  by (simp add: trial_until_def)

lemma trial_start_cases:
  assumes "trial_start L cfg now clk header req s = (out, s')"
  obtains (early) er where "out = Inl er" "s' = s"
  | (limited) er fp where "out = Inl er" "rate_limit clk fp s = (Inl er, s')"
  | (recorded) fp email s1 r where "normalize_fingerprint (ts_fingerprint req) = Some fp"
      "rate_limit clk fp s = (Inr (), s1)" "trial_record L cfg now req fp email s1 = (r, s')"
      "(case r of Inl er \<Rightarrow> out = Inl er
        | Inr (e, reused, licensee) \<Rightarrow> (\<forall>resp. out = Inr resp \<longrightarrow> tp_expires_at resp = e \<and> tp_reused resp = reused
            \<and> sign L cfg (trial_doc now licensee e fp) = Inr (tp_license_file resp)))"
  using assms unfolding trial_start_def
  by (auto split: sum.splits option.splits prod.splits)

lemma heartbeat_cases:
  assumes "heartbeat L cfg now clk wild header req s = (out, s')"
  obtains (early) er where "out = Inl er" "s' = s"
  | (limited) er fp where "out = Inl er" "rate_limit clk fp s = (Inl er, s')"
  | (refused) er fp where "out = Inl er" "rate_limit clk fp s = (Inr (), s')"
  | (served) fp s1 doc r where "normalize_fingerprint (hb_fingerprint req) = Some fp"
      "rate_limit clk fp s = (Inr (), s1)" "check_presented L cfg now (hb_license_file req) fp = Inr doc"
      "revocation_for wild s1 fp (ld_licensee doc) = None"
      "(if ld_kind doc = Trial then trial_heartbeat L now req fp doc s1 else (Inr doc, s1)) = (r, s')"
      "(case r of Inl er \<Rightarrow> out = Inl er
        | Inr doc1 \<Rightarrow> (\<forall>resp. out = Inr resp \<longrightarrow> hp_expires_at resp = ld_expires_at doc1 \<and> hp_issued_at resp = now
            \<and> sign L cfg (doc1\<lparr>ld_issued_at := Some now, ld_requires_heartbeat := True\<rparr>) = Inr (hp_license_file resp)))"
  using assms unfolding heartbeat_def Let_def
  by (auto split: sum.splits option.splits prod.splits)

lemma frame_of_rate_limit:
  "rate_limit clk fp s = (r, s') \<Longrightarrow> ss_trials s' = ss_trials s \<and> ss_revocations s' = ss_revocations s"
  using rate_limit_frame [of clk fp s] by simp

lemma trial_start_until:
  assumes "trial_until L fp e s"
  shows "trial_until L fp e (snd (trial_start L cfg now clk header req s))"
proof -
  obtain out s' where r: "trial_start L cfg now clk header req s = (out, s')" by fastforce
  from r show ?thesis
  proof (cases rule: trial_start_cases)
    case recorded
    then show ?thesis
      using assms r trial_record_until [of L fp e] frame_of_rate_limit by (metis snd_conv trial_until_def)
  qed (use assms r frame_of_rate_limit in \<open>auto simp: trial_until_def\<close>)
qed

lemma heartbeat_until:
  assumes "trial_until L fp e s"
  shows "trial_until L fp e (snd (heartbeat L cfg now clk wild header req s))"
proof -
  obtain out s' where r: "heartbeat L cfg now clk wild header req s = (out, s')" by fastforce
  from r show ?thesis
  proof (cases rule: heartbeat_cases)
    case (served fp' s1 doc q)
    then have "trial_until L fp e s1" using assms frame_of_rate_limit by (metis trial_until_def)
    with served(5) trial_heartbeat_until [OF this, of now req fp' doc] r show ?thesis
      by (auto split: if_splits)
  qed (use assms r frame_of_rate_limit in \<open>auto simp: trial_until_def\<close>)
qed

lemma srv_step_until: "srv_step L cfg keep s s' \<Longrightarrow> trial_until L fp e s \<Longrightarrow> trial_until L fp e s'"
proof (induction rule: srv_step.induct)
  case (srv_revoke s now f licensee reason)
  then show ?case by (auto simp: revoke_def trial_until_def Let_def split: option.splits)
next
  case (srv_unrevoke f s licensee_opt)
  then show ?case by (auto simp: unrevoke_def trial_until_def Let_def split: option.splits)
qed (auto intro: trial_start_until heartbeat_until)

interpretation trials: kept_by_steps "srv_step L cfg keep" "trial_until L fp e" for L cfg keep fp e
  by unfold_locales (rule srv_step_until)

definition stored_ts_ok :: "libs \<Rightarrow> bool" where
  "stored_ts_ok L \<longleftrightarrow> (\<forall>t. lib_parse_rfc3339 L (lib_rfc3339 L t) = Some t)"

lemma trial_start_success:
  assumes "trial_start L cfg now clk header req s = (Inr resp, s')"
    and "normalize_fingerprint (ts_fingerprint req) = Some fp" and "stored_ts_ok L"
  shows "trial_until L fp (tp_expires_at resp) s'"
    and "if tp_reused resp then trial_until L fp (tp_expires_at resp) s \<and> now < tp_expires_at resp
         else ss_trials s fp = None \<and> tp_expires_at resp = now + days (cfg_trial_days cfg)"
  using assms(1)
proof (atomize(full), cases rule: trial_start_cases)
  case (recorded fp' email s1 r)
  with assms(2) frame_of_rate_limit [OF recorded(2)] assms(3)
  show "trial_until L fp (tp_expires_at resp) s' \<and>
    (if tp_reused resp then trial_until L fp (tp_expires_at resp) s \<and> now < tp_expires_at resp
         else ss_trials s fp = None \<and> tp_expires_at resp = now + days (cfg_trial_days cfg))"
    by (auto simp: trial_record_def trial_until_def Let_def parse_stored_ts_def stored_ts_ok_def
        split: option.splits if_splits)
qed simp_all

text \<open>
  C8: An install gets one trial period, ever. The first successful start fixes the expiry at the
  configured number of days from then; whatever requests, heartbeats, revocations and
  reinstatements follow, a later successful start for the same fingerprint, in any spelling and
  with any e-mail address, returns that same expiry, says that it is reused, and only succeeds
  before that expiry.
\<close>

theorem one_trial_per_install:
  assumes "stored_ts_ok L"
    and "trial_start L cfg now1 clk1 h1 req1 s = (Inr resp1, s1)"
    and "(srv_step L cfg {})\<^sup>*\<^sup>* s1 s2"
    and "trial_start L cfg now2 clk2 h2 req2 s2 = (Inr resp2, s3)"
    and "normalize_fingerprint (ts_fingerprint req1) = Some fp"
    and "normalize_fingerprint (ts_fingerprint req2) = Some fp"
  shows "tp_expires_at resp2 = tp_expires_at resp1 \<and> tp_reused resp2 \<and> now2 < tp_expires_at resp1
    \<and> (\<not> tp_reused resp1 \<longrightarrow> tp_expires_at resp1 = now1 + days (cfg_trial_days cfg))"
proof -
  note first = trial_start_success [OF assms(2,5,1)]
  note second = trial_start_success [OF assms(4,6,1)]
  have "trial_until L fp (tp_expires_at resp1) s2" by (rule trials.run_keeps [OF assms(3) first(1)])
  with second(2) first(2) show ?thesis by (auto simp: trial_until_def split: if_splits)
qed

definition demo_fp :: string where
  "demo_fp = replicate 16 (CHR ''a'')"

definition demo_req :: trial_start_req where
  "demo_req = \<lparr>ts_fingerprint = demo_fp, ts_email = Some ''a@b.co'', ts_product = None, ts_version = None\<rparr>"

definition demo_bearer :: "string option" where
  "demo_bearer = Some (''Bearer '' @ cfg_activation_token demo_cfg)"

lemma demo_guards:
  "authorize demo_cfg demo_bearer = Inr ()" "normalize_fingerprint demo_fp = Some demo_fp"
  "trial_email (Some ''a@b.co'') = Inr ''a@b.co''" "ts_fingerprint demo_req = demo_fp"
  by code_simp+

lemma demo_libs_fields:
  "lib_parse demo_libs (lib_print demo_libs v) = Some v" "lib_parse demo_libs (lib_pretty demo_libs v) = Some v"
  "lib_parse_rfc3339 demo_libs (lib_rfc3339 demo_libs t) = Some t" "lib_private_key demo_libs k"
  "lib_public_of demo_libs k = k"
  by (simp_all add: demo_libs_def)

lemma demo_sign: "\<exists>lf. sign demo_libs demo_cfg doc = Inr lf"
  by (simp add: sign_def sign_license_def Let_def demo_libs_fields)

lemma demo_first_trial:
  "\<exists>resp s1. trial_start demo_libs demo_cfg 0 0 demo_bearer demo_req (new_state 0) = (Inr resp, s1)
     \<and> ss_per_fingerprint s1 = [(demo_fp, 0)] \<and> ss_global s1 = (0, 1) \<and> \<not> tp_reused resp
     \<and> (\<exists>row. ss_trials s1 demo_fp = Some row \<and> parse_stored_ts demo_libs (tr_expires_at row) = Some (days 10)
          \<and> tr_revoked_reason row = None)"
proof -
  obtain lf where "sign demo_libs demo_cfg (trial_doc 0 ''a@b.co'' (days 10) demo_fp) = Inr lf"
    using demo_sign by blast
  then show ?thesis
    using demo_guards
    by (simp add: trial_start_def demo_req_def rate_limit_def new_state_def trial_record_def Let_def since_def
        secs_def nanos_per_sec_def GLOBAL_PER_SECOND_def parse_stored_ts_def demo_libs_fields demo_cfg_def)
qed

lemma demo_second_trial:
  assumes "ss_per_fingerprint s1 = [(demo_fp, 0)]" "ss_global s1 = (0, 1)"
    "ss_trials s1 demo_fp = Some row" "parse_stored_ts demo_libs (tr_expires_at row) = Some (days 10)"
    "tr_revoked_reason row = None"
  shows "\<exists>resp s2. trial_start demo_libs demo_cfg (secs 9) (secs 9) demo_bearer demo_req s1 = (Inr resp, s2)"
proof -
  obtain lf where "sign demo_libs demo_cfg (trial_doc (secs 9) (unwrap_or ''a@b.co'' (tr_email row)) (days 10) demo_fp) = Inr lf"
    using demo_sign by blast
  then show ?thesis
    using assms demo_guards
    by (simp add: trial_start_def demo_req_def rate_limit_def trial_record_def Let_def since_def
        secs_def nanos_per_sec_def GLOBAL_PER_SECOND_def PER_FINGERPRINT_INTERVAL_def days_def hours_def)
qed

lemma demo_stored_ts: "stored_ts_ok demo_libs"
  by (simp add: stored_ts_ok_def demo_libs_fields)

theorem one_trial_per_install_witness:
  "\<exists>resp1 s1 resp2 s2.
     trial_start demo_libs demo_cfg 0 0 demo_bearer demo_req (new_state 0) = (Inr resp1, s1)
     \<and> trial_start demo_libs demo_cfg (secs 9) (secs 9) demo_bearer demo_req s1 = (Inr resp2, s2)
     \<and> tp_expires_at resp2 = tp_expires_at resp1 \<and> tp_reused resp2 \<and> tp_expires_at resp1 = days 10"
proof -
  from demo_first_trial obtain resp1 s1 row where
    a: "trial_start demo_libs demo_cfg 0 0 demo_bearer demo_req (new_state 0) = (Inr resp1, s1)" and n: "\<not> tp_reused resp1"
    and st: "ss_per_fingerprint s1 = [(demo_fp, 0)]" "ss_global s1 = (0, 1)" "ss_trials s1 demo_fp = Some row"
      "parse_stored_ts demo_libs (tr_expires_at row) = Some (days 10)" "tr_revoked_reason row = None"
    by blast
  from demo_second_trial [OF st] obtain resp2 s2 where
    b: "trial_start demo_libs demo_cfg (secs 9) (secs 9) demo_bearer demo_req s1 = (Inr resp2, s2)" by blast
  have fp: "normalize_fingerprint (ts_fingerprint demo_req) = Some demo_fp" by (simp add: demo_guards)
  from one_trial_per_install [OF demo_stored_ts a rtranclp.rtrancl_refl b fp fp] a b n
  show ?thesis by (auto simp: demo_cfg_def)
qed

lemma revoked_step:
  "srv_step L cfg keep s s' \<Longrightarrow> fp \<in> keep \<Longrightarrow> revoked_for fp l s \<Longrightarrow> revoked_for fp l s'"
proof (induction rule: srv_step.induct)
  case (srv_trial s now clk header req)
  obtain out s' where r: "trial_start L cfg now clk header req s = (out, s')" by fastforce
  then have "ss_revocations s' = ss_revocations s"
    by (cases rule: trial_start_cases)
      (auto dest!: frame_of_rate_limit simp: trial_record_def Let_def split: option.splits if_splits)
  with srv_trial r show ?case by (simp add: revoked_for_def)
next
  case (srv_heartbeat s now clk wild header hreq)
  obtain out s' where r: "heartbeat L cfg now clk wild header hreq s = (out, s')" by fastforce
  then have "ss_revocations s' = ss_revocations s"
    by (cases rule: heartbeat_cases)
      (auto dest!: frame_of_rate_limit simp: trial_heartbeat_def Let_def split: option.splits if_splits)
  with srv_heartbeat r show ?case by (simp add: revoked_for_def)
next
  case (srv_revoke s now f licensee reason)
  then show ?case by (auto simp: revoke_def revoked_for_def update_conv' Let_def split: option.splits)
next
  case (srv_unrevoke f s licensee_opt)
  show ?case
  proof (cases "normalize_fingerprint f")
    case (Some g)
    with srv_unrevoke.hyps srv_unrevoke.prems(1) have "g \<noteq> fp" by blast
    moreover from srv_unrevoke.prems(2) obtain v where "map_of (ss_revocations s) (fp, l) = Some v"
      by (auto simp: revoked_for_def)
    ultimately show ?thesis using Some
      by (simp add: unrevoke_def revoked_for_def Let_def map_of_filter_hit)
  qed (use srv_unrevoke.prems in \<open>simp add: unrevoke_def\<close>)
qed

interpretation revocations: kept_by_steps "srv_step L cfg {fp}" "revoked_for fp l" for L cfg fp l
  by unfold_locales (auto intro: revoked_step)

lemma revoke_records:
  assumes "revoke L now f licensee reason s = (Some (), s')" and "normalize_fingerprint f = Some fp"
  shows "revoked_for fp licensee s'"
  using assms by (auto simp: revoke_def revoked_for_def update_conv' Let_def)

lemma check_presented_verified:
  "check_presented L cfg now file fp = Inr doc \<Longrightarrow>
   verify_license L now (lib_print L file) (lib_public_of L (cfg_signing_key_pem cfg)) = Inr doc
   \<and> ld_fingerprint doc = Some fp"
  by (auto simp: check_presented_def split: sum.splits if_splits)

text \<open>
  C16: Once an operator has revoked a license (a licensee's or, with the wildcard, every one) on
  an install, no heartbeat renews it: as long as nobody lifts a revocation of that install, each
  heartbeat that presents a license of that licensee for that install is refused, whatever else
  the service does in between.
\<close>

theorem revoked_license_never_renewed:
  assumes "revoke L now0 f licensee reason s = (Some (), s1)" and "normalize_fingerprint f = Some fp"
    and "(srv_step L cfg {fp})\<^sup>*\<^sup>* s1 s2"
    and "normalize_fingerprint (hb_fingerprint req) = Some fp"
    and "licensee = ''*'' \<or> (\<forall>doc. verify_license L now (lib_print L (hb_license_file req))
           (lib_public_of L (cfg_signing_key_pem cfg)) = Inr doc \<longrightarrow> ld_licensee doc = licensee)"
  shows "\<exists>e. fst (heartbeat L cfg now clk wild header req s2) = Inl e"
proof -
  have rv: "revoked_for fp licensee s2"
    by (rule revocations.run_keeps [OF assms(3) revoke_records [OF assms(1,2)]])
  obtain out s3 where r: "heartbeat L cfg now clk wild header req s2 = (out, s3)" by fastforce
  then show ?thesis
  proof (cases rule: heartbeat_cases)
    case (served fp' s' doc q)
    then have "fp' = fp" and "revoked_for fp licensee s'"
      using assms(4) rv frame_of_rate_limit by (auto simp: revoked_for_def)
    moreover have "licensee = ''*'' \<or> ld_licensee doc = licensee"
      using assms(5) check_presented_verified [OF served(3)] by blast
    ultimately have "revocation_for wild s' fp' (ld_licensee doc) \<noteq> None"
      by (auto simp: revocation_for_def revoked_for_def Let_def or_else_def split: option.splits)
    with served(4) show ?thesis by simp
  qed (simp_all add: r)
qed

theorem revoked_license_never_renewed_witness:
  "\<exists>e. fst (heartbeat demo_libs demo_cfg 0 0 True demo_bearer
     \<lparr>hb_fingerprint = demo_fp, hb_license_file = JNull, hb_product = None, hb_version = None\<rparr>
     (snd (revoke demo_libs 0 demo_fp ''*'' ''fraud'' (new_state 0)))) = Inl e"
proof (rule revoked_license_never_renewed [OF _ demo_guards(2) rtranclp.rtrancl_refl])
  show "revoke demo_libs 0 demo_fp ''*'' ''fraud'' (new_state 0)
    = (Some (), snd (revoke demo_libs 0 demo_fp ''*'' ''fraud'' (new_state 0)))"
    by (simp add: revoke_def demo_guards Let_def)
qed (simp_all add: demo_guards)

text \<open>
  A heartbeat renews and nothing else. When it succeeds, the answer is a signature over the
  presented document, which verified and is bound to the caller's install, with the attestation
  time set to now; a commercial expiry is the presented one, a trial expiry is the one in the
  server's table, and in no case is an expired license renewed.
\<close>

theorem heartbeat_only_refreshes:
  assumes "heartbeat L cfg now clk wild header req s = (Inr resp, s')"
  shows "\<exists>fp doc. normalize_fingerprint (hb_fingerprint req) = Some fp
    \<and> verify_license L now (lib_print L (hb_license_file req)) (lib_public_of L (cfg_signing_key_pem cfg)) = Inr doc
    \<and> ld_fingerprint doc = Some fp
    \<and> sign L cfg (doc\<lparr>ld_expires_at := hp_expires_at resp, ld_issued_at := Some now, ld_requires_heartbeat := True\<rparr>)
        = Inr (hp_license_file resp)
    \<and> now < hp_expires_at resp
    \<and> (if ld_kind doc = Trial \<and> ss_trials s fp \<noteq> None then trial_until L fp (hp_expires_at resp) s
       else hp_expires_at resp = ld_expires_at doc)"
  using assms
proof (cases rule: heartbeat_cases)
  case (served fp s1 doc r)
  note v = check_presented_verified [OF served(3)]
  have lt: "now < ld_expires_at doc"
    using v by (auto simp: verify_license_def split: option.splits if_splits)
  have tr: "ss_trials s1 = ss_trials s" using frame_of_rate_limit [OF served(2)] by simp
  have upd: "doc\<lparr>ld_expires_at := ld_expires_at doc, ld_issued_at := Some now, ld_requires_heartbeat := True\<rparr>
      = doc\<lparr>ld_issued_at := Some now, ld_requires_heartbeat := True\<rparr>" by simp
  from served(5,6) lt tr upd v served(1) show ?thesis
    by (cases "ld_kind doc = Trial")
      (auto simp: trial_heartbeat_def trial_until_def Let_def split: option.splits if_splits sum.splits)
qed simp_all

text \<open>What the server signs is what the other side verifies.\<close>

lemma sign_presentable:
  assumes "json_text_ok L" and "timestamps_ok L" and "signatures_ok L (cfg_signing_key_pem cfg)"
    and "seats_ok doc" and "sign L cfg doc = Inr lf"
  shows "json_wf lf" and "jget lf ''license'' \<noteq> None \<and> jget lf ''signature'' \<noteq> None"
    and "now < ld_expires_at doc \<Longrightarrow>
      verify_license L now (lib_print L lf) (lib_public_of L (cfg_signing_key_pem cfg)) = Inr doc"
proof -
  let ?l = "doc_to_json L doc"
  let ?f = "file_to_json ?l (lib_b64_encode L (lib_sign L (cfg_signing_key_pem cfg) (canonical_bytes L ?l)))"
  have wf: "json_wf ?f" using file_json_wf [OF doc_to_json_wf [OF assms(4)]] .
  then have lf: "lf = ?f"
    using assms(1,3,5) by (simp add: sign_def sign_license_def Let_def json_text_ok_def signatures_ok_def)
  with wf show "json_wf lf" by simp
  show "jget lf ''license'' \<noteq> None \<and> jget lf ''signature'' \<noteq> None" by (simp add: lf file_to_json_def)
  show "verify_license L now (lib_print L lf) (lib_public_of L (cfg_signing_key_pem cfg)) = Inr doc"
    if "now < ld_expires_at doc"
    using assms(1,3) wf that doc_json_roundtrip [OF assms(2,4)]
    by (simp add: lf verify_license_def json_text_ok_def signatures_ok_def)
qed

lemma sign_total:
  assumes "json_text_ok L" and "signatures_ok L (cfg_signing_key_pem cfg)" and "seats_ok doc"
  shows "\<exists>lf. sign L cfg doc = Inr lf"
  using assms file_json_wf [OF doc_to_json_wf [OF assms(3)]]
  by (simp add: sign_def sign_license_def Let_def json_text_ok_def signatures_ok_def)

definition demo_trial :: license_doc where
  "demo_trial = trial_doc 0 ''a@b.co'' (days 10) demo_fp"

theorem heartbeat_only_refreshes_witness:
  "\<exists>lf resp s'. heartbeat demo_libs demo_cfg (days 1) 0 True demo_bearer
       \<lparr>hb_fingerprint = demo_fp, hb_license_file = lf, hb_product = None, hb_version = None\<rparr> (new_state 0) = (Inr resp, s')
     \<and> hp_expires_at resp = days 10"
proof -
  have seats: "seats_ok demo_trial" "seats_ok (demo_trial\<lparr>ld_issued_at := Some t, ld_requires_heartbeat := b\<rparr>)" for t b
    by (simp_all add: seats_ok_def demo_trial_def trial_doc_def)
  obtain lf lf2 where lf: "sign demo_libs demo_cfg demo_trial = Inr lf"
    and lf2: "sign demo_libs demo_cfg (demo_trial\<lparr>ld_issued_at := Some (days 1), ld_requires_heartbeat := True\<rparr>) = Inr lf2"
    using demo_sign by blast
  have exp: "days 1 < ld_expires_at demo_trial" by (simp add: demo_trial_def trial_doc_def days_def hours_def secs_def nanos_per_sec_def)
  from sign_presentable(3) [OF demo_libs_ok seats(1) lf exp]
  have "check_presented demo_libs demo_cfg (days 1) lf demo_fp = Inr demo_trial"
    by (simp add: check_presented_def demo_trial_def trial_doc_def)
  moreover obtain s1 where "rate_limit 0 demo_fp (new_state 0) = (Inr (), s1)"
    "ss_trials s1 = (\<lambda>_. None)" "ss_revocations s1 = []"
    by (simp add: rate_limit_def new_state_def since_def secs_def nanos_per_sec_def GLOBAL_PER_SECOND_def)
  ultimately have "\<exists>resp s'. heartbeat demo_libs demo_cfg (days 1) 0 True demo_bearer
       \<lparr>hb_fingerprint = demo_fp, hb_license_file = lf, hb_product = None, hb_version = None\<rparr> (new_state 0) = (Inr resp, s')"
    using demo_guards lf2 by (simp add: heartbeat_def revocation_for_def trial_heartbeat_def Let_def)
  then obtain resp s' where h: "heartbeat demo_libs demo_cfg (days 1) 0 True demo_bearer
       \<lparr>hb_fingerprint = demo_fp, hb_license_file = lf, hb_product = None, hb_version = None\<rparr> (new_state 0) = (Inr resp, s')"
    by blast
  from heartbeat_only_refreshes [OF h] sign_presentable(3) [OF demo_libs_ok seats(1) lf exp]
  have "hp_expires_at resp = days 10" by (auto simp: new_state_def demo_trial_def trial_doc_def)
  with h show ?thesis by blast
qed

section \<open>What revocation misses\<close>

text \<open>
  A revocation is entered in the table of revocations and on the trial's row, if there is one
  already; a trial start looks at the row only. So a revocation of every license of an install
  does not keep that install from starting its trial.
\<close>

lemma early_revocation_allows_trial:
  "\<exists>resp. fst (trial_start demo_libs demo_cfg 0 0 demo_bearer demo_req
     (snd (revoke demo_libs 0 demo_fp ''*'' ''abuse'' (new_state 0)))) = Inr resp"
proof -
  obtain lf where "sign demo_libs demo_cfg (trial_doc 0 ''a@b.co'' (days 10) demo_fp) = Inr lf"
    using demo_sign by blast
  then show ?thesis
    using demo_guards
    by (simp add: trial_start_def revoke_def demo_req_def rate_limit_def new_state_def trial_record_def Let_def since_def
        secs_def nanos_per_sec_def GLOBAL_PER_SECOND_def demo_cfg_def)
qed

text \<open>
  Lifting one licensee's revocation clears the mark on the trial's row even when the wildcard
  revocation of the install stays in the table.
\<close>

lemma unrevoke_one_clears_trial:
  assumes "normalize_fingerprint f = Some fp" and "revoked_for fp ''*'' s" and "licensee \<noteq> ''*''"
    and "ss_trials s fp = Some row"
  shows "revoked_for fp ''*'' (snd (unrevoke f (Some licensee) s))
    \<and> map_option tr_revoked_reason (ss_trials (snd (unrevoke f (Some licensee) s)) fp) = Some None"
proof -
  obtain v where "map_of (ss_revocations s) (fp, ''*'') = Some v" using assms(2) by (auto simp: revoked_for_def)
  then show ?thesis using assms(1,3,4) by (auto simp: unrevoke_def revoked_for_def Let_def map_of_filter_hit)
qed

end
