(* ===== verification/Template_Types.thy ===== *)
theory Template_Types
  imports License
begin

text \<open>
  The typed form of a rule template (\<^verbatim>\<open>src/apps/api/src/rule_template_types.rs\<close>) with its derived
  serde instances: optional fields are left out when absent, most objects refuse unknown fields, and
  an enum is the string the rename rule gives. Only the object form of structs and the string
  form of enums are modelled; the JSON Schema, checked first, admits no other.
\<close>

section \<open>Objects with optional fields\<close>

definition obj_of :: "(string \<times> json option) list \<Rightarrow> json" where
  "obj_of fs = json_obj (List.map_filter (\<lambda>(k, v). map_option (Pair k) v) fs)"

definition only_fields :: "string list \<Rightarrow> json \<Rightarrow> bool" where
  "only_fields ks v = (case v of JObj m \<Rightarrow> list_all (\<lambda>(k, _). k \<in> set ks) m | _ \<Rightarrow> False)"

definition is_object :: "json \<Rightarrow> bool" where
  "is_object v \<longleftrightarrow> as_object v \<noteq> None"

definition req :: "json \<Rightarrow> string \<Rightarrow> (json \<Rightarrow> 'a option) \<Rightarrow> 'a option" where
  "req v k f = Option.bind (jget v k) f"

definition opt :: "json \<Rightarrow> string \<Rightarrow> (json \<Rightarrow> 'a option) \<Rightarrow> 'a option option" where
  "opt v k f = read_opt f (jget v k)"

definition read_list :: "(json \<Rightarrow> 'a option) \<Rightarrow> json \<Rightarrow> 'a list option" where
  "read_list f v = Option.bind (as_array v) (\<lambda>vs. those (map f vs))"

definition read_uint :: "nat \<Rightarrow> json \<Rightarrow> nat option" where
  "read_uint bits v = (case v of JNum (PosInt n) \<Rightarrow> if n < 2 ^ bits then Some n else None | _ \<Rightarrow> None)"

definition juint :: "nat \<Rightarrow> json" where
  "juint n = JNum (PosInt n)"

definition read_enum :: "('a \<times> string) list \<Rightarrow> json \<Rightarrow> 'a option" where
  "read_enum names v = Option.bind (as_str v) (\<lambda>s. map_option fst (List.find (\<lambda>p. snd p = s) names))"

definition show_enum :: "('a \<times> string) list \<Rightarrow> 'a \<Rightarrow> json" where
  "show_enum names x = JStr (case map_of names x of Some s \<Rightarrow> s | None \<Rightarrow> [])"

section \<open>Types\<close>

datatype source_type = Csv | Json | Xml | Salesforce | WatchedPrefix
datatype field_type = FString | FInteger | FNumber | FBoolean | FDatetime | FObject
datatype auth_type = Bearer | Basic | ApiKey | Oauth2Client
datatype http_method = Get | Post | Put | Patch | Delete
datatype delivery_mode = Idempotent | Lookup | Manual
datatype backoff_kind = Exponential | Fixed
datatype on_failure = Stop | Continue

definition source_type_names :: "(source_type \<times> string) list" where
  "source_type_names = [(Csv, ''csv''), (Json, ''json''), (Xml, ''xml''), (Salesforce, ''salesforce''),
     (WatchedPrefix, ''watchedprefix'')]"

definition field_type_names :: "(field_type \<times> string) list" where
  "field_type_names = [(FString, ''string''), (FInteger, ''integer''), (FNumber, ''number''),
     (FBoolean, ''boolean''), (FDatetime, ''datetime''), (FObject, ''object'')]"

definition auth_type_names :: "(auth_type \<times> string) list" where
  "auth_type_names = [(Bearer, ''bearer''), (Basic, ''basic''), (ApiKey, ''api_key''), (Oauth2Client, ''oauth2_client'')]"

definition http_method_names :: "(http_method \<times> string) list" where
  "http_method_names = [(Get, ''GET''), (Post, ''POST''), (Put, ''PUT''), (Patch, ''PATCH''), (Delete, ''DELETE'')]"

definition delivery_mode_names :: "(delivery_mode \<times> string) list" where
  "delivery_mode_names = [(Idempotent, ''idempotent''), (Lookup, ''lookup''), (Manual, ''manual'')]"

definition backoff_kind_names :: "(backoff_kind \<times> string) list" where
  "backoff_kind_names = [(Exponential, ''exponential''), (Fixed, ''fixed'')]"

definition on_failure_names :: "(on_failure \<times> string) list" where
  "on_failure_names = [(Stop, ''stop''), (Continue, ''continue'')]"

record source_field =
  sf_name :: string
  sf_type :: field_type

record source =
  so_type :: source_type
  so_schema :: "source_field list option"
  so_options :: "json option"
  so_connector_id :: "int option"

record preprocess_step =
  pp_id :: string
  pp_field :: string
  pp_function :: string
  pp_args :: "json option"
  pp_code :: "string option"

record auth =
  at_type :: auth_type
  at_secret_ref :: "string option"
  at_header_name :: "string option"

record lookup =
  lk_method :: "string option"
  lk_url :: string
  lk_path_params :: "json btree option"
  lk_query_params :: "json btree option"
  lk_headers :: "json btree option"
  lk_found_path :: string

record delivery =
  dl_mode :: delivery_mode
  dl_idempotency_retention_hours :: "nat option"
  dl_lookup :: "lookup option"

record destination =
  de_type :: string
  de_method :: http_method
  de_url :: string
  de_path_params :: "json btree option"
  de_query_params :: "json btree option"
  de_headers :: "json btree option"
  de_auth :: "auth option"
  de_idempotency_key :: "json option"
  de_idempotency_header :: "string option"
  de_delivery :: "delivery option"

record retry =
  ry_max_attempts :: "nat option"
  ry_backoff :: "backoff_kind option"
  ry_initial_interval_ms :: "nat option"

record mapping_rule =
  mp_payload :: "json btree"

record step =
  st_name :: string
  st_description :: "string option"
  st_mapping :: "mapping_rule option"
  st_destination :: destination
  st_on_failure :: "on_failure option"

record export_column =
  ec_name :: string
  ec_from :: "string option"
  ec_from_response :: "string option"
  ec_path :: "string option"

record export_spec =
  ex_columns :: "export_column list option"

record rule_template =
  tm_id :: string
  tm_version :: nat
  tm_name :: string
  tm_source :: source
  tm_preprocess :: "preprocess_step list"
  tm_mapping :: "mapping_rule option"
  tm_destination :: "destination option"
  tm_steps :: "step list option"
  tm_retry :: "retry option"
  tm_concurrency :: "nat option"
  tm_export :: "export_spec option"

definition execution_steps :: "rule_template \<Rightarrow> step list" where
  "execution_steps t =
     (case tm_steps t of
        Some steps \<Rightarrow> steps
      | None \<Rightarrow>
          (case (tm_mapping t, tm_destination t) of
             (Some m, Some d) \<Rightarrow> [\<lparr>st_name = ''main'', st_description = None, st_mapping = Some m,
               st_destination = d, st_on_failure = None\<rparr>]
           | _ \<Rightarrow> []))"

section \<open>Writing\<close>

abbreviation so :: "('a \<Rightarrow> json) \<Rightarrow> 'a option \<Rightarrow> json option" where
  "so f x \<equiv> map_option f x"

definition source_field_json :: "source_field \<Rightarrow> json" where
  "source_field_json f = obj_of [(''name'', Some (JStr (sf_name f))), (''type'', Some (show_enum field_type_names (sf_type f)))]"

definition source_json :: "source \<Rightarrow> json" where
  "source_json s = obj_of [(''type'', Some (show_enum source_type_names (so_type s))),
     (''schema'', so (\<lambda>fs. JArr (map source_field_json fs)) (so_schema s)), (''options'', so_options s),
     (''connectorId'', so jint (so_connector_id s))]"

definition preprocess_json :: "preprocess_step \<Rightarrow> json" where
  "preprocess_json p = obj_of [(''id'', Some (JStr (pp_id p))), (''field'', Some (JStr (pp_field p))),
     (''fn'', Some (JStr (pp_function p))), (''args'', pp_args p), (''code'', so JStr (pp_code p))]"

definition auth_json :: "auth \<Rightarrow> json" where
  "auth_json a = obj_of [(''type'', Some (show_enum auth_type_names (at_type a))),
     (''secretRef'', so JStr (at_secret_ref a)), (''headerName'', so JStr (at_header_name a))]"

definition lookup_json :: "lookup \<Rightarrow> json" where
  "lookup_json l = obj_of [(''method'', so JStr (lk_method l)), (''url'', Some (JStr (lk_url l))),
     (''pathParams'', so JObj (lk_path_params l)), (''queryParams'', so JObj (lk_query_params l)),
     (''headers'', so JObj (lk_headers l)), (''foundPath'', Some (JStr (lk_found_path l)))]"

definition delivery_json :: "delivery \<Rightarrow> json" where
  "delivery_json d = obj_of [(''mode'', Some (show_enum delivery_mode_names (dl_mode d))),
     (''idempotencyRetentionHours'', so juint (dl_idempotency_retention_hours d)), (''lookup'', so lookup_json (dl_lookup d))]"

definition destination_json :: "destination \<Rightarrow> json" where
  "destination_json d = obj_of [(''type'', Some (JStr (de_type d))), (''method'', Some (show_enum http_method_names (de_method d))),
     (''url'', Some (JStr (de_url d))), (''pathParams'', so JObj (de_path_params d)), (''queryParams'', so JObj (de_query_params d)),
     (''headers'', so JObj (de_headers d)), (''auth'', so auth_json (de_auth d)), (''idempotencyKey'', de_idempotency_key d),
     (''idempotencyHeader'', so JStr (de_idempotency_header d)), (''delivery'', so delivery_json (de_delivery d))]"

definition retry_json :: "retry \<Rightarrow> json" where
  "retry_json r = obj_of [(''maxAttempts'', so juint (ry_max_attempts r)),
     (''backoff'', so (show_enum backoff_kind_names) (ry_backoff r)), (''initialIntervalMs'', so juint (ry_initial_interval_ms r))]"

definition mapping_json :: "mapping_rule \<Rightarrow> json" where
  "mapping_json m = obj_of [(''payload'', Some (JObj (mp_payload m)))]"

definition step_json :: "step \<Rightarrow> json" where
  "step_json s = obj_of [(''name'', Some (JStr (st_name s))), (''description'', so JStr (st_description s)),
     (''mapping'', so mapping_json (st_mapping s)), (''destination'', Some (destination_json (st_destination s))),
     (''onFailure'', so (show_enum on_failure_names) (st_on_failure s))]"

definition export_column_json :: "export_column \<Rightarrow> json" where
  "export_column_json c = obj_of [(''name'', Some (JStr (ec_name c))), (''$from'', so JStr (ec_from c)),
     (''$fromResponse'', so JStr (ec_from_response c)), (''path'', so JStr (ec_path c))]"

definition export_json :: "export_spec \<Rightarrow> json" where
  "export_json e = obj_of [(''columns'', so (\<lambda>cs. JArr (map export_column_json cs)) (ex_columns e))]"

definition rule_template_json :: "rule_template \<Rightarrow> json" where
  "rule_template_json t = obj_of [(''id'', Some (JStr (tm_id t))), (''version'', Some (juint (tm_version t))),
     (''name'', Some (JStr (tm_name t))), (''source'', Some (source_json (tm_source t))),
     (''preprocess'', Some (JArr (map preprocess_json (tm_preprocess t)))),
     (''mapping'', so mapping_json (tm_mapping t)), (''destination'', so destination_json (tm_destination t)),
     (''steps'', so (\<lambda>ss. JArr (map step_json ss)) (tm_steps t)), (''retry'', so retry_json (tm_retry t)),
     (''concurrency'', so juint (tm_concurrency t)), (''export'', so export_json (tm_export t))]"

section \<open>Reading\<close>

text \<open>A guard on the set of fields, then the fields in order.\<close>

definition shaped :: "bool \<Rightarrow> 'a option \<Rightarrow> 'a option" where
  "shaped b x = (if b then x else None)"

definition source_field_of :: "json \<Rightarrow> source_field option" where
  "source_field_of v = shaped (only_fields [''name'', ''type''] v)
     (Option.bind (req v ''name'' as_str) (\<lambda>n.
      Option.bind (req v ''type'' (read_enum field_type_names)) (\<lambda>t. Some \<lparr>sf_name = n, sf_type = t\<rparr>)))"

definition source_of :: "json \<Rightarrow> source option" where
  "source_of v = shaped (only_fields [''type'', ''schema'', ''options'', ''connectorId''] v)
     (Option.bind (req v ''type'' (read_enum source_type_names)) (\<lambda>t.
      Option.bind (opt v ''schema'' (read_list source_field_of)) (\<lambda>s.
      Option.bind (opt v ''options'' Some) (\<lambda>os.
      Option.bind (opt v ''connectorId'' as_i64) (\<lambda>c.
        Some \<lparr>so_type = t, so_schema = s, so_options = os, so_connector_id = c\<rparr>)))))"

definition preprocess_of :: "json \<Rightarrow> preprocess_step option" where
  "preprocess_of v = shaped (only_fields [''id'', ''field'', ''fn'', ''args'', ''code''] v)
     (Option.bind (req v ''id'' as_str) (\<lambda>i.
      Option.bind (req v ''field'' as_str) (\<lambda>f.
      Option.bind (req v ''fn'' as_str) (\<lambda>g.
      Option.bind (opt v ''args'' Some) (\<lambda>a.
      Option.bind (opt v ''code'' as_str) (\<lambda>c.
        Some \<lparr>pp_id = i, pp_field = f, pp_function = g, pp_args = a, pp_code = c\<rparr>))))))"

definition auth_of :: "json \<Rightarrow> auth option" where
  "auth_of v = shaped (is_object v)
     (Option.bind (req v ''type'' (read_enum auth_type_names)) (\<lambda>t.
      Option.bind (opt v ''secretRef'' as_str) (\<lambda>s.
      Option.bind (opt v ''headerName'' as_str) (\<lambda>h.
        Some \<lparr>at_type = t, at_secret_ref = s, at_header_name = h\<rparr>))))"

definition lookup_of :: "json \<Rightarrow> lookup option" where
  "lookup_of v = shaped (only_fields [''method'', ''url'', ''pathParams'', ''queryParams'', ''headers'', ''foundPath''] v)
     (Option.bind (opt v ''method'' as_str) (\<lambda>m.
      Option.bind (req v ''url'' as_str) (\<lambda>u.
      Option.bind (opt v ''pathParams'' as_object) (\<lambda>p.
      Option.bind (opt v ''queryParams'' as_object) (\<lambda>q.
      Option.bind (opt v ''headers'' as_object) (\<lambda>h.
      Option.bind (req v ''foundPath'' as_str) (\<lambda>f.
        Some \<lparr>lk_method = m, lk_url = u, lk_path_params = p, lk_query_params = q, lk_headers = h, lk_found_path = f\<rparr>)))))))"

definition delivery_of :: "json \<Rightarrow> delivery option" where
  "delivery_of v = shaped (only_fields [''mode'', ''idempotencyRetentionHours'', ''lookup''] v)
     (Option.bind (req v ''mode'' (read_enum delivery_mode_names)) (\<lambda>m.
      Option.bind (opt v ''idempotencyRetentionHours'' (read_uint 32)) (\<lambda>h.
      Option.bind (opt v ''lookup'' lookup_of) (\<lambda>l.
        Some \<lparr>dl_mode = m, dl_idempotency_retention_hours = h, dl_lookup = l\<rparr>))))"

definition destination_of :: "json \<Rightarrow> destination option" where
  "destination_of v = shaped (only_fields [''type'', ''method'', ''url'', ''pathParams'', ''queryParams'', ''headers'', ''auth'',
        ''idempotencyKey'', ''idempotencyHeader'', ''delivery''] v)
     (Option.bind (req v ''type'' as_str) (\<lambda>t.
      Option.bind (req v ''method'' (read_enum http_method_names)) (\<lambda>m.
      Option.bind (req v ''url'' as_str) (\<lambda>u.
      Option.bind (opt v ''pathParams'' as_object) (\<lambda>p.
      Option.bind (opt v ''queryParams'' as_object) (\<lambda>q.
      Option.bind (opt v ''headers'' as_object) (\<lambda>h.
      Option.bind (opt v ''auth'' auth_of) (\<lambda>a.
      Option.bind (opt v ''idempotencyKey'' Some) (\<lambda>k.
      Option.bind (opt v ''idempotencyHeader'' as_str) (\<lambda>kh.
      Option.bind (opt v ''delivery'' delivery_of) (\<lambda>dl.
        Some \<lparr>de_type = t, de_method = m, de_url = u, de_path_params = p, de_query_params = q, de_headers = h,
          de_auth = a, de_idempotency_key = k, de_idempotency_header = kh, de_delivery = dl\<rparr>)))))))))))"

definition retry_of :: "json \<Rightarrow> retry option" where
  "retry_of v = shaped (only_fields [''maxAttempts'', ''backoff'', ''initialIntervalMs''] v)
     (Option.bind (opt v ''maxAttempts'' (read_uint 32)) (\<lambda>m.
      Option.bind (opt v ''backoff'' (read_enum backoff_kind_names)) (\<lambda>b.
      Option.bind (opt v ''initialIntervalMs'' (read_uint 64)) (\<lambda>i.
        Some \<lparr>ry_max_attempts = m, ry_backoff = b, ry_initial_interval_ms = i\<rparr>))))"

definition mapping_of :: "json \<Rightarrow> mapping_rule option" where
  "mapping_of v = shaped (only_fields [''payload''] v) (Option.bind (req v ''payload'' as_object) (\<lambda>p. Some \<lparr>mp_payload = p\<rparr>))"

definition step_of :: "json \<Rightarrow> step option" where
  "step_of v = shaped (only_fields [''name'', ''description'', ''mapping'', ''destination'', ''onFailure''] v)
     (Option.bind (req v ''name'' as_str) (\<lambda>n.
      Option.bind (opt v ''description'' as_str) (\<lambda>ds.
      Option.bind (opt v ''mapping'' mapping_of) (\<lambda>m.
      Option.bind (req v ''destination'' destination_of) (\<lambda>d.
      Option.bind (opt v ''onFailure'' (read_enum on_failure_names)) (\<lambda>f.
        Some \<lparr>st_name = n, st_description = ds, st_mapping = m, st_destination = d, st_on_failure = f\<rparr>))))))"

definition export_column_of :: "json \<Rightarrow> export_column option" where
  "export_column_of v = shaped (is_object v)
     (Option.bind (req v ''name'' as_str) (\<lambda>n.
      Option.bind (opt v ''$from'' as_str) (\<lambda>f.
      Option.bind (opt v ''$fromResponse'' as_str) (\<lambda>r.
      Option.bind (opt v ''path'' as_str) (\<lambda>p.
        Some \<lparr>ec_name = n, ec_from = f, ec_from_response = r, ec_path = p\<rparr>)))))"

definition export_of :: "json \<Rightarrow> export_spec option" where
  "export_of v = shaped (only_fields [''columns''] v)
     (Option.bind (opt v ''columns'' (read_list export_column_of)) (\<lambda>c. Some \<lparr>ex_columns = c\<rparr>))"

definition rule_template_of :: "json \<Rightarrow> rule_template option" where
  "rule_template_of v = shaped (only_fields [''id'', ''version'', ''name'', ''source'', ''preprocess'', ''mapping'', ''destination'',
        ''steps'', ''retry'', ''concurrency'', ''export''] v)
     (Option.bind (req v ''id'' as_str) (\<lambda>i.
      Option.bind (req v ''version'' (read_uint 32)) (\<lambda>n.
      Option.bind (req v ''name'' as_str) (\<lambda>nm.
      Option.bind (req v ''source'' source_of) (\<lambda>s.
      Option.bind (req v ''preprocess'' (read_list preprocess_of)) (\<lambda>p.
      Option.bind (opt v ''mapping'' mapping_of) (\<lambda>m.
      Option.bind (opt v ''destination'' destination_of) (\<lambda>d.
      Option.bind (opt v ''steps'' (read_list step_of)) (\<lambda>ss.
      Option.bind (opt v ''retry'' retry_of) (\<lambda>r.
      Option.bind (opt v ''concurrency'' (read_uint 16)) (\<lambda>c.
      Option.bind (opt v ''export'' export_of) (\<lambda>e.
        Some \<lparr>tm_id = i, tm_version = n, tm_name = nm, tm_source = s, tm_preprocess = p, tm_mapping = m,
          tm_destination = d, tm_steps = ss, tm_retry = r, tm_concurrency = c, tm_export = e\<rparr>))))))))))))"

end
