(* ===== verification/Net_Addr.thy ===== *)
theory Net_Addr
  imports Prelude "HOL-Library.Word"
begin

text \<open>
  Network addresses and the guard against requests to internal hosts (\<^verbatim>\<open>ip_is_private\<close> of
  \<^verbatim>\<open>src/apps/api/src/routes/specs.rs\<close>), with the parts of \<^verbatim>\<open>std::net\<close> it uses: an IPv4 address is its
  four octets, an IPv6 address its eight segments. The guard is shown to be exactly membership in a list of
  address blocks, and an address that it lets through is exhibited.
\<close>

unbundle bit_operations_syntax

type_synonym octet = "8 word"
type_synonym segment = "16 word"

datatype ip =
    V4 octet octet octet octet
  | V6 segment segment segment segment segment segment segment segment

fun v4_is_loopback :: "ip \<Rightarrow> bool" where
  "v4_is_loopback (V4 a _ _ _) = (a = 127)"
| "v4_is_loopback _ = False"

fun v4_is_private :: "ip \<Rightarrow> bool" where
  "v4_is_private (V4 a b _ _) = (a = 10 \<or> a = 172 \<and> 16 \<le> b \<and> b \<le> 31 \<or> a = 192 \<and> b = 168)"
| "v4_is_private _ = False"

fun v4_is_link_local :: "ip \<Rightarrow> bool" where
  "v4_is_link_local (V4 a b _ _) = (a = 169 \<and> b = 254)"
| "v4_is_link_local _ = False"

fun is_unspecified :: "ip \<Rightarrow> bool" where
  "is_unspecified (V4 a b c d) = (a = 0 \<and> b = 0 \<and> c = 0 \<and> d = 0)"
| "is_unspecified (V6 s0 s1 s2 s3 s4 s5 s6 s7) =
     (s0 = 0 \<and> s1 = 0 \<and> s2 = 0 \<and> s3 = 0 \<and> s4 = 0 \<and> s5 = 0 \<and> s6 = 0 \<and> s7 = 0)"

fun v6_is_loopback :: "ip \<Rightarrow> bool" where
  "v6_is_loopback (V6 s0 s1 s2 s3 s4 s5 s6 s7) =
     (s0 = 0 \<and> s1 = 0 \<and> s2 = 0 \<and> s3 = 0 \<and> s4 = 0 \<and> s5 = 0 \<and> s6 = 0 \<and> s7 = 1)"
| "v6_is_loopback _ = False"

fun ip_is_private :: "ip \<Rightarrow> bool" where
  "ip_is_private (V4 a b c d) =
     (v4_is_loopback (V4 a b c d) \<or> v4_is_private (V4 a b c d) \<or> v4_is_link_local (V4 a b c d)
      \<or> is_unspecified (V4 a b c d) \<or> a = 100 \<and> 64 \<le> b \<and> b < 128)"
| "ip_is_private (V6 s0 s1 s2 s3 s4 s5 s6 s7) =
     (v6_is_loopback (V6 s0 s1 s2 s3 s4 s5 s6 s7) \<or> is_unspecified (V6 s0 s1 s2 s3 s4 s5 s6 s7)
      \<or> s0 AND 0xfe00 = 0xfc00 \<or> s0 AND 0xffc0 = 0xfe80)"

section \<open>The guard as a list of address blocks\<close>

text \<open>An address as a number, and a block as the addresses that agree with its base in the leading bits.\<close>

fun ip_width :: "ip \<Rightarrow> nat" where
  "ip_width (V4 _ _ _ _) = 32"
| "ip_width (V6 _ _ _ _ _ _ _ _) = 128"

fun ip_value :: "ip \<Rightarrow> nat" where
  "ip_value (V4 a b c d) = ((unat a * 2 ^ 8 + unat b) * 2 ^ 8 + unat c) * 2 ^ 8 + unat d"
| "ip_value (V6 s0 s1 s2 s3 s4 s5 s6 s7) =
     unat s0 * 2 ^ 112 + (unat s1 * 2 ^ 96 + (unat s2 * 2 ^ 80 + (unat s3 * 2 ^ 64 + (unat s4 * 2 ^ 48
       + (unat s5 * 2 ^ 32 + (unat s6 * 2 ^ 16 + unat s7))))))"

definition in_block :: "ip \<Rightarrow> nat \<Rightarrow> ip \<Rightarrow> bool" where
  "in_block base len ip \<longleftrightarrow> ip_width ip = ip_width base
     \<and> ip_value ip div 2 ^ (ip_width ip - len) = ip_value base div 2 ^ (ip_width ip - len)"

definition private_blocks :: "(ip \<times> nat) list" where
  "private_blocks = [(V4 127 0 0 0, 8), (V4 10 0 0 0, 8), (V4 172 16 0 0, 12), (V4 192 168 0 0, 16), (V4 169 254 0 0, 16),
     (V4 0 0 0 0, 32), (V4 100 64 0 0, 10), (V6 0 0 0 0 0 0 0 1, 128), (V6 0 0 0 0 0 0 0 0, 128),
     (V6 0xfc00 0 0 0 0 0 0 0, 7), (V6 0xfe80 0 0 0 0 0 0 0, 10)]"

lemma octet_lt: "unat (a :: octet) < 256"
  using unsigned_less [of a, where 'a = nat] by simp

lemma segment_lt: "unat (a :: segment) < 65536"
  using unsigned_less [of a, where 'a = nat] by simp

text \<open>The leading bits of a number in mixed radix.\<close>

lemma leading: "r < m \<Longrightarrow> (x * m + r) div m = (x :: nat)"
  by simp

lemma v4_leading:
  "ip_value (V4 a b c d) div 16777216 = unat a"
  "ip_value (V4 a b c d) div 65536 = unat a * 256 + unat b"
  "ip_value (V4 a b c d) div 1048576 = unat a * 16 + unat b div 16"
  "ip_value (V4 a b c d) div 4194304 = unat a * 4 + unat b div 64"
proof -
  let ?a = "unat a" and ?b = "unat b" and ?c = "unat c" and ?d = "unat d"
  have lt: "?b < 256" "?c < 256" "?d < 256" by (rule octet_lt)+
  have "ip_value (V4 a b c d) = (?a * 256 + ?b) * 65536 + (?c * 256 + ?d)" by simp
  then show two: "ip_value (V4 a b c d) div 65536 = ?a * 256 + ?b"
    using lt leading [of "?c * 256 + ?d" 65536 "?a * 256 + ?b"] by linarith
  have "ip_value (V4 a b c d) div 16777216 = ip_value (V4 a b c d) div 65536 div 256" by (simp only: div_mult2_eq [symmetric]) simp
  then show "ip_value (V4 a b c d) div 16777216 = ?a" unfolding two using lt leading by simp
  have "ip_value (V4 a b c d) div 1048576 = ip_value (V4 a b c d) div 65536 div 16" by (simp only: div_mult2_eq [symmetric]) simp
  then show "ip_value (V4 a b c d) div 1048576 = ?a * 16 + ?b div 16" unfolding two by linarith
  have "ip_value (V4 a b c d) div 4194304 = ip_value (V4 a b c d) div 65536 div 64" by (simp only: div_mult2_eq [symmetric]) simp
  then show "ip_value (V4 a b c d) div 4194304 = ?a * 4 + ?b div 64" unfolding two by linarith
qed

lemma block4:
  "in_block (V4 p q r s) len (V4 a b c d) \<longleftrightarrow> ip_value (V4 a b c d) div 2 ^ (32 - len) = ip_value (V4 p q r s) div 2 ^ (32 - len)"
  by (simp only: in_block_def ip_width.simps simp_thms)

lemma two_digits:
  assumes "q < k" and "p < (k :: nat)"
  shows "a * k + q = c * k + p \<longleftrightarrow> a = c \<and> q = p"
proof
  assume e: "a * k + q = c * k + p"
  then have "(a * k + q) div k = (c * k + p) div k" by simp
  then have "a = c" using assms by simp
  with e show "a = c \<and> q = p" by simp
qed simp

lemma leading_digits:
  assumes "b < 256"
  shows "a * 16 + b div 16 = (2753 :: nat) \<longleftrightarrow> a = 172 \<and> 16 \<le> b \<and> b \<le> 31"
    and "a * 256 + b = (49320 :: nat) \<longleftrightarrow> a = 192 \<and> b = 168"
    and "a * 256 + b = (43518 :: nat) \<longleftrightarrow> a = 169 \<and> b = 254"
    and "a * 4 + b div 64 = (401 :: nat) \<longleftrightarrow> a = 100 \<and> 64 \<le> b \<and> b < 128"
proof -
  have d: "b div 16 < 16" "b div 64 < 4" using assms by auto
  have q: "b div 16 = 1 \<longleftrightarrow> 16 \<le> b \<and> b \<le> 31" "b div 64 = 1 \<longleftrightarrow> 64 \<le> b \<and> b < 128" by auto
  show "a * 16 + b div 16 = 2753 \<longleftrightarrow> a = 172 \<and> 16 \<le> b \<and> b \<le> 31"
    using two_digits [of "b div 16" 16 1 a 172] d q by simp
  show "a * 256 + b = 49320 \<longleftrightarrow> a = 192 \<and> b = 168" "a * 256 + b = 43518 \<longleftrightarrow> a = 169 \<and> b = 254"
    using two_digits [of b 256 168 a 192] two_digits [of b 256 254 a 169] assms by simp_all
  show "a * 4 + b div 64 = 401 \<longleftrightarrow> a = 100 \<and> 64 \<le> b \<and> b < 128"
    using two_digits [of "b div 64" 4 1 a 100] d q by simp
qed

lemma v4_blocks:
  "in_block (V4 127 0 0 0) 8 (V4 a b c d) \<longleftrightarrow> a = 127"
  "in_block (V4 10 0 0 0) 8 (V4 a b c d) \<longleftrightarrow> a = 10"
  "in_block (V4 172 16 0 0) 12 (V4 a b c d) \<longleftrightarrow> a = 172 \<and> 16 \<le> b \<and> b \<le> 31"
  "in_block (V4 192 168 0 0) 16 (V4 a b c d) \<longleftrightarrow> a = 192 \<and> b = 168"
  "in_block (V4 169 254 0 0) 16 (V4 a b c d) \<longleftrightarrow> a = 169 \<and> b = 254"
  "in_block (V4 100 64 0 0) 10 (V4 a b c d) \<longleftrightarrow> a = 100 \<and> 64 \<le> b \<and> b < 128"
  using octet_lt [of a] octet_lt [of b]
  by (simp_all add: block4 v4_leading word_unat_eq_iff word_le_nat_alt word_less_nat_alt leading_digits del: ip_value.simps)

lemma v4_zero: "in_block (V4 0 0 0 0) 32 (V4 a b c d) \<longleftrightarrow> a = 0 \<and> b = 0 \<and> c = 0 \<and> d = 0"
  by (auto simp: block4 unat_eq_0)

lemma masked_segment:
  fixes s m :: segment
  shows "s AND NOT (mask n) = m AND NOT (mask n) \<longleftrightarrow> drop_bit n s = drop_bit n m"
proof
  assume "s AND NOT (mask n) = m AND NOT (mask n)"
  then have "drop_bit n (s AND NOT (mask n)) = drop_bit n (m AND NOT (mask n))" by simp
  moreover have "drop_bit n (x AND NOT (mask n)) = drop_bit n x" for x :: segment
    by (rule bit_eqI) (auto simp: bit_drop_bit_eq bit_and_iff bit_not_iff bit_mask_iff dest: bit_imp_possible_bit)
  ultimately show "drop_bit n s = drop_bit n m" by simp
next
  assume "drop_bit n s = drop_bit n m"
  then have "push_bit n (drop_bit n s) = push_bit n (drop_bit n m)" by simp
  moreover have "x AND NOT (mask n) = push_bit n (drop_bit n x)" for x :: segment
    by (rule bit_eqI) (auto simp: bit_simps)
  ultimately show "s AND NOT (mask n) = m AND NOT (mask n)" by simp
qed

lemma segment_masks:
  fixes s :: segment
  shows "s AND 0xfe00 = 0xfc00 \<longleftrightarrow> unat s div 512 = 126" and "s AND 0xffc0 = 0xfe80 \<longleftrightarrow> unat s div 64 = 1018"
proof -
  have m: "NOT (mask 9) = (0xfe00 :: segment)" "NOT (mask 6) = (0xffc0 :: segment)" by code_simp+
  have "s AND 0xfe00 = 0xfc00 \<longleftrightarrow> s AND NOT (mask 9) = 0xfc00 AND NOT (mask 9)" unfolding m by simp
  also have "\<dots> \<longleftrightarrow> unat (drop_bit 9 s) = unat (drop_bit 9 (0xfc00 :: segment))"
    by (simp only: masked_segment) (simp only: word_unat_eq_iff)
  finally show "s AND 0xfe00 = 0xfc00 \<longleftrightarrow> unat s div 512 = 126"
    unfolding unat_drop_bit_eq unfolding drop_bit_eq_div by simp
  have "s AND 0xffc0 = 0xfe80 \<longleftrightarrow> s AND NOT (mask 6) = 0xfe80 AND NOT (mask 6)" unfolding m by simp
  also have "\<dots> \<longleftrightarrow> unat (drop_bit 6 s) = unat (drop_bit 6 (0xfe80 :: segment))"
    by (simp only: masked_segment) (simp only: word_unat_eq_iff)
  finally show "s AND 0xffc0 = 0xfe80 \<longleftrightarrow> unat s div 64 = 1018"
    unfolding unat_drop_bit_eq unfolding drop_bit_eq_div by simp
qed

lemma v6_leading:
  "ip_value (V6 s0 s1 s2 s3 s4 s5 s6 s7) div 2 ^ 112 = unat s0"
proof -
  note lt = segment_lt [of s1] segment_lt [of s2] segment_lt [of s3] segment_lt [of s4] segment_lt [of s5]
    segment_lt [of s6] segment_lt [of s7]
  have "unat s1 * 2 ^ 96 + (unat s2 * 2 ^ 80 + (unat s3 * 2 ^ 64 + (unat s4 * 2 ^ 48
       + (unat s5 * 2 ^ 32 + (unat s6 * 2 ^ 16 + unat s7))))) < 2 ^ 112"
    using lt by simp
  then show ?thesis unfolding ip_value.simps by (rule leading)
qed

lemma v6_blocks:
  "in_block (V6 0xfc00 0 0 0 0 0 0 0) 7 (V6 s0 s1 s2 s3 s4 s5 s6 s7) \<longleftrightarrow> s0 AND 0xfe00 = 0xfc00"
  "in_block (V6 0xfe80 0 0 0 0 0 0 0) 10 (V6 s0 s1 s2 s3 s4 s5 s6 s7) \<longleftrightarrow> s0 AND 0xffc0 = 0xfe80"
proof -
  have split: "x div 2 ^ 121 = x div 2 ^ 112 div 512" "x div 2 ^ 118 = x div 2 ^ 112 div 64" for x :: nat
    by (simp_all only: div_mult2_eq [symmetric]) simp_all
  have e: "128 - 7 = (121 :: nat)" "128 - 10 = (118 :: nat)" by simp_all
  show "in_block (V6 0xfc00 0 0 0 0 0 0 0) 7 (V6 s0 s1 s2 s3 s4 s5 s6 s7) \<longleftrightarrow> s0 AND 0xfe00 = 0xfc00"
    unfolding segment_masks in_block_def ip_width.simps e split v6_leading by simp
  show "in_block (V6 0xfe80 0 0 0 0 0 0 0) 10 (V6 s0 s1 s2 s3 s4 s5 s6 s7) \<longleftrightarrow> s0 AND 0xffc0 = 0xfe80"
    unfolding segment_masks in_block_def ip_width.simps e split v6_leading by simp
qed

lemma v6_unspecified:
  "in_block (V6 0 0 0 0 0 0 0 0) 128 (V6 s0 s1 s2 s3 s4 s5 s6 s7) \<longleftrightarrow> is_unspecified (V6 s0 s1 s2 s3 s4 s5 s6 s7)"
  by (simp add: in_block_def unat_eq_0)

lemma v6_loopback:
  "in_block (V6 0 0 0 0 0 0 0 1) 128 (V6 s0 s1 s2 s3 s4 s5 s6 s7) \<longleftrightarrow> v6_is_loopback (V6 s0 s1 s2 s3 s4 s5 s6 s7)"
proof -
  define x where "x = unat s0 * 2 ^ 96 + (unat s1 * 2 ^ 80 + (unat s2 * 2 ^ 64 + (unat s3 * 2 ^ 48 + (unat s4 * 2 ^ 32
       + (unat s5 * 2 ^ 16 + unat s6)))))"
  have "ip_value (V6 s0 s1 s2 s3 s4 s5 s6 s7) = x * 65536 + unat s7" by (simp add: x_def algebra_simps)
  then have "ip_value (V6 s0 s1 s2 s3 s4 s5 s6 s7) = 1 \<longleftrightarrow> x = 0 \<and> unat s7 = 1"
    using two_digits [of "unat s7" 65536 1 x 0] segment_lt [of s7] by (simp del: ip_value.simps)
  also have "\<dots> \<longleftrightarrow> v6_is_loopback (V6 s0 s1 s2 s3 s4 s5 s6 s7)"
    by (simp add: x_def word_unat_eq_iff)
  finally show ?thesis by (simp add: in_block_def del: ip_value.simps) simp
qed

lemma cross_family:
  "\<not> in_block (V4 p q r s) len (V6 s0 s1 s2 s3 s4 s5 s6 s7)" "\<not> in_block (V6 t0 t1 t2 t3 t4 t5 t6 t7) len (V4 a b c d)"
  by (simp_all add: in_block_def)

lemma ip_private_iff: "ip_is_private ip \<longleftrightarrow> (\<exists>(base, len) \<in> set private_blocks. in_block base len ip)"
proof (cases ip)
  case (V4 a b c d)
  then show ?thesis
    by (auto simp: private_blocks_def v4_blocks v4_zero cross_family)
next
  case (V6 s0 s1 s2 s3 s4 s5 s6 s7)
  then show ?thesis
    by (auto simp: private_blocks_def v6_blocks v6_unspecified v6_loopback cross_family)
qed

text \<open>An IPv6 address that carries an IPv4 address in its last 32 bits is judged by its own prefix only.\<close>

lemma mapped_loopback_passes: "\<not> ip_is_private (V6 0 0 0 0 0 0xffff 0x7f00 1)"
  by simp

end
