(* ===== verification/App_State.thy ===== *)
theory App_State
  imports License Net_Addr
begin

text \<open>
  What the HTTP handlers share: the row types (\<^verbatim>\<open>src/apps/api/src/db.rs\<close> and the rows declared beside
  the handlers), the database as the handlers see it, the audit log
  (\<^verbatim>\<open>src/apps/api/src/security/audit.rs\<close>), the caller's claims and the role check
  (\<^verbatim>\<open>src/apps/api/src/middleware/auth.rs\<close>).

  A table is the list of its rows. Every SQL statement is one atomic step, and before each step
  the rest of the system (workers, the reconciler, other requests) may have changed the database
  in any way: that is the function \<open>rq_other\<close> of the request, and what a theorem needs of it
  is a hypothesis. Statements fail when the data make them fail (a unique or foreign key, a label outside an
  enum, a row that is not there), and any statement may fail without effect because the database does not answer: that is
  \<open>rq_outage\<close>. A text with a NUL character, which PostgreSQL does not store, is not distinguished.
\<close>

section \<open>Rows\<close>

record user =
  us_id :: int
  us_org_id :: int
  us_email :: "string option"
  us_role :: string
  us_password_hash :: string
  us_disabled :: bool
  us_created_at :: instant
  us_updated_at :: instant

record rule_template_row =
  rt_id :: int
  rt_org_id :: int
  rt_template_key :: string
  rt_version :: int
  rt_name :: string
  rt_schema_json :: json
  rt_published :: bool
  rt_created_by :: "int option"
  rt_created_at :: instant

record connector_row =
  cn_id :: int
  cn_org_id :: int
  cn_name :: string
  cn_connector_kind :: string
  cn_config_json :: json
  cn_secret_id :: "int option"
  cn_created_by :: "int option"
  cn_created_at :: instant
  cn_updated_at :: instant

record job_row =
  jb_id :: int
  jb_org_id :: int
  jb_rule_template_id :: int
  jb_rule_template_version :: int
  jb_schedule_id :: "int option"
  jb_source_ref :: json
  jb_status :: string
  jb_totals_json :: json
  jb_temporal_workflow_id :: "string option"
  jb_temporal_run_id :: "string option"
  jb_started_at :: "instant option"
  jb_paused_at :: "instant option"
  jb_finished_at :: "instant option"
  jb_created_by :: "int option"
  jb_created_at :: instant
  jb_updated_at :: instant
  jb_batch_id :: "int option"
  jb_batch_stage_id :: "int option"
  jb_results_ref :: "json option"
  jb_last_error :: "string option"
  jb_export_status :: "string option"
  jb_export_error :: "string option"

record job_row_detail =
  jr_job_id :: int
  jr_row_index :: int
  jr_status :: string
  jr_attempts :: int
  jr_last_error :: "string option"
  jr_idempotency_key :: "string option"
  jr_row_json :: "json option"
  jr_payload_json :: "json option"
  jr_response_json :: "json option"
  jr_updated_at :: instant

record job_row_step_detail =
  js_job_id :: int
  js_row_index :: int
  js_step_index :: int
  js_step_name :: string
  js_status :: string
  js_attempts :: int
  js_request_url :: "string option"
  js_request_json :: "json option"
  js_response_status :: "int option"
  js_response_json :: "json option"
  js_last_error :: "string option"
  js_updated_at :: instant

record schedule_row =
  sd_id :: int
  sd_org_id :: int
  sd_name :: string
  sd_rule_template_id :: int
  sd_rule_template_version :: int
  sd_connector_id :: int
  sd_spec_json :: json
  sd_timezone :: string
  sd_overlap_policy :: string
  sd_catchup_window_seconds :: int
  sd_enabled :: bool
  sd_next_run_at :: "instant option"
  sd_last_run_at :: "instant option"
  sd_temporal_schedule_id :: "string option"
  sd_created_by :: "int option"
  sd_created_at :: instant
  sd_updated_at :: instant

record registered_source =
  rs_id :: int
  rs_org_id :: int
  rs_bucket :: string
  rs_object_key :: string
  rs_sha256 :: "string option"
  rs_etag :: "string option"
  rs_size_bytes :: "int option"
  rs_filename :: "string option"
  rs_format :: "string option"

record batch_row =
  bt_id :: int
  bt_org_id :: int
  bt_schedule_id :: "int option"
  bt_connector_id :: "int option"
  bt_batch_key :: "string option"
  bt_source_ref :: json
  bt_status :: string
  bt_on_stage_failure :: string
  bt_manifest_json :: "json option"
  bt_temporal_workflow_id :: "string option"
  bt_temporal_run_id :: "string option"
  bt_error_message :: "string option"
  bt_quarantine_ref :: "json option"
  bt_started_at :: "instant option"
  bt_finished_at :: "instant option"
  bt_created_at :: instant
  bt_updated_at :: instant

record batch_stage_row =
  bs_id :: int
  bs_batch_id :: int
  bs_stage_index :: int
  bs_stage_key :: string
  bs_file_path :: string
  bs_template_key :: string
  bs_rule_template_id :: "int option"
  bs_rule_template_version :: "int option"
  bs_job_id :: "int option"
  bs_status :: string
  bs_on_stage_failure :: "string option"
  bs_depends_on :: "string list"
  bs_error_message :: "string option"
  bs_created_at :: instant
  bs_updated_at :: instant

record secret_row =
  sc_id :: int
  sc_org_id :: int
  sc_name :: string
  sc_ciphertext :: string
  sc_nonce :: string
  sc_kind :: string
  sc_created_at :: instant
  sc_updated_at :: instant
  sc_revoked_at :: "instant option"

record schedule_run =
  sr_id :: int
  sr_schedule_id :: int
  sr_job_id :: "int option"
  sr_scheduled_time :: instant
  sr_actual_start_time :: "instant option"
  sr_status :: string

record openapi_spec_row =
  os_id :: int
  os_org_id :: int
  os_name :: string
  os_source_url :: "string option"
  os_spec_json :: json
  os_created_by :: "int option"
  os_created_at :: instant
  os_updated_at :: instant

record llm_config_row =
  lc_org_id :: int
  lc_provider :: string
  lc_base_url :: string
  lc_model :: string
  lc_secret_id :: "int option"
  lc_redact_pii :: bool
  lc_enabled :: bool
  lc_updated_by :: "int option"
  lc_updated_at :: instant

record audit_entry =
  au_org_id :: int
  au_actor :: string
  au_entity :: string
  au_entity_id :: "string option"
  au_action :: string
  au_before :: "json option"
  au_after :: "json option"
  au_ts :: instant

section \<open>The database\<close>

text \<open>\<open>db_next\<close> holds the next value of each table's \<^verbatim>\<open>BIGSERIAL\<close> sequence.\<close>

datatype table = T_templates | T_connectors | T_jobs | T_schedules | T_sources | T_batches | T_secrets | T_specs | T_users

record db =
  db_orgs :: "int list"
  db_users :: "user list"
  db_templates :: "rule_template_row list"
  db_connectors :: "connector_row list"
  db_jobs :: "job_row list"
  db_job_rows :: "job_row_detail list"
  db_row_steps :: "job_row_step_detail list"
  db_schedules :: "schedule_row list"
  db_schedule_runs :: "schedule_run list"
  db_sources :: "registered_source list"
  db_batches :: "batch_row list"
  db_batch_stages :: "batch_stage_row list"
  db_secrets :: "secret_row list"
  db_specs :: "openapi_spec_row list"
  db_llm_configs :: "llm_config_row list"
  db_audit :: "audit_entry list"
  db_next :: "table \<Rightarrow> int"

definition bump :: "table \<Rightarrow> db \<Rightarrow> db" where
  "bump t d = d\<lparr>db_next := (db_next d)(t := db_next d t + 1)\<rparr>"

datatype db_error = UniqueViolation | ForeignKeyViolation | InvalidEnum | RowNotFound | NegativeLimit | OutOfRange

fun db_error_text :: "db_error \<Rightarrow> string" where
  "db_error_text UniqueViolation = ''duplicate key value violates unique constraint''"
| "db_error_text ForeignKeyViolation = ''violates foreign key constraint''"
| "db_error_text InvalidEnum = ''invalid input value for enum''"
| "db_error_text RowNotFound = ''no rows returned by a query that expected to return at least one row''"
| "db_error_text NegativeLimit = ''LIMIT must not be negative''"
| "db_error_text OutOfRange = ''integer out of range''"

definition org_exists :: "db \<Rightarrow> int \<Rightarrow> bool" where
  "org_exists d org \<longleftrightarrow> org \<in> set (db_orgs d)"

definition user_exists :: "db \<Rightarrow> int \<Rightarrow> bool" where
  "user_exists d u \<longleftrightarrow> list_ex (\<lambda>x. us_id x = u) (db_users d)"

definition update_where :: "('r \<Rightarrow> bool) \<Rightarrow> ('r \<Rightarrow> 'r) \<Rightarrow> 'r list \<Rightarrow> 'r list" where
  "update_where p f rs = map (\<lambda>r. if p r then f r else r) rs"

text \<open>\<^verbatim>\<open>ORDER BY\<close> is a stable insertion sort by the given order, and \<^verbatim>\<open>LIMIT\<close> refuses a negative number.\<close>

fun insert_by :: "('r \<Rightarrow> 'r \<Rightarrow> bool) \<Rightarrow> 'r \<Rightarrow> 'r list \<Rightarrow> 'r list" where
  "insert_by le x [] = [x]"
| "insert_by le x (y # ys) = (if le x y then x # y # ys else y # insert_by le x ys)"

definition order_by :: "('r \<Rightarrow> 'r \<Rightarrow> bool) \<Rightarrow> 'r list \<Rightarrow> 'r list" where
  "order_by le rs = foldr (insert_by le) rs []"

definition limit_to :: "int \<Rightarrow> 'r list \<Rightarrow> db_error + 'r list" where
  "limit_to n rs = (if n < 0 then Inl NegativeLimit else Inr (take (nat n) rs))"

lemma set_insert_by [simp]: "set (insert_by le x xs) = insert x (set xs)"
  by (induction xs) auto

lemma set_order_by [simp]: "set (order_by le rs) = set rs"
  unfolding order_by_def by (induction rs) auto

section \<open>A request and the world it runs in\<close>

text \<open>What the object store answers to a read.\<close>

datatype s3_reply = GetFailed string | ReadFailed string | Object string

text \<open>A ranged read also tells the length the response announces; a write is answered with its entity tag.\<close>

datatype range_reply = RangeFailed string | RangeReadFailed string | Chunk "int option" string

text \<open>
  What the outside world answers during a request: name resolution, the fetch of a document by URL,
  the LLM provider (the number counts the calls before), ranged reads and writes of the object store.
\<close>

record net =
  nt_dns :: "string \<Rightarrow> nat \<Rightarrow> string + ip list"
  nt_get :: "string \<Rightarrow> http_reply"
  nt_llm :: "nat \<Rightarrow> string \<Rightarrow> string \<Rightarrow> json \<Rightarrow> http_reply"
  nt_range :: "string \<Rightarrow> string \<Rightarrow> string \<Rightarrow> range_reply"
  nt_put :: "string \<Rightarrow> string \<Rightarrow> string \<Rightarrow> string \<Rightarrow> string + string option"

record request =
  rq_now :: instant
  rq_clock :: "nat \<Rightarrow> instant"
  rq_other :: "nat \<Rightarrow> db \<Rightarrow> db"
  rq_outage :: "nat \<Rightarrow> string option"
  rq_uuid :: string
  rq_nonce :: string
  rq_license :: license_proc
  rq_bridge :: "string \<Rightarrow> string \<Rightarrow> json \<Rightarrow> http_reply"
  rq_s3 :: "string \<Rightarrow> string \<Rightarrow> s3_reply"
  rq_net :: net

text \<open>
  \<open>w_sent\<close> is the list of requests that left for the orchestrator's bridge and \<open>w_out\<close> of those that left
  for an LLM provider (URL, key, body), the latest first.
\<close>

record world =
  w_db :: db
  w_steps :: nat
  w_sent :: "(string \<times> json) list"
  w_out :: "(string \<times> string \<times> json) list"

type_synonym 'a handler = "(world, api_error, 'a) act"

definition sqlE :: "request \<Rightarrow> ('x \<Rightarrow> api_error) \<Rightarrow> (instant \<Rightarrow> db \<Rightarrow> ('x + 'a) \<times> db) \<Rightarrow> 'a handler" where
  "sqlE rq err f = (\<lambda>w.
     let d0 = rq_other rq (w_steps w) (w_db w) in
     case rq_outage rq (w_steps w) of
       Some e \<Rightarrow> (Inl (Database e), w\<lparr>w_db := d0, w_steps := w_steps w + 1\<rparr>)
     | None \<Rightarrow>
         let (r, d) = f (rq_clock rq (w_steps w)) d0; w' = w\<lparr>w_db := d, w_steps := w_steps w + 1\<rparr>
         in (case r of Inl e \<Rightarrow> (Inl (err e), w') | Inr x \<Rightarrow> (Inr x, w')))"

text \<open>The database answers every statement.\<close>

definition healthy :: "request \<Rightarrow> bool" where
  "healthy rq \<longleftrightarrow> (\<forall>n. rq_outage rq n = None)"

definition database :: "db_error \<Rightarrow> api_error" where
  "database e = Database (db_error_text e)"

text \<open>A statement that only reads, and one that writes without returning anything.\<close>

definition query :: "request \<Rightarrow> (db \<Rightarrow> 'a) \<Rightarrow> 'a handler" where
  "query rq f = sqlE rq database (\<lambda>_ d. (Inr (f d), d))"

definition execute :: "request \<Rightarrow> (instant \<Rightarrow> db \<Rightarrow> db) \<Rightarrow> unit handler" where
  "execute rq f = sqlE rq database (\<lambda>now d. (Inr (), f now d))"

definition record_audit ::
    "request \<Rightarrow> int \<Rightarrow> string \<Rightarrow> string \<Rightarrow> string option \<Rightarrow> string \<Rightarrow> json option \<Rightarrow> json option \<Rightarrow> unit handler" where
  "record_audit rq org actor entity entity_id action before after =
     sqlE rq database (\<lambda>now d.
       if \<not> org_exists d org then (Inl ForeignKeyViolation, d)
       else (Inr (), d\<lparr>db_audit := \<lparr>au_org_id = org, au_actor = actor, au_entity = entity, au_entity_id = entity_id,
              au_action = action, au_before = before, au_after = after, au_ts = now\<rparr> # db_audit d\<rparr>))"

definition gate :: "request \<Rightarrow> unit handler" where
  "gate rq = lift (require_licensed (rq_license rq) (rq_now rq))"

section \<open>Claims and roles\<close>

record claims =
  cl_sub :: string
  cl_org :: int
  cl_role :: string
  cl_iss :: string
  cl_aud :: string
  cl_iat :: int
  cl_exp :: int

definition require_role :: "claims \<Rightarrow> string list \<Rightarrow> unit handler" where
  "require_role c required = (if cl_role c \<in> set required then ok () else throw Forbidden)"

definition user_id :: "claims \<Rightarrow> int handler" where
  "user_id c = lift (ok_or Unauthorized (parse_i64 (cl_sub c)))"

section \<open>Rows as JSON\<close>

definition jts :: "libs \<Rightarrow> instant \<Rightarrow> json" where
  "jts L t = JStr (lib_fmt_ts L t)"

definition jostr :: "string option \<Rightarrow> json" where "jostr = jopt JStr"
definition joint :: "int option \<Rightarrow> json" where "joint = jopt jint"
definition jots :: "libs \<Rightarrow> instant option \<Rightarrow> json" where "jots L = jopt (jts L)"
definition jojson :: "json option \<Rightarrow> json" where "jojson = jopt id"

definition template_json :: "libs \<Rightarrow> rule_template_row \<Rightarrow> json" where
  "template_json L r = json_obj
     [(''id'', jint (rt_id r)), (''org_id'', jint (rt_org_id r)), (''template_key'', JStr (rt_template_key r)),
      (''version'', jint (rt_version r)), (''name'', JStr (rt_name r)), (''schema_json'', rt_schema_json r),
      (''published'', JBool (rt_published r)), (''created_by'', joint (rt_created_by r)),
      (''created_at'', jts L (rt_created_at r))]"

definition connector_json :: "libs \<Rightarrow> connector_row \<Rightarrow> json" where
  "connector_json L r = json_obj
     [(''id'', jint (cn_id r)), (''org_id'', jint (cn_org_id r)), (''name'', JStr (cn_name r)),
      (''connector_kind'', JStr (cn_connector_kind r)), (''config_json'', cn_config_json r),
      (''secret_id'', joint (cn_secret_id r)), (''created_by'', joint (cn_created_by r)),
      (''created_at'', jts L (cn_created_at r)), (''updated_at'', jts L (cn_updated_at r))]"

definition job_json :: "libs \<Rightarrow> job_row \<Rightarrow> json" where
  "job_json L r = json_obj
     [(''id'', jint (jb_id r)), (''org_id'', jint (jb_org_id r)), (''rule_template_id'', jint (jb_rule_template_id r)),
      (''rule_template_version'', jint (jb_rule_template_version r)), (''schedule_id'', joint (jb_schedule_id r)),
      (''source_ref'', jb_source_ref r), (''status'', JStr (jb_status r)), (''totals_json'', jb_totals_json r),
      (''temporal_workflow_id'', jostr (jb_temporal_workflow_id r)), (''temporal_run_id'', jostr (jb_temporal_run_id r)),
      (''started_at'', jots L (jb_started_at r)), (''paused_at'', jots L (jb_paused_at r)),
      (''finished_at'', jots L (jb_finished_at r)), (''created_by'', joint (jb_created_by r)),
      (''created_at'', jts L (jb_created_at r)), (''updated_at'', jts L (jb_updated_at r)),
      (''batch_id'', joint (jb_batch_id r)), (''batch_stage_id'', joint (jb_batch_stage_id r)),
      (''results_ref'', jojson (jb_results_ref r)), (''last_error'', jostr (jb_last_error r)),
      (''export_status'', jostr (jb_export_status r)), (''export_error'', jostr (jb_export_error r))]"

definition schedule_json :: "libs \<Rightarrow> schedule_row \<Rightarrow> json" where
  "schedule_json L r = json_obj
     [(''id'', jint (sd_id r)), (''org_id'', jint (sd_org_id r)), (''name'', JStr (sd_name r)),
      (''rule_template_id'', jint (sd_rule_template_id r)), (''rule_template_version'', jint (sd_rule_template_version r)),
      (''connector_id'', jint (sd_connector_id r)), (''spec_json'', sd_spec_json r), (''timezone'', JStr (sd_timezone r)),
      (''overlap_policy'', JStr (sd_overlap_policy r)), (''catchup_window_seconds'', jint (sd_catchup_window_seconds r)),
      (''enabled'', JBool (sd_enabled r)), (''next_run_at'', jots L (sd_next_run_at r)),
      (''last_run_at'', jots L (sd_last_run_at r)), (''temporal_schedule_id'', jostr (sd_temporal_schedule_id r)),
      (''created_by'', joint (sd_created_by r)), (''created_at'', jts L (sd_created_at r)),
      (''updated_at'', jts L (sd_updated_at r))]"

definition batch_json :: "libs \<Rightarrow> batch_row \<Rightarrow> json" where
  "batch_json L r = json_obj
     [(''id'', jint (bt_id r)), (''org_id'', jint (bt_org_id r)), (''schedule_id'', joint (bt_schedule_id r)),
      (''connector_id'', joint (bt_connector_id r)), (''batch_key'', jostr (bt_batch_key r)),
      (''source_ref'', bt_source_ref r), (''status'', JStr (bt_status r)),
      (''on_stage_failure'', JStr (bt_on_stage_failure r)), (''manifest_json'', jojson (bt_manifest_json r)),
      (''temporal_workflow_id'', jostr (bt_temporal_workflow_id r)), (''temporal_run_id'', jostr (bt_temporal_run_id r)),
      (''error_message'', jostr (bt_error_message r)), (''quarantine_ref'', jojson (bt_quarantine_ref r)),
      (''started_at'', jots L (bt_started_at r)), (''finished_at'', jots L (bt_finished_at r)),
      (''created_at'', jts L (bt_created_at r)), (''updated_at'', jts L (bt_updated_at r))]"

section \<open>Framing of handlers\<close>

text \<open>
  A relation between the databases before and after. The laws are proved once: a handler built
  from statements that stay within \<open>Q\<close> stays within \<open>Q\<close>, if the rest of the system does.
\<close>

definition on_db :: "(db \<Rightarrow> db \<Rightarrow> bool) \<Rightarrow> world \<Rightarrow> world \<Rightarrow> bool" where
  "on_db Q w w' \<longleftrightarrow> Q (w_db w) (w_db w')"

definition relies :: "(db \<Rightarrow> db \<Rightarrow> bool) \<Rightarrow> request \<Rightarrow> bool" where
  "relies Q rq \<longleftrightarrow> (\<forall>n d. Q d (rq_other rq n d))"

locale db_framing =
  fixes Q :: "db \<Rightarrow> db \<Rightarrow> bool"
  assumes db_refl: "Q d d"
    and db_trans: "Q d d' \<Longrightarrow> Q d' d'' \<Longrightarrow> Q d d''"

sublocale db_framing \<subseteq> framing "on_db Q"
  by unfold_locales (auto simp: on_db_def intro: db_refl db_trans)

context db_framing
begin

lemma pres_sqlE:
  assumes "relies Q rq" and "\<And>now d. Q d (snd (f now d))"
  shows "preserves (on_db Q) (sqlE rq err f)"
  unfolding preserves_def
proof
  fix w :: world
  let ?d = "rq_other rq (w_steps w) (w_db w)"
  have "Q (w_db w) ?d" using assms(1) by (simp add: relies_def)
  moreover have "Q ?d (snd (f (rq_clock rq (w_steps w)) ?d))" by (rule assms(2))
  ultimately have "Q (w_db w) (snd (f (rq_clock rq (w_steps w)) ?d))" by (rule db_trans)
  with \<open>Q (w_db w) ?d\<close> show "on_db Q w (snd (sqlE rq err f w))"
    by (simp add: sqlE_def on_db_def Let_def split_beta split: sum.split option.split)
qed

lemma pres_query: "relies Q rq \<Longrightarrow> preserves (on_db Q) (query rq f)"
  unfolding query_def by (rule pres_sqlE) (simp_all add: db_refl)

lemma pres_execute: "relies Q rq \<Longrightarrow> (\<And>now d. Q d (f now d)) \<Longrightarrow> preserves (on_db Q) (execute rq f)"
  unfolding execute_def by (rule pres_sqlE) simp_all

lemma pres_record_audit:
  "relies Q rq \<Longrightarrow> (\<And>d e. au_org_id e = org \<Longrightarrow> Q d (d\<lparr>db_audit := e # db_audit d\<rparr>)) \<Longrightarrow>
   preserves (on_db Q) (record_audit rq org actor entity eid action before after)"
  unfolding record_audit_def by (rule pres_sqlE) (auto simp: db_refl)

lemma pres_gate: "preserves (on_db Q) (gate rq)"
  unfolding gate_def by (rule pres_lift)

lemma pres_require_role: "preserves (on_db Q) (require_role c roles)"
  unfolding require_role_def by (intro pres_if pres_ok pres_throw)

lemma pres_user_id: "preserves (on_db Q) (user_id c)"
  unfolding user_id_def by (rule pres_lift)

lemma pres_sent: "preserves (on_db Q) (modify (\<lambda>w. w\<lparr>w_sent := f w\<rparr>))"
  by (rule pres_modify) (simp add: on_db_def db_refl)

lemmas handler_rules = pres_rules pres_query pres_gate pres_require_role pres_user_id pres_sent

end

section \<open>Running single steps\<close>

lemma sqlE_Inr [act_simps]:
  "sqlE rq err f w = (Inr x, w') \<longleftrightarrow> rq_outage rq (w_steps w) = None \<and>
     fst (f (rq_clock rq (w_steps w)) (rq_other rq (w_steps w) (w_db w))) = Inr x
     \<and> w' = w\<lparr>w_db := snd (f (rq_clock rq (w_steps w)) (rq_other rq (w_steps w) (w_db w))), w_steps := w_steps w + 1\<rparr>"
  by (auto simp: sqlE_def Let_def split_beta split: sum.splits option.splits)

text \<open>A statement on a database that answers.\<close>

lemma sqlE_up:
  "rq_outage rq (w_steps w) = None \<Longrightarrow> sqlE rq err f w =
     (let (r, d) = f (rq_clock rq (w_steps w)) (rq_other rq (w_steps w) (w_db w));
          w' = w\<lparr>w_db := d, w_steps := w_steps w + 1\<rparr>
      in (case r of Inl e \<Rightarrow> (Inl (err e), w') | Inr x \<Rightarrow> (Inr x, w')))"
  by (simp add: sqlE_def)

lemma query_up:
  "rq_outage rq (w_steps w) = None \<Longrightarrow> query rq f w = (Inr (f (rq_other rq (w_steps w) (w_db w))),
     w\<lparr>w_db := rq_other rq (w_steps w) (w_db w), w_steps := w_steps w + 1\<rparr>)"
  by (simp add: query_def sqlE_up)

lemma healthyD: "healthy rq \<Longrightarrow> rq_outage rq n = None"
  by (simp add: healthy_def)

lemma query_Inr [act_simps]:
  "query rq f w = (Inr x, w') \<longleftrightarrow> rq_outage rq (w_steps w) = None \<and> x = f (rq_other rq (w_steps w) (w_db w))
     \<and> w' = w\<lparr>w_db := rq_other rq (w_steps w) (w_db w), w_steps := w_steps w + 1\<rparr>"
  by (auto simp: query_def sqlE_Inr)

lemma require_role_Inr [act_simps]: "require_role c roles w = (Inr x, w') \<longleftrightarrow> cl_role c \<in> set roles \<and> w' = w"
  by (auto simp: require_role_def ok_def throw_def)

lemma gate_Inr [act_simps]:
  "gate rq w = (Inr x, w') \<longleftrightarrow> require_licensed (rq_license rq) (rq_now rq) = Inr () \<and> w' = w"
  by (auto simp: gate_def lift_def)

lemma user_id_Inr [act_simps]: "user_id c w = (Inr u, w') \<longleftrightarrow> parse_i64 (cl_sub c) = Some u \<and> w' = w"
  by (auto simp: user_id_def act_simps)

lemma record_audit_Inr [act_simps]:
  "record_audit rq org actor entity eid action before after w = (Inr x, w') \<longleftrightarrow>
     (let d = rq_other rq (w_steps w) (w_db w) in
      rq_outage rq (w_steps w) = None \<and> org_exists d org \<and> w' = w\<lparr>w_steps := w_steps w + 1, w_db := d\<lparr>db_audit :=
        \<lparr>au_org_id = org, au_actor = actor, au_entity = entity, au_entity_id = eid, au_action = action,
          au_before = before, au_after = after, au_ts = rq_clock rq (w_steps w)\<rparr> # db_audit d\<rparr>\<rparr>)"
  by (auto simp: record_audit_def sqlE_Inr Let_def)

lemma update_where_find:
  "List.find p (update_where p f rs) = map_option f (List.find p rs)" if "\<And>r. p r \<Longrightarrow> p (f r)"
  using that by (induction rs) (auto simp: update_where_def)

lemma find_Some_in: "List.find p xs = Some x \<Longrightarrow> x \<in> set xs \<and> p x"
  by (auto simp: find_Some_iff)

lemma find_unique:
  assumes "x \<in> set xs" and "P x" and "\<And>y. y \<in> set xs \<Longrightarrow> P y \<Longrightarrow> y = x"
  shows "List.find P xs = Some x"
proof -
  obtain y where "List.find P xs = Some y" using assms(1,2) by (cases "List.find P xs") (auto simp: find_None_iff)
  with assms(3) show ?thesis by (auto dest: find_Some_in)
qed

end
