(* ===== verification/Temporal.thy ===== *)
theory Temporal
  imports App_State
begin

text \<open>
  The client of the orchestrator's Temporal bridge (\<^verbatim>\<open>src/apps/api/src/temporal.rs\<close>): one POST per
  operation, the classification of its outcome, and the reading of schedule specifications. The
  HTTP reply is an argument of the request; \<open>w_sent\<close> records what left the process. The cron and
  duration grammars (crates \<^verbatim>\<open>cron\<close> and \<^verbatim>\<open>humantime\<close>) and the reason phrase of a status are
  arguments as well, and so are the other libraries the handlers use: the compiled JSON Schema (as
  the list of its error messages for a body), the text of a serde error, the collation of the
  database, the record writer of the csv crate and the AES-GCM sealing of a secret under a given nonce.
\<close>

record temporal_client =
  tc_bridge_url :: "string option"
  tc_bridge_token :: string
  tc_namespace :: string

definition temporal_new :: "string option \<Rightarrow> string \<Rightarrow> string \<Rightarrow> temporal_client" where
  "temporal_new url token namespace =
     \<lparr>tc_bridge_url = opt_filter (\<lambda>u. u \<noteq> []) (map_option (trim_end_matches (CHR ''/'')) url),
       tc_bridge_token = token, tc_namespace = namespace\<rparr>"

definition is_stub :: "temporal_client \<Rightarrow> bool" where
  "is_stub tc \<longleftrightarrow> tc_bridge_url tc = None"

text \<open>
  The remaining libraries: the reader of URLs, the text of a JSON syntax error, JSON web tokens (with the issuer and audience to
  accept and the time), Argon2, case-insensitive text of the database, AES-GCM opening, UTF-8 checking,
  regular expressions, the text of the rule-template schema (a data file of the repository), SHA-256 in hexadecimal, the readers of dates, of CSV and of XML.
\<close>

record url =
  ur_scheme :: string
  ur_host :: "string option"
  ur_port :: "nat option"
  ur_port_or_default :: "nat option"

datatype xml_event =
    XEof
  | XStart string "(string \<times> string) list"
  | XEmpty string "(string \<times> string) list"
  | XEnd
  | XText "string + string"
  | XOther

record crates =
  cr_url :: "string \<Rightarrow> string + url"
  cr_json_error :: "string \<Rightarrow> string"
  cr_jwt_encode :: "claims \<Rightarrow> string + string"
  cr_jwt_decode :: "string \<Rightarrow> string \<Rightarrow> instant \<Rightarrow> string \<Rightarrow> claims option"
  cr_argon_hash :: "string \<Rightarrow> string \<Rightarrow> string + string"
  cr_argon_parse :: "string \<Rightarrow> string option"
  cr_argon_verify :: "string \<Rightarrow> string \<Rightarrow> bool"
  cr_citext_eq :: "string \<Rightarrow> string \<Rightarrow> bool"
  cr_decrypt :: "string \<Rightarrow> string \<Rightarrow> string option"
  cr_is_utf8 :: "string \<Rightarrow> bool"
  cr_replace_all :: "string \<Rightarrow> string \<Rightarrow> string \<Rightarrow> string"
  cr_rule_schema_text :: string
  cr_sha256_hex :: "string \<Rightarrow> string"
  cr_is_rfc3339 :: "string \<Rightarrow> bool"
  cr_is_date :: "string \<Rightarrow> bool"
  cr_csv :: "char \<Rightarrow> string \<Rightarrow> (string + string list) \<times> (string + string list) list"
  cr_xml :: "string \<Rightarrow> (string + xml_event) list"

text \<open>The part of the application state that the handlers use.\<close>

record app =
  ap_libs :: libs
  ap_temporal :: temporal_client
  ap_status_text :: "nat \<Rightarrow> string"
  ap_minio_bucket :: string
  ap_watch_allowed_buckets :: "string list"
  ap_schema_errors :: "json \<Rightarrow> string list"
  ap_shape_error :: "json \<Rightarrow> string"
  ap_cron_ok :: "string \<Rightarrow> bool"
  ap_interval_ok :: "string \<Rightarrow> bool"
  ap_csv_record :: "string list \<Rightarrow> string"
  ap_collate :: "string \<Rightarrow> string \<Rightarrow> bool"
  ap_encrypt :: "string \<Rightarrow> string \<Rightarrow> string option"
  ap_env :: env
  ap_issuer :: string
  ap_audience :: string
  ap_crates :: crates

datatype temporal_error =
    WorkflowAlreadyRunning string
  | WorkflowNotFound string
  | BridgeConnect string
  | BridgeSend string
  | BridgeStatus string nat string

text \<open>The display of the error; for a failed request it is the context the code attached.\<close>

fun temporal_display :: "app \<Rightarrow> temporal_error \<Rightarrow> string" where
  "temporal_display ap (WorkflowAlreadyRunning m) = m"
| "temporal_display ap (WorkflowNotFound m) = m"
| "temporal_display ap (BridgeConnect path) = ''bridge request '' @ path"
| "temporal_display ap (BridgeSend path) = ''bridge request '' @ path"
| "temporal_display ap (BridgeStatus path status m) =
     ''bridge '' @ path @ '' returned '' @ ap_status_text ap status @ '': '' @ m"

definition payload_of :: "libs \<Rightarrow> string option \<Rightarrow> json" where
  "payload_of L body = unwrap_or (JObj []) (Option.bind body (lib_parse L))"

definition bridge_outcome :: "string \<Rightarrow> nat \<Rightarrow> json \<Rightarrow> temporal_error + json" where
  "bridge_outcome path status payload =
     (let msg = (\<lambda>d. unwrap_or d (jget_str payload ''error'')) in
      if status = 409 then Inl (WorkflowAlreadyRunning (msg ''workflow is already running''))
      else if status = 404 then Inl (WorkflowNotFound (msg ''workflow not found''))
      else if \<not> is_success status then Inl (BridgeStatus path status (msg ''unknown error''))
      else Inr payload)"

type_synonym 'a bridge_act = "(world, temporal_error, 'a) act"

definition post :: "app \<Rightarrow> request \<Rightarrow> string \<Rightarrow> json \<Rightarrow> json bridge_act" where
  "post ap rq path body =
     (case tc_bridge_url (ap_temporal ap) of
        None \<Rightarrow> ok (json_obj [(''stub'', JBool True)])
      | Some base \<Rightarrow>
          bindE (modify (\<lambda>w. w\<lparr>w_sent := (path, body) # w_sent w\<rparr>)) (\<lambda>_.
          lift (case rq_bridge rq (base @ path) (tc_bridge_token (ap_temporal ap)) body of
                  ClientFailed _ \<Rightarrow> Inl (BridgeSend path)
                | ConnectFailed _ \<Rightarrow> Inl (BridgeConnect path)
                | SendFailed _ \<Rightarrow> Inl (BridgeSend path)
                | BodyFailed status _ \<Rightarrow> bridge_outcome path status (payload_of (ap_libs ap) None)
                | Reply status raw \<Rightarrow> bridge_outcome path status (payload_of (ap_libs ap) (Some raw)))))"

section \<open>Workflows\<close>

definition start_body :: "string \<Rightarrow> string \<Rightarrow> json \<Rightarrow> json" where
  "start_body workflow_id workflow_type input = json_obj
     [(''workflowId'', JStr workflow_id), (''workflowType'', JStr workflow_type),
      (''taskQueue'', JStr ''migration''), (''input'', input)]"

definition start_workflow :: "app \<Rightarrow> request \<Rightarrow> string \<Rightarrow> string \<Rightarrow> json \<Rightarrow> string bridge_act" where
  "start_workflow ap rq workflow_id workflow_type input =
     bindE (post ap rq ''/v1/workflows/start'' (start_body workflow_id workflow_type input)) (\<lambda>resp.
       ok (unwrap_or (''run-'' @ workflow_id) (jget_str resp ''runId'')))"

definition start_migration_workflow :: "app \<Rightarrow> request \<Rightarrow> string \<Rightarrow> json \<Rightarrow> string bridge_act" where
  "start_migration_workflow ap rq workflow_id input = start_workflow ap rq workflow_id ''MigrationWorkflow'' input"

definition post_unit :: "app \<Rightarrow> request \<Rightarrow> string \<Rightarrow> json \<Rightarrow> unit bridge_act" where
  "post_unit ap rq path body = bindE (post ap rq path body) (\<lambda>_. ok ())"

definition signal_workflow :: "app \<Rightarrow> request \<Rightarrow> string \<Rightarrow> string \<Rightarrow> json \<Rightarrow> unit bridge_act" where
  "signal_workflow ap rq workflow_id signal payload = post_unit ap rq ''/v1/workflows/signal''
     (json_obj [(''workflowId'', JStr workflow_id), (''signal'', JStr signal), (''payload'', payload)])"

definition cancel_workflow :: "app \<Rightarrow> request \<Rightarrow> string \<Rightarrow> unit bridge_act" where
  "cancel_workflow ap rq workflow_id =
     post_unit ap rq ''/v1/workflows/cancel'' (json_obj [(''workflowId'', JStr workflow_id)])"

definition test_sftp_connector :: "app \<Rightarrow> request \<Rightarrow> int \<Rightarrow> int \<Rightarrow> unit bridge_act" where
  "test_sftp_connector ap rq org_id connector_id = post_unit ap rq ''/v1/connectors/sftp/test''
     (json_obj [(''orgId'', jint org_id), (''connectorId'', jint connector_id)])"

section \<open>Schedules\<close>

definition set_key :: "string \<Rightarrow> json \<Rightarrow> json \<Rightarrow> json" where
  "set_key k v body = (case body of JObj m \<Rightarrow> JObj (map_insert k v m) | _ \<Rightarrow> body)"

definition merge_spec :: "json \<Rightarrow> json \<Rightarrow> json" where
  "merge_spec body spec =
     (let b1 = (case jget_str spec ''cron'' of Some c \<Rightarrow> set_key ''cron'' (JStr c) body | None \<Rightarrow> body)
      in (case jget_str spec ''every'' of Some e \<Rightarrow> set_key ''every'' (JStr e) b1 | None \<Rightarrow> b1))"

definition bridge_create_schedule ::
    "app \<Rightarrow> request \<Rightarrow> string \<Rightarrow> json \<Rightarrow> json \<Rightarrow> string \<Rightarrow> int \<Rightarrow> string \<Rightarrow> unit bridge_act" where
  "bridge_create_schedule ap rq schedule_id spec workflow_input overlap_policy catchup timezone =
     post_unit ap rq ''/v1/schedules/create'' (merge_spec (json_obj
       [(''scheduleId'', JStr schedule_id), (''timezone'', JStr timezone), (''overlapPolicy'', JStr overlap_policy),
        (''catchupWindowSeconds'', jint catchup), (''workflowType'', JStr ''WatchPrefixWorkflow''),
        (''taskQueue'', JStr ''migration''), (''input'', workflow_input)]) spec)"

definition bridge_update_schedule :: "app \<Rightarrow> request \<Rightarrow> string \<Rightarrow> json \<Rightarrow> json \<Rightarrow> unit bridge_act" where
  "bridge_update_schedule ap rq schedule_id spec workflow_input =
     post_unit ap rq ''/v1/schedules/update''
       (merge_spec (json_obj [(''scheduleId'', JStr schedule_id), (''input'', workflow_input)]) spec)"

definition schedule_op :: "app \<Rightarrow> request \<Rightarrow> string \<Rightarrow> string \<Rightarrow> unit bridge_act" where
  "schedule_op ap rq path schedule_id = post_unit ap rq path (json_obj [(''scheduleId'', JStr schedule_id)])"

definition bridge_pause_schedule :: "app \<Rightarrow> request \<Rightarrow> string \<Rightarrow> unit bridge_act" where
  "bridge_pause_schedule ap rq = schedule_op ap rq ''/v1/schedules/pause''"

definition bridge_unpause_schedule :: "app \<Rightarrow> request \<Rightarrow> string \<Rightarrow> unit bridge_act" where
  "bridge_unpause_schedule ap rq = schedule_op ap rq ''/v1/schedules/unpause''"

definition bridge_delete_schedule :: "app \<Rightarrow> request \<Rightarrow> string \<Rightarrow> unit bridge_act" where
  "bridge_delete_schedule ap rq = schedule_op ap rq ''/v1/schedules/delete''"

definition bridge_trigger_schedule :: "app \<Rightarrow> request \<Rightarrow> string \<Rightarrow> unit bridge_act" where
  "bridge_trigger_schedule ap rq = schedule_op ap rq ''/v1/schedules/trigger''"

section \<open>Schedule specifications\<close>

definition cron_for_validation :: "string \<Rightarrow> string + string" where
  "cron_for_validation expr =
     (let trimmed = trim expr; fields = length (split_whitespace trimmed) in
      if fields = 5 then Inr (''0 '' @ trimmed)
      else if fields = 6 \<or> fields = 7 then Inr trimmed
      else Inl (''invalid cron: expected 5-field POSIX (m h dom mon dow) or 6/7-field with seconds, got ''
                @ show_nat fields @ '' fields''))"

definition normalise_spec :: "app \<Rightarrow> json \<Rightarrow> string + json" where
  "normalise_spec ap raw =
     (if jget raw ''cron'' \<noteq> None then
        (case jget_str raw ''cron'' of
           None \<Rightarrow> Inl ''cron missing''
         | Some cron \<Rightarrow>
             (let trimmed = trim cron in
              case cron_for_validation trimmed of Inl e \<Rightarrow> Inl e
              | Inr for_parse \<Rightarrow>
                  if \<not> ap_cron_ok ap for_parse then Inl ''invalid cron''
                  else Inr (json_obj [(''cron'', JStr trimmed)])))
      else (case jget_str raw ''every'' of
              Some interval \<Rightarrow>
                if \<not> ap_interval_ok ap interval then Inl ''invalid interval''
                else Inr (json_obj [(''every'', JStr interval)])
            | None \<Rightarrow> Inl (''spec must contain '' @ [CHR 0x27] @ ''cron'' @ [CHR 0x27] @ '' or '' @ [CHR 0x27] @ ''every'' @ [CHR 0x27])))"

section \<open>Framing and outcomes\<close>

context db_framing
begin

lemma pres_post: "preserves (on_db Q) (post ap rq path body)"
  unfolding post_def by (intro pres_rules pres_sent)

lemma pres_start_workflow: "preserves (on_db Q) (start_workflow ap rq wid wt input)"
  unfolding start_workflow_def by (intro pres_rules pres_post)

lemma pres_post_unit: "preserves (on_db Q) (post_unit ap rq path body)"
  unfolding post_unit_def by (intro pres_rules pres_post)

lemmas bridge_rules = pres_start_workflow pres_post_unit

end

lemma post_db [simp]: "w_db (snd (post ap rq path body w)) = w_db w" "w_steps (snd (post ap rq path body w)) = w_steps w"
  by (auto simp: post_def bindE_def modify_def lift_def ok_def split: option.splits)

lemma start_workflow_db [simp]:
  "w_db (snd (start_workflow ap rq wid wt input w)) = w_db w"
  "w_steps (snd (start_workflow ap rq wid wt input w)) = w_steps w"
  by (simp_all add: start_workflow_def)

lemma post_unit_db [simp]:
  "w_db (snd (post_unit ap rq path body w)) = w_db w" "w_steps (snd (post_unit ap rq path body w)) = w_steps w"
  by (simp_all add: post_unit_def)

lemma post_sent:
  "w_sent (snd (post ap rq path body w)) =
     (if is_stub (ap_temporal ap) then w_sent w else (path, body) # w_sent w)"
  by (auto simp: post_def is_stub_def bindE_def modify_def lift_def ok_def split: option.splits)

lemma post_unit_sent: "w_sent (snd (post_unit ap rq path body w)) =
     (if is_stub (ap_temporal ap) then w_sent w else (path, body) # w_sent w)"
  by (simp add: post_unit_def post_sent)

lemma start_workflow_sent: "w_sent (snd (start_workflow ap rq wid wt input w)) =
     (if is_stub (ap_temporal ap) then w_sent w else (''/v1/workflows/start'', start_body wid wt input) # w_sent w)"
  by (simp add: start_workflow_def post_sent)

end
