(* ===== verification/Sources.thy ===== *)
theory Sources
  imports App_State
begin

text \<open>
  The organization-owned source registry (\<^verbatim>\<open>src/apps/api/src/sources.rs\<close>): reading a client's
  \<^verbatim>\<open>source_ref\<close>, resolving it against the caller's organization, registering uploads and confining
  watched locations; and the operator-facing summary of a job's source
  (\<^verbatim>\<open>src/apps/api/src/job_source.rs\<close>).
\<close>

section \<open>Reading a request\<close>

definition CONNECTOR_EXTRA_KEYS :: "string list" where
  "CONNECTOR_EXTRA_KEYS = [''soql'', ''cursorField'', ''cursor'']"

definition JOB_CONNECTOR_KINDS :: "string list" where
  "JOB_CONNECTOR_KINDS = [''salesforce'']"

datatype source_request =
    ById int
  | ObjectReq string string
  | ConnectorReq int "json btree"

definition ACCEPTED :: string where
  \<open>ACCEPTED = ''expected {"source_id": N}, an upload source_ref ({"type":"minio","bucket","key"} from POST /files), or {"type":"connector","connector_id": N, "extra": {...}}''\<close>

fun join :: "string \<Rightarrow> string list \<Rightarrow> string" where
  "join sep [] = []"
| "join sep [x] = x"
| "join sep (x # y # xs) = x @ sep @ join sep (y # xs)"

definition positive_id :: "json \<Rightarrow> int option" where
  "positive_id v = opt_filter (\<lambda>n. 0 < n) (as_i64 v)"

definition required_field :: "json \<Rightarrow> string \<Rightarrow> string api_result" where
  "required_field v name =
     ok_or (BadRequest (''source_ref.'' @ name @ '' is required''))
       (opt_filter (\<lambda>s. s \<noteq> []) (map_option trim (jget_str v name)))"

text \<open>The entries of \<^verbatim>\<open>extra\<close> are checked in key order; the first bad one is reported.\<close>

fun check_extra :: "json btree \<Rightarrow> unit api_result" where
  "check_extra [] = Inr ()"
| "check_extra ((k, v) # m) =
     (if k \<notin> set CONNECTOR_EXTRA_KEYS then Inl (BadRequest (''source_ref.extra.'' @ k @
          '' is not allowed; allowed: '' @ join '', '' CONNECTOR_EXTRA_KEYS))
      else if as_str v = None then Inl (BadRequest (''source_ref.extra.'' @ k @ '' must be a string''))
      else check_extra m)"

definition read_extra :: "json \<Rightarrow> json btree api_result" where
  "read_extra v =
     (case jget v ''extra'' of
        None \<Rightarrow> Inr []
      | Some JNull \<Rightarrow> Inr []
      | Some (JObj m) \<Rightarrow> Inr m
      | Some _ \<Rightarrow> Inl (BadRequest ''source_ref.extra must be an object''))"

definition forbidden_key :: "json \<Rightarrow> string option" where
  "forbidden_key v = List.find (\<lambda>k. jget v k \<noteq> None) [''path'', ''url'', ''secret'']"

definition read_connector_id :: "json \<Rightarrow> int option api_result" where
  "read_connector_id v =
     (case or_else (jget v ''connector_id'') (jget v ''connectorId'') of
        None \<Rightarrow> Inr None
      | Some c \<Rightarrow> (case positive_id c of
           Some n \<Rightarrow> Inr (Some n)
         | None \<Rightarrow> Inl (BadRequest ''connector_id must be a positive integer'')))"

definition parse_source_request :: "json \<Rightarrow> source_request api_result" where
  "parse_source_request v =
     (if as_object v = None then Inl (BadRequest (''source_ref must be a JSON object; '' @ ACCEPTED))
      else (case jget v ''source_id'' of
        Some sid \<Rightarrow> (case positive_id sid of
             Some n \<Rightarrow> Inr (ById n)
           | None \<Rightarrow> Inl (BadRequest ''source_id must be a positive integer''))
      | None \<Rightarrow>
     (case forbidden_key v of
        Some k \<Rightarrow> Inl (BadRequest (''source_ref.'' @ k @ '' is not accepted; '' @ ACCEPTED))
      | None \<Rightarrow>
     (case read_connector_id v of Inl e \<Rightarrow> Inl e | Inr connector_id \<Rightarrow>
     (let kind = unwrap_or [] (jget_str v ''type'') in
      if kind = ''minio'' then
        (case required_field v ''bucket'' of Inl e \<Rightarrow> Inl e | Inr bucket \<Rightarrow>
        (case required_field v ''key'' of Inl e \<Rightarrow> Inl e | Inr key \<Rightarrow> Inr (ObjectReq bucket key)))
      else if (kind = ''connector'' \<or> kind = ''salesforce'') \<and> connector_id \<noteq> None then
        (case read_extra v of Inl e \<Rightarrow> Inl e | Inr extra \<Rightarrow>
        (case check_extra extra of Inl e \<Rightarrow> Inl e | Inr _ \<Rightarrow> Inr (ConnectorReq (the connector_id) extra)))
      else if kind = ''connector'' then
        Inl (BadRequest ''source_ref.connector_id is required for connector sources'')
      else Inl (BadRequest (''unsupported source_ref type '' @ debug_str kind @ ''; '' @ ACCEPTED)))))))"

section \<open>Resolving against an organization\<close>

datatype resolved_source =
    ObjectSource registered_source
  | ConnectorSource int string "json btree"

definition not_registered :: api_error where
  "not_registered = BadRequest
     ''source not found for this organization; upload the file with POST /files first''"

definition source_by_id :: "int \<Rightarrow> int \<Rightarrow> db \<Rightarrow> registered_source option" where
  "source_by_id org sid d = List.find (\<lambda>s. rs_id s = sid \<and> rs_org_id s = org) (db_sources d)"

definition source_by_object :: "int \<Rightarrow> string \<Rightarrow> string \<Rightarrow> db \<Rightarrow> registered_source option" where
  "source_by_object org bucket key d =
     List.find (\<lambda>s. rs_org_id s = org \<and> rs_bucket s = bucket \<and> rs_object_key s = key) (db_sources d)"

definition connector_by_id :: "int \<Rightarrow> int \<Rightarrow> db \<Rightarrow> connector_row option" where
  "connector_by_id org cid d = List.find (\<lambda>c. cn_id c = cid \<and> cn_org_id c = org) (db_connectors d)"

definition lookup_object :: "request \<Rightarrow> int \<Rightarrow> string \<Rightarrow> string \<Rightarrow> registered_source option handler" where
  "lookup_object rq org bucket key = query rq (source_by_object org bucket key)"

definition require_connector :: "request \<Rightarrow> int \<Rightarrow> int \<Rightarrow> string handler" where
  "require_connector rq org connector_id =
     bindE (query rq (\<lambda>d. map_option cn_connector_kind (connector_by_id org connector_id d))) (\<lambda>kind.
       lift (ok_or (BadRequest (''connector '' @ show_int connector_id @ '' not found'')) kind))"

fun resolve :: "request \<Rightarrow> int \<Rightarrow> source_request \<Rightarrow> resolved_source handler" where
  "resolve rq org (ById sid) =
     bindE (query rq (source_by_id org sid)) (\<lambda>row.
       lift (ok_or not_registered (map_option ObjectSource row)))"
| "resolve rq org (ObjectReq bucket key) =
     bindE (lookup_object rq org bucket key) (\<lambda>row.
       lift (ok_or not_registered (map_option ObjectSource row)))"
| "resolve rq org (ConnectorReq connector_id extra) =
     bindE (require_connector rq org connector_id) (\<lambda>kind.
       if kind \<notin> set JOB_CONNECTOR_KINDS then throw (BadRequest
         (''connector kind '' @ kind @ '' cannot feed a job directly; use a schedule''))
       else ok (ConnectorSource connector_id kind extra))"

definition resolve_object :: "request \<Rightarrow> int \<Rightarrow> source_request \<Rightarrow> registered_source handler" where
  "resolve_object rq org req =
     bindE (resolve rq org req) (\<lambda>r.
       case r of ObjectSource src \<Rightarrow> ok src
       | ConnectorSource _ _ _ \<Rightarrow>
           throw (BadRequest ''this operation needs an uploaded file source, not a connector''))"

section \<open>Uploads\<close>

record new_upload =
  nu_org :: int
  nu_created_by :: "int option"
  nu_bucket :: string
  nu_key :: string
  nu_sha256 :: string
  nu_etag :: "string option"
  nu_size :: int
  nu_filename :: string

definition format_from_filename :: "string \<Rightarrow> string" where
  "format_from_filename name =
     (let lower = to_ascii_lowercase name in
      if suffix ''.tar.gz'' lower \<or> suffix ''.tgz'' lower \<or> suffix ''.zip'' lower then ''archive''
      else if suffix ''.json'' lower \<or> suffix ''.ndjson'' lower \<or> suffix ''.jsonl'' lower then ''json''
      else if suffix ''.xml'' lower then ''xml''
      else ''csv'')"

text \<open>\<^verbatim>\<open>INSERT ... ON CONFLICT DO UPDATE ... RETURNING\<close>: a repeat upload refreshes name, format and ETag.\<close>

definition upsert_source :: "new_upload \<Rightarrow> db \<Rightarrow> (db_error + registered_source) \<times> db" where
  "upsert_source u d =
     (case source_by_object (nu_org u) (nu_bucket u) (nu_key u) d of
        Some old \<Rightarrow>
          (let new = old\<lparr>rs_filename := Some (nu_filename u),
                 rs_format := Some (format_from_filename (nu_filename u)),
                 rs_etag := or_else (nu_etag u) (rs_etag old)\<rparr>
           in (Inr new, bump T_sources (d\<lparr>db_sources := update_where
                (\<lambda>s. rs_org_id s = nu_org u \<and> rs_bucket s = nu_bucket u \<and> rs_object_key s = nu_key u)
                (\<lambda>_. new) (db_sources d)\<rparr>)))
      | None \<Rightarrow>
          if \<not> org_exists d (nu_org u) \<or> (case nu_created_by u of Some c \<Rightarrow> \<not> user_exists d c | None \<Rightarrow> False)
          then (Inl ForeignKeyViolation, bump T_sources d)
          else (let new = \<lparr>rs_id = db_next d T_sources, rs_org_id = nu_org u, rs_bucket = nu_bucket u,
                 rs_object_key = nu_key u, rs_sha256 = Some (nu_sha256 u), rs_etag = nu_etag u,
                 rs_size_bytes = Some (nu_size u), rs_filename = Some (nu_filename u),
                 rs_format = Some (format_from_filename (nu_filename u))\<rparr>
           in (Inr new, bump T_sources (d\<lparr>db_sources := db_sources d @ [new]\<rparr>))))"

definition register_upload :: "request \<Rightarrow> new_upload \<Rightarrow> registered_source handler" where
  "register_upload rq u = sqlE rq database (\<lambda>_. upsert_source u)"

section \<open>References stored on jobs\<close>

definition file_name :: "string \<Rightarrow> string" where
  "file_name key = rsplit_next (\<lambda>c. c = CHR ''/'') key"

definition registered_source_ref :: "registered_source \<Rightarrow> json" where
  "registered_source_ref s = json_obj
     [(''type'', JStr ''minio''), (''source_id'', jint (rs_id s)), (''bucket'', JStr (rs_bucket s)),
      (''key'', JStr (rs_object_key s)), (''filename'', JStr (unwrap_or (file_name (rs_object_key s)) (rs_filename s))),
      (''size'', joint (rs_size_bytes s)), (''sha256'', jostr (rs_sha256 s)), (''etag'', jostr (rs_etag s))]"

fun source_ref :: "resolved_source \<Rightarrow> json" where
  "source_ref (ObjectSource s) = registered_source_ref s"
| "source_ref (ConnectorSource connector_id kind extra) = json_obj
     [(''type'', JStr ''connector''), (''connector_id'', jint connector_id),
      (''connector_kind'', JStr kind), (''extra'', JObj extra)]"

section \<open>Watched locations\<close>

definition org_object_prefix :: "int \<Rightarrow> string" where
  "org_object_prefix org = ''orgs/'' @ show_int org @ ''/''"

definition check_bucket :: "string \<Rightarrow> string list \<Rightarrow> unit api_result" where
  "check_bucket bucket allowed =
     (if bucket \<in> set allowed then Inr ()
      else Inl (BadRequest (''bucket '' @ debug_str bucket @ '' is not allowed for watched connectors; allowed: ''
             @ join '', '' allowed)))"

definition cfg_text :: "json \<Rightarrow> string \<Rightarrow> string" where
  "cfg_text cfg k = trim (unwrap_or [] (jget_str cfg k))"

definition check_prefix :: "int \<Rightarrow> string \<Rightarrow> string \<Rightarrow> unit api_result" where
  "check_prefix org prefix0 field =
     (let p = trim_start_matches (CHR ''/'') prefix0; required = org_object_prefix org in
      if chr_backslash \<in> set p \<or> list_ex (\<lambda>seg. seg = ''..'') (split_on (CHR ''/'') p) \<or> \<not> prefix required p
      then Inl (BadRequest (field @ '' must start with '' @ required @ '' (got '' @ debug_str prefix0 @ '')''))
      else Inr ())"

definition check_connector_locations :: "string \<Rightarrow> json \<Rightarrow> int \<Rightarrow> string list \<Rightarrow> unit api_result" where
  "check_connector_locations kind cfg org allowed =
     (if kind = ''watched_prefix'' then
        (let bucket = unwrap_or (cfg_text cfg ''s3_bucket'')
               (opt_filter (\<lambda>b. b \<noteq> []) (Some (cfg_text cfg ''bucket''))) in
         case check_bucket bucket allowed of Inl e \<Rightarrow> Inl e
         | Inr _ \<Rightarrow> check_prefix org (cfg_text cfg ''prefix'') ''prefix'')
      else if kind = ''watched_sftp'' then
        (let bucket = unwrap_or ''migration''
               (List.find (\<lambda>b. b \<noteq> []) [cfg_text cfg ''staging_bucket'', cfg_text cfg ''bucket'']);
             pre = cfg_text cfg ''staging_prefix'' in
         if trim_matches (CHR ''/'') pre = [] \<or> trim_matches (CHR ''/'') pre = ''sftp-landing''
         then check_bucket bucket allowed
         else (case check_bucket bucket allowed of Inl e \<Rightarrow> Inl e
               | Inr _ \<Rightarrow> check_prefix org pre ''staging_prefix''))
      else Inr ())"

section \<open>Source summaries\<close>

definition string_field :: "json \<Rightarrow> string \<Rightarrow> string option" where
  "string_field v name = opt_filter (\<lambda>s. s \<noteq> []) (map_option trim (jget_str v name))"

definition nonempty :: "string option \<Rightarrow> string option" where
  "nonempty s = opt_filter (\<lambda>s. s \<noteq> []) (map_option trim s)"

definition basename :: "string \<Rightarrow> string" where
  "basename key =
     unwrap_or key (opt_filter (\<lambda>s. s \<noteq> []) (Some (rsplit_next (\<lambda>c. c = CHR ''/'' \<or> c = chr_backslash) key)))"

record parsed_ref =
  pr_kind :: string
  pr_bucket :: "string option"
  pr_key :: "string option"
  pr_filename :: "string option"
  pr_size :: "int option"
  pr_etag :: "string option"
  pr_sha256 :: "string option"

definition parse_ref :: "json \<Rightarrow> parsed_ref" where
  "parse_ref v =
     (case as_str v of
        Some s \<Rightarrow> \<lparr>pr_kind = ''upload'', pr_bucket = None, pr_key = Some s,
          pr_filename = opt_filter (\<lambda>p. p \<noteq> []) (Some (rsplit_next (\<lambda>c. c = CHR '':'') s)),
          pr_size = None, pr_etag = None, pr_sha256 = None\<rparr>
      | None \<Rightarrow>
          (let kind = unwrap_or ''unknown'' (Option.bind (or_else (jget v ''type'') (jget v ''kind'')) as_str);
               key = string_field v ''key'' in
           \<lparr>pr_kind = kind, pr_bucket = string_field v ''bucket'', pr_key = key,
             pr_filename = or_else (string_field v ''filename'') (map_option basename key),
             pr_size = Option.bind (jget v ''size'') as_i64, pr_etag = string_field v ''etag'',
             pr_sha256 = string_field v ''sha256''\<rparr>))"

record job_source_summary =
  sm_kind :: string
  sm_bucket :: "string option"
  sm_key :: "string option"
  sm_filename :: "string option"
  sm_size :: "int option"
  sm_etag :: "string option"
  sm_sha256 :: "string option"
  sm_batch_id :: "int option"
  sm_batch_stage_key :: "string option"
  sm_batch_stage_file :: "string option"
  sm_package_key :: "string option"
  sm_package_filename :: "string option"

definition summarize_source ::
    "json \<Rightarrow> int option \<Rightarrow> json option \<Rightarrow> string option \<Rightarrow> string option \<Rightarrow> job_source_summary" where
  "summarize_source ref batch_id batch_source_ref stage_key stage_file0 =
     (let parsed = parse_ref ref; package = map_option parse_ref batch_source_ref;
          stage_file = or_else (nonempty stage_file0) (or_else (pr_filename parsed) (map_option basename (pr_key parsed))) in
      \<lparr>sm_kind = pr_kind parsed, sm_bucket = pr_bucket parsed, sm_key = pr_key parsed,
        sm_filename = pr_filename parsed, sm_size = pr_size parsed, sm_etag = pr_etag parsed,
        sm_sha256 = pr_sha256 parsed, sm_batch_id = batch_id, sm_batch_stage_key = nonempty stage_key,
        sm_batch_stage_file = stage_file, sm_package_key = Option.bind package pr_key,
        sm_package_filename = Option.bind package (\<lambda>p. or_else (pr_filename p) (map_option basename (pr_key p)))\<rparr>)"

definition present :: "string \<Rightarrow> ('a \<Rightarrow> json) \<Rightarrow> 'a option \<Rightarrow> (string \<times> json) list" where
  "present name f x = (case x of None \<Rightarrow> [] | Some a \<Rightarrow> [(name, f a)])"

definition summary_json :: "job_source_summary \<Rightarrow> json" where
  "summary_json s = json_obj
     ([(''kind'', JStr (sm_kind s))] @ present ''bucket'' JStr (sm_bucket s) @ present ''key'' JStr (sm_key s)
      @ present ''filename'' JStr (sm_filename s) @ present ''size'' jint (sm_size s) @ present ''etag'' JStr (sm_etag s)
      @ present ''sha256'' JStr (sm_sha256 s) @ present ''batch_id'' jint (sm_batch_id s)
      @ present ''batch_stage_key'' JStr (sm_batch_stage_key s) @ present ''batch_stage_file'' JStr (sm_batch_stage_file s)
      @ present ''package_key'' JStr (sm_package_key s) @ present ''package_filename'' JStr (sm_package_filename s))"

definition job_json_with_source ::
    "libs \<Rightarrow> job_row \<Rightarrow> json option \<Rightarrow> string option \<Rightarrow> string option \<Rightarrow> json" where
  "job_json_with_source L job batch_source_ref stage_key stage_file =
     (case job_json L job of
        JObj m \<Rightarrow> JObj (map_insert ''source'' (summary_json
          (summarize_source (jb_source_ref job) (jb_batch_id job) batch_source_ref stage_key stage_file)) m)
      | v \<Rightarrow> v)"

end
