(* ===== verification/Templates.thy ===== *)
theory Templates
  imports Template_Types Temporal Sources
begin

text \<open>
  Rule templates (\<^verbatim>\<open>src/apps/api/src/routes/templates.rs\<close>): validation beyond the JSON Schema, and the
  handlers that list, create, version, publish and delete them.
\<close>

section \<open>Validation\<close>

fun collect_response_refs :: "json \<Rightarrow> string list" and collect_list :: "json list \<Rightarrow> string list"
  and collect_entries :: "(string \<times> json) list \<Rightarrow> string list" where
  "collect_response_refs (JObj m) =
     (case map_of m ''$fromResponse'' of Some (JStr step) \<Rightarrow> [step] | _ \<Rightarrow> []) @ collect_entries m"
| "collect_response_refs (JArr vs) = collect_list vs"
| "collect_response_refs v = []"
| "collect_list [] = []"
| "collect_list (v # vs) = collect_response_refs v @ collect_list vs"
| "collect_entries [] = []"
| "collect_entries ((k, v) # m) = collect_response_refs v @ collect_entries m"

definition step_refs :: "step \<Rightarrow> string list" where
  "step_refs s =
     (case st_mapping s of Some m \<Rightarrow> collect_response_refs (JObj (mp_payload m)) | None \<Rightarrow> [])
     @ collect_response_refs (destination_json (st_destination s))"

fun check_references :: "string list \<Rightarrow> step list \<Rightarrow> unit api_result" where
  "check_references seen [] = Inr ()"
| "check_references seen (s # ss) =
     (if st_name s \<in> set seen then Inl (ValidationFailed (''duplicate step name '' @ debug_str (st_name s)))
      else (case List.find (\<lambda>r. r \<notin> set seen) (step_refs s) of
         Some r \<Rightarrow> Inl (ValidationFailed (''step '' @ debug_str (st_name s) @ '' references response of step '' @
             debug_str r @ '', which is not an earlier step''))
       | None \<Rightarrow> check_references (seen @ [st_name s]) ss))"

definition validate_step_references :: "rule_template \<Rightarrow> unit api_result" where
  "validate_step_references t = check_references [] (execution_steps t)"

definition destination_problem :: "destination \<Rightarrow> string option" where
  "destination_problem d =
     (let blank = (\<lambda>s. unwrap_or [] s = []) in
      case (case de_auth d of
              None \<Rightarrow> None
            | Some a \<Rightarrow>
                if at_type a = Oauth2Client
                then Some ''auth type oauth2_client is not supported yet; use bearer, basic or api_key''
                else if blank (at_secret_ref a) then Some ''auth requires secretRef naming a destination secret''
                else None) of
        Some m \<Rightarrow> Some m
      | None \<Rightarrow>
          (case de_delivery d of
             None \<Rightarrow> None
           | Some dl \<Rightarrow>
               if dl_mode dl = Idempotent \<and> blank (de_idempotency_header d)
               then Some ''delivery mode idempotent requires idempotencyHeader''
               else if dl_mode dl = Lookup \<and> dl_lookup dl = None
               then Some ''delivery mode lookup requires delivery.lookup''
               else if (dl_mode dl = Idempotent \<or> dl_mode dl = Manual) \<and> dl_lookup dl \<noteq> None
               then Some ''delivery.lookup is only used with mode lookup''
               else None))"

fun check_destinations :: "step list \<Rightarrow> unit api_result" where
  "check_destinations [] = Inr ()"
| "check_destinations (s # ss) =
     (case destination_problem (st_destination s) of
        Some m \<Rightarrow> Inl (ValidationFailed (''step '' @ debug_str (st_name s) @ '': '' @ m))
      | None \<Rightarrow> check_destinations ss)"

definition validate_destinations :: "rule_template \<Rightarrow> unit api_result" where
  "validate_destinations t = check_destinations (execution_steps t)"

definition validate_template :: "app \<Rightarrow> json \<Rightarrow> rule_template api_result" where
  "validate_template ap body =
     (if ap_schema_errors ap body \<noteq> [] then Inl (ValidationFailed (join ''; '' (ap_schema_errors ap body)))
      else (case rule_template_of body of
        None \<Rightarrow> Inl (ValidationFailed (''shape: '' @ ap_shape_error ap body))
      | Some tpl \<Rightarrow>
          (case validate_step_references tpl of Inl e \<Rightarrow> Inl e | Inr _ \<Rightarrow>
          (case validate_destinations tpl of Inl e \<Rightarrow> Inl e | Inr _ \<Rightarrow> Inr tpl))))"

section \<open>Queries\<close>

definition template_by_id :: "int \<Rightarrow> int \<Rightarrow> db \<Rightarrow> rule_template_row option" where
  "template_by_id org tid d = List.find (\<lambda>r. rt_id r = tid \<and> rt_org_id r = org) (db_templates d)"

record list_query =
  lq_template_key :: "string option"
  lq_published :: "bool option"
  lq_limit :: "int option"

definition matches_published :: "bool option \<Rightarrow> rule_template_row \<Rightarrow> bool" where
  "matches_published p r = (case p of None \<Rightarrow> True | Some b \<Rightarrow> rt_published r = b)"

text \<open>\<^verbatim>\<open>SELECT DISTINCT ON (template_key) ... ORDER BY template_key, version DESC\<close>: the rows with the greatest version of each key.\<close>

fun distinct_on_key :: "string list \<Rightarrow> rule_template_row list \<Rightarrow> rule_template_row list" where
  "distinct_on_key seen [] = []"
| "distinct_on_key seen (r # rs) =
     (if rt_template_key r \<in> set seen then distinct_on_key seen rs
      else r # distinct_on_key (rt_template_key r # seen) rs)"

definition by_version_desc :: "rule_template_row \<Rightarrow> rule_template_row \<Rightarrow> bool" where
  "by_version_desc a b \<longleftrightarrow> rt_version b \<le> rt_version a"

definition select_templates :: "app \<Rightarrow> int \<Rightarrow> list_query \<Rightarrow> db \<Rightarrow> db_error + rule_template_row list" where
  "select_templates ap org q d =
     (let limit = min (unwrap_or 100 (lq_limit q)) 500;
          own = filter (\<lambda>r. rt_org_id r = org \<and> matches_published (lq_published q) r) (db_templates d) in
      case lq_template_key q of
        Some key \<Rightarrow> limit_to limit (order_by by_version_desc (filter (\<lambda>r. rt_template_key r = key) own))
      | None \<Rightarrow> limit_to limit (order_by (\<lambda>a b. ap_collate ap (rt_template_key a) (rt_template_key b))
                  (distinct_on_key [] (order_by by_version_desc own))))"

definition list_templates :: "app \<Rightarrow> request \<Rightarrow> claims \<Rightarrow> list_query \<Rightarrow> rule_template_row list handler" where
  "list_templates ap rq c q = sqlE rq database (\<lambda>_ d. (select_templates ap (cl_org c) q d, d))"

definition get_template :: "request \<Rightarrow> claims \<Rightarrow> int \<Rightarrow> rule_template_row handler" where
  "get_template rq c tid = bindE (query rq (template_by_id (cl_org c) tid)) (\<lambda>row. lift (ok_or NotFound row))"

definition key_of :: "request \<Rightarrow> claims \<Rightarrow> int \<Rightarrow> string handler" where
  "key_of rq c tid =
     bindE (query rq (\<lambda>d. map_option rt_template_key (template_by_id (cl_org c) tid d))) (\<lambda>k. lift (ok_or NotFound k))"

definition versions_of :: "int \<Rightarrow> string \<Rightarrow> db \<Rightarrow> rule_template_row list" where
  "versions_of org key d = filter (\<lambda>r. rt_org_id r = org \<and> rt_template_key r = key) (db_templates d)"

definition list_versions :: "request \<Rightarrow> claims \<Rightarrow> int \<Rightarrow> rule_template_row list handler" where
  "list_versions rq c tid =
     bindE (key_of rq c tid) (\<lambda>key. query rq (\<lambda>d. order_by by_version_desc (versions_of (cl_org c) key d)))"

section \<open>Changes\<close>

record create_request =
  cr_template_key :: "string option"
  cr_name :: string
  cr_schema_json :: json

text \<open>An \<^verbatim>\<open>INSERT\<close> takes the next id even when a constraint then refuses the row.\<close>

definition insert_template ::
    "int \<Rightarrow> string \<Rightarrow> int \<Rightarrow> string \<Rightarrow> json \<Rightarrow> int \<Rightarrow> instant \<Rightarrow> db \<Rightarrow> (db_error + rule_template_row) \<times> db" where
  "insert_template org key version name body created_by now d =
     (let row = \<lparr>rt_id = db_next d T_templates, rt_org_id = org, rt_template_key = key, rt_version = version,
            rt_name = name, rt_schema_json = body, rt_published = False, rt_created_by = Some created_by,
            rt_created_at = now\<rparr>;
          d' = bump T_templates d in
      if version > 2147483647 then (Inl OutOfRange, d)
      else if list_ex (\<lambda>r. rt_version r = version) (versions_of org key d) then (Inl UniqueViolation, d')
      else if \<not> org_exists d org \<or> \<not> user_exists d created_by then (Inl ForeignKeyViolation, d')
      else (Inr row, d'\<lparr>db_templates := db_templates d @ [row]\<rparr>))"

definition audit_template ::
    "app \<Rightarrow> request \<Rightarrow> claims \<Rightarrow> string \<Rightarrow> rule_template_row \<Rightarrow> unit handler" where
  "audit_template ap rq c action row = record_audit rq (cl_org c) (cl_sub c) ''rule_template''
     (Some (show_int (rt_id row))) action None (Some (template_json (ap_libs ap) row))"

definition uuid_simple :: "string \<Rightarrow> string" where
  "uuid_simple u = filter (\<lambda>c. c \<noteq> CHR ''-'') u"

definition create_template :: "app \<Rightarrow> request \<Rightarrow> claims \<Rightarrow> create_request \<Rightarrow> rule_template_row handler" where
  "create_template ap rq c r =
     bindE (require_role c [''admin'', ''editor'']) (\<lambda>_.
     bindE (lift (validate_template ap (cr_schema_json r))) (\<lambda>_.
     let key = unwrap_or (''rt_'' @ uuid_simple (rq_uuid rq)) (cr_template_key r) in
     bindE (user_id c) (\<lambda>created_by.
     bindE (sqlE rq (\<lambda>e. if e = UniqueViolation then Conflict (''template_key '' @ key @ '' already exists'') else database e)
       (insert_template (cl_org c) key 1 (cr_name r) (cr_schema_json r) created_by)) (\<lambda>row.
     bindE (audit_template ap rq c ''create'' row) (\<lambda>_. ok row)))))"

definition next_version :: "int \<Rightarrow> string \<Rightarrow> db \<Rightarrow> int" where
  "next_version org key d =
     (case map rt_version (versions_of org key d) of [] \<Rightarrow> 1 | v # vs \<Rightarrow> foldr max vs v + 1)"

definition create_version :: "app \<Rightarrow> request \<Rightarrow> claims \<Rightarrow> int \<Rightarrow> create_request \<Rightarrow> rule_template_row handler" where
  "create_version ap rq c tid r =
     bindE (require_role c [''admin'', ''editor'']) (\<lambda>_.
     bindE (lift (validate_template ap (cr_schema_json r))) (\<lambda>_.
     bindE (key_of rq c tid) (\<lambda>key.
     bindE (user_id c) (\<lambda>created_by.
     bindE (sqlE rq database (\<lambda>now d.
       insert_template (cl_org c) key (next_version (cl_org c) key d) (cr_name r) (cr_schema_json r) created_by now d)) (\<lambda>row.
     bindE (audit_template ap rq c ''create_version'' row) (\<lambda>_. ok row))))))"

definition set_published :: "int \<Rightarrow> int \<Rightarrow> db \<Rightarrow> rule_template_row option \<times> db" where
  "set_published org tid d =
     (let hit = (\<lambda>r. rt_id r = tid \<and> rt_org_id r = org);
          d' = d\<lparr>db_templates := update_where hit (\<lambda>r. r\<lparr>rt_published := True\<rparr>) (db_templates d)\<rparr> in
      (template_by_id org tid d', d'))"

definition publish_template :: "app \<Rightarrow> request \<Rightarrow> claims \<Rightarrow> int \<Rightarrow> rule_template_row handler" where
  "publish_template ap rq c tid =
     bindE (require_role c [''admin'', ''editor'']) (\<lambda>_.
     bindE (sqlE rq database (\<lambda>_ d. let (r, d') = set_published (cl_org c) tid d in (Inr r, d'))) (\<lambda>row0.
     bindE (lift (ok_or NotFound row0)) (\<lambda>row.
     bindE (audit_template ap rq c ''publish'' row) (\<lambda>_. ok row))))"

text \<open>Jobs, schedules and batch stages reference templates without a cascade, so a referenced row cannot go.\<close>

definition template_referenced :: "db \<Rightarrow> int \<Rightarrow> bool" where
  "template_referenced d tid \<longleftrightarrow> list_ex (\<lambda>j. jb_rule_template_id j = tid) (db_jobs d)
     \<or> list_ex (\<lambda>s. sd_rule_template_id s = tid) (db_schedules d)
     \<or> list_ex (\<lambda>b. bs_rule_template_id b = Some tid) (db_batch_stages d)"

definition delete_draft :: "int \<Rightarrow> int \<Rightarrow> db \<Rightarrow> (db_error + nat) \<times> db" where
  "delete_draft org tid d =
     (let hit = (\<lambda>r. rt_id r = tid \<and> rt_org_id r = org \<and> \<not> rt_published r);
          n = length (filter hit (db_templates d)) in
      if 0 < n \<and> template_referenced d tid then (Inl ForeignKeyViolation, d)
      else (Inr n, d\<lparr>db_templates := filter (\<lambda>r. \<not> hit r) (db_templates d)\<rparr>))"

definition delete_template :: "request \<Rightarrow> claims \<Rightarrow> int \<Rightarrow> json handler" where
  "delete_template rq c tid =
     bindE (require_role c [''admin'']) (\<lambda>_.
     bindE (sqlE rq database (\<lambda>_. delete_draft (cl_org c) tid)) (\<lambda>deleted.
     if deleted = 0 then throw (Conflict ''template missing or already published; cannot delete'')
     else bindE (record_audit rq (cl_org c) (cl_sub c) ''rule_template'' (Some (show_int tid)) ''delete'' None None)
       (\<lambda>_. ok (json_obj [(''deleted'', JBool True)]))))"

end
