(* ===== verification/Jobs.thy ===== *)
theory Jobs
  imports Sources Temporal
begin

text \<open>
  Jobs (\<^verbatim>\<open>src/apps/api/src/routes/jobs.rs\<close>): creation and the start of the workflow, the operator
  actions pause, resume and cancel, the retries, and the reads. The event stream is modelled up
  to the ownership check and the name of the channel it follows.
\<close>

definition JOB_STATUSES :: "string list" where
  "JOB_STATUSES = [''pending'', ''running'', ''paused'', ''succeeded'', ''failed'', ''cancelled'']"

definition ROW_STATUSES :: "string list" where
  "ROW_STATUSES = [''pending'', ''running'', ''succeeded'', ''failed'', ''skipped'', ''unresolved'']"

definition PAUSABLE :: "string list" where "PAUSABLE = [''running'']"
definition RESUMABLE :: "string list" where "RESUMABLE = [''paused'']"
definition CANCELLABLE :: "string list" where "CANCELLABLE = [''pending'', ''running'', ''paused'']"

definition operators :: "string list" where
  "operators = [''admin'', ''editor'', ''operator'']"

definition job_by_id :: "int \<Rightarrow> int \<Rightarrow> db \<Rightarrow> job_row option" where
  "job_by_id org jid d = List.find (\<lambda>j. jb_id j = jid \<and> jb_org_id j = org) (db_jobs d)"

section \<open>Creating a job\<close>

record job_create =
  jc_rule_template_id :: int
  jc_source_ref :: json

definition published_version :: "int \<Rightarrow> int \<Rightarrow> db \<Rightarrow> int option" where
  "published_version org tid d =
     map_option rt_version (List.find (\<lambda>r. rt_id r = tid \<and> rt_org_id r = org \<and> rt_published r) (db_templates d))"

definition insert_job ::
    "int \<Rightarrow> int \<Rightarrow> int \<Rightarrow> json \<Rightarrow> string \<Rightarrow> int \<Rightarrow> instant \<Rightarrow> db \<Rightarrow> (db_error + job_row) \<times> db" where
  "insert_job org tid version ref workflow_id created_by now d =
     (let row = \<lparr>jb_id = db_next d T_jobs, jb_org_id = org, jb_rule_template_id = tid, jb_rule_template_version = version,
            jb_schedule_id = None, jb_source_ref = ref, jb_status = ''pending'', jb_totals_json = JObj [],
            jb_temporal_workflow_id = Some workflow_id, jb_temporal_run_id = None, jb_started_at = None,
            jb_paused_at = None, jb_finished_at = None, jb_created_by = Some created_by, jb_created_at = now,
            jb_updated_at = now, jb_batch_id = None, jb_batch_stage_id = None, jb_results_ref = None,
            jb_last_error = None, jb_export_status = None, jb_export_error = None\<rparr>;
          d' = bump T_jobs d in
      if list_ex (\<lambda>j. jb_temporal_workflow_id j = Some workflow_id) (db_jobs d) then (Inl UniqueViolation, d')
      else if \<not> org_exists d org \<or> \<not> list_ex (\<lambda>r. rt_id r = tid) (db_templates d) \<or> \<not> user_exists d created_by
      then (Inl ForeignKeyViolation, d')
      else (Inr row, d'\<lparr>db_jobs := db_jobs d @ [row]\<rparr>))"

definition mark_start_failed :: "int \<Rightarrow> string \<Rightarrow> instant \<Rightarrow> db \<Rightarrow> db" where
  "mark_start_failed jid message now d = d\<lparr>db_jobs := update_where
     (\<lambda>j. jb_id j = jid \<and> jb_status j = ''pending'')
     (\<lambda>j. j\<lparr>jb_status := ''failed'', jb_last_error := Some message, jb_finished_at := Some now, jb_updated_at := now\<rparr>)
     (db_jobs d)\<rparr>"

definition record_run :: "int \<Rightarrow> string \<Rightarrow> instant \<Rightarrow> db \<Rightarrow> (db_error + job_row) \<times> db" where
  "record_run jid run_id now d =
     (let d' = d\<lparr>db_jobs := update_where (\<lambda>j. jb_id j = jid)
            (\<lambda>j. j\<lparr>jb_status := (if jb_status j = ''pending'' then ''running'' else jb_status j),
               jb_temporal_run_id := Some run_id, jb_started_at := or_else (jb_started_at j) (Some now),
               jb_updated_at := now\<rparr>) (db_jobs d)\<rparr> in
      case List.find (\<lambda>j. jb_id j = jid) (db_jobs d') of
        None \<Rightarrow> (Inl RowNotFound, d') | Some row \<Rightarrow> (Inr row, d'))"

definition start_never_reached_bridge :: "temporal_error \<Rightarrow> bool" where
  "start_never_reached_bridge e = (case e of BridgeConnect _ \<Rightarrow> True | _ \<Rightarrow> False)"

definition start_job :: "app \<Rightarrow> request \<Rightarrow> int \<Rightarrow> string \<Rightarrow> json \<Rightarrow> job_row handler" where
  "start_job ap rq jid workflow_id input =
     bindE (tryE (start_migration_workflow ap rq workflow_id input)) (\<lambda>r.
       case r of
         Inr run_id \<Rightarrow> sqlE rq database (record_run jid run_id)
       | Inl e \<Rightarrow>
           if \<not> start_never_reached_bridge e then throw (External
             (''temporal: '' @ temporal_display ap e @ ''; job '' @ show_int jid @ '' will be reconciled''))
           else bindE (execute rq (mark_start_failed jid (''workflow start failed: '' @ temporal_display ap e)))
             (\<lambda>_. throw (External (''temporal: '' @ temporal_display ap e))))"

definition migration_input :: "int \<Rightarrow> int \<Rightarrow> int \<Rightarrow> int \<Rightarrow> json \<Rightarrow> json" where
  "migration_input org jid tid version ref = json_obj
     [(''orgId'', jint org), (''jobId'', jint jid), (''ruleTemplateId'', jint tid),
      (''ruleTemplateVersion'', jint version), (''sourceRef'', ref)]"

definition audit_job :: "request \<Rightarrow> claims \<Rightarrow> int \<Rightarrow> string \<Rightarrow> json \<Rightarrow> unit handler" where
  "audit_job rq c jid action after = record_audit rq (cl_org c) (cl_sub c) ''job'' (Some (show_int jid)) action None (Some after)"

definition create_job :: "app \<Rightarrow> request \<Rightarrow> claims \<Rightarrow> job_create \<Rightarrow> job_row handler" where
  "create_job ap rq c r =
     bindE (require_role c operators) (\<lambda>_.
     bindE (gate rq) (\<lambda>_.
     bindE (query rq (published_version (cl_org c) (jc_rule_template_id r))) (\<lambda>found.
     bindE (lift (ok_or (BadRequest ''template not found or not published'') found)) (\<lambda>tpl_version.
     bindE (user_id c) (\<lambda>created_by.
     bindE (lift (parse_source_request (jc_source_ref r))) (\<lambda>source_req.
     bindE (resolve rq (cl_org c) source_req) (\<lambda>resolved.
     let workflow_id = ''mig-'' @ show_int (cl_org c) @ ''-'' @ rq_uuid rq; ref = source_ref resolved in
     bindE (sqlE rq database (insert_job (cl_org c) (jc_rule_template_id r) tpl_version ref workflow_id created_by)) (\<lambda>row0.
     bindE (start_job ap rq (jb_id row0) workflow_id
       (migration_input (cl_org c) (jb_id row0) (jc_rule_template_id r) tpl_version ref)) (\<lambda>row.
     bindE (audit_job rq c (jb_id row) ''create'' (job_json (ap_libs ap) row)) (\<lambda>_. ok row))))))))))"

section \<open>Reads\<close>

definition job_join_json :: "libs \<Rightarrow> db \<Rightarrow> job_row \<Rightarrow> json" where
  "job_join_json L d j =
     (let b = Option.bind (jb_batch_id j) (\<lambda>n. List.find (\<lambda>b. bt_id b = n) (db_batches d));
          s = Option.bind (jb_batch_stage_id j) (\<lambda>n. List.find (\<lambda>s. bs_id s = n) (db_batch_stages d)) in
      job_json_with_source L j (map_option bt_source_ref b) (map_option bs_stage_key s) (map_option bs_file_path s))"

record jobs_list_query =
  jq_status :: "string option"
  jq_limit :: "int option"
  jq_cursor :: "int option"

definition select_jobs :: "int \<Rightarrow> jobs_list_query \<Rightarrow> db \<Rightarrow> db_error + job_row list" where
  "select_jobs org q d =
     (let limit = min (unwrap_or 50 (jq_limit q)) 200; cursor = unwrap_or i64_max (jq_cursor q) in
      case jq_status q of
        Some status \<Rightarrow>
          if status \<notin> set JOB_STATUSES then Inl InvalidEnum
          else limit_to limit (order_by (\<lambda>a b. jb_id b \<le> jb_id a)
            (filter (\<lambda>j. jb_org_id j = org \<and> jb_id j < cursor \<and> jb_status j = status) (db_jobs d)))
      | None \<Rightarrow> limit_to limit (order_by (\<lambda>a b. jb_id b \<le> jb_id a)
            (filter (\<lambda>j. jb_org_id j = org \<and> jb_id j < cursor) (db_jobs d))))"

definition list_jobs :: "app \<Rightarrow> request \<Rightarrow> claims \<Rightarrow> jobs_list_query \<Rightarrow> json handler" where
  "list_jobs ap rq c q =
     sqlE rq database (\<lambda>_ d.
       (case select_jobs (cl_org c) q d of
          Inl e \<Rightarrow> Inl e
        | Inr rows \<Rightarrow> Inr (json_obj [(''items'', JArr (map (job_join_json (ap_libs ap) d) rows)),
             (''next_cursor'', joint (if rows = [] then None else Some (jb_id (last rows))))]), d))"

definition get_job :: "app \<Rightarrow> request \<Rightarrow> claims \<Rightarrow> int \<Rightarrow> json handler" where
  "get_job ap rq c jid =
     bindE (query rq (\<lambda>d. map_option (job_join_json (ap_libs ap) d) (job_by_id (cl_org c) jid d)))
       (\<lambda>row. lift (ok_or NotFound row))"

definition results_rows :: "int \<Rightarrow> bool \<Rightarrow> db \<Rightarrow> job_row_detail list" where
  "results_rows jid failed_only d = order_by (\<lambda>a b. jr_row_index a \<le> jr_row_index b)
     (filter (\<lambda>r. jr_job_id r = jid \<and> (failed_only \<longrightarrow> jr_status r = ''failed'' \<or> jr_status r = ''unresolved'')) (db_job_rows d))"

definition stream_results_from_db :: "app \<Rightarrow> request \<Rightarrow> int \<Rightarrow> bool \<Rightarrow> string handler" where
  "stream_results_from_db ap rq jid failed_only =
     query rq (\<lambda>d. concat (map (ap_csv_record ap) ([''row_index'', ''status'', ''error''] #
       map (\<lambda>r. [show_int (jr_row_index r), jr_status r, unwrap_or [] (jr_last_error r)]) (results_rows jid failed_only d))))"

definition results_filename :: "int \<Rightarrow> bool \<Rightarrow> string" where
  "results_filename jid failed =
     (if failed then ''job-'' @ show_int jid @ ''-results-failed.csv'' else ''job-'' @ show_int jid @ ''-results.csv'')"

definition results_key :: "json \<Rightarrow> bool \<Rightarrow> string option" where
  "results_key ref failed =
     (if failed then or_else (jget_str ref ''failed_key'') (jget_str ref ''key'') else jget_str ref ''key'')"

text \<open>The attachment: its file name and its bytes.\<close>

definition download_results :: "app \<Rightarrow> request \<Rightarrow> claims \<Rightarrow> int \<Rightarrow> bool \<Rightarrow> (string \<times> string) handler" where
  "download_results ap rq c jid failed =
     bindE (query rq (\<lambda>d. map_option (\<lambda>j. (jb_results_ref j, jb_export_status j)) (job_by_id (cl_org c) jid d))) (\<lambda>row.
     case row of None \<Rightarrow> throw NotFound
     | Some (results_ref0, export_status) \<Rightarrow>
         (let results_ref = opt_filter (\<lambda>_. export_status = None \<or> export_status = Some ''succeeded'') results_ref0;
              from_db = bindE (stream_results_from_db ap rq jid failed) (\<lambda>bytes. ok (results_filename jid failed, bytes)) in
          case results_ref of
            None \<Rightarrow> from_db
          | Some ref \<Rightarrow>
              (case results_key ref failed of
                 None \<Rightarrow> from_db
               | Some key \<Rightarrow>
                   (case rq_s3 rq (unwrap_or (ap_minio_bucket ap) (jget_str ref ''bucket'')) key of
                      GetFailed e \<Rightarrow> throw (External (''s3 get: '' @ e))
                    | ReadFailed e \<Rightarrow> throw (External (''s3 read: '' @ e))
                    | Object bytes \<Rightarrow> ok (results_filename jid failed, bytes)))))"

section \<open>Operator actions\<close>

definition action_target :: "request \<Rightarrow> int \<Rightarrow> int \<Rightarrow> string \<Rightarrow> string list \<Rightarrow> string option handler" where
  "action_target rq org jid action from =
     bindE (query rq (job_by_id org jid)) (\<lambda>row.
     case row of None \<Rightarrow> throw NotFound
     | Some j \<Rightarrow>
         if jb_status j \<notin> set from then throw (Conflict
           (''job '' @ show_int jid @ '' is '' @ jb_status j @ ''; cannot '' @ action @ '' it''))
         else ok (jb_temporal_workflow_id j))"

definition transition_lost :: "request \<Rightarrow> int \<Rightarrow> int \<Rightarrow> string \<Rightarrow> 'a handler" where
  "transition_lost rq org jid action =
     bindE (tryE (query rq (\<lambda>d. map_option jb_status (job_by_id org jid d)) :: string option handler)) (\<lambda>r.
       let status = (case r of Inl _ \<Rightarrow> None | Inr status \<Rightarrow> status) in
       throw (Conflict (''job '' @ show_int jid @ '' became '' @ unwrap_or ''unavailable'' status @
         '' before it could '' @ action)))"

definition transition ::
    "int \<Rightarrow> int \<Rightarrow> string list \<Rightarrow> (job_row \<Rightarrow> job_row) \<Rightarrow> db \<Rightarrow> job_row option \<times> db" where
  "transition org jid from f d =
     (let hit = (\<lambda>j. jb_id j = jid \<and> jb_org_id j = org \<and> jb_status j \<in> set from) in
      (map_option f (List.find hit (db_jobs d)), d\<lparr>db_jobs := update_where hit f (db_jobs d)\<rparr>))"

definition signal_and_record ::
    "app \<Rightarrow> request \<Rightarrow> claims \<Rightarrow> int \<Rightarrow> string \<Rightarrow> string \<Rightarrow> string \<Rightarrow> string list \<Rightarrow> job_row handler" where
  "signal_and_record ap rq c jid signal_name new_status action from =
     bindE (action_target rq (cl_org c) jid action from) (\<lambda>target.
     case target of None \<Rightarrow> throw NotFound
     | Some workflow_id \<Rightarrow>
     bindE (tryE (signal_workflow ap rq workflow_id signal_name (JObj []))) (\<lambda>r.
     case r of
       Inl (WorkflowNotFound _) \<Rightarrow> throw (Conflict (''job '' @ show_int jid @ [CHR 0x27] @ ''s workflow has ended; it will be reconciled''))
     | Inl e \<Rightarrow> throw (External (''temporal: '' @ temporal_display ap e))
     | Inr _ \<Rightarrow>
     bindE (sqlE rq database (\<lambda>now d. let (row, d') = transition (cl_org c) jid from (\<lambda>j.
         j\<lparr>jb_status := new_status, jb_updated_at := now,
           jb_paused_at := (if new_status = ''paused'' then Some now else jb_paused_at j)\<rparr>) d in (Inr row, d'))) (\<lambda>updated.
     case updated of None \<Rightarrow> transition_lost rq (cl_org c) jid action
     | Some row \<Rightarrow>
     bindE (audit_job rq c jid action (job_json (ap_libs ap) row)) (\<lambda>_. ok row))))"

definition pause_job :: "app \<Rightarrow> request \<Rightarrow> claims \<Rightarrow> int \<Rightarrow> job_row handler" where
  "pause_job ap rq c jid =
     bindE (require_role c operators) (\<lambda>_. signal_and_record ap rq c jid ''pause'' ''paused'' ''pause'' PAUSABLE)"

definition resume_job :: "app \<Rightarrow> request \<Rightarrow> claims \<Rightarrow> int \<Rightarrow> job_row handler" where
  "resume_job ap rq c jid =
     bindE (require_role c operators) (\<lambda>_.
     bindE (gate rq) (\<lambda>_. signal_and_record ap rq c jid ''resume'' ''running'' ''resume'' RESUMABLE))"

definition count_rows :: "int \<Rightarrow> string \<Rightarrow> db \<Rightarrow> nat" where
  "count_rows jid status d = length (filter (\<lambda>r. jr_job_id r = jid \<and> jr_status r = status) (db_job_rows d))"

definition job_totals :: "int \<Rightarrow> db \<Rightarrow> json" where
  "job_totals jid d = json_obj
     [(''processed'', JNum (PosInt (count_rows jid ''succeeded'' d))), (''failed'', JNum (PosInt (count_rows jid ''failed'' d))),
      (''unresolved'', JNum (PosInt (count_rows jid ''unresolved'' d))),
      (''total'', JNum (PosInt (length (filter (\<lambda>r. jr_job_id r = jid) (db_job_rows d)))))]"

definition cancel_job :: "app \<Rightarrow> request \<Rightarrow> claims \<Rightarrow> int \<Rightarrow> job_row handler" where
  "cancel_job ap rq c jid =
     bindE (require_role c operators) (\<lambda>_.
     bindE (action_target rq (cl_org c) jid ''cancel'' CANCELLABLE) (\<lambda>target.
     bindE (case target of
              None \<Rightarrow> ok False
            | Some wid \<Rightarrow> bindE (tryE (cancel_workflow ap rq wid)) (\<lambda>r.
                case r of
                  Inl (WorkflowNotFound _) \<Rightarrow> ok False
                | Inl e \<Rightarrow> throw (External (''temporal: '' @ temporal_display ap e))
                | Inr _ \<Rightarrow> ok True)) (\<lambda>workflow_found.
     bindE (sqlE rq database (\<lambda>now d. let (row, d') = transition (cl_org c) jid CANCELLABLE (\<lambda>j.
         j\<lparr>jb_status := ''cancelled'', jb_finished_at := Some now, jb_updated_at := now,
           jb_totals_json := job_totals jid d\<rparr>) d in (Inr row, d'))) (\<lambda>updated.
     case updated of None \<Rightarrow> transition_lost rq (cl_org c) jid ''cancel''
     | Some row \<Rightarrow>
     bindE (audit_job rq c jid ''cancel'' (set_key ''workflow_found'' (JBool workflow_found) (job_json (ap_libs ap) row)))
       (\<lambda>_. ok row)))))"

definition export_workflow_id :: "string \<Rightarrow> string" where
  "export_workflow_id wid = wid @ ''-export''"

definition retry_export :: "app \<Rightarrow> request \<Rightarrow> claims \<Rightarrow> int \<Rightarrow> json handler" where
  "retry_export ap rq c jid =
     bindE (require_role c operators) (\<lambda>_.
     bindE (query rq (\<lambda>d. Option.bind (job_by_id (cl_org c) jid d) (\<lambda>j.
       map_option (\<lambda>wid. (wid, jb_status j)) (jb_temporal_workflow_id j)))) (\<lambda>row.
     case row of None \<Rightarrow> throw NotFound
     | Some (job_workflow_id, status) \<Rightarrow>
         if status \<in> set CANCELLABLE then throw (Conflict
           (''job '' @ show_int jid @ '' is '' @ status @ ''; its results are exported when it finishes''))
         else
         (let workflow_id = export_workflow_id job_workflow_id in
          bindE (mapE (\<lambda>e. case e of
                WorkflowAlreadyRunning _ \<Rightarrow> Conflict (''an export of job '' @ show_int jid @ '' is already running'')
              | _ \<Rightarrow> External (''temporal: '' @ temporal_display ap e))
            (start_workflow ap rq workflow_id ''ExportResultsWorkflow'' (json_obj [(''jobId'', jint jid)]))) (\<lambda>_.
          bindE (audit_job rq c jid ''retry_export'' (json_obj [(''workflow_id'', JStr workflow_id)])) (\<lambda>_.
          ok (json_obj [(''job_id'', jint jid), (''workflow_id'', JStr workflow_id)]))))))"

section \<open>Rows\<close>

definition require_owned :: "request \<Rightarrow> claims \<Rightarrow> int \<Rightarrow> unit handler" where
  "require_owned rq c jid =
     bindE (query rq (\<lambda>d. job_by_id (cl_org c) jid d \<noteq> None)) (\<lambda>owned. if owned then ok () else throw NotFound)"

definition select_rows :: "int \<Rightarrow> jobs_list_query \<Rightarrow> db \<Rightarrow> db_error + job_row_detail list" where
  "select_rows jid q d =
     (let limit = min (unwrap_or 100 (jq_limit q)) 1000; cursor = unwrap_or (- 1) (jq_cursor q);
          rows = (\<lambda>p. limit_to limit (order_by (\<lambda>a b. jr_row_index a \<le> jr_row_index b)
            (filter (\<lambda>r. jr_job_id r = jid \<and> cursor < jr_row_index r \<and> p r) (db_job_rows d)))) in
      case jq_status q of
        Some status \<Rightarrow> if status \<notin> set ROW_STATUSES then Inl InvalidEnum else rows (\<lambda>r. jr_status r = status)
      | None \<Rightarrow> rows (\<lambda>_. True))"

definition list_rows :: "request \<Rightarrow> claims \<Rightarrow> int \<Rightarrow> jobs_list_query \<Rightarrow> (job_row_detail list \<times> int option) handler" where
  "list_rows rq c jid q =
     bindE (require_owned rq c jid) (\<lambda>_.
     bindE (sqlE rq database (\<lambda>_ d. (select_rows jid q d, d))) (\<lambda>items.
       ok (items, if items = [] then None else Some (jr_row_index (last items)))))"

definition list_row_steps :: "request \<Rightarrow> claims \<Rightarrow> int \<Rightarrow> int \<Rightarrow> job_row_step_detail list handler" where
  "list_row_steps rq c jid row_index =
     bindE (require_owned rq c jid) (\<lambda>_.
     query rq (\<lambda>d. order_by (\<lambda>a b. js_step_index a \<le> js_step_index b)
       (filter (\<lambda>s. js_job_id s = jid \<and> js_row_index s = row_index) (db_row_steps d))))"

text \<open>The answer of \<^verbatim>\<open>stream_updates\<close> names the channel; what flows through it afterwards is modelled in \<open>Event_Stream\<close>.\<close>

definition progress_channel :: "int \<Rightarrow> string" where
  "progress_channel jid = ''job:'' @ show_int jid @ '':progress''"

definition stream_updates :: "request \<Rightarrow> claims \<Rightarrow> int \<Rightarrow> string handler" where
  "stream_updates rq c jid = bindE (require_owned rq c jid) (\<lambda>_. ok (progress_channel jid))"

section \<open>Retries\<close>

record retry_options =
  ro_from_start :: bool
  ro_confirm_not_applied :: bool

definition default_retry :: retry_options where
  "default_retry = \<lparr>ro_from_start = False, ro_confirm_not_applied = False\<rparr>"

record retry_target_row =
  tg_workflow_id :: string
  tg_rule_template_id :: int
  tg_rule_template_version :: int

definition retry_target :: "request \<Rightarrow> int \<Rightarrow> int \<Rightarrow> retry_target_row handler" where
  "retry_target rq org jid =
     bindE (query rq (\<lambda>d. Option.bind (job_by_id org jid d) (\<lambda>j.
       map_option (\<lambda>wid. (wid, j)) (jb_temporal_workflow_id j)))) (\<lambda>row.
     case row of None \<Rightarrow> throw NotFound
     | Some (wid, j) \<Rightarrow>
         if jb_status j = ''pending'' \<or> jb_status j = ''running'' \<or> jb_status j = ''paused'' then throw (Conflict
           (''job '' @ show_int jid @ '' is '' @ jb_status j @ ''; retry rows after it finishes''))
         else ok \<lparr>tg_workflow_id = wid, tg_rule_template_id = jb_rule_template_id j,
                tg_rule_template_version = jb_rule_template_version j\<rparr>)"

definition retry_workflow_id :: "string \<Rightarrow> string" where
  "retry_workflow_id wid = wid @ ''-retry''"

definition start_error :: "app \<Rightarrow> temporal_error \<Rightarrow> api_error" where
  "start_error ap e = (case e of
       WorkflowAlreadyRunning _ \<Rightarrow> Conflict ''a retry of this job is already running''
     | _ \<Rightarrow> External (''temporal: '' @ temporal_display ap e))"

definition retry_row :: "app \<Rightarrow> request \<Rightarrow> claims \<Rightarrow> int \<Rightarrow> int \<Rightarrow> retry_options option \<Rightarrow> json handler" where
  "retry_row ap rq c jid row_index body =
     bindE (require_role c operators) (\<lambda>_.
     bindE (gate rq) (\<lambda>_.
     let opts = unwrap_or default_retry body in
     bindE (retry_target rq (cl_org c) jid) (\<lambda>target.
     bindE (query rq (\<lambda>d. map_option jr_status
       (List.find (\<lambda>r. jr_job_id r = jid \<and> jr_row_index r = row_index) (db_job_rows d)))) (\<lambda>row_status.
     if row_status = Some ''unresolved'' \<and> \<not> ro_confirm_not_applied opts then throw (Conflict
       (''row '' @ show_int row_index @ '' is unresolved: the destination may already have applied it. '' @
        ''Check the destination, then retry with confirm_not_applied=true if it did not''))
     else
     bindE (mapE (start_error ap) (start_workflow ap rq (retry_workflow_id (tg_workflow_id target)) ''RetryRowWorkflow''
       (json_obj [(''orgId'', jint (cl_org c)), (''jobId'', jint jid), (''ruleTemplateId'', jint (tg_rule_template_id target)),
          (''ruleTemplateVersion'', jint (tg_rule_template_version target)), (''sourceRef'', JObj []),
          (''retryRow'', json_obj [(''jobId'', jint jid), (''rowIndex'', jint row_index),
             (''fromStart'', JBool (ro_from_start opts)), (''confirmNotApplied'', JBool (ro_confirm_not_applied opts))])]))) (\<lambda>_.
     bindE (record_audit rq (cl_org c) (cl_sub c) ''job_row'' (Some (show_int jid @ '':'' @ show_int row_index)) ''retry''
       (map_option (\<lambda>s. json_obj [(''status'', JStr s)]) row_status)
       (Some (json_obj [(''from_start'', JBool (ro_from_start opts)),
          (''confirm_not_applied'', JBool (ro_confirm_not_applied opts))]))) (\<lambda>_.
     ok (json_obj [(''job_id'', jint jid), (''row_index'', jint row_index), (''queued'', JBool True),
       (''from_start'', JBool (ro_from_start opts)), (''confirm_not_applied'', JBool (ro_confirm_not_applied opts))])))))))"

definition retry_all_failed :: "app \<Rightarrow> request \<Rightarrow> claims \<Rightarrow> int \<Rightarrow> retry_options option \<Rightarrow> json handler" where
  "retry_all_failed ap rq c jid body =
     bindE (require_role c operators) (\<lambda>_.
     bindE (gate rq) (\<lambda>_.
     let opts = unwrap_or default_retry body in
     if ro_confirm_not_applied opts
     then throw (BadRequest ''confirm_not_applied is decided per row; use the single-row retry'')
     else
     bindE (retry_target rq (cl_org c) jid) (\<lambda>target.
     bindE (query rq (count_rows jid ''failed'')) (\<lambda>n.
     if n = 0 then ok (json_obj [(''job_id'', jint jid), (''retried'', jint 0)])
     else
     bindE (mapE (start_error ap) (start_workflow ap rq (retry_workflow_id (tg_workflow_id target)) ''RetryFailedRowsWorkflow''
       (json_obj [(''orgId'', jint (cl_org c)), (''jobId'', jint jid), (''ruleTemplateId'', jint (tg_rule_template_id target)),
          (''ruleTemplateVersion'', jint (tg_rule_template_version target)), (''fromStart'', JBool (ro_from_start opts))]))) (\<lambda>_.
     bindE (audit_job rq c jid ''retry_all_failed''
       (json_obj [(''from_start'', JBool (ro_from_start opts)), (''rows'', jint (int n))])) (\<lambda>_.
     ok (json_obj [(''job_id'', jint jid), (''retried'', jint (int n))])))))))"

end
