(* ===== verification/Sources_Facts.thy ===== *)
theory Sources_Facts
  imports Sources
begin

text \<open>
  What holds of the source registry: which requests are accepted, that what they resolve to
  belongs to the caller's organization, that other organizations' rows cannot be observed, that
  the reference stored on a job names the same row again, and that watched locations stay
  inside the organization's own namespace.
\<close>

section \<open>Accepted requests\<close>

lemma check_extra_ok: "check_extra m = Inr () \<longleftrightarrow>
    (\<forall>(k, v) \<in> set m. k \<in> set CONNECTOR_EXTRA_KEYS \<and> (\<exists>s. v = JStr s))"
proof (induction m rule: check_extra.induct)
  case (2 k v m)
  have "as_str v = None \<longleftrightarrow> \<not> (\<exists>s. v = JStr s)" by (cases v) (simp_all add: as_str_def)
  with 2 show ?case by auto
qed simp

lemma positive_id_Some [simp]: "positive_id v = Some n \<longleftrightarrow> as_i64 v = Some n \<and> 0 < n"
  by (simp add: positive_id_def)

lemma required_field_Inr [simp]:
  "required_field v name = Inr s \<longleftrightarrow> (\<exists>raw. jget v name = Some (JStr raw) \<and> s = trim raw \<and> s \<noteq> [])"
  by (auto simp: required_field_def ok_or_Inr jget_str_Some)

text \<open>
  A client can name a source in three ways and no other: a positive registry id; a bucket and
  key, both non-empty, in an object that carries none of the keys path, url and secret; or a
  positive connector id with options that are all strings under the three allowed keys. Every
  accepted request has one of these shapes, read from the fields of the client's object.
\<close>

theorem accepted_source_shapes:
  assumes "parse_source_request v = Inr req"
  shows "case req of
      ById n \<Rightarrow> 0 < n \<and> (\<exists>j. jget v ''source_id'' = Some j \<and> as_i64 j = Some n)
    | ObjectReq bucket key \<Rightarrow> bucket \<noteq> [] \<and> key \<noteq> [] \<and> jget v ''type'' = Some (JStr ''minio'')
        \<and> (\<forall>k \<in> {''source_id'', ''path'', ''url'', ''secret''}. jget v k = None)
        \<and> (\<exists>b k. jget v ''bucket'' = Some (JStr b) \<and> jget v ''key'' = Some (JStr k) \<and> bucket = trim b \<and> key = trim k)
    | ConnectorReq n extra \<Rightarrow> 0 < n
        \<and> (\<forall>k \<in> {''source_id'', ''path'', ''url'', ''secret''}. jget v k = None)
        \<and> (\<forall>(k, x) \<in> set extra. k \<in> {''soql'', ''cursorField'', ''cursor''} \<and> (\<exists>s. x = JStr s))"
proof -
  have forb: "jget v ''path'' = None \<and> jget v ''url'' = None \<and> jget v ''secret'' = None" if "forbidden_key v = None"
    using that by (auto simp: forbidden_key_def split: if_splits)
  have kind: "jget v ''type'' = Some (JStr ''minio'')" if "unwrap_or [] (jget_str v ''type'') = ''minio''"
    using that by (auto simp: unwrap_or_def jget_str_Some split: option.splits)
  have cid: "0 < n" if "read_connector_id v = Inr (Some n)" for n
    using that by (auto simp: read_connector_id_def split: option.splits)
  from assms show ?thesis
    unfolding parse_source_request_def Let_def
    by (auto split: if_splits option.splits sum.splits source_request.splits
        simp: check_extra_ok CONNECTOR_EXTRA_KEYS_def dest!: forb kind dest: cid)
qed

definition demo_ref :: json where
  "demo_ref = json_obj [(''type'', JStr ''minio''), (''bucket'', JStr ''b''), (''key'', JStr ''k'')]"

theorem accepted_source_shapes_witness:
  "parse_source_request demo_ref = Inr (ObjectReq ''b'' ''k'') \<and> jget demo_ref ''url'' = None"
proof -
  have a: "parse_source_request demo_ref = Inr (ObjectReq ''b'' ''k'')" by code_simp
  from accepted_source_shapes [OF a] a show ?thesis by simp
qed

section \<open>Ownership\<close>

fun owned_source :: "int \<Rightarrow> db \<Rightarrow> resolved_source \<Rightarrow> bool" where
  "owned_source org d (ObjectSource s) \<longleftrightarrow> s \<in> set (db_sources d) \<and> rs_org_id s = org"
| "owned_source org d (ConnectorSource n kind extra) \<longleftrightarrow> kind \<in> set JOB_CONNECTOR_KINDS
     \<and> (\<exists>c \<in> set (db_connectors d). cn_id c = n \<and> cn_org_id c = org \<and> cn_connector_kind c = kind)"

lemma resolve_owned: "resolve rq org req w = (Inr r, w') \<Longrightarrow> owned_source org (w_db w') r"
  by (cases req) (auto simp: act_simps lookup_object_def require_connector_def source_by_id_def source_by_object_def
      connector_by_id_def find_Some_iff split: if_splits)

text \<open>
  Whatever a request names, it resolves only to what the caller's organization owns: a
  registered source of that organization, or a connector of that organization of a kind that may feed a
  job, together with the options the request gave.
\<close>

theorem resolved_source_is_owned:
  assumes "resolve rq org req w = (Inr r, w')"
  shows "case r of
      ObjectSource s \<Rightarrow> s \<in> set (db_sources (w_db w')) \<and> rs_org_id s = org
    | ConnectorSource n kind extra \<Rightarrow> req = ConnectorReq n extra \<and> kind \<in> set JOB_CONNECTOR_KINDS
        \<and> (\<exists>c \<in> set (db_connectors (w_db w')). cn_id c = n \<and> cn_org_id c = org \<and> cn_connector_kind c = kind)"
  using assms
  by (cases req) (auto simp: act_simps lookup_object_def require_connector_def source_by_id_def source_by_object_def
      connector_by_id_def find_Some_iff split: if_splits)

definition demo_db :: db where
  "demo_db = \<lparr>db_orgs = [1], db_users = [], db_templates = [], db_connectors = [], db_jobs = [], db_job_rows = [],
     db_row_steps = [], db_schedules = [], db_schedule_runs = [],
     db_sources = [\<lparr>rs_id = 7, rs_org_id = 1, rs_bucket = ''b'', rs_object_key = ''k'', rs_sha256 = None,
       rs_etag = None, rs_size_bytes = None, rs_filename = None, rs_format = None\<rparr>],
     db_batches = [], db_batch_stages = [], db_secrets = [], db_specs = [], db_llm_configs = [], db_audit = [], db_next = (\<lambda>_. 100)\<rparr>"

definition demo_world :: world where
  "demo_world = \<lparr>w_db = demo_db, w_steps = 0, w_sent = [], w_out = []\<rparr>"

definition demo_net :: net where
  "demo_net = \<lparr>nt_dns = (\<lambda>_ _. Inr []), nt_get = (\<lambda>_. ConnectFailed []), nt_llm = (\<lambda>_ _ _ _. ConnectFailed []),
     nt_range = (\<lambda>_ _ _. Chunk None []), nt_put = (\<lambda>_ _ _ _. Inr None)\<rparr>"

definition demo_request :: request where
  "demo_request = \<lparr>rq_now = 0, rq_clock = (\<lambda>_. 0), rq_other = (\<lambda>_ d. d), rq_outage = (\<lambda>_. None), rq_uuid = ''u-1'', rq_nonce = [],
     rq_license = initial_proc, rq_bridge = (\<lambda>_ _ _. Reply 200 []), rq_s3 = (\<lambda>_ _. GetFailed []), rq_net = demo_net\<rparr>"

theorem resolved_source_is_owned_witness:
  "\<exists>s w'. resolve demo_request 1 (ObjectReq ''b'' ''k'') demo_world = (Inr (ObjectSource s), w') \<and> rs_org_id s = 1"
proof -
  have "\<exists>s w'. resolve demo_request 1 (ObjectReq ''b'' ''k'') demo_world = (Inr (ObjectSource s), w')"
    by (simp add: act_simps lookup_object_def source_by_object_def demo_request_def demo_world_def demo_db_def)
  then obtain s w' where r: "resolve demo_request 1 (ObjectReq ''b'' ''k'') demo_world = (Inr (ObjectSource s), w')"
    by blast
  from resolved_source_is_owned [OF r] r show ?thesis by auto
qed

text \<open>What resolution can see of a database: the organization's own sources and connectors.\<close>

definition own_rows :: "int \<Rightarrow> db \<Rightarrow> registered_source list \<times> connector_row list" where
  "own_rows org d = (filter (\<lambda>s. rs_org_id s = org) (db_sources d), filter (\<lambda>c. cn_org_id c = org) (db_connectors d))"

lemma find_filter: "List.find (\<lambda>x. P x \<and> Q x) xs = List.find P (filter Q xs)"
  by (induction xs) auto

lemma own_lookups:
  "source_by_id org n d = List.find (\<lambda>s. rs_id s = n) (fst (own_rows org d))"
  "source_by_object org b k d = List.find (\<lambda>s. rs_bucket s = b \<and> rs_object_key s = k) (fst (own_rows org d))"
  "connector_by_id org n d = List.find (\<lambda>c. cn_id c = n) (snd (own_rows org d))"
  by (simp_all add: source_by_id_def source_by_object_def connector_by_id_def own_rows_def flip: find_filter)
    (rule arg_cong [where f = "\<lambda>P. List.find P (db_sources d)"], auto)

text \<open>
  Resolution reveals nothing about other organizations. If two databases hold the same
  sources and connectors of the caller's organization and answer or fail alike, every request gets
  the same answer from both, error text included, whatever the other organizations have: a foreign source cannot be
  told from a missing one.
\<close>

theorem foreign_sources_look_missing:
  assumes "own_rows org (rq_other rq (w_steps w1) (w_db w1)) = own_rows org (rq_other rq (w_steps w2) (w_db w2))"
    and "rq_outage rq (w_steps w1) = rq_outage rq (w_steps w2)"
  shows "result (resolve rq org req w1) = result (resolve rq org req w2)"
  using assms
  by (cases req) (auto simp: result_def bindE_def lift_def query_def sqlE_def lookup_object_def require_connector_def
      own_lookups ok_def throw_def Let_def split: prod.splits sum.splits option.splits)

theorem foreign_sources_look_missing_witness:
  "result (resolve demo_request 2 (ById 7) demo_world)
     = result (resolve demo_request 2 (ById 7) (demo_world\<lparr>w_db := demo_db\<lparr>db_sources := []\<rparr>\<rparr>))
   \<and> result (resolve demo_request 2 (ById 7) demo_world) = Inl not_registered"
proof
  show "result (resolve demo_request 2 (ById 7) demo_world)
     = result (resolve demo_request 2 (ById 7) (demo_world\<lparr>w_db := demo_db\<lparr>db_sources := []\<rparr>\<rparr>))"
    by (rule foreign_sources_look_missing) (simp_all add: own_rows_def demo_request_def demo_world_def demo_db_def)
  show "result (resolve demo_request 2 (ById 7) demo_world) = Inl not_registered"
    by (simp add: result_def bindE_def lift_def query_def sqlE_def source_by_id_def ok_or_def
        demo_request_def demo_world_def demo_db_def)
qed

section \<open>Round trip\<close>

text \<open>
  The reference that is stored on a job and sent to the workflow names its source: read back
  as a request it is the registry id, and resolved again by the same organization it gives the
  same row, as long as ids are unique.
\<close>

theorem source_ref_round_trip:
  assumes "s \<in> set (db_sources (rq_other rq (w_steps w) (w_db w)))"
    and "distinct (map rs_id (db_sources (rq_other rq (w_steps w) (w_db w))))"
    and "0 < rs_id s" and "rs_id s \<le> i64_max" and "rq_outage rq (w_steps w) = None"
  shows "\<exists>req. parse_source_request (source_ref (ObjectSource s)) = Inr req
    \<and> result (resolve rq (rs_org_id s) req w) = Inr (ObjectSource s)"
proof (intro exI conjI)
  show "parse_source_request (source_ref (ObjectSource s)) = Inr (ById (rs_id s))"
    using assms(3,4) by (simp add: parse_source_request_def registered_source_ref_def positive_id_def opt_filter_def)
  let ?d = "rq_other rq (w_steps w) (w_db w)"
  have uniq: "t = s" if "t \<in> set (db_sources ?d)" "rs_id t = rs_id s" for t
    using assms(1,2) that by (auto simp: distinct_map inj_on_def)
  have "source_by_id (rs_org_id s) (rs_id s) ?d = Some s"
  proof (cases "source_by_id (rs_org_id s) (rs_id s) ?d")
    case None
    then show ?thesis using assms(1) by (auto simp: source_by_id_def find_None_iff)
  next
    case (Some t)
    then show ?thesis using uniq by (auto simp: source_by_id_def dest!: find_Some_in)
  qed
  then show "result (resolve rq (rs_org_id s) (ById (rs_id s)) w) = Inr (ObjectSource s)"
    using assms(5) by (simp add: result_def bindE_def query_up lift_def ok_or_def)
qed

theorem source_ref_round_trip_witness:
  "\<exists>req. parse_source_request (source_ref (ObjectSource (hd (db_sources demo_db)))) = Inr req
    \<and> result (resolve demo_request 1 req demo_world) = Inr (ObjectSource (hd (db_sources demo_db)))"
  using source_ref_round_trip [of "hd (db_sources demo_db)" demo_request demo_world]
  by (simp add: demo_request_def demo_world_def demo_db_def i64_max_def)

section \<open>Uploads\<close>

lemma find_update_where:
  assumes "List.find p rs = Some old" and "p new"
  shows "List.find p (update_where p (\<lambda>_. new) rs) = Some new"
  using assms by (induction rs) (auto simp: update_where_def split: if_splits)

lemma find_append_new: "List.find p rs = None \<Longrightarrow> p new \<Longrightarrow> List.find p (rs @ [new]) = Some new"
  by (induction rs) (auto split: if_splits)

lemma registered_source_found:
  assumes "register_upload rq u w = (Inr s, w')"
  shows "source_by_object (nu_org u) (nu_bucket u) (nu_key u) (w_db w') = Some s"
    and "fst (upsert_source u (rq_other rq (w_steps w) (w_db w))) = Inr s"
proof -
  let ?d = "rq_other rq (w_steps w) (w_db w)"
  let ?p = "\<lambda>s. rs_org_id s = nu_org u \<and> rs_bucket s = nu_bucket u \<and> rs_object_key s = nu_key u"
  show up: "fst (upsert_source u ?d) = Inr s" using assms by (simp add: register_upload_def sqlE_Inr)
  have w': "w_db w' = snd (upsert_source u ?d)" using assms by (simp add: register_upload_def sqlE_Inr)
  show "source_by_object (nu_org u) (nu_bucket u) (nu_key u) (w_db w') = Some s"
  proof (cases "source_by_object (nu_org u) (nu_bucket u) (nu_key u) ?d")
    case None
    with up w' show ?thesis
      by (auto simp: upsert_source_def source_by_object_def bump_def Let_def split: if_splits option.splits
          intro!: find_append_new)
  next
    case (Some old)
    then have "?p old" by (auto simp: source_by_object_def dest!: find_Some_in)
    with Some up w' show ?thesis
      by (auto simp: upsert_source_def source_by_object_def bump_def Let_def split: if_splits option.splits
          intro!: find_update_where)
  qed
qed

text \<open>
  A registered upload can be resolved by the organization that made it, by bucket and key,
  and gives exactly the row that registration returned. Uploading the same object again keeps
  the row's id, checksum and size and refreshes name and format; the ETag is only replaced by a
  new one.
\<close>

theorem upload_then_resolve:
  assumes "register_upload rq u w = (Inr s, w')"
    and "rq_other rq (w_steps w') (w_db w') = w_db w'" and "rq_outage rq (w_steps w') = None"
  shows "result (resolve rq (nu_org u) (ObjectReq (nu_bucket u) (nu_key u)) w') = Inr (ObjectSource s)
    \<and> rs_filename s = Some (nu_filename u) \<and> rs_format s = Some (format_from_filename (nu_filename u))
    \<and> (case source_by_object (nu_org u) (nu_bucket u) (nu_key u) (rq_other rq (w_steps w) (w_db w)) of
         None \<Rightarrow> rs_sha256 s = Some (nu_sha256 u) \<and> rs_size_bytes s = Some (nu_size u) \<and> rs_etag s = nu_etag u
       | Some old \<Rightarrow> rs_id s = rs_id old \<and> rs_sha256 s = rs_sha256 old \<and> rs_size_bytes s = rs_size_bytes old
           \<and> rs_etag s = or_else (nu_etag u) (rs_etag old))"
proof -
  note found = registered_source_found [OF assms(1)]
  from found(1) have "result (resolve rq (nu_org u) (ObjectReq (nu_bucket u) (nu_key u)) w') = Inr (ObjectSource s)"
    using assms(2,3) by (simp add: result_def lookup_object_def bindE_def query_up lift_def ok_or_def)
  with found(2) show ?thesis
    by (auto simp: upsert_source_def Let_def split: if_splits option.splits)
qed

definition demo_upload :: new_upload where
  "demo_upload = \<lparr>nu_org = 1, nu_created_by = None, nu_bucket = ''b'', nu_key = ''k'', nu_sha256 = ''s'',
     nu_etag = Some ''e'', nu_size = 3, nu_filename = ''x.json''\<rparr>"

theorem upload_then_resolve_witness:
  "\<exists>s w'. register_upload demo_request demo_upload demo_world = (Inr s, w') \<and> rs_id s = 7 \<and> rs_format s = Some ''json''
     \<and> result (resolve demo_request 1 (ObjectReq ''b'' ''k'') w') = Inr (ObjectSource s)"
proof -
  have "\<exists>s. fst (register_upload demo_request demo_upload demo_world) = Inr s"
    by (simp add: register_upload_def sqlE_def upsert_source_def demo_upload_def demo_request_def demo_world_def
        demo_db_def org_exists_def source_by_object_def Let_def)
  then obtain s w' where r: "register_upload demo_request demo_upload demo_world = (Inr s, w')"
    by (metis prod.collapse)
  have f: "format_from_filename ''x.json'' = ''json''" by code_simp
  from upload_then_resolve [OF r] f r show ?thesis
    by (auto simp: demo_request_def demo_upload_def demo_world_def demo_db_def source_by_object_def)
qed

section \<open>Watched locations\<close>

lemma show_int_inj: "show_int a = show_int b \<Longrightarrow> a = b"
proof -
  assume eq: "show_int a = show_int b"
  have "show_nat n \<noteq> CHR ''-'' # ds" for n ds using show_nat_not_sign by blast
  then have "(a < 0) = (b < 0)" using eq by (auto simp: show_int_def split: if_splits) metis+
  then have "show_nat (nat \<bar>a\<bar>) = show_nat (nat \<bar>b\<bar>)" using eq by (auto simp: show_int_def abs_if split: if_splits)
  then have "nat \<bar>a\<bar> = nat \<bar>b\<bar>" by (metis digits_value_show_nat)
  with \<open>(a < 0) = (b < 0)\<close> show "a = b" by linarith
qed

lemma show_int_no_slash: "CHR ''/'' \<notin> set (show_int n)"
proof -
  have "c \<in> set (show_nat m) \<Longrightarrow> c \<noteq> CHR ''/''" for c m
    using show_nat_digits [of m] by (auto simp: list_all_iff is_digit_def byte_def)
  then show ?thesis by (auto simp: show_int_def)
qed

lemma append_sep_unique: "a @ c # x = b @ c # y \<Longrightarrow> c \<notin> set a \<Longrightarrow> c \<notin> set b \<Longrightarrow> a = b"
  by (induction a arbitrary: b) (auto simp: Cons_eq_append_conv)

lemma org_prefix_unique: "prefix (org_object_prefix a) p \<Longrightarrow> prefix (org_object_prefix b) p \<Longrightarrow> a = b"
  using append_sep_unique [of "show_int a" "CHR ''/''" _ "show_int b"] show_int_no_slash show_int_inj
  by (auto simp: org_object_prefix_def prefix_def)

lemma check_prefix_ok:
  "check_prefix org p field = Inr () \<longleftrightarrow>
     (let q = trim_start_matches (CHR ''/'') p in
      prefix (org_object_prefix org) q \<and> chr_backslash \<notin> set q \<and> ''..'' \<notin> set (split_on (CHR ''/'') q))"
  by (auto simp: check_prefix_def Let_def list_ex_iff)

text \<open>
  C27: A watched connector can only point into its own organization's namespace: when its
  configuration is accepted, the bucket is on the allowed list and the location, past leading slashes, begins with
  orgs/<id>/ of that organization, has no backslash and no parent segment, and so lies in the
  namespace of no other organization. (SFTP staging may also use the built-in landing prefix.)
\<close>

theorem watched_locations_confined:
  assumes "check_connector_locations kind cfg org allowed = Inr ()"
    and "kind = ''watched_prefix'' \<and> loc = cfg_text cfg ''prefix''
       \<or> kind = ''watched_sftp'' \<and> loc = cfg_text cfg ''staging_prefix''
         \<and> trim_matches (CHR ''/'') loc \<noteq> [] \<and> trim_matches (CHR ''/'') loc \<noteq> ''sftp-landing''"
  shows "(\<exists>bucket \<in> set allowed. bucket \<in> {cfg_text cfg ''bucket'', cfg_text cfg ''s3_bucket'',
            cfg_text cfg ''staging_bucket'', ''migration''})
    \<and> prefix (org_object_prefix org) (trim_start_matches (CHR ''/'') loc)
    \<and> ''..'' \<notin> set (split_on (CHR ''/'') (trim_start_matches (CHR ''/'') loc))
    \<and> chr_backslash \<notin> set (trim_start_matches (CHR ''/'') loc)
    \<and> (\<forall>other. prefix (org_object_prefix other) (trim_start_matches (CHR ''/'') loc) \<longrightarrow> other = org)"
proof -
  have p: "check_prefix org loc (if kind = ''watched_prefix'' then ''prefix'' else ''staging_prefix'') = Inr ()"
    using assms by (auto simp: check_connector_locations_def Let_def split: if_splits sum.splits)
  have "\<exists>bucket \<in> set allowed. bucket \<in> {cfg_text cfg ''bucket'', cfg_text cfg ''s3_bucket'',
            cfg_text cfg ''staging_bucket'', ''migration''}"
    using assms by (auto simp: check_connector_locations_def check_bucket_def unwrap_or_def opt_filter_def Let_def
        split: if_splits sum.splits option.splits)
  with p show ?thesis unfolding check_prefix_ok Let_def by (auto dest: org_prefix_unique)
qed

definition demo_watch :: json where
  "demo_watch = json_obj [(''bucket'', JStr ''b''), (''prefix'', JStr ''/orgs/12/in/'')]"

theorem watched_locations_confined_witness:
  "check_connector_locations ''watched_prefix'' demo_watch 12 [''b''] = Inr ()
   \<and> prefix (org_object_prefix 12) (trim_start_matches (CHR ''/'') (cfg_text demo_watch ''prefix''))"
proof -
  have a: "check_connector_locations ''watched_prefix'' demo_watch 12 [''b''] = Inr ()" by code_simp
  from watched_locations_confined [OF a, of "cfg_text demo_watch ''prefix''"] a show ?thesis by simp
qed

end
