(* ===== verification/Template_Types_Facts.thy ===== *)
theory Template_Types_Facts
  imports Template_Types License_Facts
begin

text \<open>
  Writing a typed rule template and reading it back gives the same template. The proof has one
  lemma per type, all by the same rules for required and optional fields.
\<close>

section \<open>Objects with optional fields\<close>

lemma map_of_map_filter:
  "distinct (map fst fs) \<Longrightarrow>
   map_of (List.map_filter (\<lambda>(k, v). map_option (Pair k) v) fs) k = Option.bind (map_of fs k) id"
proof (induction fs)
  case (Cons f fs)
  obtain k' v where f: "f = (k', v)" by (cases f)
  have "k' \<notin> set (map fst fs)" using Cons.prems f by simp
  then have "map_of fs k' = None" by (simp add: map_of_eq_None_iff)
  with Cons f show ?case by (cases v) (auto simp: map_filter_simps)
qed (simp add: map_filter_simps)

lemma keys_map_filter: "fst ` set (List.map_filter (\<lambda>(k, v). map_option (Pair k) v) fs) \<subseteq> fst ` set fs"
  by (auto simp: map_filter_def image_iff) (metis fst_conv)

lemma distinct_map_filter:
  "distinct (map fst fs) \<Longrightarrow> distinct (map fst (List.map_filter (\<lambda>(k, v). map_option (Pair k) v) fs))"
proof (induction fs)
  case (Cons f fs)
  then show ?case using keys_map_filter [of fs] by (cases f; cases "snd f") (auto simp: map_filter_simps)
qed (simp add: map_filter_simps)

lemma map_of_rev_distinct: "distinct (map fst xs) \<Longrightarrow> map_of (rev xs) = map_of xs"
  by (subst map_of_inject_set) (simp_all flip: rev_map)

lemma jget_obj_of: "distinct (map fst fs) \<Longrightarrow> jget (obj_of fs) k = Option.bind (map_of fs k) id"
  by (simp add: obj_of_def map_of_rev_distinct distinct_map_filter map_of_map_filter)

lemma only_fields_obj_of: "set (map fst fs) \<subseteq> set ks \<Longrightarrow> only_fields ks (obj_of fs)"
proof -
  assume sub: "set (map fst fs) \<subseteq> set ks"
  let ?kvs = "List.map_filter (\<lambda>(k, v). map_option (Pair k) v) fs"
  have "fst ` set (fold (\<lambda>(k, v). map_insert k v) kvs m) = fst ` set m \<union> fst ` set kvs" for kvs and m :: "json btree"
  proof (induction kvs arbitrary: m)
    case (Cons e kvs)
    then show ?case by (cases e) (simp add: keys_map_insert)
  qed simp
  then have "fst ` set (btree_of ?kvs) = fst ` set ?kvs" by (simp add: btree_of_def)
  with sub keys_map_filter [of fs] have "fst ` set (btree_of ?kvs) \<subseteq> set ks" by auto
  then show ?thesis by (force simp: only_fields_def obj_of_def json_obj_def list_all_iff)
qed

lemma is_object_obj_of [simp]: "is_object (obj_of fs)" "obj_of fs \<noteq> JNull"
  by (simp_all add: is_object_def obj_of_def json_obj_def)

lemma read_opt_so: "(\<And>a. x = Some a \<Longrightarrow> f (g a) = Some a \<and> g a \<noteq> JNull) \<Longrightarrow> read_opt f (map_option g x) = Some x"
  by (cases x) (auto simp: read_opt_def split: json.splits)

lemma read_opt_raw: "x \<noteq> Some JNull \<Longrightarrow> read_opt Some x = Some x"
  by (cases x) (auto simp: read_opt_def split: json.splits)

lemma read_list_map: "(\<And>a. a \<in> set xs \<Longrightarrow> f (g a) = Some a) \<Longrightarrow> read_list f (JArr (map g xs)) = Some xs"
  unfolding read_list_def by (induction xs) auto

lemma read_uint_juint [simp]: "n < 2 ^ b \<Longrightarrow> read_uint b (juint n) = Some n" "juint n \<noteq> JNull"
  by (simp_all add: read_uint_def juint_def)

lemma show_enum_not_null [simp]: "show_enum names x \<noteq> JNull" "jint i \<noteq> JNull"
  by (simp_all add: show_enum_def jint_def)

lemma source_type_rt: "read_enum source_type_names (show_enum source_type_names x) = Some x"
  by (cases x) (simp_all add: read_enum_def show_enum_def source_type_names_def)

lemma field_type_rt: "read_enum field_type_names (show_enum field_type_names x) = Some x"
  by (cases x) (simp_all add: read_enum_def show_enum_def field_type_names_def)

lemma auth_type_rt: "read_enum auth_type_names (show_enum auth_type_names x) = Some x"
  by (cases x) (simp_all add: read_enum_def show_enum_def auth_type_names_def)

lemma http_method_rt: "read_enum http_method_names (show_enum http_method_names x) = Some x"
  by (cases x) (simp_all add: read_enum_def show_enum_def http_method_names_def)

lemma delivery_mode_rt: "read_enum delivery_mode_names (show_enum delivery_mode_names x) = Some x"
  by (cases x) (simp_all add: read_enum_def show_enum_def delivery_mode_names_def)

lemma backoff_kind_rt: "read_enum backoff_kind_names (show_enum backoff_kind_names x) = Some x"
  by (cases x) (simp_all add: read_enum_def show_enum_def backoff_kind_names_def)

lemma on_failure_rt: "read_enum on_failure_names (show_enum on_failure_names x) = Some x"
  by (cases x) (simp_all add: read_enum_def show_enum_def on_failure_names_def)

lemmas read_enum_show = source_type_rt field_type_rt auth_type_rt http_method_rt delivery_mode_rt backoff_kind_rt on_failure_rt

lemmas field_rules = shaped_def req_def opt_def jget_obj_of only_fields_obj_of read_enum_show

section \<open>Templates in range\<close>

text \<open>Integers inside their Rust types, and no explicit null under an optional raw value.\<close>

definition source_ok :: "source \<Rightarrow> bool" where
  "source_ok s \<longleftrightarrow> so_options s \<noteq> Some JNull \<and> (\<forall>c. so_connector_id s = Some c \<longrightarrow> c \<le> i64_max)"

definition preprocess_ok :: "preprocess_step \<Rightarrow> bool" where
  "preprocess_ok p \<longleftrightarrow> pp_args p \<noteq> Some JNull"

definition destination_ok :: "destination \<Rightarrow> bool" where
  "destination_ok d \<longleftrightarrow> de_idempotency_key d \<noteq> Some JNull
     \<and> (\<forall>dl h. de_delivery d = Some dl \<longrightarrow> dl_idempotency_retention_hours dl = Some h \<longrightarrow> h < 2 ^ 32)"

definition retry_ok :: "retry \<Rightarrow> bool" where
  "retry_ok r \<longleftrightarrow> (\<forall>n. ry_max_attempts r = Some n \<longrightarrow> n < 2 ^ 32) \<and> (\<forall>n. ry_initial_interval_ms r = Some n \<longrightarrow> n < 2 ^ 64)"

definition template_ok :: "rule_template \<Rightarrow> bool" where
  "template_ok t \<longleftrightarrow> tm_version t < 2 ^ 32 \<and> source_ok (tm_source t) \<and> list_all preprocess_ok (tm_preprocess t)
     \<and> (\<forall>d. tm_destination t = Some d \<longrightarrow> destination_ok d)
     \<and> (\<forall>ss. tm_steps t = Some ss \<longrightarrow> list_all (\<lambda>s. destination_ok (st_destination s)) ss)
     \<and> (\<forall>r. tm_retry t = Some r \<longrightarrow> retry_ok r) \<and> (\<forall>n. tm_concurrency t = Some n \<longrightarrow> n < 2 ^ 16)"

section \<open>Round trips\<close>

lemma source_field_rt: "source_field_of (source_field_json f) = Some f"
  unfolding source_field_of_def source_field_json_def by (simp add: field_rules)

lemma source_rt: "source_ok s \<Longrightarrow> source_of (source_json s) = Some s"
  unfolding source_of_def source_json_def
  by (simp add: field_rules read_opt_so read_opt_raw read_list_map source_field_rt source_ok_def)

lemma preprocess_rt: "preprocess_ok p \<Longrightarrow> preprocess_of (preprocess_json p) = Some p"
  unfolding preprocess_of_def preprocess_json_def
  by (simp add: field_rules read_opt_so read_opt_raw preprocess_ok_def)

lemma auth_rt: "auth_of (auth_json a) = Some a"
  unfolding auth_of_def auth_json_def by (simp add: field_rules read_opt_so)

lemma lookup_rt: "lookup_of (lookup_json l) = Some l"
  unfolding lookup_of_def lookup_json_def by (simp add: field_rules read_opt_so)

lemma objects_not_null [simp]:
  "auth_json a \<noteq> JNull" "lookup_json l \<noteq> JNull" "delivery_json d \<noteq> JNull" "destination_json ds \<noteq> JNull"
  "mapping_json m \<noteq> JNull" "retry_json r \<noteq> JNull" "export_json e \<noteq> JNull"
  by (simp_all add: auth_json_def lookup_json_def delivery_json_def destination_json_def mapping_json_def
      retry_json_def export_json_def)

lemma delivery_rt:
  "(\<And>h. dl_idempotency_retention_hours d = Some h \<Longrightarrow> h < 2 ^ 32) \<Longrightarrow> delivery_of (delivery_json d) = Some d"
  unfolding delivery_of_def delivery_json_def
  by (simp add: field_rules read_opt_so lookup_rt)

lemma destination_rt: "destination_ok d \<Longrightarrow> destination_of (destination_json d) = Some d"
  unfolding destination_of_def destination_json_def
  by (simp add: field_rules read_opt_so read_opt_raw auth_rt delivery_rt destination_ok_def)

lemma mapping_rt: "mapping_of (mapping_json m) = Some m"
  unfolding mapping_of_def mapping_json_def by (simp add: field_rules)

lemma retry_rt: "retry_ok r \<Longrightarrow> retry_of (retry_json r) = Some r"
  unfolding retry_of_def retry_json_def by (simp add: field_rules read_opt_so retry_ok_def)

lemma step_rt: "destination_ok (st_destination s) \<Longrightarrow> step_of (step_json s) = Some s"
  unfolding step_of_def step_json_def
  by (simp add: field_rules read_opt_so mapping_rt destination_rt)

lemma export_rt: "export_of (export_json e) = Some e"
proof -
  have "export_column_of (export_column_json c) = Some c" for c
    unfolding export_column_of_def export_column_json_def by (simp add: field_rules read_opt_so)
  then show ?thesis unfolding export_of_def export_json_def
    by (simp add: field_rules read_opt_so read_list_map)
qed

lemma template_rt:
  assumes "template_ok t"
  shows "rule_template_of (rule_template_json t) = Some t"
proof -
  have steps: "read_opt (read_list step_of) (so (\<lambda>ss. JArr (map step_json ss)) (tm_steps t)) = Some (tm_steps t)"
    using assms by (intro read_opt_so) (auto simp: template_ok_def list_all_iff intro!: read_list_map step_rt)
  have pre: "read_list preprocess_of (JArr (map preprocess_json (tm_preprocess t))) = Some (tm_preprocess t)"
    using assms by (intro read_list_map preprocess_rt) (auto simp: template_ok_def list_all_iff)
  show ?thesis
    using assms unfolding rule_template_of_def rule_template_json_def
    by (simp add: field_rules read_opt_so source_rt mapping_rt destination_rt retry_rt export_rt template_ok_def steps pre)
qed

text \<open>
  C23: A typed rule template survives its JSON form: for every template whose numbers are in the
  range of their types, writing it and reading it back gives the same template, with no field lost,
  added or defaulted, and no written field refused as unknown.
\<close>

theorem template_round_trip:
  "template_ok t \<Longrightarrow> rule_template_of (rule_template_json t) = Some t"
  by (rule template_rt)

definition demo_dest :: destination where
  "demo_dest = \<lparr>de_type = ''http'', de_method = Post, de_url = ''https://d'', de_path_params = None, de_query_params = None,
     de_headers = None, de_auth = Some \<lparr>at_type = Bearer, at_secret_ref = Some ''tok'', at_header_name = None\<rparr>,
     de_idempotency_key = None, de_idempotency_header = None, de_delivery = None\<rparr>"

definition demo_template :: rule_template where
  "demo_template = \<lparr>tm_id = ''t'', tm_version = 1, tm_name = ''T'',
     tm_source = \<lparr>so_type = Csv, so_schema = None, so_options = None, so_connector_id = None\<rparr>, tm_preprocess = [],
     tm_mapping = Some \<lparr>mp_payload = [(''a'', JStr ''x'')]\<rparr>, tm_destination = Some demo_dest, tm_steps = None,
     tm_retry = None, tm_concurrency = Some 4, tm_export = None\<rparr>"

lemma demo_template_ok: "template_ok demo_template"
  by (simp add: template_ok_def demo_template_def source_ok_def destination_ok_def demo_dest_def)

theorem template_round_trip_witness:
  "rule_template_of (rule_template_json demo_template) = Some demo_template"
  by (rule template_round_trip [OF demo_template_ok])

text \<open>
  A watched prefix cannot be named: the rename rule makes its wire name \<^verbatim>\<open>watchedprefix\<close>, so a body whose
  source type is \<^verbatim>\<open>watched_prefix\<close>, the name the JSON Schema requires, never has the typed shape.
\<close>

lemma watched_prefix_has_no_shape:
  assumes "jget v ''source'' = Some s" and "jget s ''type'' = Some (JStr ''watched_prefix'')"
  shows "rule_template_of v = None"
proof -
  have "source_of s = None"
    using assms(2) by (simp add: source_of_def shaped_def req_def read_enum_def source_type_names_def)
  with assms(1) show ?thesis
    by (auto simp: rule_template_of_def shaped_def req_def bind_eq_None_conv)
qed

end
