(* ===== verification/Examples.thy ===== *)
theory Examples
  imports Templates Jobs Sources_Facts Template_Types_Facts License_Facts
begin

text \<open>
  A small deployment on which the theorems about handlers are evaluated: two organizations, an
  editor and a viewer, a published template with its draft successor, a registered upload, a finished job with
  one unresolved row, a running job of the other organization.
\<close>

definition demo_json_libs :: libs where
  "demo_json_libs = \<lparr>lib_parse = (\<lambda>_. Some (JObj [])), lib_print = (\<lambda>_. []), lib_pretty = (\<lambda>_. []),
     lib_b64_decode = Some, lib_b64_encode = (\<lambda>x. x), lib_sig_wf = (\<lambda>_. True), lib_verify = (\<lambda>_ _ _. False),
     lib_sign = (\<lambda>_ _. []), lib_private_key = (\<lambda>_. True), lib_public_key = (\<lambda>_. True), lib_public_of = (\<lambda>x. x),
     lib_embedded_key = [], lib_parse_ts = (\<lambda>_. None), lib_fmt_ts = show_int, lib_show_ts = show_int,
     lib_rfc3339 = show_int, lib_parse_rfc3339 = (\<lambda>_. None), lib_parse_naive = (\<lambda>_. None),
     lib_json_error = (\<lambda>_. ''expected value''), lib_status_text = show_nat\<rparr>"

definition demo_crates :: crates where
  "demo_crates = \<lparr>cr_url = (\<lambda>_. Inl ''relative URL without a base''), cr_json_error = (\<lambda>_. ''expected value''),
     cr_jwt_encode = (\<lambda>c. Inr (show_int (cl_exp c) @ ''.'' @ cl_sub c)), cr_jwt_decode = (\<lambda>_ _ _ _. None),
     cr_argon_hash = (\<lambda>salt pw. Inr (salt @ pw)), cr_argon_parse = Some, cr_argon_verify = (\<lambda>pw h. pw = h),
     cr_citext_eq = (\<lambda>a b. to_ascii_lowercase a = to_ascii_lowercase b), cr_decrypt = (\<lambda>ct _. Some ct), cr_is_utf8 = (\<lambda>_. True),
     cr_replace_all = (\<lambda>_ _ s. s), cr_rule_schema_text = [], cr_sha256_hex = (\<lambda>s. s), cr_is_rfc3339 = (\<lambda>_. False), cr_is_date = (\<lambda>_. False),
     cr_csv = (\<lambda>_ _. (Inr [], [])), cr_xml = (\<lambda>_. [Inr XEof])\<rparr>"

definition demo_app :: app where
  "demo_app = \<lparr>ap_libs = demo_json_libs, ap_temporal = \<lparr>tc_bridge_url = Some ''http://o'', tc_bridge_token = ''t'', tc_namespace = ''n''\<rparr>,
     ap_status_text = (\<lambda>n. show_nat n), ap_minio_bucket = ''migration'', ap_watch_allowed_buckets = [],
     ap_schema_errors = (\<lambda>_. []), ap_shape_error = (\<lambda>_. []), ap_cron_ok = (\<lambda>_. True), ap_interval_ok = (\<lambda>_. True),
     ap_csv_record = concat, ap_collate = (\<lambda>a b. a \<le> b), ap_encrypt = (\<lambda>n x. Some (n @ x)), ap_env = (\<lambda>_. None), ap_issuer = ''iss'', ap_audience = ''aud'',
     ap_crates = demo_crates\<rparr>"

definition demo_claims :: claims where
  "demo_claims = \<lparr>cl_sub = ''5'', cl_org = 1, cl_role = ''editor'', cl_iss = [], cl_aud = [], cl_iat = 0, cl_exp = 0\<rparr>"

definition demo_viewer :: claims where
  "demo_viewer = demo_claims\<lparr>cl_role := ''viewer''\<rparr>"

definition demo_user :: user where
  "demo_user = \<lparr>us_id = 5, us_org_id = 1, us_email = None, us_role = ''editor'', us_password_hash = [], us_disabled = False,
     us_created_at = 0, us_updated_at = 0\<rparr>"

definition demo_template_row :: "int \<Rightarrow> int \<Rightarrow> bool \<Rightarrow> rule_template_row" where
  "demo_template_row tid version published = \<lparr>rt_id = tid, rt_org_id = 1, rt_template_key = ''k'', rt_version = version,
     rt_name = ''T'', rt_schema_json = rule_template_json demo_template, rt_published = published,
     rt_created_by = Some 5, rt_created_at = 0\<rparr>"

definition demo_job :: "int \<Rightarrow> int \<Rightarrow> string \<Rightarrow> job_row" where
  "demo_job jid org status = \<lparr>jb_id = jid, jb_org_id = org, jb_rule_template_id = 3, jb_rule_template_version = 1,
     jb_schedule_id = None, jb_source_ref = JObj [], jb_status = status, jb_totals_json = JObj [],
     jb_temporal_workflow_id = Some (''mig-'' @ show_int jid), jb_temporal_run_id = None, jb_started_at = Some 0,
     jb_paused_at = None, jb_finished_at = None, jb_created_by = None, jb_created_at = 0, jb_updated_at = 0,
     jb_batch_id = None, jb_batch_stage_id = None, jb_results_ref = None, jb_last_error = None,
     jb_export_status = None, jb_export_error = None\<rparr>"

definition demo_row :: job_row_detail where
  "demo_row = \<lparr>jr_job_id = 8, jr_row_index = 4, jr_status = ''unresolved'', jr_attempts = 1, jr_last_error = None,
     jr_idempotency_key = None, jr_row_json = None, jr_payload_json = None, jr_response_json = None, jr_updated_at = 0\<rparr>"

definition demo_site :: db where
  "demo_site = demo_db\<lparr>db_orgs := [1, 2], db_users := [demo_user],
     db_templates := [demo_template_row 3 1 True, demo_template_row 4 2 False],
     db_jobs := [demo_job 8 1 ''succeeded'', demo_job 9 2 ''running''], db_job_rows := [demo_row]\<rparr>"

definition demo_site_world :: world where
  "demo_site_world = \<lparr>w_db = demo_site, w_steps = 0, w_sent = [], w_out = []\<rparr>"

text \<open>The caller runs alone, the process holds a valid license and the bridge answers.\<close>

definition demo_rq :: request where
  "demo_rq = \<lparr>rq_now = 0, rq_clock = (\<lambda>_. 0), rq_other = (\<lambda>_ d. d), rq_outage = (\<lambda>_. None), rq_uuid = ''u-1'', rq_nonce = [],
     rq_license = demo_proc, rq_bridge = (\<lambda>_ _ _. Reply 200 []), rq_s3 = (\<lambda>_ _. GetFailed []), rq_net = demo_net\<rparr>"

definition demo_late_rq :: request where
  "demo_late_rq = demo_rq\<lparr>rq_now := days 20\<rparr>"

lemma demo_user_id: "parse_i64 ''5'' = Some 5"
  by code_simp

lemma demo_license:
  "require_licensed (rq_license demo_rq) (rq_now demo_rq) = Inr ()"
  "isl (require_licensed (rq_license demo_late_rq) (rq_now demo_late_rq))"
  by code_simp+

end
