(* ===== verification/Schedules.thy ===== *)
theory Schedules
  imports Sources Temporal Templates
begin

text \<open>
  Schedules (\<^verbatim>\<open>src/apps/api/src/routes/schedules.rs\<close>): the database row and the Temporal schedule that
  runs it, kept in step by creation, update, pause, resume, trigger and deletion.
\<close>

definition OVERLAP_POLICIES :: "string list" where
  "OVERLAP_POLICIES = [''skip'', ''buffer_one'', ''buffer_all'', ''cancel_other'', ''allow_all'']"

record create_schedule_req =
  cs_name :: string
  cs_rule_template_id :: int
  cs_rule_template_version :: int
  cs_connector_id :: int
  cs_spec :: json
  cs_timezone :: "string option"
  cs_overlap_policy :: "string option"
  cs_catchup_window_seconds :: "int option"
  cs_enabled :: "bool option"

definition schedule_by_id :: "int \<Rightarrow> int \<Rightarrow> db \<Rightarrow> schedule_row option" where
  "schedule_by_id org sid d = List.find (\<lambda>s. sd_id s = sid \<and> sd_org_id s = org) (db_schedules d)"

definition list_schedules :: "app \<Rightarrow> request \<Rightarrow> claims \<Rightarrow> schedule_row list handler" where
  "list_schedules ap rq c = query rq (\<lambda>d. order_by (\<lambda>a b. ap_collate ap (sd_name a) (sd_name b))
     (filter (\<lambda>s. sd_org_id s = cl_org c) (db_schedules d)))"

definition get_schedule :: "request \<Rightarrow> claims \<Rightarrow> int \<Rightarrow> schedule_row handler" where
  "get_schedule rq c sid = bindE (query rq (schedule_by_id (cl_org c) sid)) (\<lambda>row. lift (ok_or NotFound row))"

definition check_overlap :: "string \<Rightarrow> unit handler" where
  "check_overlap overlap = guardE (overlap \<in> set OVERLAP_POLICIES) (BadRequest (''invalid overlap_policy '' @ overlap))"

definition insert_schedule ::
    "int \<Rightarrow> create_schedule_req \<Rightarrow> json \<Rightarrow> string \<Rightarrow> string \<Rightarrow> int \<Rightarrow> bool \<Rightarrow> string \<Rightarrow> int \<Rightarrow> instant \<Rightarrow> db
     \<Rightarrow> (db_error + schedule_row) \<times> db" where
  "insert_schedule org r spec timezone overlap catchup enabled schedule_id created_by now d =
     (let row = \<lparr>sd_id = db_next d T_schedules, sd_org_id = org, sd_name = cs_name r,
            sd_rule_template_id = cs_rule_template_id r, sd_rule_template_version = cs_rule_template_version r,
            sd_connector_id = cs_connector_id r, sd_spec_json = spec, sd_timezone = timezone, sd_overlap_policy = overlap,
            sd_catchup_window_seconds = catchup, sd_enabled = enabled, sd_next_run_at = None, sd_last_run_at = None,
            sd_temporal_schedule_id = Some schedule_id, sd_created_by = Some created_by, sd_created_at = now,
            sd_updated_at = now\<rparr>;
          d' = bump T_schedules d in
      if list_ex (\<lambda>s. (sd_org_id s = org \<and> sd_name s = cs_name r) \<or> sd_temporal_schedule_id s = Some schedule_id) (db_schedules d)
      then (Inl UniqueViolation, d')
      else if \<not> org_exists d org \<or> \<not> user_exists d created_by
        \<or> \<not> list_ex (\<lambda>t. rt_id t = cs_rule_template_id r) (db_templates d)
        \<or> \<not> list_ex (\<lambda>k. cn_id k = cs_connector_id r) (db_connectors d)
      then (Inl ForeignKeyViolation, d')
      else (Inr row, d'\<lparr>db_schedules := db_schedules d @ [row]\<rparr>))"

text \<open>
  \<^verbatim>\<open>DELETE\<close> with the effects of the foreign keys: runs go with their schedule, jobs and batches lose the
  reference.
\<close>

definition delete_schedules :: "(schedule_row \<Rightarrow> bool) \<Rightarrow> db \<Rightarrow> nat \<times> db" where
  "delete_schedules hit d =
     (let gone = map sd_id (filter hit (db_schedules d)) in
      (length gone, d\<lparr>db_schedules := filter (\<lambda>s. \<not> hit s) (db_schedules d),
         db_schedule_runs := filter (\<lambda>r. sr_schedule_id r \<notin> set gone) (db_schedule_runs d),
         db_jobs := update_where (\<lambda>j. case jb_schedule_id j of Some n \<Rightarrow> n \<in> set gone | None \<Rightarrow> False)
           (\<lambda>j. j\<lparr>jb_schedule_id := None\<rparr>) (db_jobs d),
         db_batches := update_where (\<lambda>b. case bt_schedule_id b of Some n \<Rightarrow> n \<in> set gone | None \<Rightarrow> False)
           (\<lambda>b. b\<lparr>bt_schedule_id := None\<rparr>) (db_batches d)\<rparr>))"

definition schedule_input :: "int \<Rightarrow> int \<Rightarrow> create_schedule_req \<Rightarrow> json" where
  "schedule_input org sid r = json_obj [(''orgId'', jint org), (''scheduleId'', jint sid),
     (''ruleTemplateId'', jint (cs_rule_template_id r)), (''ruleTemplateVersion'', jint (cs_rule_template_version r)),
     (''connectorId'', jint (cs_connector_id r))]"

definition audit_schedule :: "request \<Rightarrow> claims \<Rightarrow> int \<Rightarrow> string \<Rightarrow> json option \<Rightarrow> unit handler" where
  "audit_schedule rq c sid action after =
     record_audit rq (cl_org c) (cl_sub c) ''schedule'' (Some (show_int sid)) action None after"

definition create_schedule :: "app \<Rightarrow> request \<Rightarrow> claims \<Rightarrow> create_schedule_req \<Rightarrow> schedule_row handler" where
  "create_schedule ap rq c r =
     bindE (require_role c [''admin'', ''editor'']) (\<lambda>_.
     bindE (gate rq) (\<lambda>_.
     bindE (mapE BadRequest (lift (normalise_spec ap (cs_spec r)))) (\<lambda>spec.
     let timezone = unwrap_or ''UTC'' (cs_timezone r); overlap = unwrap_or ''skip'' (cs_overlap_policy r) in
     bindE (check_overlap overlap) (\<lambda>_.
     let catchup = max (unwrap_or 3600 (cs_catchup_window_seconds r)) 0; enabled = unwrap_or True (cs_enabled r) in
     bindE (require_connector rq (cl_org c) (cs_connector_id r)) (\<lambda>_.
     bindE (query rq (\<lambda>d. template_by_id (cl_org c) (cs_rule_template_id r) d \<noteq> None)) (\<lambda>template_owned.
     bindE (guardE template_owned (BadRequest ''template not found'')) (\<lambda>_.
     let schedule_id = ''sch-'' @ show_int (cl_org c) @ ''-'' @ uuid_simple (rq_uuid rq) in
     bindE (user_id c) (\<lambda>created_by.
     bindE (sqlE rq (\<lambda>e. if e = UniqueViolation then Conflict (''schedule '' @ cs_name r @ '' already exists'') else database e)
       (insert_schedule (cl_org c) r spec timezone overlap catchup enabled schedule_id created_by)) (\<lambda>row.
     bindE (tryE (bridge_create_schedule ap rq schedule_id spec (schedule_input (cl_org c) (sd_id row) r) overlap catchup timezone)) (\<lambda>created.
     case created of
       Inl e \<Rightarrow> bindE (tryE (execute rq (\<lambda>_ d. snd (delete_schedules (\<lambda>s. sd_id s = sd_id row) d)) :: unit handler))
         (\<lambda>_. throw (External (''temporal: '' @ temporal_display ap e)))
     | Inr _ \<Rightarrow>
     bindE (if enabled then ok (Inr ()) else tryE (bridge_pause_schedule ap rq schedule_id)) (\<lambda>_.
     bindE (audit_schedule rq c (sd_id row) ''create'' (Some (schedule_json (ap_libs ap) row))) (\<lambda>_. ok row))))))))))))"

record update_schedule_req =
  up_spec :: "json option"
  up_enabled :: "bool option"
  up_catchup_window_seconds :: "int option"
  up_timezone :: "string option"
  up_overlap_policy :: "string option"

definition save_schedule :: "int \<Rightarrow> int \<Rightarrow> schedule_row \<Rightarrow> instant \<Rightarrow> db \<Rightarrow> (db_error + schedule_row) \<times> db" where
  "save_schedule org sid x now d =
     (let hit = (\<lambda>s. sd_id s = sid \<and> sd_org_id s = org);
          d' = d\<lparr>db_schedules := update_where hit (\<lambda>s. s\<lparr>sd_spec_json := sd_spec_json x, sd_timezone := sd_timezone x,
            sd_overlap_policy := sd_overlap_policy x, sd_catchup_window_seconds := sd_catchup_window_seconds x,
            sd_enabled := sd_enabled x, sd_updated_at := now\<rparr>) (db_schedules d)\<rparr> in
      if sd_overlap_policy x \<notin> set OVERLAP_POLICIES then (Inl InvalidEnum, d)
      else (case schedule_by_id org sid d' of None \<Rightarrow> (Inl RowNotFound, d') | Some row \<Rightarrow> (Inr row, d')))"

definition on_temporal :: "string option \<Rightarrow> (string \<Rightarrow> unit handler) \<Rightarrow> unit handler" where
  "on_temporal sid f = (case sid of None \<Rightarrow> ok () | Some x \<Rightarrow> f x)"

definition apply_spec :: "app \<Rightarrow> request \<Rightarrow> json option \<Rightarrow> schedule_row \<Rightarrow> schedule_row handler" where
  "apply_spec ap rq spec x =
     (case spec of None \<Rightarrow> ok x
      | Some s \<Rightarrow>
          bindE (mapE BadRequest (lift (normalise_spec ap s))) (\<lambda>normalised.
          bindE (on_temporal (sd_temporal_schedule_id x) (\<lambda>t.
            mapE (\<lambda>e. External (''temporal: '' @ temporal_display ap e)) (bridge_update_schedule ap rq t normalised (JObj [])))) (\<lambda>_.
          ok (x\<lparr>sd_spec_json := normalised\<rparr>))))"

definition apply_enabled :: "app \<Rightarrow> request \<Rightarrow> bool option \<Rightarrow> schedule_row \<Rightarrow> schedule_row handler" where
  "apply_enabled ap rq enabled x =
     (case enabled of None \<Rightarrow> ok x
      | Some b \<Rightarrow>
          bindE (on_temporal (sd_temporal_schedule_id x) (\<lambda>t.
            mapE (\<lambda>e. External (temporal_display ap e))
              (if b then bridge_unpause_schedule ap rq t else bridge_pause_schedule ap rq t))) (\<lambda>_.
          ok (x\<lparr>sd_enabled := b\<rparr>)))"

definition apply_rest :: "update_schedule_req \<Rightarrow> schedule_row \<Rightarrow> schedule_row handler" where
  "apply_rest r x =
     (let x1 = (case up_catchup_window_seconds r of None \<Rightarrow> x | Some k \<Rightarrow> x\<lparr>sd_catchup_window_seconds := max k 0\<rparr>);
          x2 = (case up_timezone r of None \<Rightarrow> x1 | Some tz \<Rightarrow> x1\<lparr>sd_timezone := tz\<rparr>) in
      case up_overlap_policy r of None \<Rightarrow> ok x2
      | Some overlap \<Rightarrow> bindE (check_overlap overlap) (\<lambda>_. ok (x2\<lparr>sd_overlap_policy := overlap\<rparr>)))"

definition update_schedule :: "app \<Rightarrow> request \<Rightarrow> claims \<Rightarrow> int \<Rightarrow> update_schedule_req \<Rightarrow> schedule_row handler" where
  "update_schedule ap rq c sid r =
     bindE (require_role c [''admin'', ''editor'']) (\<lambda>_.
     bindE (if up_enabled r = Some True then gate rq else ok ()) (\<lambda>_.
     bindE (query rq (schedule_by_id (cl_org c) sid)) (\<lambda>found.
     bindE (lift (ok_or NotFound found)) (\<lambda>x0.
     bindE (apply_spec ap rq (up_spec r) x0) (\<lambda>x1.
     bindE (apply_enabled ap rq (up_enabled r) x1) (\<lambda>x2.
     bindE (apply_rest r x2) (\<lambda>x3.
     bindE (sqlE rq database (save_schedule (cl_org c) sid x3)) (\<lambda>row.
     bindE (audit_schedule rq c sid ''update'' (Some (schedule_json (ap_libs ap) row))) (\<lambda>_. ok row)))))))))"

definition delete_schedule :: "app \<Rightarrow> request \<Rightarrow> claims \<Rightarrow> int \<Rightarrow> json handler" where
  "delete_schedule ap rq c sid =
     bindE (require_role c [''admin'']) (\<lambda>_.
     bindE (query rq (\<lambda>d. Option.bind (schedule_by_id (cl_org c) sid d) sd_temporal_schedule_id)) (\<lambda>t.
     bindE (on_temporal t (\<lambda>x. mapE (\<lambda>e. External (temporal_display ap e)) (bridge_delete_schedule ap rq x))) (\<lambda>_.
     bindE (sqlE rq database (\<lambda>_ d. let (n, d') = delete_schedules (\<lambda>s. sd_id s = sid \<and> sd_org_id s = cl_org c) d in (Inr n, d'))) (\<lambda>affected.
     if affected = 0 then throw NotFound
     else bindE (audit_schedule rq c sid ''delete'' None) (\<lambda>_. ok (json_obj [(''deleted'', JBool True)]))))))"

definition temporal_id :: "request \<Rightarrow> int \<Rightarrow> int \<Rightarrow> string handler" where
  "temporal_id rq sid org =
     bindE (query rq (\<lambda>d. Option.bind (schedule_by_id org sid d) sd_temporal_schedule_id)) (\<lambda>t. lift (ok_or NotFound t))"

definition set_enabled :: "int \<Rightarrow> int \<Rightarrow> bool \<Rightarrow> instant \<Rightarrow> db \<Rightarrow> db" where
  "set_enabled org sid b now d = d\<lparr>db_schedules := update_where (\<lambda>s. sd_id s = sid \<and> sd_org_id s = org)
     (\<lambda>s. s\<lparr>sd_enabled := b, sd_updated_at := now\<rparr>) (db_schedules d)\<rparr>"

definition pause_schedule :: "app \<Rightarrow> request \<Rightarrow> claims \<Rightarrow> int \<Rightarrow> json handler" where
  "pause_schedule ap rq c sid =
     bindE (require_role c [''admin'', ''editor'', ''operator'']) (\<lambda>_.
     bindE (temporal_id rq sid (cl_org c)) (\<lambda>t.
     bindE (mapE (\<lambda>e. External (temporal_display ap e)) (bridge_pause_schedule ap rq t)) (\<lambda>_.
     bindE (execute rq (set_enabled (cl_org c) sid False)) (\<lambda>_.
     bindE (audit_schedule rq c sid ''pause'' None) (\<lambda>_.
     ok (json_obj [(''id'', jint sid), (''enabled'', JBool False)]))))))"

definition resume_schedule :: "app \<Rightarrow> request \<Rightarrow> claims \<Rightarrow> int \<Rightarrow> json handler" where
  "resume_schedule ap rq c sid =
     bindE (require_role c [''admin'', ''editor'', ''operator'']) (\<lambda>_.
     bindE (gate rq) (\<lambda>_.
     bindE (temporal_id rq sid (cl_org c)) (\<lambda>t.
     bindE (mapE (\<lambda>e. External (temporal_display ap e)) (bridge_unpause_schedule ap rq t)) (\<lambda>_.
     bindE (execute rq (set_enabled (cl_org c) sid True)) (\<lambda>_.
     bindE (audit_schedule rq c sid ''resume'' None) (\<lambda>_.
     ok (json_obj [(''id'', jint sid), (''enabled'', JBool True)])))))))"

definition trigger_schedule :: "app \<Rightarrow> request \<Rightarrow> claims \<Rightarrow> int \<Rightarrow> json handler" where
  "trigger_schedule ap rq c sid =
     bindE (require_role c [''admin'', ''editor'', ''operator'']) (\<lambda>_.
     bindE (gate rq) (\<lambda>_.
     bindE (temporal_id rq sid (cl_org c)) (\<lambda>t.
     bindE (mapE (\<lambda>e. External (temporal_display ap e)) (bridge_trigger_schedule ap rq t)) (\<lambda>_.
     bindE (audit_schedule rq c sid ''trigger_now'' None) (\<lambda>_.
     ok (json_obj [(''id'', jint sid), (''triggered'', JBool True)]))))))"

definition run_json :: "libs \<Rightarrow> schedule_run \<Rightarrow> json" where
  "run_json L r = json_obj [(''id'', jint (sr_id r)), (''job_id'', joint (sr_job_id r)),
     (''scheduled_time'', jts L (sr_scheduled_time r)), (''actual_start_time'', jots L (sr_actual_start_time r)),
     (''status'', JStr (sr_status r))]"

definition list_runs :: "app \<Rightarrow> request \<Rightarrow> claims \<Rightarrow> int \<Rightarrow> json handler" where
  "list_runs ap rq c sid =
     bindE (query rq (\<lambda>d. schedule_by_id (cl_org c) sid d \<noteq> None)) (\<lambda>owned.
     if \<not> owned then throw NotFound
     else query rq (\<lambda>d. json_obj [(''items'', JArr (map (run_json (ap_libs ap))
       (take 100 (order_by (\<lambda>a b. sr_scheduled_time b \<le> sr_scheduled_time a)
         (filter (\<lambda>r. sr_schedule_id r = sid) (db_schedule_runs d))))))]))"

end
