(* ===== verification/Batches.thy ===== *)
theory Batches
  imports Sources Temporal Templates
begin

text \<open>Archive batches (\<^verbatim>\<open>src/apps/api/src/routes/batches.rs\<close>): list, read, and start from a registered archive.\<close>

definition BATCH_STATUSES :: "string list" where
  "BATCH_STATUSES = [''pending'', ''running'', ''succeeded'', ''failed'', ''partial'', ''quarantined'']"

record batch_list_query =
  bq_cursor :: "int option"
  bq_limit :: "int option"
  bq_status :: "string option"

definition select_batches :: "int \<Rightarrow> batch_list_query \<Rightarrow> db \<Rightarrow> db_error + batch_row list" where
  "select_batches org q d =
     (let limit = max 1 (min 200 (unwrap_or 50 (bq_limit q))); cursor = unwrap_or i64_max (bq_cursor q);
          rows = (\<lambda>p. limit_to limit (order_by (\<lambda>a b. bt_id b \<le> bt_id a)
            (filter (\<lambda>b. bt_org_id b = org \<and> bt_id b < cursor \<and> p b) (db_batches d)))) in
      case bq_status q of
        Some status \<Rightarrow> if status \<notin> set BATCH_STATUSES then Inl InvalidEnum else rows (\<lambda>b. bt_status b = status)
      | None \<Rightarrow> rows (\<lambda>_. True))"

definition list_batches :: "app \<Rightarrow> request \<Rightarrow> claims \<Rightarrow> batch_list_query \<Rightarrow> json handler" where
  "list_batches ap rq c q =
     bindE (sqlE rq database (\<lambda>_ d. (select_batches (cl_org c) q d, d))) (\<lambda>items.
       ok (json_obj [(''items'', JArr (map (batch_json (ap_libs ap)) items))]))"

definition batch_by_id :: "int \<Rightarrow> int \<Rightarrow> db \<Rightarrow> batch_row option" where
  "batch_by_id org bid d = List.find (\<lambda>b. bt_id b = bid \<and> bt_org_id b = org) (db_batches d)"

definition get_batch :: "request \<Rightarrow> claims \<Rightarrow> int \<Rightarrow> (batch_row \<times> batch_stage_row list) handler" where
  "get_batch rq c bid =
     bindE (query rq (batch_by_id (cl_org c) bid)) (\<lambda>found.
     bindE (lift (ok_or NotFound found)) (\<lambda>batch.
     bindE (query rq (\<lambda>d. order_by (\<lambda>a b. bs_stage_index a \<le> bs_stage_index b)
       (filter (\<lambda>s. bs_batch_id s = bid) (db_batch_stages d)))) (\<lambda>stages. ok (batch, stages))))"

record batch_create =
  bc_source_ref :: json
  bc_connector_id :: "int option"

definition insert_batch :: "int \<Rightarrow> int option \<Rightarrow> json \<Rightarrow> string \<Rightarrow> instant \<Rightarrow> db \<Rightarrow> (db_error + batch_row) \<times> db" where
  "insert_batch org connector ref workflow_id now d =
     (let row = \<lparr>bt_id = db_next d T_batches, bt_org_id = org, bt_schedule_id = None, bt_connector_id = connector,
            bt_batch_key = None, bt_source_ref = ref, bt_status = ''pending'', bt_on_stage_failure = ''stop'',
            bt_manifest_json = None, bt_temporal_workflow_id = Some workflow_id, bt_temporal_run_id = None,
            bt_error_message = None, bt_quarantine_ref = None, bt_started_at = Some now, bt_finished_at = None,
            bt_created_at = now, bt_updated_at = now\<rparr>;
          d' = bump T_batches d in
      if list_ex (\<lambda>b. bt_temporal_workflow_id b = Some workflow_id) (db_batches d) then (Inl UniqueViolation, d')
      else if \<not> org_exists d org
        \<or> (case connector of None \<Rightarrow> False | Some k \<Rightarrow> \<not> list_ex (\<lambda>x. cn_id x = k) (db_connectors d))
      then (Inl ForeignKeyViolation, d')
      else (Inr row, d'\<lparr>db_batches := db_batches d @ [row]\<rparr>))"

definition mark_batch_failed :: "int \<Rightarrow> string \<Rightarrow> instant \<Rightarrow> db \<Rightarrow> db" where
  "mark_batch_failed bid message now d = d\<lparr>db_batches := update_where (\<lambda>b. bt_id b = bid)
     (\<lambda>b. b\<lparr>bt_status := ''failed'', bt_finished_at := Some now, bt_error_message := Some message, bt_updated_at := now\<rparr>)
     (db_batches d)\<rparr>"

definition mark_batch_running :: "int \<Rightarrow> string \<Rightarrow> instant \<Rightarrow> db \<Rightarrow> (db_error + batch_row) \<times> db" where
  "mark_batch_running bid run_id now d =
     (let d' = d\<lparr>db_batches := update_where (\<lambda>b. bt_id b = bid)
            (\<lambda>b. b\<lparr>bt_status := ''running'', bt_temporal_run_id := Some run_id, bt_updated_at := now\<rparr>) (db_batches d)\<rparr> in
      case List.find (\<lambda>b. bt_id b = bid) (db_batches d') of
        None \<Rightarrow> (Inl RowNotFound, d') | Some row \<Rightarrow> (Inr row, d'))"

definition batch_input :: "int \<Rightarrow> int \<Rightarrow> int option \<Rightarrow> registered_source \<Rightarrow> json" where
  "batch_input org bid connector s = json_obj [(''orgId'', jint org), (''batchId'', jint bid),
     (''connectorId'', joint connector), (''sourceId'', jint (rs_id s)), (''bucket'', JStr (rs_bucket s)),
     (''key'', JStr (rs_object_key s)), (''etag'', JStr (unwrap_or [] (rs_etag s))),
     (''size'', jint (unwrap_or 0 (rs_size_bytes s)))]"

definition create_batch :: "app \<Rightarrow> request \<Rightarrow> claims \<Rightarrow> batch_create \<Rightarrow> batch_row handler" where
  "create_batch ap rq c r =
     bindE (require_role c [''admin'', ''editor'', ''operator'']) (\<lambda>_.
     bindE (gate rq) (\<lambda>_.
     bindE (lift (parse_source_request (bc_source_ref r))) (\<lambda>source_req.
     bindE (resolve_object rq (cl_org c) source_req) (\<lambda>src.
     bindE (guardE (format_from_filename (unwrap_or (rs_object_key src) (rs_filename src)) = ''archive'')
       (BadRequest ''batch source must be .tar.gz, .tgz, or .zip'')) (\<lambda>_.
     bindE (case bc_connector_id r of None \<Rightarrow> ok [] | Some k \<Rightarrow> require_connector rq (cl_org c) k) (\<lambda>_.
     let workflow_id = ''batch-'' @ show_int (cl_org c) @ ''-'' @ uuid_simple (rq_uuid rq) in
     bindE (sqlE rq database (insert_batch (cl_org c) (bc_connector_id r) (registered_source_ref src) workflow_id)) (\<lambda>row0.
     bindE (tryE (start_workflow ap rq workflow_id ''BatchWorkflow''
       (batch_input (cl_org c) (bt_id row0) (bc_connector_id r) src))) (\<lambda>started.
     case started of
       Inl e \<Rightarrow> bindE (execute rq (mark_batch_failed (bt_id row0) (''temporal: '' @ temporal_display ap e)))
         (\<lambda>_. throw (External (''temporal: '' @ temporal_display ap e)))
     | Inr run_id \<Rightarrow>
     bindE (sqlE rq database (mark_batch_running (bt_id row0) run_id)) (\<lambda>row.
     bindE (record_audit rq (cl_org c) (cl_sub c) ''batch'' (Some (show_int (bt_id row))) ''create'' None
       (Some (batch_json (ap_libs ap) row))) (\<lambda>_. ok row))))))))))"

end
