(* ===== verification/Connectors.thy ===== *)
theory Connectors
  imports Sources Temporal
begin

text \<open>
  Connectors (\<^verbatim>\<open>src/apps/api/src/routes/connectors.rs\<close>) and destination secrets
  (\<^verbatim>\<open>src/apps/api/src/routes/secrets.rs\<close>), which share the \<^verbatim>\<open>secrets\<close> table. A transaction is one
  step. Sealing a value is the argument \<open>ap_encrypt\<close>, applied to the request's nonce.
\<close>

section \<open>Connectors\<close>

definition CONNECTOR_KINDS :: "string list" where
  "CONNECTOR_KINDS = [''salesforce'', ''watched_prefix'', ''custom'', ''watched_sftp'']"

record create_connector_req =
  cc_name :: string
  cc_connector_kind :: string
  cc_config_json :: json
  cc_secret :: "string option"

definition list_connectors :: "app \<Rightarrow> request \<Rightarrow> claims \<Rightarrow> connector_row list handler" where
  "list_connectors ap rq c = query rq (\<lambda>d. order_by (\<lambda>a b. ap_collate ap (cn_name a) (cn_name b))
     (filter (\<lambda>k. cn_org_id k = cl_org c) (db_connectors d)))"

definition get_connector :: "request \<Rightarrow> claims \<Rightarrow> int \<Rightarrow> connector_row handler" where
  "get_connector rq c kid = bindE (query rq (connector_by_id (cl_org c) kid)) (\<lambda>row. lift (ok_or NotFound row))"

definition encrypt :: "app \<Rightarrow> request \<Rightarrow> string \<Rightarrow> (string \<times> string) api_result" where
  "encrypt ap rq plaintext =
     (case ap_encrypt ap (rq_nonce rq) plaintext of
        None \<Rightarrow> Inl (Internal ''aes-gcm encrypt'') | Some ct \<Rightarrow> Inr (ct, rq_nonce rq))"

definition insert_secret ::
    "int \<Rightarrow> string \<Rightarrow> string \<Rightarrow> string \<Rightarrow> string \<Rightarrow> instant \<Rightarrow> db \<Rightarrow> (db_error + int) \<times> db" where
  "insert_secret org name ct nonce kind now d =
     (let sid = db_next d T_secrets; d' = bump T_secrets d in
      if list_ex (\<lambda>s. sc_org_id s = org \<and> sc_name s = name) (db_secrets d) then (Inl UniqueViolation, d')
      else if \<not> org_exists d org then (Inl ForeignKeyViolation, d')
      else (Inr sid, d'\<lparr>db_secrets := db_secrets d @ [\<lparr>sc_id = sid, sc_org_id = org, sc_name = name, sc_ciphertext = ct,
             sc_nonce = nonce, sc_kind = kind, sc_created_at = now, sc_updated_at = now, sc_revoked_at = None\<rparr>]\<rparr>))"

text \<open>A secret stored under a name whether or not there is one; an existing row keeps its kind and its revocation.\<close>

definition upsert_secret_row :: "int \<Rightarrow> string \<Rightarrow> string \<Rightarrow> string \<Rightarrow> instant \<Rightarrow> db \<Rightarrow> (db_error + int) \<times> db" where
  "upsert_secret_row org name ct nonce now d =
     (let hit = (\<lambda>s. sc_org_id s = org \<and> sc_name s = name) in
      case List.find hit (db_secrets d) of
        Some old \<Rightarrow> (Inr (sc_id old), bump T_secrets (d\<lparr>db_secrets := update_where hit
          (\<lambda>s. s\<lparr>sc_ciphertext := ct, sc_nonce := nonce, sc_updated_at := now\<rparr>) (db_secrets d)\<rparr>))
      | None \<Rightarrow> insert_secret org name ct nonce ''internal'' now d)"

definition insert_connector ::
    "int \<Rightarrow> string \<Rightarrow> string \<Rightarrow> json \<Rightarrow> int option \<Rightarrow> int \<Rightarrow> instant \<Rightarrow> db \<Rightarrow> (db_error + connector_row) \<times> db" where
  "insert_connector org name kind cfg secret_id created_by now d =
     (let row = \<lparr>cn_id = db_next d T_connectors, cn_org_id = org, cn_name = name, cn_connector_kind = kind,
            cn_config_json = cfg, cn_secret_id = secret_id, cn_created_by = Some created_by, cn_created_at = now,
            cn_updated_at = now\<rparr>;
          d' = bump T_connectors d in
      if kind \<notin> set CONNECTOR_KINDS then (Inl InvalidEnum, d)
      else if list_ex (\<lambda>k. cn_org_id k = org \<and> cn_name k = name) (db_connectors d) then (Inl UniqueViolation, d')
      else if \<not> org_exists d org \<or> \<not> user_exists d created_by then (Inl ForeignKeyViolation, d')
      else (Inr row, d'\<lparr>db_connectors := db_connectors d @ [row]\<rparr>))"

text \<open>A rolled back transaction leaves nothing but advanced sequences.\<close>

definition rolled_back :: "db \<Rightarrow> db \<Rightarrow> db" where
  "rolled_back d d' = d\<lparr>db_next := db_next d'\<rparr>"

definition connector_tx ::
    "app \<Rightarrow> request \<Rightarrow> claims \<Rightarrow> create_connector_req \<Rightarrow> string \<Rightarrow> instant \<Rightarrow> db \<Rightarrow> (api_error + connector_row) \<times> db" where
  "connector_tx ap rq c r kind now d =
     (case (case cc_secret r of
              None \<Rightarrow> (Inr None, d)
            | Some secret \<Rightarrow>
                (case encrypt ap rq secret of
                   Inl e \<Rightarrow> (Inl e, d)
                 | Inr (ct, nonce) \<Rightarrow>
                     (case insert_secret (cl_org c) (cc_name r @ ''-secret'') ct nonce ''internal'' now d of
                        (Inl e, d1) \<Rightarrow> (Inl (database e), d1)
                      | (Inr sid, d1) \<Rightarrow> (Inr (Some sid), d1)))) of
        (Inl e, d1) \<Rightarrow> (Inl e, rolled_back d d1)
      | (Inr secret_id, d1) \<Rightarrow>
          (case parse_i64 (cl_sub c) of
             None \<Rightarrow> (Inl Unauthorized, rolled_back d d1)
           | Some created_by \<Rightarrow>
               (case insert_connector (cl_org c) (cc_name r) kind (cc_config_json r) secret_id created_by now d1 of
                  (Inl UniqueViolation, d2) \<Rightarrow>
                    (Inl (Conflict (''connector '' @ cc_name r @ '' already exists'')), rolled_back d d2)
                | (Inl e, d2) \<Rightarrow> (Inl (database e), rolled_back d d2)
                | (Inr row, d2) \<Rightarrow> (Inr row, d2))))"

definition create_connector :: "app \<Rightarrow> request \<Rightarrow> claims \<Rightarrow> create_connector_req \<Rightarrow> connector_row handler" where
  "create_connector ap rq c r =
     bindE (require_role c [''admin'', ''editor'']) (\<lambda>_.
     let kind = (if cc_connector_kind r = ''sftp'' then ''watched_sftp'' else cc_connector_kind r) in
     bindE (lift (check_connector_locations kind (cc_config_json r) (cl_org c)
       (ap_minio_bucket ap # ap_watch_allowed_buckets ap))) (\<lambda>_.
     bindE (sqlE rq (\<lambda>e. e) (connector_tx ap rq c r kind)) (\<lambda>row.
     bindE (record_audit rq (cl_org c) (cl_sub c) ''connector'' (Some (show_int (cn_id row))) ''create'' None
       (Some (connector_json (ap_libs ap) row))) (\<lambda>_. ok row))))"

definition delete_connectors :: "int \<Rightarrow> int \<Rightarrow> db \<Rightarrow> (db_error + nat) \<times> db" where
  "delete_connectors org kid d =
     (let hit = (\<lambda>k. cn_id k = kid \<and> cn_org_id k = org); n = length (filter hit (db_connectors d)) in
      if 0 < n \<and> list_ex (\<lambda>s. sd_connector_id s = kid) (db_schedules d) then (Inl ForeignKeyViolation, d)
      else (Inr n, d\<lparr>db_connectors := filter (\<lambda>k. \<not> hit k) (db_connectors d),
             db_batches := (if n = 0 then db_batches d else update_where (\<lambda>b. bt_connector_id b = Some kid)
               (\<lambda>b. b\<lparr>bt_connector_id := None\<rparr>) (db_batches d))\<rparr>))"

definition delete_connector :: "request \<Rightarrow> claims \<Rightarrow> int \<Rightarrow> json handler" where
  "delete_connector rq c kid =
     bindE (require_role c [''admin'']) (\<lambda>_.
     bindE (sqlE rq database (\<lambda>_. delete_connectors (cl_org c) kid)) (\<lambda>affected.
     if affected = 0 then throw NotFound
     else bindE (record_audit rq (cl_org c) (cl_sub c) ''connector'' (Some (show_int kid)) ''delete'' None None)
       (\<lambda>_. ok (json_obj [(''deleted'', JBool True)]))))"

definition test_connector :: "app \<Rightarrow> request \<Rightarrow> claims \<Rightarrow> int \<Rightarrow> json handler" where
  "test_connector ap rq c kid =
     bindE (require_role c [''admin'', ''editor'', ''operator'']) (\<lambda>_.
     bindE (query rq (\<lambda>d. map_option cn_connector_kind (connector_by_id (cl_org c) kid d))) (\<lambda>found.
     bindE (lift (ok_or NotFound found)) (\<lambda>kind.
     if kind \<noteq> ''watched_sftp'' then throw (BadRequest (''real connector test is not implemented for kind '' @ kind))
     else bindE (mapE (\<lambda>e. External (''connector validation: '' @ temporal_display ap e))
         (test_sftp_connector ap rq (cl_org c) kid)) (\<lambda>_.
       ok (json_obj [(''id'', jint kid), (''ok'', JBool True),
         (''message'', JStr ''SFTP handshake and bounded listing succeeded'')])))))"

section \<open>Destination secrets\<close>

definition MAX_SECRET_BYTES :: nat where "MAX_SECRET_BYTES = 8192"

record secret_meta =
  mt_name :: string
  mt_created_at :: instant
  mt_updated_at :: instant
  mt_revoked_at :: "instant option"

definition meta_of :: "secret_row \<Rightarrow> secret_meta" where
  "meta_of s = \<lparr>mt_name = sc_name s, mt_created_at = sc_created_at s, mt_updated_at = sc_updated_at s,
     mt_revoked_at = sc_revoked_at s\<rparr>"

definition name_char :: "char \<Rightarrow> bool" where
  "name_char b \<longleftrightarrow> is_ascii_alphanumeric b \<or> b = CHR ''_'' \<or> b = CHR ''.'' \<or> b = CHR ''-''"

definition validate_name :: "string \<Rightarrow> unit api_result" where
  "validate_name name =
     (if 1 \<le> length name \<and> length name \<le> 128 \<and> list_all name_char name then Inr ()
      else Inl (BadRequest (''secret name must be 1-128 characters of A-Z, a-z, 0-9, '' @ [CHR 0x27] @ ''_'' @ [CHR 0x27] @
        '', '' @ [CHR 0x27] @ ''.'' @ [CHR 0x27] @ '', '' @ [CHR 0x27] @ ''-'' @ [CHR 0x27])))"

definition list_secrets :: "app \<Rightarrow> request \<Rightarrow> claims \<Rightarrow> secret_meta list handler" where
  "list_secrets ap rq c =
     bindE (require_role c [''admin'', ''editor'']) (\<lambda>_.
     query rq (\<lambda>d. map meta_of (order_by (\<lambda>a b. ap_collate ap (sc_name a) (sc_name b))
       (filter (\<lambda>s. sc_org_id s = cl_org c \<and> sc_kind s = ''destination'') (db_secrets d)))))"

definition get_secret :: "request \<Rightarrow> claims \<Rightarrow> string \<Rightarrow> secret_meta handler" where
  "get_secret rq c name =
     bindE (require_role c [''admin'', ''editor'']) (\<lambda>_.
     bindE (lift (validate_name name)) (\<lambda>_.
     bindE (query rq (\<lambda>d. map_option meta_of (List.find
       (\<lambda>s. sc_org_id s = cl_org c \<and> sc_name s = name \<and> sc_kind s = ''destination'') (db_secrets d)))) (\<lambda>m.
     lift (ok_or NotFound m))))"

text \<open>The transaction of \<^verbatim>\<open>put_secret\<close>: the row lock, the refusal of internal names, and the upsert; it returns the audit action.\<close>

definition secret_tx ::
    "int \<Rightarrow> string \<Rightarrow> string \<Rightarrow> string \<Rightarrow> instant \<Rightarrow> db \<Rightarrow> (api_error + secret_meta \<times> string) \<times> db" where
  "secret_tx org name ct nonce now d =
     (let hit = (\<lambda>s. sc_org_id s = org \<and> sc_name s = name) in
      case List.find hit (db_secrets d) of
        Some old \<Rightarrow>
          if sc_kind old \<noteq> ''destination'' then (Inl (Conflict (''secret name '' @ debug_str name @
              '' is used by a connector or LLM credential; choose another name'')), d)
          else
            (let new = old\<lparr>sc_ciphertext := ct, sc_nonce := nonce, sc_revoked_at := None, sc_updated_at := now\<rparr> in
             (Inr (meta_of new, if sc_revoked_at old = None then ''rotate'' else ''reactivate''),
              bump T_secrets (d\<lparr>db_secrets := update_where hit (\<lambda>_. new) (db_secrets d)\<rparr>)))
      | None \<Rightarrow>
          (case insert_secret org name ct nonce ''destination'' now d of
             (Inl e, d1) \<Rightarrow> (Inl (database e), rolled_back d d1)
           | (Inr sid, d1) \<Rightarrow> (Inr (\<lparr>mt_name = name, mt_created_at = now, mt_updated_at = now, mt_revoked_at = None\<rparr>, ''create''), d1)))"

definition put_secret :: "app \<Rightarrow> request \<Rightarrow> claims \<Rightarrow> string \<Rightarrow> string \<Rightarrow> secret_meta handler" where
  "put_secret ap rq c name val =
     bindE (require_role c [''admin'']) (\<lambda>_.
     bindE (lift (validate_name name)) (\<lambda>_.
     bindE (guardE (val \<noteq> [] \<and> length val \<le> MAX_SECRET_BYTES)
       (BadRequest (''secret value must be 1-'' @ show_nat MAX_SECRET_BYTES @ '' bytes''))) (\<lambda>_.
     bindE (lift (encrypt ap rq val)) (\<lambda>(ct, nonce).
     bindE (sqlE rq (\<lambda>e. e) (secret_tx (cl_org c) name ct nonce)) (\<lambda>(meta, action).
     bindE (record_audit rq (cl_org c) (cl_sub c) ''destination_secret'' (Some name) action None None) (\<lambda>_.
     ok meta))))))"

definition revoke_row :: "int \<Rightarrow> string \<Rightarrow> instant \<Rightarrow> db \<Rightarrow> secret_meta option \<times> db" where
  "revoke_row org name now d =
     (let hit = (\<lambda>s. sc_org_id s = org \<and> sc_name s = name \<and> sc_kind s = ''destination'' \<and> sc_revoked_at s = None);
          f = (\<lambda>s. s\<lparr>sc_revoked_at := Some now, sc_updated_at := now, sc_ciphertext := [], sc_nonce := []\<rparr>) in
      (map_option (\<lambda>s. meta_of (f s)) (List.find hit (db_secrets d)), d\<lparr>db_secrets := update_where hit f (db_secrets d)\<rparr>))"

definition revoke_secret :: "request \<Rightarrow> claims \<Rightarrow> string \<Rightarrow> secret_meta handler" where
  "revoke_secret rq c name =
     bindE (require_role c [''admin'']) (\<lambda>_.
     bindE (lift (validate_name name)) (\<lambda>_.
     bindE (sqlE rq database (\<lambda>now d. let (m, d') = revoke_row (cl_org c) name now d in (Inr m, d'))) (\<lambda>found.
     bindE (lift (ok_or NotFound found)) (\<lambda>meta.
     bindE (record_audit rq (cl_org c) (cl_sub c) ''destination_secret'' (Some name) ''revoke'' None None) (\<lambda>_.
     ok meta)))))"

end
