(* ===== verification/Specs.thy ===== *)
theory Specs
  imports Temporal
begin

text \<open>
  Imported OpenAPI documents (\<^verbatim>\<open>src/apps/api/src/routes/specs.rs\<close>): the guard on URLs to fetch, the check of the
  document, the flattening into operation summaries with bounded resolution of references, and the handlers.
  \<open>json_pointer\<close> is \<^verbatim>\<open>serde_json::Value::pointer\<close> (RFC 6901).
\<close>

section \<open>JSON pointers\<close>

fun str_replace2 :: "char \<Rightarrow> char \<Rightarrow> string \<Rightarrow> string \<Rightarrow> string" where
  "str_replace2 a b r (x # y # s) =
     (if x = a \<and> y = b then r @ str_replace2 a b r s else x # str_replace2 a b r (y # s))"
| "str_replace2 a b r s = s"

definition pointer_token :: "string \<Rightarrow> string" where
  "pointer_token t = str_replace2 (CHR ''~'') (CHR ''0'') ''~'' (str_replace2 (CHR ''~'') (CHR ''1'') ''/'' t)"

definition parse_index :: "string \<Rightarrow> nat option" where
  "parse_index s =
     (if s = [] \<or> \<not> list_all is_digit s \<or> (hd s = CHR ''0'' \<and> length s \<noteq> 1) then None
      else if digits_value s < 2 ^ 64 then Some (digits_value s) else None)"

definition pointer_step :: "json \<Rightarrow> string \<Rightarrow> json option" where
  "pointer_step v token =
     (case v of
        JObj m \<Rightarrow> map_of m token
      | JArr vs \<Rightarrow> Option.bind (parse_index token) (\<lambda>i. if i < length vs then Some (vs ! i) else None)
      | _ \<Rightarrow> None)"

fun pointer_walk :: "json \<Rightarrow> string list \<Rightarrow> json option" where
  "pointer_walk v [] = Some v"
| "pointer_walk v (t # ts) = Option.bind (pointer_step v t) (\<lambda>w. pointer_walk w ts)"

definition json_pointer :: "json \<Rightarrow> string \<Rightarrow> json option" where
  "json_pointer v p =
     (if p = [] then Some v
      else if hd p \<noteq> CHR ''/'' then None
      else pointer_walk v (map pointer_token (tl (split_on (CHR ''/'') p))))"

section \<open>References\<close>

definition lookup_pointer :: "json \<Rightarrow> string \<Rightarrow> json option" where
  "lookup_pointer spec reference = Option.bind (strip_prefix ''#'' reference) (json_pointer spec)"

definition ref_target :: "json \<Rightarrow> json \<Rightarrow> json option" where
  "ref_target spec node = Option.bind (jget_str node ''$ref'') (lookup_pointer spec)"

function resolve_ref :: "json \<Rightarrow> json \<Rightarrow> nat \<Rightarrow> json" where
  "resolve_ref spec node depth =
     (if 8 < depth then node
      else (case jget_str node ''$ref'' of
              Some r \<Rightarrow> (case lookup_pointer spec r of
                           Some target \<Rightarrow> resolve_ref spec target (depth + 1)
                         | None \<Rightarrow> node)
            | None \<Rightarrow> node))"
  by pat_completeness auto
termination by (relation "measure (\<lambda>(_, _, depth). 9 - depth)") auto

definition truncation_marker :: json where
  "truncation_marker = json_obj [(''$comment'', JStr ''truncated (max ref depth)'')]"

function resolve_schema :: "json \<Rightarrow> json \<Rightarrow> nat \<Rightarrow> json" where
  "resolve_schema spec node depth =
     (if 6 < depth then truncation_marker
      else (case jget_str node ''$ref'' of
              Some r \<Rightarrow> (case lookup_pointer spec r of
                           Some target \<Rightarrow> resolve_schema spec target (depth + 1)
                         | None \<Rightarrow> node)
            | None \<Rightarrow>
                (case node of
                   JObj m \<Rightarrow> JObj (btree_of (map (\<lambda>(k, v). (k, resolve_schema spec v (depth + 1))) m))
                 | JArr items \<Rightarrow> JArr (map (\<lambda>v. resolve_schema spec v (depth + 1)) items)
                 | _ \<Rightarrow> node)))"
  by pat_completeness auto
termination by (relation "measure (\<lambda>(_, _, depth). 7 - depth)") auto

declare resolve_ref.simps [simp del] resolve_schema.simps [simp del]

section \<open>Operations\<close>

definition METHODS :: "string list" where
  "METHODS = [''get'', ''post'', ''put'', ''patch'', ''delete'']"

definition to_upper :: "char \<Rightarrow> char" where
  "to_upper c = (if 97 \<le> byte c \<and> byte c \<le> 122 then char_of (byte c - 32) else c)"

definition to_uppercase :: "string \<Rightarrow> string" where
  "to_uppercase = map to_upper"

definition starts_with :: "string \<Rightarrow> string \<Rightarrow> bool" where
  "starts_with p s = prefix p s"

definition resolve_operation_url :: "app \<Rightarrow> string \<Rightarrow> string \<Rightarrow> string option \<Rightarrow> string" where
  "resolve_operation_url ap server_url path source_url =
     (let server = trim_end_matches (CHR ''/'') server_url;
          path = (if starts_with ''/'' path then path else ''/'' @ path) in
      if starts_with ''http://'' server \<or> starts_with ''https://'' server then server @ path
      else (case Option.bind source_url (\<lambda>src. case cr_url (ap_crates ap) src of Inl _ \<Rightarrow> None | Inr u \<Rightarrow> Some u) of
              Some u \<Rightarrow>
                (let origin = ur_scheme u @ ''://'' @ unwrap_or [] (ur_host u)
                       @ (case ur_port u of None \<Rightarrow> [] | Some port \<Rightarrow> '':'' @ show_nat port) in
                 if server = [] then origin @ path else origin @ server @ path)
            | None \<Rightarrow> server @ path))"

definition parameter_json :: "json \<Rightarrow> json \<Rightarrow> json" where
  "parameter_json spec raw =
     (let p = resolve_ref spec raw 0 in
      json_obj [(''name'', JStr (unwrap_or [] (jget_str p ''name''))),
        (''in'', JStr (unwrap_or ''query'' (jget_str p ''in''))),
        (''required'', JBool (unwrap_or False (Option.bind (jget p ''required'') as_bool))),
        (''schema'', resolve_ref spec (unwrap_or JNull (jget p ''schema'')) 0)])"

definition operation_params :: "json \<Rightarrow> json \<Rightarrow> json \<Rightarrow> json list" where
  "operation_params spec shared op =
     concat (map (\<lambda>src. case as_array src of None \<Rightarrow> [] | Some arr \<Rightarrow> map (parameter_json spec) arr)
       [shared, unwrap_or JNull (jget op ''parameters'')])"

definition media_schema :: "json \<Rightarrow> json option" where
  "media_schema v = Option.bind (Option.bind (jget v ''content'') (\<lambda>c. jget c ''application/json'')) (\<lambda>j. jget j ''schema'')"

definition schema_of :: "json \<Rightarrow> json option \<Rightarrow> json" where
  "schema_of spec holder =
     unwrap_or JNull (Option.bind (map_option (\<lambda>h. resolve_ref spec h 0) holder)
       (\<lambda>h. map_option (\<lambda>s. resolve_schema spec s 0) (media_schema h)))"

fun find_map :: "('a \<Rightarrow> 'b option) \<Rightarrow> 'a list \<Rightarrow> 'b option" where
  "find_map f [] = None"
| "find_map f (x # xs) = (case f x of None \<Rightarrow> find_map f xs | Some y \<Rightarrow> Some y)"

definition success_response :: "json \<Rightarrow> json option" where
  "success_response op = Option.bind (Option.bind (jget op ''responses'') as_object)
     (\<lambda>r. find_map (map_of r) [''200'', ''201'', ''202''])"

definition default_operation_id :: "string \<Rightarrow> string \<Rightarrow> string" where
  "default_operation_id meth path =
     meth @ ''_'' @ map (\<lambda>c. if c = CHR ''/'' then CHR ''_'' else c) (trim_matches (CHR ''/'') path)"

definition operation_json :: "app \<Rightarrow> json \<Rightarrow> string option \<Rightarrow> string \<Rightarrow> string \<Rightarrow> json \<Rightarrow> string \<Rightarrow> json \<Rightarrow> json" where
  "operation_json ap spec source_url base_url path shared meth op =
     json_obj
       [(''operation_id'', JStr (unwrap_or (default_operation_id meth path) (jget_str op ''operationId''))),
        (''method'', JStr (to_uppercase meth)), (''path'', JStr path),
        (''url'', JStr (resolve_operation_url ap base_url path source_url)),
        (''summary'', JStr (unwrap_or [] (jget_str op ''summary''))),
        (''description'', JStr (unwrap_or [] (jget_str op ''description''))),
        (''parameters'', JArr (operation_params spec shared op)),
        (''request_schema'', schema_of spec (jget op ''requestBody'')),
        (''response_schema'', schema_of spec (success_response op))]"

definition path_operations :: "app \<Rightarrow> json \<Rightarrow> string option \<Rightarrow> string \<Rightarrow> string \<times> json \<Rightarrow> json list" where
  "path_operations ap spec source_url base_url = (\<lambda>(path, item).
     case as_object item of
       None \<Rightarrow> []
     | Some m \<Rightarrow> List.map_filter (\<lambda>meth. map_option
         (operation_json ap spec source_url base_url path (unwrap_or (JArr []) (map_of m ''parameters'')) meth) (map_of m meth)) METHODS)"

definition spec_paths :: "json \<Rightarrow> json btree" where
  "spec_paths spec = unwrap_or [] (Option.bind (jget spec ''paths'') as_object)"

definition spec_base_url :: "json \<Rightarrow> string" where
  "spec_base_url spec = unwrap_or [] (Option.bind (Option.bind (jget spec ''servers'') as_array)
     (\<lambda>arr. case arr of [] \<Rightarrow> None | s # _ \<Rightarrow> jget_str s ''url''))"

definition parse_operations :: "app \<Rightarrow> json \<Rightarrow> string option \<Rightarrow> json list" where
  "parse_operations ap spec source_url =
     concat (map (path_operations ap spec source_url (spec_base_url spec)) (spec_paths spec))"

section \<open>Fetching and checking a document\<close>

definition MAX_SPEC_BYTES :: nat where
  "MAX_SPEC_BYTES = 4 * 1024 * 1024"

definition validate_openapi :: "json \<Rightarrow> unit api_result" where
  "validate_openapi spec =
     (case jget_str spec ''openapi'' of
        None \<Rightarrow> Inl (ValidationFailed ''missing `openapi` version field (3.x required)'')
      | Some version \<Rightarrow>
          if \<not> starts_with ''3'' version then
            Inl (ValidationFailed (''unsupported OpenAPI version '' @ version @ ''; 3.x required''))
          else if \<not> (case jget spec ''paths'' of None \<Rightarrow> False | Some p \<Rightarrow> as_object p \<noteq> None) then
            Inl (ValidationFailed ''spec has no `paths` object'')
          else Inr ())"

definition private_host_guard :: "app \<Rightarrow> request \<Rightarrow> url \<Rightarrow> unit api_result" where
  "private_host_guard ap rq u =
     (if ap_env ap ''ALLOW_PRIVATE_DESTINATIONS'' = Some ''true'' then Inr ()
      else (case ur_host u of
              None \<Rightarrow> Inl (BadRequest ''url missing host'')
            | Some host \<Rightarrow>
                (case nt_dns (rq_net rq) host (unwrap_or 443 (ur_port_or_default u)) of
                   Inl e \<Rightarrow> Inl (BadRequest (''cannot resolve '' @ host @ '': '' @ e))
                 | Inr addrs \<Rightarrow>
                     if list_ex ip_is_private addrs then
                       Inl (BadRequest (''url host '' @ host @ '' resolves to a private/internal address''))
                     else Inr ())))"

definition fetched_body :: "app \<Rightarrow> http_reply \<Rightarrow> string api_result" where
  "fetched_body ap reply =
     (let failed = (\<lambda>status. External (''fetch spec: status '' @ ap_status_text ap status)) in
      case reply of
        ClientFailed e \<Rightarrow> Inl (External e)
      | ConnectFailed e \<Rightarrow> Inl (External (''fetch spec: '' @ e))
      | SendFailed e \<Rightarrow> Inl (External (''fetch spec: '' @ e))
      | BodyFailed status e \<Rightarrow> Inl (if is_success status then External (''read spec: '' @ e) else failed status)
      | Reply status body \<Rightarrow> if is_success status then Inr body else Inl (failed status))"

definition fetch_spec :: "app \<Rightarrow> request \<Rightarrow> string \<Rightarrow> json api_result" where
  "fetch_spec ap rq url =
     (case cr_url (ap_crates ap) url of
        Inl e \<Rightarrow> Inl (BadRequest (''invalid url: '' @ e))
      | Inr u \<Rightarrow>
          if ur_scheme u \<noteq> ''https'' \<and> ur_scheme u \<noteq> ''http'' then Inl (BadRequest ''url must be http(s)'')
          else (case private_host_guard ap rq u of
                  Inl e \<Rightarrow> Inl e
                | Inr _ \<Rightarrow>
                    (case fetched_body ap (nt_get (rq_net rq) url) of
                       Inl e \<Rightarrow> Inl e
                     | Inr bytes \<Rightarrow>
                         if MAX_SPEC_BYTES < length bytes then Inl (BadRequest ''spec too large'')
                         else (case lib_parse (ap_libs ap) bytes of
                                 Some v \<Rightarrow> Inr v
                               | None \<Rightarrow> Inl (BadRequest (''spec is not valid JSON: '' @ cr_json_error (ap_crates ap) bytes
                                   @ '' (YAML specs must be converted to JSON)''))))))"

section \<open>Handlers\<close>

record create_spec_req =
  cp_name :: string
  cp_spec :: "json option"
  cp_url :: "string option"

definition upsert_spec ::
    "int \<Rightarrow> string \<Rightarrow> string option \<Rightarrow> json \<Rightarrow> int \<Rightarrow> instant \<Rightarrow> db \<Rightarrow> (db_error + int) \<times> db" where
  "upsert_spec org name source_url spec created_by now d =
     (let sid = db_next d T_specs; d' = bump T_specs d; hit = (\<lambda>s. os_org_id s = org \<and> os_name s = name) in
      case List.find hit (db_specs d) of
        Some old \<Rightarrow> (Inr (os_id old), d'\<lparr>db_specs := update_where hit
          (\<lambda>s. s\<lparr>os_source_url := source_url, os_spec_json := spec, os_updated_at := now\<rparr>) (db_specs d)\<rparr>)
      | None \<Rightarrow>
          if \<not> org_exists d org \<or> \<not> user_exists d created_by then (Inl ForeignKeyViolation, d')
          else (Inr sid, d'\<lparr>db_specs := db_specs d @ [\<lparr>os_id = sid, os_org_id = org, os_name = name,
             os_source_url = source_url, os_spec_json = spec, os_created_by = Some created_by, os_created_at = now,
             os_updated_at = now\<rparr>]\<rparr>))"

definition spec_source :: "app \<Rightarrow> request \<Rightarrow> create_spec_req \<Rightarrow> (json \<times> string option) api_result" where
  "spec_source ap rq r =
     (case (cp_spec r, cp_url r) of
        (Some spec, _) \<Rightarrow> Inr (spec, None)
      | (None, Some url) \<Rightarrow> (case fetch_spec ap rq url of Inl e \<Rightarrow> Inl e | Inr spec \<Rightarrow> Inr (spec, Some url))
      | (None, None) \<Rightarrow> Inl (BadRequest ''provide spec or url''))"

definition create_spec :: "app \<Rightarrow> request \<Rightarrow> claims \<Rightarrow> create_spec_req \<Rightarrow> json handler" where
  "create_spec ap rq c r =
     bindE (require_role c [''admin'', ''editor'']) (\<lambda>_.
     bindE (lift (spec_source ap rq r)) (\<lambda>(spec, source_url).
     let size = length (lib_print (ap_libs ap) spec) in
     bindE (guardE (size \<le> MAX_SPEC_BYTES) (BadRequest (''spec too large ('' @ show_nat size @ '' bytes, max ''
       @ show_nat MAX_SPEC_BYTES @ '')''))) (\<lambda>_.
     bindE (lift (validate_openapi spec)) (\<lambda>_.
     bindE (user_id c) (\<lambda>created_by.
     bindE (sqlE rq database (upsert_spec (cl_org c) (cp_name r) source_url spec created_by)) (\<lambda>sid.
     bindE (record_audit rq (cl_org c) (cl_sub c) ''openapi_spec'' (Some (show_int sid)) ''import'' None None) (\<lambda>_.
     let ops = parse_operations ap spec source_url in
     ok (json_obj [(''id'', jint sid), (''name'', JStr (cp_name r)), (''operation_count'', jint (int (length ops))),
       (''operations'', JArr ops)]))))))))"

definition list_specs :: "app \<Rightarrow> request \<Rightarrow> claims \<Rightarrow> json handler" where
  "list_specs ap rq c =
     bindE (query rq (\<lambda>d. order_by (\<lambda>a b. ap_collate ap (os_name a) (os_name b))
       (filter (\<lambda>s. os_org_id s = cl_org c) (db_specs d)))) (\<lambda>rows.
     ok (json_obj [(''items'', JArr (map (\<lambda>s. json_obj [(''id'', jint (os_id s)), (''name'', JStr (os_name s)),
       (''source_url'', jostr (os_source_url s)), (''updated_at'', jts (ap_libs ap) (os_updated_at s))]) rows))]))"

definition spec_by_id :: "int \<Rightarrow> int \<Rightarrow> db \<Rightarrow> openapi_spec_row option" where
  "spec_by_id org sid d = List.find (\<lambda>s. os_id s = sid \<and> os_org_id s = org) (db_specs d)"

definition get_spec :: "request \<Rightarrow> claims \<Rightarrow> int \<Rightarrow> json handler" where
  "get_spec rq c sid =
     bindE (query rq (spec_by_id (cl_org c) sid)) (\<lambda>found.
     bindE (lift (ok_or NotFound found)) (\<lambda>s.
     ok (json_obj [(''id'', jint sid), (''name'', JStr (os_name s)), (''source_url'', jostr (os_source_url s)),
       (''spec'', os_spec_json s)])))"

definition delete_specs :: "int \<Rightarrow> int \<Rightarrow> db \<Rightarrow> nat \<times> db" where
  "delete_specs org sid d =
     (let hit = (\<lambda>s. os_id s = sid \<and> os_org_id s = org) in
      (length (filter hit (db_specs d)), d\<lparr>db_specs := filter (\<lambda>s. \<not> hit s) (db_specs d)\<rparr>))"

definition delete_spec :: "request \<Rightarrow> claims \<Rightarrow> int \<Rightarrow> json handler" where
  "delete_spec rq c sid =
     bindE (require_role c [''admin'', ''editor'']) (\<lambda>_.
     bindE (sqlE rq database (\<lambda>_ d. let (n, d') = delete_specs (cl_org c) sid d in (Inr n, d'))) (\<lambda>n.
     if n = 0 then throw NotFound
     else bindE (record_audit rq (cl_org c) (cl_sub c) ''openapi_spec'' (Some (show_int sid)) ''delete'' None None)
       (\<lambda>_. ok (json_obj [(''deleted'', JBool True)]))))"

definition list_operations :: "app \<Rightarrow> request \<Rightarrow> claims \<Rightarrow> int \<Rightarrow> json handler" where
  "list_operations ap rq c sid =
     bindE (query rq (spec_by_id (cl_org c) sid)) (\<lambda>found.
     bindE (lift (ok_or NotFound found)) (\<lambda>s.
     ok (json_obj [(''items'', JArr (parse_operations ap (os_spec_json s) (os_source_url s)))])))"

definition parse_preview :: "app \<Rightarrow> json \<Rightarrow> json handler" where
  "parse_preview ap spec =
     bindE (lift (validate_openapi spec)) (\<lambda>_.
     ok (json_obj [(''items'', JArr (parse_operations ap spec None))]))"

end
