(* ===== verification/Llm.thy ===== *)
theory Llm
  imports Specs Connectors Templates
begin

text \<open>
  The organization's LLM configuration and mapping suggestions (\<^verbatim>\<open>src/apps/api/src/routes/llm.rs\<close>). The provider's
  answers come from \<open>nt_llm\<close>, and \<open>w_out\<close> records every request that leaves for the provider. Two operations of this
  file can panic (slicing a string with crossed bounds, opening a secret whose nonce has not 12 bytes): a handler's
  failure is therefore an error or a panic.
\<close>

datatype fault = Fails api_error | Panics

definition fails :: "('w, api_error, 'a) act \<Rightarrow> ('w, fault, 'a) act" where
  "fails m = mapE Fails m"

section \<open>Configuration\<close>

record put_config_req =
  pc_provider :: "string option"
  pc_base_url :: string
  pc_model :: string
  pc_api_key :: "string option"
  pc_redact_pii :: "bool option"
  pc_enabled :: "bool option"

definition llm_config :: "int \<Rightarrow> db \<Rightarrow> llm_config_row option" where
  "llm_config org d = List.find (\<lambda>x. lc_org_id x = org) (db_llm_configs d)"

definition get_config :: "request \<Rightarrow> claims \<Rightarrow> json handler" where
  "get_config rq c =
     bindE (query rq (llm_config (cl_org c))) (\<lambda>row.
     ok (case row of
           None \<Rightarrow> json_obj [(''configured'', JBool False)]
         | Some x \<Rightarrow> json_obj [(''configured'', JBool True), (''provider'', JStr (lc_provider x)),
             (''base_url'', JStr (lc_base_url x)), (''model'', JStr (lc_model x)),
             (''has_api_key'', JBool (lc_secret_id x \<noteq> None)), (''redact_pii'', JBool (lc_redact_pii x)),
             (''enabled'', JBool (lc_enabled x))]))"

text \<open>The key is stored as the secret \<open>llm-api-key\<close>; an existing secret of that name is overwritten, whatever its kind.\<close>

definition upsert_api_key :: "int \<Rightarrow> string \<Rightarrow> string \<Rightarrow> instant \<Rightarrow> db \<Rightarrow> (db_error + int) \<times> db" where
  "upsert_api_key org = upsert_secret_row org ''llm-api-key''"

definition upsert_config :: "llm_config_row \<Rightarrow> db \<Rightarrow> (db_error + unit) \<times> db" where
  "upsert_config row d =
     (if \<not> org_exists d (lc_org_id row) \<or> (case lc_updated_by row of None \<Rightarrow> False | Some u \<Rightarrow> \<not> user_exists d u)
      then (Inl ForeignKeyViolation, d)
      else (Inr (), d\<lparr>db_llm_configs :=
        (if llm_config (lc_org_id row) d = None then db_llm_configs d @ [row]
         else update_where (\<lambda>x. lc_org_id x = lc_org_id row) (\<lambda>_. row) (db_llm_configs d))\<rparr>))"

definition config_tx ::
    "app \<Rightarrow> request \<Rightarrow> claims \<Rightarrow> put_config_req \<Rightarrow> string \<Rightarrow> int \<Rightarrow> instant \<Rightarrow> db \<Rightarrow> (api_error + unit) \<times> db" where
  "config_tx ap rq c r provider updated_by now d =
     (case (case pc_api_key r of
              Some key \<Rightarrow>
                (case encrypt ap rq key of
                   Inl e \<Rightarrow> (Inl e, d)
                 | Inr (ct, nonce) \<Rightarrow>
                     (case upsert_api_key (cl_org c) ct nonce now d of
                        (Inl e, d1) \<Rightarrow> (Inl (database e), d1) | (Inr sid, d1) \<Rightarrow> (Inr (Some sid), d1)))
            | None \<Rightarrow> (Inr (Option.bind (llm_config (cl_org c) d) lc_secret_id), d)) of
        (Inl e, d1) \<Rightarrow> (Inl e, rolled_back d d1)
      | (Inr secret_id, d1) \<Rightarrow>
          (case upsert_config \<lparr>lc_org_id = cl_org c, lc_provider = provider,
                  lc_base_url = trim_end_matches (CHR ''/'') (pc_base_url r), lc_model = pc_model r, lc_secret_id = secret_id,
                  lc_redact_pii = unwrap_or True (pc_redact_pii r), lc_enabled = unwrap_or True (pc_enabled r),
                  lc_updated_by = Some updated_by, lc_updated_at = now\<rparr> d1 of
             (Inl e, d2) \<Rightarrow> (Inl (database e), rolled_back d d2)
           | (Inr _, d2) \<Rightarrow> (Inr (), d2)))"

definition put_config :: "app \<Rightarrow> request \<Rightarrow> claims \<Rightarrow> put_config_req \<Rightarrow> json handler" where
  "put_config ap rq c r =
     bindE (require_role c [''admin'']) (\<lambda>_.
     let provider = unwrap_or ''openai-compatible'' (pc_provider r) in
     bindE (guardE (provider = ''openai-compatible'') (BadRequest (''unsupported provider '' @ debug_str provider))) (\<lambda>_.
     bindE (user_id c) (\<lambda>updated_by.
     bindE (sqlE rq (\<lambda>e. e) (config_tx ap rq c r provider updated_by)) (\<lambda>_.
     bindE (record_audit rq (cl_org c) (cl_sub c) ''llm_config'' None ''update'' None None) (\<lambda>_.
     ok (json_obj [(''ok'', JBool True)]))))))"

section \<open>Redaction\<close>

definition EMAIL_RE :: string where
  "EMAIL_RE = ''(?i)'' @ [chr_backslash] @ ''b[a-z0-9._%+-]+@[a-z0-9.-]+'' @ [chr_backslash] @ ''.[a-z]{2,}'' @ [chr_backslash] @ ''b''"

definition PHONE_RE :: string where
  "PHONE_RE = [chr_backslash] @ ''+?'' @ [chr_backslash] @ ''d['' @ [chr_backslash] @ ''d'' @ [chr_backslash] @ ''s().-]{7,}''
     @ [chr_backslash] @ ''d''"

definition LONG_DIGITS_RE :: string where
  "LONG_DIGITS_RE = [chr_backslash] @ ''b'' @ [chr_backslash] @ ''d{9,}'' @ [chr_backslash] @ ''b''"

definition redact_text :: "app \<Rightarrow> string \<Rightarrow> string" where
  "redact_text ap s =
     (let sub = cr_replace_all (ap_crates ap) in
      sub PHONE_RE ''+10000000000'' (sub LONG_DIGITS_RE ''000000000'' (sub EMAIL_RE ''user@example.com'' s)))"

fun redact_value :: "app \<Rightarrow> json \<Rightarrow> json" where
  "redact_value ap (JStr s) = JStr (redact_text ap s)"
| "redact_value ap (JObj m) = JObj (map (\<lambda>(k, v). (k, redact_value ap v)) m)"
| "redact_value ap (JArr vs) = JArr (map (redact_value ap) vs)"
| "redact_value ap v = v"

section \<open>Suggestions\<close>

record suggest_req =
  sg_columns :: "json list"
  sg_sample_rows :: "json list"
  sg_spec_id :: "int option"
  sg_operation_id :: "string option"
  sg_instructions :: "string option"
  sg_source_type :: "string option"

definition MAX_SAMPLE_ROWS :: nat where "MAX_SAMPLE_ROWS = 20"

definition nl2 :: string where "nl2 = [chr_nl, chr_nl]"

definition build_prompt :: "app \<Rightarrow> json list \<Rightarrow> json list \<Rightarrow> json option \<Rightarrow> string option \<Rightarrow> string option \<Rightarrow> string" where
  "build_prompt ap columns rows operation instructions source_type =
     (let pretty = lib_pretty (ap_libs ap) in
      ''RuleTemplate JSON Schema:'' @ [chr_nl] @ cr_rule_schema_text (ap_crates ap)
      @ nl2 @ ''Source type: '' @ unwrap_or ''csv'' source_type
      @ nl2 @ ''Source columns:'' @ [chr_nl] @ pretty (JArr columns)
      @ nl2 @ ''Sample rows (values may be redacted):'' @ [chr_nl] @ pretty (JArr rows)
      @ (case operation of None \<Rightarrow> [] | Some op \<Rightarrow>
           nl2 @ ''Target API operation (from the OpenAPI spec). Map source columns onto its request schema; required fields first:''
           @ [chr_nl] @ pretty op)
      @ (case instructions of None \<Rightarrow> [] | Some instr \<Rightarrow> nl2 @ ''User instructions:'' @ [chr_nl] @ instr)
      @ nl2 @ ''Produce the RuleTemplate JSON now.'')"

definition emdash :: string where "emdash = [CHR 0xE2, CHR 0x80, CHR 0x94]"

definition SYSTEM_PROMPT :: string where
\<open>SYSTEM_PROMPT =
  ''You are a data-migration mapping assistant. You produce RuleTemplate JSON documents that map rows from a source file onto HTTP API calls.''
  @ nl2 @ ''Rules:'' @ [chr_nl]
  @ ''- Output ONLY a single JSON object, no prose and no markdown fences.'' @ [chr_nl]
  @ ''- The document must validate against the RuleTemplate JSON Schema provided by the user.'' @ [chr_nl]
  @ ''- Reference source columns with {"$from": "columnName"} '' @ emdash @ '' only columns that actually exist.'' @ [chr_nl]
  @ ''- Fixed strings use {"$literal": "value"}.'' @ [chr_nl]
  @ ''- For multi-step chains use "steps": [{name, mapping, destination}, ...] and reference earlier responses with {"$fromResponse": "stepName", "path": "$.jsonpath.to.field"}. Step names must be [A-Za-z_][A-Za-z0-9_]* and unique; $fromResponse may only reference strictly earlier steps. Do NOT include top-level "mapping"/"destination" when "steps" is used.'' @ [chr_nl]
  @ ''- For a single call use top-level "mapping" + "destination" and no "steps".'' @ [chr_nl]
  @ ''- destination.url may contain {placeholders} bound via destination.pathParams.'' @ [chr_nl]
  @ ''- Use "preprocess" entries (fn like builtin.uppercase, builtin.lowercase, builtin.trim, builtin.date_format) only when sample values clearly need normalization.'' @ [chr_nl]
  @ ''- Set source.schema to the provided columns. Set id to a short slug, version to 1, and pick a descriptive name.''\<close>

definition chat_message :: "string \<Rightarrow> string \<Rightarrow> json" where
  "chat_message role content = json_obj [(''role'', JStr role), (''content'', JStr content)]"

definition llm_content :: "app \<Rightarrow> http_reply \<Rightarrow> string api_result" where
  "llm_content ap reply =
     (case reply of
        ClientFailed e \<Rightarrow> Inl (External e)
      | ConnectFailed e \<Rightarrow> Inl (External (''llm request: '' @ e))
      | SendFailed e \<Rightarrow> Inl (External (''llm request: '' @ e))
      | BodyFailed _ e \<Rightarrow> Inl (External (''llm response: '' @ e))
      | Reply status raw \<Rightarrow>
          (case lib_parse (ap_libs ap) raw of
             None \<Rightarrow> Inl (External (''llm response: '' @ cr_json_error (ap_crates ap) raw))
           | Some body \<Rightarrow>
               if \<not> is_success status then
                 Inl (External (''llm provider '' @ ap_status_text ap status @ '': '' @
                   unwrap_or ''unknown provider error'' (Option.bind (json_pointer body ''/error/message'') as_str)))
               else ok_or (External ''llm response missing content'')
                      (Option.bind (json_pointer body ''/choices/0/message/content'') as_str)))"

definition call_llm :: "app \<Rightarrow> request \<Rightarrow> string \<Rightarrow> string \<Rightarrow> string \<Rightarrow> json list \<Rightarrow> string handler" where
  "call_llm ap rq base_url api_key model messages =
     (let url = base_url @ ''/chat/completions'';
          body = json_obj [(''model'', JStr model), (''messages'', JArr messages), (''temperature'', JNum (Float ''0.1'')),
            (''response_format'', json_obj [(''type'', JStr ''json_object'')])] in
      bindE (gets (\<lambda>w. length (w_out w))) (\<lambda>n.
      bindE (modify (\<lambda>w. w\<lparr>w_out := (url, api_key, body) # w_out w\<rparr>)) (\<lambda>_.
      lift (llm_content ap (nt_llm (rq_net rq) n url api_key body)))))"

fun find_index :: "char \<Rightarrow> string \<Rightarrow> nat option" where
  "find_index c [] = None"
| "find_index c (x # xs) = (if x = c then Some 0 else map_option Suc (find_index c xs))"

definition rfind_index :: "char \<Rightarrow> string \<Rightarrow> nat option" where
  "rfind_index c s = map_option (\<lambda>i. length s - 1 - i) (find_index c (rev s))"

text \<open>\<^verbatim>\<open>&s[start..=end]\<close> panics when the start lies beyond the end of the range.\<close>

definition extract_json :: "app \<Rightarrow> string \<Rightarrow> fault + json option" where
  "extract_json ap content =
     (let trimmed = trim content in
      case lib_parse (ap_libs ap) trimmed of
        Some v \<Rightarrow> Inr (Some v)
      | None \<Rightarrow>
          (case (find_index (CHR ''{'') trimmed, rfind_index (CHR ''}'') trimmed) of
             (Some start, Some stop) \<Rightarrow>
               if stop + 1 < start then Inl Panics
               else Inr (lib_parse (ap_libs ap) (take (stop + 1 - start) (drop start trimmed)))
           | _ \<Rightarrow> Inr None))"

text \<open>\<^verbatim>\<open>MasterKey::decrypt\<close>: \<^verbatim>\<open>Nonce::from_slice\<close> panics unless the nonce has 12 bytes.\<close>

definition decrypt :: "app \<Rightarrow> string \<Rightarrow> string \<Rightarrow> fault + string" where
  "decrypt ap ct nonce =
     (if length nonce \<noteq> 12 then Inl Panics
      else ok_or (Fails (Internal ''aes-gcm decrypt'')) (cr_decrypt (ap_crates ap) ct nonce))"

definition load_api_key :: "app \<Rightarrow> request \<Rightarrow> claims \<Rightarrow> int option \<Rightarrow> (world, fault, string) act" where
  "load_api_key ap rq c secret_id =
     (case secret_id of
        None \<Rightarrow> throw (Fails (BadRequest ''LLM API key not set; PUT /llm-config with api_key''))
      | Some sid \<Rightarrow>
          bindE (fails (query rq (\<lambda>d. List.find (\<lambda>s. sc_id s = sid \<and> sc_org_id s = cl_org c) (db_secrets d)))) (\<lambda>row.
          bindE (lift (ok_or (Fails (BadRequest ''LLM API key secret missing'')) row)) (\<lambda>s.
          bindE (lift (decrypt ap (sc_ciphertext s) (sc_nonce s))) (\<lambda>plain.
          bindE (guardE (cr_is_utf8 (ap_crates ap) plain) (Fails (Internal ''api key not utf8''))) (\<lambda>_. ok plain)))))"

definition target_operation :: "app \<Rightarrow> request \<Rightarrow> claims \<Rightarrow> suggest_req \<Rightarrow> (world, fault, json option) act" where
  "target_operation ap rq c r =
     (case (sg_spec_id r, sg_operation_id r) of
        (Some sid, Some op_id) \<Rightarrow>
          bindE (fails (query rq (spec_by_id (cl_org c) sid))) (\<lambda>found.
          bindE (lift (ok_or (Fails NotFound) found)) (\<lambda>s.
          case List.find (\<lambda>v. jget_str v ''operation_id'' = Some op_id) (parse_operations ap (os_spec_json s) (os_source_url s)) of
            None \<Rightarrow> throw (Fails (BadRequest (''operation '' @ debug_str op_id @ '' not found in spec '' @ show_int sid)))
          | Some op \<Rightarrow> ok (Some op)))
      | _ \<Rightarrow> ok None)"

text \<open>The attempts: one retry, with the validation error appended to the conversation.\<close>

definition retry_message :: "string \<Rightarrow> string" where
  "retry_message err = ''That template failed schema validation with: '' @ err @ [chr_nl]
     @ ''Return the corrected template as pure JSON only.''"

fun suggest_loop ::
    "nat \<Rightarrow> app \<Rightarrow> request \<Rightarrow> claims \<Rightarrow> suggest_req \<Rightarrow> llm_config_row \<Rightarrow> string \<Rightarrow> string \<Rightarrow> json list \<Rightarrow> (world, fault, json) act" where
  "suggest_loop 0 ap rq c r cfg api_key last_err messages =
     throw (Fails (External (''LLM could not produce a schema-valid template: '' @ last_err)))"
| "suggest_loop (Suc n) ap rq c r cfg api_key last_err messages =
     bindE (fails (call_llm ap rq (lc_base_url cfg) api_key (lc_model cfg) messages)) (\<lambda>content.
     bindE (lift (extract_json ap content)) (\<lambda>found.
     bindE (lift (ok_or (Fails (External ''LLM returned no parseable JSON'')) found)) (\<lambda>candidate.
     case validate_template ap candidate of
       Inr _ \<Rightarrow>
         bindE (fails (record_audit rq (cl_org c) (cl_sub c) ''mapping_suggestion'' None ''generate'' None
           (Some (json_obj [(''model'', JStr (lc_model cfg)), (''redacted'', JBool (lc_redact_pii cfg)),
              (''operation'', jostr (sg_operation_id r))])))) (\<lambda>_.
         ok (json_obj [(''template'', candidate), (''model'', JStr (lc_model cfg)), (''redacted'', JBool (lc_redact_pii cfg))]))
     | Inl e \<Rightarrow>
         suggest_loop n ap rq c r cfg api_key (api_error_display e)
           (messages @ [chat_message ''assistant'' content, chat_message ''user'' (retry_message (api_error_display e))]))))"

definition sent_rows :: "app \<Rightarrow> bool \<Rightarrow> json list \<Rightarrow> json list" where
  "sent_rows ap redact rows = map (if redact then redact_value ap else id) (take MAX_SAMPLE_ROWS rows)"

definition suggest_mapping :: "app \<Rightarrow> request \<Rightarrow> claims \<Rightarrow> suggest_req \<Rightarrow> (world, fault, json) act" where
  "suggest_mapping ap rq c r =
     bindE (fails (require_role c [''admin'', ''editor''])) (\<lambda>_.
     bindE (guardE (sg_columns r \<noteq> []) (Fails (BadRequest ''columns must not be empty''))) (\<lambda>_.
     bindE (fails (query rq (llm_config (cl_org c)))) (\<lambda>row.
     bindE (lift (ok_or (Fails (BadRequest ''LLM is not configured for this organization; PUT /llm-config first'')) row)) (\<lambda>cfg.
     bindE (guardE (lc_enabled cfg) (Fails (BadRequest ''LLM suggestions are disabled for this organization''))) (\<lambda>_.
     bindE (load_api_key ap rq c (lc_secret_id cfg)) (\<lambda>api_key.
     bindE (target_operation ap rq c r) (\<lambda>operation.
     let prompt = build_prompt ap (sg_columns r) (sent_rows ap (lc_redact_pii cfg) (sg_sample_rows r)) operation
           (sg_instructions r) (sg_source_type r) in
     suggest_loop 2 ap rq c r cfg api_key [] [chat_message ''system'' SYSTEM_PROMPT, chat_message ''user'' prompt])))))))"

end
