(* ===== verification/Sampling.thy ===== *)
theory Sampling
  imports Temporal
begin

text \<open>
  Sampling of input files (\<^verbatim>\<open>src/apps/api/src/sampling/\<close>): type inference, and the samplers for CSV, JSON and XML. The CSV
  and XML readers are libraries: \<open>cr_csv\<close> gives the header row and the records (each with its possible error), \<open>cr_xml\<close>
  the events of the reader, with attributes already unescaped; the end of the event list is the end of the file.
\<close>

section \<open>Type inference\<close>

definition is_bool :: "string \<Rightarrow> bool" where
  "is_bool v \<longleftrightarrow> to_ascii_lowercase v \<in> {''true'', ''false'', ''0'', ''1''}"

text \<open>The grammar of \<^verbatim>\<open>str::parse::<f64>\<close>.\<close>

definition strip_sign :: "string \<Rightarrow> string" where
  "strip_sign s = (case s of c # cs \<Rightarrow> if c = CHR ''-'' \<or> c = CHR ''+'' then cs else s | [] \<Rightarrow> [])"

definition all_digits :: "string \<Rightarrow> bool" where
  "all_digits s \<longleftrightarrow> s \<noteq> [] \<and> list_all is_digit s"

definition f64_exponent :: "string \<Rightarrow> bool" where
  "f64_exponent s = (case s of [] \<Rightarrow> True | c # cs \<Rightarrow> (c = CHR ''e'' \<or> c = CHR ''E'') \<and> all_digits (strip_sign cs))"

definition f64_number :: "string \<Rightarrow> bool" where
  "f64_number s =
     (let whole = takeWhile is_digit s; rest = dropWhile is_digit s in
      case rest of
        [] \<Rightarrow> whole \<noteq> []
      | c # cs \<Rightarrow>
          if c = CHR ''.'' then (whole \<noteq> [] \<or> takeWhile is_digit cs \<noteq> []) \<and> f64_exponent (dropWhile is_digit cs)
          else whole \<noteq> [] \<and> f64_exponent rest)"

definition parse_f64_ok :: "string \<Rightarrow> bool" where
  "parse_f64_ok s =
     (let u = strip_sign s in to_ascii_lowercase u \<in> {''inf'', ''infinity'', ''nan''} \<or> f64_number u)"

definition is_datetime :: "app \<Rightarrow> string \<Rightarrow> bool" where
  "is_datetime ap v \<longleftrightarrow> cr_is_rfc3339 (ap_crates ap) v \<or> cr_is_date (ap_crates ap) v"

fun infer_loop :: "app \<Rightarrow> bool \<Rightarrow> bool \<Rightarrow> bool \<Rightarrow> bool \<Rightarrow> bool \<Rightarrow> string list \<Rightarrow> string" where
  "infer_loop ap all_bool all_int all_num all_dt had_any [] =
     (if \<not> had_any then ''string'' else if all_bool then ''boolean'' else if all_int then ''integer''
      else if all_num then ''number'' else if all_dt then ''datetime'' else ''string'')"
| "infer_loop ap all_bool all_int all_num all_dt had_any (raw # values) =
     (let v = trim raw in
      if v = [] then infer_loop ap all_bool all_int all_num all_dt had_any values
      else
        (let b = (all_bool \<and> is_bool v); i = (all_int \<and> parse_i64 v \<noteq> None);
             n = (all_num \<and> parse_f64_ok v); t = (all_dt \<and> is_datetime ap v) in
         if \<not> (b \<or> i \<or> n \<or> t) then ''string'' else infer_loop ap b i n t True values))"

definition infer_column_type :: "app \<Rightarrow> string list \<Rightarrow> string" where
  "infer_column_type ap values = infer_loop ap True True True True False values"

section \<open>Results\<close>

definition DEFAULT_BYTE_CAP :: nat where "DEFAULT_BYTE_CAP = 8 * 1024 * 1024"
definition MAX_ROW_CAP :: nat where "MAX_ROW_CAP = 200"
definition DEFAULT_ROW_CAP :: nat where "DEFAULT_ROW_CAP = 25"

record sample_column =
  co_name :: string
  co_type :: string
  co_nullable :: bool

record sample_result =
  sa_format :: string
  sa_columns :: "sample_column list"
  sa_rows :: "json btree list"
  sa_row_count :: nat
  sa_truncated :: bool
  sa_bytes_read :: nat

datatype sample_error = SampleEmpty | SampleInvalid string string | SampleUnsupported string

section \<open>CSV\<close>

definition first_line :: "string \<Rightarrow> string" where
  "first_line bytes = unwrap_or [] (List.find (\<lambda>l. l \<noteq> []) (split_on chr_nl bytes))"

definition chr_tab :: char where "chr_tab = char_of (9::nat)"

definition detect_delimiter :: "string \<Rightarrow> char" where
  "detect_delimiter bytes =
     (let line = first_line bytes in
      fst (fold (\<lambda>c best. let n = int (length (filter (\<lambda>b. b = c) line)) in if snd best < n then (c, n) else best)
        [CHR '','', CHR '';'', chr_tab, CHR ''|''] (CHR '','', - 1)))"

text \<open>The records up to the cap, each as its cells in header order, and whether the sample was cut.\<close>

fun csv_loop :: "nat \<Rightarrow> bool \<Rightarrow> nat \<Rightarrow> nat \<Rightarrow> (string + string list) list \<Rightarrow> sample_error + (string list list \<times> bool)" where
  "csv_loop width truncated_input row_cap n [] = Inr ([], truncated_input)"
| "csv_loop width truncated_input row_cap n (record # records) =
     (if n = row_cap then Inr ([], True)
      else (case record of
              Inl e \<Rightarrow> if truncated_input then Inr ([], True)
                       else Inl (SampleInvalid ''csv'' (''row '' @ show_nat (n + 1) @ '': '' @ e))
            | Inr cells \<Rightarrow>
                (case csv_loop width truncated_input row_cap (n + 1) records of
                   Inl e \<Rightarrow> Inl e
                 | Inr (rest, truncated) \<Rightarrow>
                     Inr (map (\<lambda>i. if i < length cells then cells ! i else []) [0..<width] # rest, truncated))))"

definition csv_row :: "string list \<Rightarrow> string list \<Rightarrow> json btree" where
  "csv_row headers cells = btree_of (zip headers (map (\<lambda>c. if c = [] then JNull else JStr c) cells))"

definition csv_column :: "app \<Rightarrow> string list list \<Rightarrow> nat \<Rightarrow> string \<Rightarrow> sample_column" where
  "csv_column ap cells i name = \<lparr>co_name = name, co_type = infer_column_type ap (map (\<lambda>r. r ! i) cells),
     co_nullable = list_ex (\<lambda>r. r ! i = []) cells\<rparr>"

definition csv_sample :: "app \<Rightarrow> string \<Rightarrow> nat \<Rightarrow> bool \<Rightarrow> sample_error + sample_result" where
  "csv_sample ap bytes row_cap truncated_input =
     (if bytes = [] then Inl SampleEmpty
      else
        (let (header, records) = cr_csv (ap_crates ap) (detect_delimiter bytes) bytes in
         case header of
           Inl e \<Rightarrow> Inl (SampleInvalid ''csv'' (''reading header: '' @ e))
         | Inr headers \<Rightarrow>
             if headers = [] then Inl (SampleInvalid ''csv'' ''no header row'')
             else
               (case csv_loop (length headers) truncated_input row_cap 0 (take (row_cap + 1) records) of
                  Inl e \<Rightarrow> Inl e
                | Inr (cells, truncated) \<Rightarrow>
                    Inr \<lparr>sa_format = ''csv'',
                      sa_columns = map (\<lambda>(i, h). csv_column ap cells i h) (List.enumerate 0 headers),
                      sa_rows = map (csv_row headers) cells, sa_row_count = length cells, sa_truncated = truncated,
                      sa_bytes_read = length bytes\<rparr>)))"

section \<open>JSON\<close>

definition strip_bom :: "string \<Rightarrow> string" where
  "strip_bom bytes = (if 3 \<le> length bytes \<and> map byte (take 3 bytes) = [0xEF, 0xBB, 0xBF] then drop 3 bytes else bytes)"

definition is_ascii_whitespace :: "char \<Rightarrow> bool" where
  "is_ascii_whitespace c \<longleftrightarrow> byte c \<in> {9, 10, 12, 13, 32}"

definition utf8_or_empty :: "app \<Rightarrow> string \<Rightarrow> string" where
  "utf8_or_empty ap s = (if cr_is_utf8 (ap_crates ap) s then s else [])"

fun type_of :: "json \<Rightarrow> string" where
  "type_of JNull = ''null''"
| "type_of (JBool _) = ''bool''"
| "type_of (JNum _) = ''number''"
| "type_of (JStr _) = ''string''"
| "type_of (JArr _) = ''array''"
| "type_of (JObj _) = ''object''"

definition parse_ndjson :: "app \<Rightarrow> string \<Rightarrow> json list" where
  "parse_ndjson ap bytes =
     List.map_filter (\<lambda>line. let s = trim (utf8_or_empty ap line) in
       if s = [] then None else lib_parse (ap_libs ap) s) (split_on chr_nl bytes)"

text \<open>The walk over a clipped array: braces outside strings are counted, and every object that closes at depth 0 is read.\<close>

fun array_walk :: "app \<Rightarrow> string \<Rightarrow> int \<Rightarrow> nat option \<Rightarrow> bool \<Rightarrow> bool \<Rightarrow> nat \<Rightarrow> string \<Rightarrow> json list" where
  "array_walk ap s depth start in_string escape i [] = []"
| "array_walk ap s depth start in_string escape i (ch # rest) =
     (if in_string then
        (if escape then array_walk ap s depth start True False (i + 1) rest
         else if ch = chr_backslash then array_walk ap s depth start True True (i + 1) rest
         else array_walk ap s depth start (ch \<noteq> chr_quote) False (i + 1) rest)
      else if ch = chr_quote then array_walk ap s depth start True escape (i + 1) rest
      else if ch = CHR ''{'' then
        array_walk ap s (depth + 1) (if depth = 0 then Some i else start) False escape (i + 1) rest
      else if ch = CHR ''}'' then
        (if depth - 1 = 0 then
           (case start of
              Some st \<Rightarrow>
                (case lib_parse (ap_libs ap) (take (i + 1 - st) (drop st s)) of
                   Some v \<Rightarrow> v # array_walk ap s (depth - 1) None False escape (i + 1) rest
                 | None \<Rightarrow> array_walk ap s (depth - 1) None False escape (i + 1) rest)
            | None \<Rightarrow> array_walk ap s (depth - 1) None False escape (i + 1) rest)
         else array_walk ap s (depth - 1) start False escape (i + 1) rest)
      else array_walk ap s depth start False escape (i + 1) rest)"

definition best_effort_array :: "app \<Rightarrow> string \<Rightarrow> sample_error + json list" where
  "best_effort_array ap bytes =
     (if \<not> cr_is_utf8 (ap_crates ap) bytes then Inl (SampleInvalid ''json'' ''non-utf8 input'')
      else (let out = array_walk ap bytes 0 None False False 0 bytes in
            if out = [] then Inl (SampleInvalid ''json'' ''could not extract any complete records'') else Inr out))"

definition parse_array :: "app \<Rightarrow> string \<Rightarrow> bool \<Rightarrow> sample_error + json list" where
  "parse_array ap bytes truncated_input =
     (case Option.bind (lib_parse (ap_libs ap) bytes) as_array of
        Some vs \<Rightarrow> Inr vs
      | None \<Rightarrow> if truncated_input then best_effort_array ap bytes
                else Inl (SampleInvalid ''json'' (cr_json_error (ap_crates ap) bytes)))"

fun object_rows :: "json list \<Rightarrow> sample_error + json btree list" where
  "object_rows [] = Inr []"
| "object_rows (rec # recs) =
     (case rec of
        JObj m \<Rightarrow> (case object_rows recs of Inl e \<Rightarrow> Inl e | Inr ms \<Rightarrow> Inr (m # ms))
      | v \<Rightarrow> Inl (SampleInvalid ''json'' (''expected object record, got '' @ type_of v)))"

text \<open>Keys in the order in which they are first seen.\<close>

definition key_union :: "json btree list \<Rightarrow> string list" where
  "key_union rows = foldl (\<lambda>seen k. if k \<in> set seen then seen else seen @ [k]) [] (concat (map (map fst) rows))"

definition raw_text :: "app \<Rightarrow> json option \<Rightarrow> string" where
  "raw_text ap v =
     (case v of
        None \<Rightarrow> [] | Some JNull \<Rightarrow> []
      | Some (JStr s) \<Rightarrow> s
      | Some (JBool b) \<Rightarrow> if b then ''true'' else ''false''
      | Some x \<Rightarrow> lib_print (ap_libs ap) x)"

definition keyed_column :: "app \<Rightarrow> json btree list \<Rightarrow> string \<Rightarrow> sample_column" where
  "keyed_column ap rows key = \<lparr>co_name = key, co_type = infer_column_type ap (map (\<lambda>r. raw_text ap (map_of r key)) rows),
     co_nullable = list_ex (\<lambda>r. map_of r key = None \<or> map_of r key = Some JNull) rows\<rparr>"

definition keyed_result :: "app \<Rightarrow> string \<Rightarrow> json btree list \<Rightarrow> bool \<Rightarrow> string \<Rightarrow> sample_result" where
  "keyed_result ap fmt rows truncated bytes = \<lparr>sa_format = fmt, sa_columns = map (keyed_column ap rows) (key_union rows),
     sa_rows = rows, sa_row_count = length rows, sa_truncated = truncated, sa_bytes_read = length bytes\<rparr>"

definition json_sample :: "app \<Rightarrow> string \<Rightarrow> nat \<Rightarrow> bool \<Rightarrow> sample_error + sample_result" where
  "json_sample ap bytes row_cap truncated_input =
     (if bytes = [] then Inl SampleEmpty
      else
        (let trimmed = strip_bom bytes;
             parsed = (if List.find (\<lambda>b. \<not> is_ascii_whitespace b) trimmed = Some (CHR ''['')
                       then parse_array ap trimmed truncated_input else Inr (parse_ndjson ap trimmed)) in
         case parsed of
           Inl e \<Rightarrow> Inl e
         | Inr records \<Rightarrow>
             if records = [] then Inl (SampleInvalid ''json'' ''no records'')
             else
               (case object_rows (take row_cap records) of
                  Inl e \<Rightarrow> Inl e
                | Inr rows \<Rightarrow> Inr (keyed_result ap ''json'' rows (truncated_input \<or> row_cap < length records) bytes))))"

section \<open>XML\<close>

type_synonym events = "(string + xml_event) list"

definition local_name :: "app \<Rightarrow> string \<Rightarrow> string" where
  "local_name ap qname = rsplit_next (\<lambda>c. c = CHR '':'') (utf8_or_empty ap qname)"

definition attributes_of :: "(string \<times> string) list \<Rightarrow> json btree" where
  "attributes_of attrs = btree_of (map (\<lambda>(k, v). (''@'' @ k, JStr v)) attrs)"

definition simplify :: "json btree \<Rightarrow> json" where
  "simplify m = (case m of [(k, v)] \<Rightarrow> if k = ''$text'' then v else JObj m | _ \<Rightarrow> JObj m)"

definition insert_first_only :: "json btree \<Rightarrow> string \<Rightarrow> json \<Rightarrow> json btree" where
  "insert_first_only out key v = (if map_of out key = None then map_insert key v out else out)"

function decode_record :: "app \<Rightarrow> events \<Rightarrow> json btree \<Rightarrow> string + (json btree \<times> events)" where
  "decode_record ap [] out = Inr (out, [])"
| "decode_record ap (Inl e # evs) out = Inl e"
| "decode_record ap (Inr XEof # evs) out = Inr (out, [])"
| "decode_record ap (Inr XEnd # evs) out = Inr (out, evs)"
| "decode_record ap (Inr (XStart name attrs) # evs) out =
     (case decode_record ap evs (attributes_of attrs) of
        Inl e \<Rightarrow> Inl e
      | Inr (child, rest) \<Rightarrow> decode_record ap rest (insert_first_only out (local_name ap name) (simplify child)))"
| "decode_record ap (Inr (XText t) # evs) out =
     (case t of
        Inl e \<Rightarrow> Inl e
      | Inr txt \<Rightarrow> decode_record ap evs (if trim txt = [] then out else map_insert ''$text'' (JStr txt) out))"
| "decode_record ap (Inr (XEmpty name attrs) # evs) out =
     (let child = attributes_of attrs in
      decode_record ap evs (insert_first_only out (local_name ap name) (if child = [] then JNull else simplify child)))"
| "decode_record ap (Inr XOther # evs) out = decode_record ap evs out"
  by pat_completeness auto

lemma decode_record_shorter:
  "decode_record_dom (ap, evs, out) \<Longrightarrow> decode_record ap evs out = Inr (m, rest) \<Longrightarrow> length rest \<le> length evs"
proof (induction arbitrary: m rest rule: decode_record.pinduct)
  case (5 ap name attrs evs out)
  then show ?case by (fastforce simp: decode_record.psimps split: sum.splits prod.splits)
qed (auto simp: decode_record.psimps Let_def split: sum.splits if_splits, (force simp: le_SucI)+)

termination decode_record
  by (relation "measure (\<lambda>(_, evs, _). length evs)") (auto dest: decode_record_shorter)

fun read_next_record :: "app \<Rightarrow> string \<Rightarrow> events \<Rightarrow> string + (json btree \<times> events) option" where
  "read_next_record ap tag [] = Inr None"
| "read_next_record ap tag (Inl e # evs) = Inl e"
| "read_next_record ap tag (Inr XEof # evs) = Inr None"
| "read_next_record ap tag (Inr (XStart name attrs) # evs) =
     (if local_name ap name = tag then
        (case decode_record ap evs (attributes_of attrs) of Inl e \<Rightarrow> Inl e | Inr (obj, rest) \<Rightarrow> Inr (Some (obj, rest)))
      else read_next_record ap tag evs)"
| "read_next_record ap tag (Inr _ # evs) = read_next_record ap tag evs"

lemma decode_record_length: "decode_record ap evs out = Inr (m, rest) \<Longrightarrow> length rest \<le> length evs"
proof (induction ap evs out arbitrary: m rest rule: decode_record.induct)
  case (5 ap name attrs evs out)
  then show ?case by (fastforce split: sum.splits prod.splits)
qed (auto simp: Let_def split: sum.splits if_splits, (force simp: le_SucI)+)

lemma read_next_shorter: "read_next_record ap tag evs = Inr (Some (m, rest)) \<Longrightarrow> length rest < length evs"
  by (induction ap tag evs rule: read_next_record.induct)
    (auto split: if_splits sum.splits dest!: decode_record_length)

text \<open>The rows up to the cap; one record beyond it is read to learn whether the sample was cut.\<close>

function xml_loop :: "app \<Rightarrow> string \<Rightarrow> bool \<Rightarrow> nat \<Rightarrow> nat \<Rightarrow> events \<Rightarrow> sample_error + (json btree list \<times> bool)" where
  "xml_loop ap tag truncated_input row_cap n evs =
     (case read_next_record ap tag evs of
        Inl e \<Rightarrow> if truncated_input then Inr ([], True) else Inl (SampleInvalid ''xml'' e)
      | Inr None \<Rightarrow> Inr ([], truncated_input)
      | Inr (Some (m, rest)) \<Rightarrow>
          if row_cap \<le> n then Inr ([], True)
          else (case xml_loop ap tag truncated_input row_cap (n + 1) rest of
                  Inl e \<Rightarrow> Inl e
                | Inr (rows, truncated) \<Rightarrow> Inr (m # rows, truncated)))"
  by pat_completeness auto
termination
  by (relation "measure (\<lambda>(_, _, _, _, _, evs). length evs)") (auto dest: read_next_shorter)

declare xml_loop.simps [simp del]

definition xml_sample :: "app \<Rightarrow> string \<Rightarrow> nat \<Rightarrow> string \<Rightarrow> bool \<Rightarrow> sample_error + sample_result" where
  "xml_sample ap bytes row_cap record_tag truncated_input =
     (if bytes = [] then Inl SampleEmpty
      else
        (let tag = (if record_tag = [] then ''record'' else record_tag) in
         case xml_loop ap tag truncated_input row_cap 0 (cr_xml (ap_crates ap) bytes) of
           Inl e \<Rightarrow> Inl e
         | Inr (rows, truncated) \<Rightarrow>
             if rows = [] then Inl (SampleInvalid ''xml'' (''no <'' @ tag @ ''> records found''))
             else Inr (keyed_result ap ''xml'' rows truncated bytes)))"

end
