(* ===== verification/Files.thy ===== *)
theory Files
  imports Sources Sampling
begin

text \<open>
  Uploads and samples (\<^verbatim>\<open>src/apps/api/src/routes/files.rs\<close>). A multipart body is the list of its parts, any of
  which may fail to be read; the object store answers through \<open>nt_put\<close> and \<open>nt_range\<close>.
\<close>

section \<open>Upload\<close>

record part =
  pt_name :: "string option"
  pt_file_name :: "string option"
  pt_bytes :: "string + string"

definition upload_key :: "int \<Rightarrow> string \<Rightarrow> string" where
  "upload_key org sha = ''uploads/'' @ show_int org @ ''/'' @ take 2 sha @ ''/'' @ sha"

definition file_ref :: "app \<Rightarrow> registered_source \<Rightarrow> string \<Rightarrow> nat \<Rightarrow> string \<Rightarrow> string \<Rightarrow> json" where
  "file_ref ap src key len sha filename = json_obj [(''type'', JStr ''minio''), (''source_id'', jint (rs_id src)),
     (''bucket'', JStr (ap_minio_bucket ap)), (''key'', JStr key), (''size'', jint (int len)), (''sha256'', JStr sha),
     (''filename'', JStr filename)]"

definition store_upload :: "app \<Rightarrow> request \<Rightarrow> claims \<Rightarrow> string \<Rightarrow> string \<Rightarrow> json handler" where
  "store_upload ap rq c filename bytes =
     (let sha = cr_sha256_hex (ap_crates ap) bytes; key = upload_key (cl_org c) sha in
      case nt_put (rq_net rq) (ap_minio_bucket ap) key bytes filename of
        Inl e \<Rightarrow> throw (External (''s3 put: '' @ e))
      | Inr etag \<Rightarrow>
          bindE (register_upload rq \<lparr>nu_org = cl_org c, nu_created_by = parse_i64 (cl_sub c), nu_bucket = ap_minio_bucket ap,
            nu_key = key, nu_sha256 = sha, nu_etag = map_option (trim_matches chr_quote) etag, nu_size = int (length bytes),
            nu_filename = filename\<rparr>) (\<lambda>src.
          ok (json_obj [(''source_id'', jint (rs_id src)), (''source_ref'', file_ref ap src key (length bytes) sha filename)])))"

fun upload_parts :: "app \<Rightarrow> request \<Rightarrow> claims \<Rightarrow> (string + part) list \<Rightarrow> json handler" where
  "upload_parts ap rq c [] = throw (BadRequest ''missing file part'')"
| "upload_parts ap rq c (Inl e # parts) = throw (BadRequest (''multipart: '' @ e))"
| "upload_parts ap rq c (Inr p # parts) =
     (if pt_name p \<noteq> Some ''file'' then upload_parts ap rq c parts
      else (case pt_bytes p of
              Inl e \<Rightarrow> throw (BadRequest (''read: '' @ e))
            | Inr bytes \<Rightarrow> store_upload ap rq c (unwrap_or ''upload.bin'' (pt_file_name p)) bytes))"

definition upload_file :: "app \<Rightarrow> request \<Rightarrow> claims \<Rightarrow> (string + part) list \<Rightarrow> json handler" where
  "upload_file ap rq c parts =
     bindE (require_role c [''admin'', ''editor'', ''operator'']) (\<lambda>_. upload_parts ap rq c parts)"

section \<open>Sample\<close>

record sample_req =
  sp_source_id :: "int option"
  sp_bucket :: "string option"
  sp_key :: string
  sp_format :: "string option"
  sp_rows :: "nat option"
  sp_record_tag :: "string option"

definition sniff_format_from_key :: "string \<Rightarrow> string option" where
  "sniff_format_from_key key =
     (let lower = to_ascii_lowercase key in
      if suffix ''.csv'' lower \<or> suffix ''.tsv'' lower then Some ''csv''
      else if suffix ''.json'' lower then Some ''json''
      else if suffix ''.ndjson'' lower \<or> suffix ''.jsonl'' lower then Some ''ndjson''
      else if suffix ''.xml'' lower then Some ''xml''
      else None)"

definition sample_source :: "app \<Rightarrow> sample_req \<Rightarrow> source_request api_result" where
  "sample_source ap r =
     (case sp_source_id r of
        Some sid \<Rightarrow> Inr (ById sid)
      | None \<Rightarrow>
          if trim (sp_key r) = [] then Inl (BadRequest ''source_id or key is required'')
          else Inr (ObjectReq (unwrap_or (ap_minio_bucket ap) (sp_bucket r)) (sp_key r)))"

definition sample_format :: "sample_req \<Rightarrow> registered_source \<Rightarrow> string api_result" where
  "sample_format r src =
     map_sum id to_ascii_lowercase (ok_or (BadRequest ''could not determine format; pass `format` (csv|json|xml)'')
       (or_else (sp_format r) (or_else (Option.bind (rs_filename src) sniff_format_from_key)
         (sniff_format_from_key (rs_object_key src)))))"

definition run_sampler :: "app \<Rightarrow> sample_req \<Rightarrow> string \<Rightarrow> string \<Rightarrow> nat \<Rightarrow> bool \<Rightarrow> (sample_error + sample_result) api_result" where
  "run_sampler ap r fmt bytes row_cap truncated_input =
     (if fmt = ''csv'' then Inr (csv_sample ap bytes row_cap truncated_input)
      else if fmt \<in> {''json'', ''ndjson'', ''jsonl''} then Inr (json_sample ap bytes row_cap truncated_input)
      else if fmt = ''xml'' then Inr (xml_sample ap bytes row_cap (unwrap_or ''record'' (sp_record_tag r)) truncated_input)
      else Inl (BadRequest (''unsupported format: '' @ fmt)))"

fun sample_failure :: "sample_error \<Rightarrow> api_error" where
  "sample_failure SampleEmpty = ValidationFailed ''file is empty''"
| "sample_failure (SampleInvalid fmt message) = ValidationFailed (fmt @ '': '' @ message)"
| "sample_failure (SampleUnsupported s) = BadRequest s"

definition sample_range :: string where
  "sample_range = ''bytes=0-'' @ show_nat (DEFAULT_BYTE_CAP - 1)"

definition sample_row_cap :: "sample_req \<Rightarrow> nat" where
  "sample_row_cap r = max 1 (min MAX_ROW_CAP (unwrap_or DEFAULT_ROW_CAP (sp_rows r)))"

text \<open>\<open>truncated_input\<close> compares the announced length of the response with what was read of it.\<close>

definition cut_short :: "int option \<Rightarrow> string \<Rightarrow> bool" where
  "cut_short content_length bytes =
     (let total_size = unwrap_or (- 1) content_length in total_size < 0 \<or> int (length bytes) < total_size)"

definition sample_file :: "app \<Rightarrow> request \<Rightarrow> claims \<Rightarrow> sample_req \<Rightarrow> (sample_result \<times> registered_source) handler" where
  "sample_file ap rq c r =
     bindE (require_role c [''admin'', ''editor'', ''operator'', ''viewer'']) (\<lambda>_.
     bindE (lift (sample_source ap r)) (\<lambda>req.
     bindE (resolve_object rq (cl_org c) req) (\<lambda>src.
     bindE (lift (sample_format r src)) (\<lambda>fmt.
     case nt_range (rq_net rq) (rs_bucket src) (rs_object_key src) sample_range of
       RangeFailed e \<Rightarrow> throw (External (''s3 get: '' @ e))
     | RangeReadFailed e \<Rightarrow> throw (External (''s3 read: '' @ e))
     | Chunk content_length bytes \<Rightarrow>
         bindE (lift (run_sampler ap r fmt bytes (sample_row_cap r) (cut_short content_length bytes))) (\<lambda>result.
         bindE (lift (map_sum sample_failure id result)) (\<lambda>res. ok (res, src)))))))"

end
