(* ===== verification/Auth.thy ===== *)
theory Auth
  imports Temporal
begin

text \<open>
  Authentication: tokens (\<^verbatim>\<open>src/apps/api/src/security/jwt.rs\<close>), passwords (\<^verbatim>\<open>security/passwords.rs\<close>), the extractor that
  turns an \<^verbatim>\<open>Authorization\<close> header into claims (\<^verbatim>\<open>middleware/auth.rs\<close>), login and \<^verbatim>\<open>/auth/me\<close> (\<^verbatim>\<open>routes/auth.rs\<close>), and the check
  the orchestrator makes before it starts work (\<^verbatim>\<open>routes/health.rs\<close>). Signing, Argon2 and the case-insensitive column
  type are libraries. A header is the text of its value, if there is one that is text.
\<close>

section \<open>Tokens and passwords\<close>

definition timestamp :: "instant \<Rightarrow> int" where
  "timestamp t = t div nanos_per_sec"

definition issue :: "app \<Rightarrow> instant \<Rightarrow> int \<Rightarrow> int \<Rightarrow> string \<Rightarrow> string api_result" where
  "issue ap now uid org_id role =
     (case cr_jwt_encode (ap_crates ap) \<lparr>cl_sub = show_int uid, cl_org = org_id, cl_role = role, cl_iss = ap_issuer ap,
             cl_aud = ap_audience ap, cl_iat = timestamp now, cl_exp = timestamp (now + hours 12)\<rparr> of
        Inl e \<Rightarrow> Inl (Internal (''jwt encode: '' @ e))
      | Inr token \<Rightarrow> Inr token)"

definition verify :: "app \<Rightarrow> instant \<Rightarrow> string \<Rightarrow> claims api_result" where
  "verify ap now token = ok_or Unauthorized (cr_jwt_decode (ap_crates ap) (ap_issuer ap) (ap_audience ap) now token)"

definition hash_password :: "app \<Rightarrow> string \<Rightarrow> string \<Rightarrow> string api_result" where
  "hash_password ap salt password =
     (case cr_argon_hash (ap_crates ap) salt password of Inl e \<Rightarrow> Inl (Internal (''argon2: '' @ e)) | Inr h \<Rightarrow> Inr h)"

definition verify_password :: "app \<Rightarrow> string \<Rightarrow> string \<Rightarrow> bool api_result" where
  "verify_password ap password hash =
     (case cr_argon_parse (ap_crates ap) hash of
        None \<Rightarrow> Inl (Internal ''argon2 parse'')
      | Some parsed \<Rightarrow> Inr (cr_argon_verify (ap_crates ap) password parsed))"

section \<open>The extractor\<close>

datatype rejection = MissingBearer | InvalidScheme | BadToken

fun rejection_response :: "rejection \<Rightarrow> nat \<times> string" where
  "rejection_response MissingBearer = (401, ''missing bearer token'')"
| "rejection_response InvalidScheme = (401, ''invalid bearer scheme'')"
| "rejection_response BadToken = (fst (status_and_code Unauthorized), api_error_display Unauthorized)"

definition from_request_parts :: "app \<Rightarrow> instant \<Rightarrow> string option \<Rightarrow> rejection + claims" where
  "from_request_parts ap now authorization =
     (case authorization of
        None \<Rightarrow> Inl MissingBearer
      | Some auth \<Rightarrow>
          (case map_option trim (strip_prefix ''Bearer '' auth) of
             None \<Rightarrow> Inl InvalidScheme
           | Some token \<Rightarrow> (case verify ap now token of Inl _ \<Rightarrow> Inl BadToken | Inr claims \<Rightarrow> Inr claims)))"

section \<open>Login\<close>

record login_response =
  lr_token :: string
  lr_role :: string
  lr_org_id :: int
  lr_user_id :: int

definition user_by_email :: "app \<Rightarrow> string \<Rightarrow> db \<Rightarrow> user option" where
  "user_by_email ap email d = List.find (\<lambda>u. case us_email u of None \<Rightarrow> False
     | Some e \<Rightarrow> cr_citext_eq (ap_crates ap) e email) (db_users d)"

definition login :: "app \<Rightarrow> request \<Rightarrow> string \<Rightarrow> string \<Rightarrow> login_response handler" where
  "login ap rq email password =
     bindE (query rq (user_by_email ap email)) (\<lambda>found.
     bindE (lift (ok_or Unauthorized found)) (\<lambda>user.
     bindE (guardE (\<not> us_disabled user) Forbidden) (\<lambda>_.
     bindE (lift (verify_password ap password (us_password_hash user))) (\<lambda>good.
     bindE (guardE good Unauthorized) (\<lambda>_.
     bindE (lift (issue ap (rq_now rq) (us_id user) (us_org_id user) (us_role user))) (\<lambda>token.
     ok \<lparr>lr_token = token, lr_role = us_role user, lr_org_id = us_org_id user, lr_user_id = us_id user\<rparr>))))))"

record me_response =
  me_id :: int
  me_email :: string
  me_org_id :: int
  me_role :: string

text \<open>A user without an e-mail address cannot be read into the expected row and is a database error.\<close>

definition me :: "request \<Rightarrow> claims \<Rightarrow> me_response handler" where
  "me rq c =
     bindE (user_id c) (\<lambda>uid.
     bindE (query rq (\<lambda>d. List.find (\<lambda>u. us_id u = uid \<and> us_org_id u = cl_org c) (db_users d))) (\<lambda>found.
     bindE (lift (ok_or Unauthorized found)) (\<lambda>u.
     bindE (lift (ok_or (Database ''unexpected null; try decoding as an `Option`'') (us_email u))) (\<lambda>email.
     ok \<lparr>me_id = uid, me_email = email, me_org_id = cl_org c, me_role = cl_role c\<rparr>))))"

section \<open>The orchestrator's check before work\<close>

definition authorize_work :: "string option \<Rightarrow> license_proc \<Rightarrow> instant \<Rightarrow> string option \<Rightarrow> nat \<times> json" where
  "authorize_work bridge_token proc now authorization =
     (let expected = unwrap_or [] bridge_token;
          supplied = unwrap_or [] (Option.bind authorization (strip_prefix ''Bearer '')) in
      if expected = [] \<or> supplied \<noteq> expected
      then (401, json_obj [(''authorized'', JBool False), (''reason'', JStr ''unauthorized'')])
      else (case require_licensed proc now of
              Inr _ \<Rightarrow> (200, json_obj [(''authorized'', JBool True)])
            | Inl _ \<Rightarrow> (402, json_obj [(''authorized'', JBool False), (''reason'', JStr ''license_required'')])))"

end
