(* ===== verification/Handler_Frame.thy ===== *)
theory Handler_Frame
  imports Jobs Templates Schedules Batches Connectors Specs Llm Files Auth
begin

text \<open>
  The interface between the handlers and the store. The locale \<open>store_laws\<close> says of a relation \<open>Q\<close>
  between databases that every single statement the handlers issue for one organization stays
  within \<open>Q\<close>; inside it, every handler is shown to stay within \<open>Q\<close>, once and for all relations.
  The properties of the whole API (isolation of tenants, finality of finished jobs, immutability of published
  templates, growth of the audit log) are interpretations of this locale.
\<close>

section \<open>Steps after a known state\<close>

context framing
begin

lemma pres_fails: "preserves R m \<Longrightarrow> preserves R (fails m)"
  unfolding fails_def by (rule pres_mapE)

end

context db_framing
begin

lemma bind_from:
  assumes "Q d (w_db (snd (m w)))" and "\<And>x. preserves (on_db Q) (f x)"
  shows "Q d (w_db (snd (bindE m f w)))"
proof -
  obtain r w' where m: "m w = (r, w')" by fastforce
  have "Q (w_db w') (w_db (snd (f x w')))" for x
    using assms(2) [of x] by (simp add: preserves_def on_db_def)
  then show ?thesis using assms(1) m db_trans by (cases r) (auto simp: bindE_def)
qed

lemma sqlE_from:
  assumes "relies Q rq" and "Q d (w_db w)" and "\<And>now d2. Q (w_db w) d2 \<Longrightarrow> Q d (snd (f now d2))"
  shows "Q d (w_db (snd (sqlE rq err f w)))"
proof -
  have other: "Q (w_db w) (rq_other rq (w_steps w) (w_db w))" using assms(1) by (simp add: relies_def)
  from assms(3) [OF this] db_trans [OF assms(2) other] show ?thesis
    by (simp add: sqlE_def Let_def split_beta split: sum.split option.split)
qed

lemma try_from: "Q d (w_db (snd (m w))) \<Longrightarrow> Q d (w_db (snd (tryE m w)))"
  by (simp add: tryE_def split_beta)

lemma pres_insert_then:
  assumes "relies Q rq" and "\<And>now d. Q d (snd (ins now d))"
    and "\<And>now d row d1 w'. ins now d = (Inr row, d1) \<Longrightarrow> w_db w' = d1 \<Longrightarrow> Q d (w_db (snd (K row w')))"
  shows "preserves (on_db Q) (bindE (sqlE rq err ins) K)"
  unfolding preserves_def on_db_def
proof
  fix w :: world
  let ?d = "rq_other rq (w_steps w) (w_db w)" and ?t = "rq_clock rq (w_steps w)"
  obtain r d1 where ins: "ins ?t ?d = (r, d1)" by fastforce
  have "Q (w_db w) ?d" using assms(1) by (simp add: relies_def)
  moreover have "Q ?d (w_db (snd (bindE (sqlE rq err ins) K w)))"
  proof (cases r)
    case (Inl e)
    then show ?thesis using ins assms(2) [of ?d ?t]
      by (simp add: bindE_def sqlE_def Let_def db_refl split: option.split)
  next
    case (Inr row)
    then show ?thesis using ins assms(3) [of ?t ?d row d1]
      by (simp add: bindE_def sqlE_def Let_def db_refl split: option.split)
  qed
  ultimately show "Q (w_db w) (w_db (snd (bindE (sqlE rq err ins) K w)))" by (rule db_trans)
qed

lemma pres_out: "preserves (on_db Q) (modify (\<lambda>w. w\<lparr>w_out := f w\<rparr>))"
  by (rule pres_modify) (simp add: on_db_def db_refl)

lemma pres_throw_as: "preserves (on_db Q) (transition_lost rq org jid action)" if "relies Q rq"
  unfolding transition_lost_def Let_def by (intro handler_rules that)

end

section \<open>Laws\<close>

text \<open>The lifecycle of a job, as far as the API moves it: the status changes it may make.\<close>

definition job_edges :: "(string \<times> string) set" where
  "job_edges = {(''pending'', ''running''), (''pending'', ''failed''), (''pending'', ''cancelled''),
     (''running'', ''paused''), (''running'', ''cancelled''), (''paused'', ''running''), (''paused'', ''cancelled'')}"

text \<open>A change of job rows that keeps what identifies the job and moves its status along an edge.\<close>

definition lawful_change :: "string list \<Rightarrow> (job_row \<Rightarrow> job_row) \<Rightarrow> bool" where
  "lawful_change from f \<longleftrightarrow> set from \<subseteq> set CANCELLABLE
     \<and> (\<forall>j. jb_id (f j) = jb_id j \<and> jb_org_id (f j) = jb_org_id j \<and> jb_rule_template_id (f j) = jb_rule_template_id j
          \<and> jb_source_ref (f j) = jb_source_ref j \<and> jb_temporal_workflow_id (f j) = jb_temporal_workflow_id j)
     \<and> (\<forall>j. jb_status j \<in> set from \<longrightarrow> (jb_status j, jb_status (f j)) \<in> job_edges)"

locale statement_laws = db_framing Q for Q :: "db \<Rightarrow> db \<Rightarrow> bool" +
  fixes own :: int
  assumes law_audit: "au_org_id e = own \<Longrightarrow> Q d (d\<lparr>db_audit := e # db_audit d\<rparr>)"
    and law_insert_template: "Q d (snd (insert_template own key version name body u now d))"
    and law_publish: "Q d (snd (set_published own tid d))"
    and law_delete_draft: "Q d (snd (delete_draft own tid d))"
    and law_insert_job: "Q d (snd (insert_job own tid version ref wid u now d))"
    and law_transition: "lawful_change from f \<Longrightarrow> Q d (snd (transition own jid from f d))"
    and law_upsert_source: "nu_org up = own \<Longrightarrow> Q d (snd (upsert_source up d))"
    and law_insert_batch: "Q d (snd (insert_batch own k ref wid now d))"
    and law_insert_schedule: "Q d (snd (insert_schedule own r spec tz ov ca en si u now d))"
    and law_save_schedule: "Q d (snd (save_schedule own sid x now d))"
    and law_delete_schedule: "Q d (snd (delete_schedules (\<lambda>s. sd_id s = sid \<and> sd_org_id s = own) d))"
    and law_set_enabled: "Q d (set_enabled own sid b now d)"
    and law_connector_tx: "cl_org c = own \<Longrightarrow> Q d (snd (connector_tx ap rq c cr kind now d))"
    and law_delete_connector: "Q d (snd (delete_connectors own kid d))"
    and law_secret_tx: "Q d (snd (secret_tx own nm ct nonce now d))"
    and law_revoke_row: "Q d (snd (revoke_row own nm now d))"
    and law_upsert_spec: "Q d (snd (upsert_spec own nm url spec u now d))"
    and law_delete_spec: "Q d (snd (delete_specs own sid d))"
    and law_config_tx: "cl_org c = own \<Longrightarrow> Q d (snd (config_tx ap rq c pc provider u now d))"

text \<open>
  The statements that address a row by its id alone, without the organization, are issued only for
  a row the same request has inserted: they stay within \<open>Q\<close> from the state before that insertion.
\<close>

locale store_laws = statement_laws +
  assumes law_start_failed: "insert_job own tid version ref wid u now d = (Inr row, d1) \<Longrightarrow> Q d1 d2 \<Longrightarrow>
           Q d (mark_start_failed (jb_id row) message t d2)"
    and law_record_run: "insert_job own tid version ref wid u now d = (Inr row, d1) \<Longrightarrow> Q d1 d2 \<Longrightarrow>
           Q d (snd (record_run (jb_id row) run t d2))"
    and law_batch_failed: "insert_batch own k ref wid now d = (Inr brow, d1) \<Longrightarrow> Q d1 d2 \<Longrightarrow>
           Q d (mark_batch_failed (bt_id brow) message t d2)"
    and law_batch_running: "insert_batch own k ref wid now d = (Inr brow, d1) \<Longrightarrow> Q d1 d2 \<Longrightarrow>
           Q d (snd (mark_batch_running (bt_id brow) run t d2))"
    and law_schedule_rollback: "insert_schedule own r spec tz ov ca en si u now d = (Inr srow, d1) \<Longrightarrow> Q d1 d2 \<Longrightarrow>
           Q d (snd (delete_schedules (\<lambda>s. sd_id s = sd_id srow) d2))"
begin

section \<open>Every handler stays within the relation\<close>

lemma pres_audit: "relies Q rq \<Longrightarrow> org = own \<Longrightarrow>
    preserves (on_db Q) (record_audit rq org actor entity eid action before after)"
  by (rule pres_record_audit) (simp_all add: law_audit)

lemma pres_resolve: "relies Q rq \<Longrightarrow> preserves (on_db Q) (resolve rq org sr)"
  by (cases sr) (auto simp: lookup_object_def require_connector_def intro!: handler_rules)

lemma pres_require_connector: "relies Q rq \<Longrightarrow> preserves (on_db Q) (require_connector rq org k)"
  unfolding require_connector_def by (intro handler_rules)

lemma pres_resolve_object: "relies Q rq \<Longrightarrow> preserves (on_db Q) (resolve_object rq org sr)"
  unfolding resolve_object_def
  by (intro pres_bind pres_resolve) (auto split: resolved_source.split intro: handler_rules)

lemma pres_register_upload: "relies Q rq \<Longrightarrow> nu_org up = own \<Longrightarrow> preserves (on_db Q) (register_upload rq up)"
  unfolding register_upload_def by (rule pres_sqlE) (simp_all add: law_upsert_source)

lemma start_job_from:
  assumes "relies Q rq" and "insert_job own tid version ref wid u now d = (Inr row, d1)" and "w_db w = d1"
  shows "Q d (w_db (snd (start_job ap rq (jb_id row) wid2 input w)))"
proof -
  have ins: "Q d d1" using law_insert_job [of d tid version ref wid u now] assms(2) by simp
  obtain r w1 where st: "start_migration_workflow ap rq wid2 input w = (r, w1)" by fastforce
  then have w1: "w_db w1 = d1"
    using start_workflow_db(1) [of ap rq wid2 "''MigrationWorkflow''" input w] assms(3)
    by (simp add: start_migration_workflow_def)
  have run: "Q d (w_db (snd (sqlE rq database (record_run (jb_id row) run) w1)))" for run
    by (rule sqlE_from [OF assms(1)]) (use law_record_run [OF assms(2)] w1 ins in auto)
  have bad: "Q d (w_db (snd (bindE (execute rq (mark_start_failed (jb_id row) m)) (\<lambda>_. throw e) w1)))" for m e
    unfolding execute_def
    by (intro bind_from pres_throw sqlE_from [OF assms(1)]) (use law_start_failed [OF assms(2)] w1 ins in auto)
  show ?thesis
    unfolding start_job_def bindE_tryE [where m = "start_migration_workflow ap rq wid2 input", OF st]
    using w1 ins run bad by (cases r) (auto simp: throw_def)
qed

lemma pres_create_job: "relies Q rq \<Longrightarrow> cl_org c = own \<Longrightarrow> preserves (on_db Q) (create_job ap rq c jc)"
  unfolding create_job_def Let_def audit_job_def
  by (intro pres_bind pres_insert_then bind_from handler_rules pres_resolve pres_audit)
    (auto simp: law_insert_job intro: start_job_from)

lemma pres_action_target: "relies Q rq \<Longrightarrow> preserves (on_db Q) (action_target rq org jid action from)"
  unfolding action_target_def by (intro handler_rules)

lemma pres_signal_and_record:
  assumes "relies Q rq" and "cl_org c = own" and "set from \<subseteq> set CANCELLABLE"
    and "\<forall>s \<in> set from. (s, new_status) \<in> job_edges"
  shows "preserves (on_db Q) (signal_and_record ap rq c jid sig new_status action from)"
proof -
  have tr: "preserves (on_db Q) (sqlE rq database (\<lambda>now d. let (row, d') = transition (cl_org c) jid from (\<lambda>j.
         j\<lparr>jb_status := new_status, jb_updated_at := now,
           jb_paused_at := (if new_status = ''paused'' then Some now else jb_paused_at j)\<rparr>) d in (Inr row, d')))"
    using assms(3,4) by (intro pres_sqlE [OF assms(1)])
      (simp add: split_beta Let_def law_transition lawful_change_def assms(2))
  show ?thesis
    unfolding signal_and_record_def signal_workflow_def audit_job_def
    by (intro pres_bind tr pres_action_target assms handler_rules bridge_rules pres_audit pres_throw_as
        | auto split: option.split sum.split temporal_error.split
            intro!: pres_bind tr handler_rules bridge_rules pres_audit pres_throw_as assms)+
qed

lemma cancellable_sets: "set PAUSABLE \<subseteq> set CANCELLABLE" "set RESUMABLE \<subseteq> set CANCELLABLE"
  "\<forall>s \<in> set PAUSABLE. (s, ''paused'') \<in> job_edges" "\<forall>s \<in> set RESUMABLE. (s, ''running'') \<in> job_edges"
  by (simp_all add: PAUSABLE_def RESUMABLE_def CANCELLABLE_def job_edges_def)

lemma pres_pause_job: "relies Q rq \<Longrightarrow> cl_org c = own \<Longrightarrow> preserves (on_db Q) (pause_job ap rq c jid)"
  unfolding pause_job_def by (intro handler_rules pres_signal_and_record cancellable_sets)

lemma pres_resume_job: "relies Q rq \<Longrightarrow> cl_org c = own \<Longrightarrow> preserves (on_db Q) (resume_job ap rq c jid)"
  unfolding resume_job_def by (intro handler_rules pres_signal_and_record cancellable_sets)

lemma pres_cancel_job:
  assumes "relies Q rq" and "cl_org c = own"
  shows "preserves (on_db Q) (cancel_job ap rq c jid)"
proof -
  have tr: "preserves (on_db Q) (sqlE rq database (\<lambda>now d. let (row, d') = transition (cl_org c) jid CANCELLABLE (\<lambda>j.
         j\<lparr>jb_status := ''cancelled'', jb_finished_at := Some now, jb_updated_at := now,
           jb_totals_json := job_totals jid d\<rparr>) d in (Inr row, d')))"
    by (rule pres_sqlE [OF assms(1)])
      (auto simp: split_beta Let_def assms(2) lawful_change_def CANCELLABLE_def job_edges_def intro!: law_transition)
  have cw: "preserves (on_db Q) (case target of None \<Rightarrow> ok False
            | Some wid \<Rightarrow> bindE (tryE (cancel_workflow ap rq wid)) (\<lambda>r.
                case r of
                  Inl (WorkflowNotFound _) \<Rightarrow> ok False
                | Inl e \<Rightarrow> throw (External (''temporal: '' @ temporal_display ap e))
                | Inr _ \<Rightarrow> ok True))" for target
    unfolding cancel_workflow_def
    by (cases target) (auto split: sum.split temporal_error.split intro!: handler_rules bridge_rules)
  show ?thesis
    unfolding cancel_job_def audit_job_def
    by (intro pres_bind tr cw pres_action_target assms handler_rules pres_audit pres_throw_as)
qed

lemma pres_retry_export: "relies Q rq \<Longrightarrow> cl_org c = own \<Longrightarrow> preserves (on_db Q) (retry_export ap rq c jid)"
  unfolding retry_export_def audit_job_def Let_def by (intro handler_rules bridge_rules pres_audit)

lemma pres_retry_target: "relies Q rq \<Longrightarrow> preserves (on_db Q) (retry_target rq org jid)"
  unfolding retry_target_def by (intro handler_rules)

lemma pres_retry_row: "relies Q rq \<Longrightarrow> cl_org c = own \<Longrightarrow> preserves (on_db Q) (retry_row ap rq c jid i body)"
  unfolding retry_row_def Let_def by (intro handler_rules bridge_rules pres_audit pres_retry_target)

lemma pres_retry_all_failed: "relies Q rq \<Longrightarrow> cl_org c = own \<Longrightarrow> preserves (on_db Q) (retry_all_failed ap rq c jid body)"
  unfolding retry_all_failed_def audit_job_def Let_def by (intro handler_rules bridge_rules pres_audit pres_retry_target)

lemma pres_create_template: "relies Q rq \<Longrightarrow> cl_org c = own \<Longrightarrow> preserves (on_db Q) (create_template ap rq c cr)"
  unfolding create_template_def audit_template_def Let_def
  by (intro handler_rules pres_audit pres_sqlE) (simp_all add: law_insert_template)

lemma pres_key_of: "relies Q rq \<Longrightarrow> preserves (on_db Q) (key_of rq c tid)"
  unfolding key_of_def by (intro handler_rules)

lemma pres_create_version: "relies Q rq \<Longrightarrow> cl_org c = own \<Longrightarrow> preserves (on_db Q) (create_version ap rq c tid cr)"
  unfolding create_version_def audit_template_def
  by (intro handler_rules pres_audit pres_sqlE pres_key_of) (simp_all add: law_insert_template)

lemma pres_publish_template: "relies Q rq \<Longrightarrow> cl_org c = own \<Longrightarrow> preserves (on_db Q) (publish_template ap rq c tid)"
  unfolding publish_template_def audit_template_def
  by (intro handler_rules pres_audit pres_sqlE) (simp_all add: law_publish split_beta Let_def)

lemma pres_delete_template: "relies Q rq \<Longrightarrow> cl_org c = own \<Longrightarrow> preserves (on_db Q) (delete_template rq c tid)"
  unfolding delete_template_def
  by (intro handler_rules pres_audit pres_sqlE) (simp_all add: law_delete_draft)

lemma create_batch_from:
  assumes "relies Q rq" and "cl_org c = own" and "insert_batch own k ref wid now d = (Inr row0, d1)" and "w_db w = d1"
  shows "Q d (w_db (snd (bindE (tryE (start_workflow ap rq wid2 wt input)) (\<lambda>started.
     case started of
       Inl e \<Rightarrow> bindE (execute rq (mark_batch_failed (bt_id row0) (msg e))) (\<lambda>_. throw (er e))
     | Inr run_id \<Rightarrow>
     bindE (sqlE rq database (mark_batch_running (bt_id row0) run_id)) (\<lambda>row.
     bindE (record_audit rq (cl_org c) actor entity (eid row) action before (after row)) (\<lambda>_. ok row))) w)))"
proof -
  have ins: "Q d d1" using law_insert_batch [of d k ref wid now] assms(3) by simp
  obtain r w1 where st: "start_workflow ap rq wid2 wt input w = (r, w1)" by fastforce
  then have w1: "w_db w1 = d1"
    using start_workflow_db(1) [of ap rq wid2 wt input w] assms(4) by simp
  have run: "Q d (w_db (snd (bindE (sqlE rq database (mark_batch_running (bt_id row0) run)) (\<lambda>row.
     bindE (record_audit rq (cl_org c) actor entity (eid row) action before (after row)) (\<lambda>_. ok row)) w1)))" for run
    by (intro bind_from handler_rules pres_audit assms(1,2) sqlE_from) (use law_batch_running [OF assms(3)] w1 ins in auto)
  have bad: "Q d (w_db (snd (bindE (execute rq (mark_batch_failed (bt_id row0) m)) (\<lambda>_. throw e) w1)))" for m e
    unfolding execute_def
    by (intro bind_from pres_throw sqlE_from [OF assms(1)]) (use law_batch_failed [OF assms(3)] w1 ins in auto)
  show ?thesis
    unfolding bindE_tryE [where m = "start_workflow ap rq wid2 wt input", OF st] using run bad by (cases r) auto
qed

lemma pres_create_batch: "relies Q rq \<Longrightarrow> cl_org c = own \<Longrightarrow> preserves (on_db Q) (create_batch ap rq c bc)"
  unfolding create_batch_def Let_def
  by (intro pres_bind pres_insert_then handler_rules pres_resolve_object pres_require_connector)
    (auto simp: law_insert_batch intro: create_batch_from)

lemma create_schedule_from:
  assumes "relies Q rq" and "cl_org c = own" and "w_db w = d1"
    and "insert_schedule own r spec tz ov ca en si u now d = (Inr row, d1)"
  shows "Q d (w_db (snd (bindE (tryE (bridge_create_schedule ap rq si2 spec2 input ov2 ca2 tz2)) (\<lambda>created.
     case created of
       Inl e \<Rightarrow> bindE (tryE (execute rq (\<lambda>_ d. snd (delete_schedules (\<lambda>s. sd_id s = sd_id row) d)) :: unit handler))
         (\<lambda>_. throw (er e))
     | Inr _ \<Rightarrow>
     bindE (if en2 then ok (Inr ()) else tryE (bridge_pause_schedule ap rq si2)) (\<lambda>_.
     bindE (record_audit rq (cl_org c) actor entity eid action before after) (\<lambda>_. ok row))) w)))"
proof -
  have ins: "Q d d1" using law_insert_schedule [of d r spec tz ov ca en si u now] assms(4) by simp
  obtain q w1 where st: "bridge_create_schedule ap rq si2 spec2 input ov2 ca2 tz2 w = (q, w1)" by fastforce
  then have w1: "w_db w1 = d1"
    unfolding bridge_create_schedule_def using post_unit_db(1) assms(3) by (metis snd_conv)
  have good: "preserves (on_db Q) (bindE (if en2 then ok (Inr ()) else tryE (bridge_pause_schedule ap rq si2)) (\<lambda>_.
     bindE (record_audit rq (cl_org c) actor entity eid action before after) (\<lambda>_. ok row)))"
    unfolding bridge_pause_schedule_def schedule_op_def by (intro handler_rules bridge_rules pres_audit assms)
  have bad: "Q d (w_db (snd (bindE (tryE (execute rq (\<lambda>_ d. snd (delete_schedules (\<lambda>s. sd_id s = sd_id row) d)) :: unit handler))
     (\<lambda>_. throw e) w1)))" for e
    unfolding execute_def
    by (intro bind_from pres_throw try_from sqlE_from [OF assms(1)]) (use law_schedule_rollback [OF assms(4)] w1 ins in auto)
  from good ins w1 have "Q d (w_db (snd (bindE (if en2 then ok (Inr ()) else tryE (bridge_pause_schedule ap rq si2)) (\<lambda>_.
     bindE (record_audit rq (cl_org c) actor entity eid action before after) (\<lambda>_. ok row)) w1)))"
    by (auto simp: preserves_def on_db_def intro: db_trans)
  with bad show ?thesis
    unfolding bindE_tryE [where m = "bridge_create_schedule ap rq si2 spec2 input ov2 ca2 tz2", OF st] by (cases q) auto
qed

lemma pres_create_schedule:
  assumes "relies Q rq" and "cl_org c = own"
  shows "preserves (on_db Q) (create_schedule ap rq c r)"
proof -
  have ins: "preserves (on_db Q) (bindE (sqlE rq err (insert_schedule (cl_org c) r spec tz ov ca en si u)) (\<lambda>row.
     bindE (tryE (bridge_create_schedule ap rq si spec (schedule_input (cl_org c) (sd_id row) r) ov ca tz)) (\<lambda>created.
     case created of
       Inl e \<Rightarrow> bindE (tryE (execute rq (\<lambda>_ d. snd (delete_schedules (\<lambda>s. sd_id s = sd_id row) d)) :: unit handler))
         (\<lambda>_. throw (External (''temporal: '' @ temporal_display ap e)))
     | Inr _ \<Rightarrow>
     bindE (if en then ok (Inr ()) else tryE (bridge_pause_schedule ap rq si)) (\<lambda>_.
     bindE (record_audit rq (cl_org c) (cl_sub c) ''schedule'' (Some (show_int (sd_id row))) ''create'' None
       (Some (schedule_json (ap_libs ap) row))) (\<lambda>_. ok row)))))" for err spec tz ov ca en si u
  proof (rule pres_insert_then [OF assms(1)])
    show "Q d (snd (insert_schedule (cl_org c) r spec tz ov ca en si u now d))" for now d
      by (simp add: assms(2) law_insert_schedule)
  qed (rule create_schedule_from [OF assms], assumption, simp add: assms(2))
  show ?thesis
    unfolding create_schedule_def check_overlap_def audit_schedule_def Let_def
    by (intro ins pres_bind handler_rules pres_require_connector assms)
qed

lemma pres_on_temporal: "(\<And>x. preserves (on_db Q) (f x)) \<Longrightarrow> preserves (on_db Q) (on_temporal t f)"
  by (cases t) (auto simp: on_temporal_def intro: pres_ok)

lemma pres_schedule_ops:
  "preserves (on_db Q) (bridge_pause_schedule ap rq t)" "preserves (on_db Q) (bridge_unpause_schedule ap rq t)"
  "preserves (on_db Q) (bridge_delete_schedule ap rq t)" "preserves (on_db Q) (bridge_trigger_schedule ap rq t)"
  "preserves (on_db Q) (bridge_update_schedule ap rq t spec input)"
  unfolding bridge_pause_schedule_def bridge_unpause_schedule_def bridge_delete_schedule_def
    bridge_trigger_schedule_def bridge_update_schedule_def schedule_op_def
  by (rule pres_post_unit)+

lemma pres_update_schedule: "relies Q rq \<Longrightarrow> cl_org c = own \<Longrightarrow> preserves (on_db Q) (update_schedule ap rq c sid u)"
  unfolding update_schedule_def apply_spec_def apply_enabled_def apply_rest_def check_overlap_def audit_schedule_def Let_def
  by (intro handler_rules pres_on_temporal pres_schedule_ops pres_audit pres_sqlE) (simp_all add: law_save_schedule)

lemma pres_delete_schedule: "relies Q rq \<Longrightarrow> cl_org c = own \<Longrightarrow> preserves (on_db Q) (delete_schedule ap rq c sid)"
  unfolding delete_schedule_def audit_schedule_def
  by (intro handler_rules pres_on_temporal pres_schedule_ops pres_audit pres_sqlE)
    (simp_all add: law_delete_schedule split_beta Let_def)

lemma pres_temporal_id: "relies Q rq \<Longrightarrow> preserves (on_db Q) (temporal_id rq sid org)"
  unfolding temporal_id_def by (intro handler_rules)

lemma pres_pause_schedule: "relies Q rq \<Longrightarrow> cl_org c = own \<Longrightarrow> preserves (on_db Q) (pause_schedule ap rq c sid)"
  unfolding pause_schedule_def audit_schedule_def
  by (intro handler_rules pres_temporal_id pres_schedule_ops pres_audit pres_execute) (simp_all add: law_set_enabled)

lemma pres_resume_schedule: "relies Q rq \<Longrightarrow> cl_org c = own \<Longrightarrow> preserves (on_db Q) (resume_schedule ap rq c sid)"
  unfolding resume_schedule_def audit_schedule_def
  by (intro handler_rules pres_temporal_id pres_schedule_ops pres_audit pres_execute) (simp_all add: law_set_enabled)

lemma pres_trigger_schedule: "relies Q rq \<Longrightarrow> cl_org c = own \<Longrightarrow> preserves (on_db Q) (trigger_schedule ap rq c sid)"
  unfolding trigger_schedule_def audit_schedule_def
  by (intro handler_rules pres_temporal_id pres_schedule_ops pres_audit)

lemma pres_create_connector: "relies Q rq \<Longrightarrow> cl_org c = own \<Longrightarrow> preserves (on_db Q) (create_connector ap rq c cr)"
  unfolding create_connector_def Let_def
  by (intro handler_rules pres_audit pres_sqlE) (simp_all add: law_connector_tx)

lemma pres_delete_connector: "relies Q rq \<Longrightarrow> cl_org c = own \<Longrightarrow> preserves (on_db Q) (delete_connector rq c kid)"
  unfolding delete_connector_def
  by (intro handler_rules pres_audit pres_sqlE) (simp_all add: law_delete_connector)

lemma pres_test_connector: "relies Q rq \<Longrightarrow> preserves (on_db Q) (test_connector ap rq c kid)"
  unfolding test_connector_def test_sftp_connector_def by (intro handler_rules bridge_rules)

lemma pres_put_secret: "relies Q rq \<Longrightarrow> cl_org c = own \<Longrightarrow> preserves (on_db Q) (put_secret ap rq c nm v)"
  unfolding put_secret_def
  by (intro handler_rules pres_audit pres_sqlE) (simp_all add: law_secret_tx)

lemma pres_revoke_secret: "relies Q rq \<Longrightarrow> cl_org c = own \<Longrightarrow> preserves (on_db Q) (revoke_secret rq c nm)"
  unfolding revoke_secret_def
  by (intro handler_rules pres_audit pres_sqlE) (simp_all add: law_revoke_row split_beta Let_def)

lemma pres_create_spec: "relies Q rq \<Longrightarrow> cl_org c = own \<Longrightarrow> preserves (on_db Q) (create_spec ap rq c cp)"
  unfolding create_spec_def Let_def
  by (intro handler_rules pres_audit pres_sqlE) (simp_all add: law_upsert_spec)

lemma pres_delete_spec: "relies Q rq \<Longrightarrow> cl_org c = own \<Longrightarrow> preserves (on_db Q) (delete_spec rq c sid)"
  unfolding delete_spec_def
  by (intro handler_rules pres_audit pres_sqlE) (simp_all add: law_delete_spec split_beta Let_def)

lemma pres_put_config: "relies Q rq \<Longrightarrow> cl_org c = own \<Longrightarrow> preserves (on_db Q) (put_config ap rq c pc)"
  unfolding put_config_def Let_def
  by (intro handler_rules pres_audit pres_sqlE) (simp_all add: law_config_tx)

lemma pres_suggest_loop:
  "relies Q rq \<Longrightarrow> cl_org c = own \<Longrightarrow> preserves (on_db Q) (suggest_loop n ap rq c r cfg key err msgs)"
  by (induction n arbitrary: err msgs)
    (auto simp: call_llm_def Let_def intro!: handler_rules pres_fails pres_audit pres_out)

lemma pres_suggest_mapping: "relies Q rq \<Longrightarrow> cl_org c = own \<Longrightarrow> preserves (on_db Q) (suggest_mapping ap rq c sg)"
  unfolding suggest_mapping_def load_api_key_def target_operation_def Let_def
  by (intro handler_rules pres_fails pres_suggest_loop)

lemma pres_upload_parts:
  "relies Q rq \<Longrightarrow> cl_org c = own \<Longrightarrow> preserves (on_db Q) (upload_parts ap rq c parts)"
  by (induction ap rq c parts rule: upload_parts.induct)
    (auto simp: store_upload_def register_upload_def Let_def law_upsert_source split: sum.split
      intro!: handler_rules pres_sqlE)

lemma pres_upload_file: "relies Q rq \<Longrightarrow> cl_org c = own \<Longrightarrow> preserves (on_db Q) (upload_file ap rq c parts)"
  unfolding upload_file_def by (intro handler_rules pres_upload_parts)

end

text \<open>A relation for which those statements are harmless for any id satisfies the laws.\<close>

locale uniform_laws = statement_laws +
  assumes any_start_failed: "Q d (mark_start_failed jid message t d)"
    and any_record_run: "Q d (snd (record_run jid run t d))"
    and any_batch_failed: "Q d (mark_batch_failed bid message t d)"
    and any_batch_running: "Q d (snd (mark_batch_running bid run t d))"
    and any_delete_schedules: "Q d (snd (delete_schedules hit d))"

sublocale uniform_laws \<subseteq> store_laws
proof
  fix tid version ref wid u now d row d1 d2 message t run
  assume "insert_job own tid version ref wid u now d = (Inr row, d1)" and q: "Q d1 d2"
  then have "Q d d2" using law_insert_job [of d tid version ref wid u now] db_trans by auto
  then show "Q d (mark_start_failed (jb_id row) message t d2)" "Q d (snd (record_run (jb_id row) run t d2))"
    using any_start_failed any_record_run db_trans by blast+
next
  fix k ref wid now d row d1 d2 message t run
  assume "insert_batch own k ref wid now d = (Inr row, d1)" and q: "Q d1 d2"
  then have "Q d d2" using law_insert_batch [of d k ref wid now] db_trans by auto
  then show "Q d (mark_batch_failed (bt_id row) message t d2)" "Q d (snd (mark_batch_running (bt_id row) run t d2))"
    using any_batch_failed any_batch_running db_trans by blast+
next
  fix r spec tz ov ca en si u now d row d1 d2
  assume "insert_schedule own r spec tz ov ca en si u now d = (Inr row, d1)" and q: "Q d1 d2"
  then have "Q d d2" using law_insert_schedule [of d r spec tz ov ca en si u now] db_trans by auto
  then show "Q d (snd (delete_schedules (\<lambda>s. sd_id s = sd_id row) d2))"
    using any_delete_schedules db_trans by blast
qed

section \<open>One request to the API\<close>

text \<open>
  Any request of a caller with claims \<open>c\<close>, with its effect on the world. The handlers that only
  read are included: other parts of the system may run while they do.
\<close>

inductive api_step :: "app \<Rightarrow> request \<Rightarrow> claims \<Rightarrow> world \<Rightarrow> world \<Rightarrow> bool" for ap rq c where
  "api_step ap rq c w (snd (create_job ap rq c jc w))"
| "api_step ap rq c w (snd (pause_job ap rq c n w))"
| "api_step ap rq c w (snd (resume_job ap rq c n w))"
| "api_step ap rq c w (snd (cancel_job ap rq c n w))"
| "api_step ap rq c w (snd (retry_export ap rq c n w))"
| "api_step ap rq c w (snd (retry_row ap rq c n i body w))"
| "api_step ap rq c w (snd (retry_all_failed ap rq c n body w))"
| "api_step ap rq c w (snd (list_jobs ap rq c jq w))"
| "api_step ap rq c w (snd (get_job ap rq c n w))"
| "api_step ap rq c w (snd (download_results ap rq c n failed w))"
| "api_step ap rq c w (snd (list_rows rq c n jq w))"
| "api_step ap rq c w (snd (list_row_steps rq c n i w))"
| "api_step ap rq c w (snd (stream_updates rq c n w))"
| "api_step ap rq c w (snd (create_template ap rq c cr w))"
| "api_step ap rq c w (snd (create_version ap rq c n cr w))"
| "api_step ap rq c w (snd (publish_template ap rq c n w))"
| "api_step ap rq c w (snd (delete_template rq c n w))"
| "api_step ap rq c w (snd (list_templates ap rq c lq w))"
| "api_step ap rq c w (snd (get_template rq c n w))"
| "api_step ap rq c w (snd (list_versions rq c n w))"
| "api_step ap rq c w (snd (create_schedule ap rq c cs w))"
| "api_step ap rq c w (snd (update_schedule ap rq c n us w))"
| "api_step ap rq c w (snd (delete_schedule ap rq c n w))"
| "api_step ap rq c w (snd (pause_schedule ap rq c n w))"
| "api_step ap rq c w (snd (resume_schedule ap rq c n w))"
| "api_step ap rq c w (snd (trigger_schedule ap rq c n w))"
| "api_step ap rq c w (snd (list_schedules ap rq c w))"
| "api_step ap rq c w (snd (get_schedule rq c n w))"
| "api_step ap rq c w (snd (list_runs ap rq c n w))"
| "api_step ap rq c w (snd (create_batch ap rq c bc w))"
| "api_step ap rq c w (snd (list_batches ap rq c bq w))"
| "api_step ap rq c w (snd (get_batch rq c n w))"
| "api_step ap rq c w (snd (create_connector ap rq c cc w))"
| "api_step ap rq c w (snd (delete_connector rq c n w))"
| "api_step ap rq c w (snd (test_connector ap rq c n w))"
| "api_step ap rq c w (snd (list_connectors ap rq c w))"
| "api_step ap rq c w (snd (get_connector rq c n w))"
| "api_step ap rq c w (snd (put_secret ap rq c name val w))"
| "api_step ap rq c w (snd (revoke_secret rq c name w))"
| "api_step ap rq c w (snd (list_secrets ap rq c w))"
| "api_step ap rq c w (snd (get_secret rq c name w))"
| "api_step ap rq c w (snd (create_spec ap rq c cp w))"
| "api_step ap rq c w (snd (delete_spec rq c n w))"
| "api_step ap rq c w (snd (list_specs ap rq c w))"
| "api_step ap rq c w (snd (get_spec rq c n w))"
| "api_step ap rq c w (snd (list_operations ap rq c n w))"
| "api_step ap rq c w (snd (put_config ap rq c pc w))"
| "api_step ap rq c w (snd (get_config rq c w))"
| "api_step ap rq c w (snd (suggest_mapping ap rq c sg w))"
| "api_step ap rq c w (snd (upload_file ap rq c parts w))"
| "api_step ap rq c w (snd (sample_file ap rq c sp w))"
| "api_step ap rq c w (snd (login ap rq email password w))"
| "api_step ap rq c w (snd (me rq c w))"

context store_laws
begin

lemma pres_read: "relies Q rq \<Longrightarrow> preserves (on_db Q) (sqlE rq err (\<lambda>now d. (f d, d)))"
  by (rule pres_sqlE) (simp_all add: db_refl)

lemma pres_download: "relies Q rq \<Longrightarrow> preserves (on_db Q) (download_results ap rq c n failed)"
  unfolding download_results_def stream_results_from_db_def Let_def
  by (intro pres_bind pres_query) (auto split: option.split s3_reply.split intro!: handler_rules)

lemma pres_reads:
  assumes "relies Q rq"
  shows "preserves (on_db Q) (list_jobs ap rq c jq)" "preserves (on_db Q) (get_job ap rq c n)"
    "preserves (on_db Q) (list_rows rq c n jq)" "preserves (on_db Q) (list_row_steps rq c n i)"
    "preserves (on_db Q) (stream_updates rq c n)" "preserves (on_db Q) (list_templates ap rq c lq)"
    "preserves (on_db Q) (get_template rq c n)" "preserves (on_db Q) (list_versions rq c n)"
    "preserves (on_db Q) (list_schedules ap rq c)" "preserves (on_db Q) (get_schedule rq c n)"
    "preserves (on_db Q) (list_runs ap rq c n)" "preserves (on_db Q) (list_batches ap rq c bq)"
    "preserves (on_db Q) (get_batch rq c n)" "preserves (on_db Q) (list_connectors ap rq c)"
    "preserves (on_db Q) (get_connector rq c n)" "preserves (on_db Q) (list_secrets ap rq c)"
    "preserves (on_db Q) (get_secret rq c name)"
  unfolding list_jobs_def get_job_def list_rows_def list_row_steps_def stream_updates_def require_owned_def
    list_templates_def get_template_def list_versions_def list_schedules_def get_schedule_def list_runs_def
    list_batches_def get_batch_def list_connectors_def get_connector_def list_secrets_def get_secret_def
  by (intro handler_rules pres_read pres_key_of assms)+

lemma pres_other_reads:
  assumes "relies Q rq"
  shows "preserves (on_db Q) (list_specs ap rq c)" "preserves (on_db Q) (get_spec rq c n)"
    "preserves (on_db Q) (list_operations ap rq c n)" "preserves (on_db Q) (get_config rq c)"
    "preserves (on_db Q) (login ap rq email password)" "preserves (on_db Q) (me rq c)"
  unfolding list_specs_def get_spec_def list_operations_def get_config_def login_def me_def
  by (intro handler_rules assms)+

lemma pres_sample_file: "relies Q rq \<Longrightarrow> preserves (on_db Q) (sample_file ap rq c sp)"
  unfolding sample_file_def
  by (intro pres_bind pres_require_role pres_lift pres_resolve_object)
    (auto split: range_reply.split intro!: handler_rules)

lemmas pres_writes = pres_create_job pres_pause_job pres_resume_job pres_cancel_job pres_retry_export pres_retry_row
  pres_retry_all_failed pres_create_template pres_create_version pres_publish_template pres_delete_template
  pres_create_schedule pres_update_schedule pres_delete_schedule pres_pause_schedule pres_resume_schedule
  pres_trigger_schedule pres_create_batch pres_create_connector pres_delete_connector pres_put_secret pres_revoke_secret
  pres_create_spec pres_delete_spec pres_put_config pres_suggest_mapping pres_upload_file

lemma preserves_run: "preserves (on_db Q) m \<Longrightarrow> Q (w_db w) (w_db (snd (m w)))"
  by (simp add: preserves_def on_db_def)

lemma api_step_within:
  assumes "api_step ap rq c w w'" and "relies Q rq" and "cl_org c = own"
  shows "Q (w_db w) (w_db w')"
  using assms(1)
  by (induction rule: api_step.induct)
    (intro preserves_run pres_writes pres_reads pres_other_reads pres_sample_file pres_download pres_test_connector assms(2,3))+

end

end
