(* ===== verification/Gate_Facts.thy ===== *)
theory Gate_Facts
  imports Handler_Frame
begin

text \<open>
  What reaches the orchestrator. The locale \<open>sending\<close> carries the proofs that a handler sends only
  requests of an allowed form; it is interpreted on what may be sent without a valid license, and a second
  framing on callers whose role allows no change at all.
\<close>

section \<open>Requests of an allowed form\<close>

definition sends_only :: "(string \<times> json \<Rightarrow> bool) \<Rightarrow> world \<Rightarrow> world \<Rightarrow> bool" where
  "sends_only A w w' \<longleftrightarrow> (\<exists>new. w_sent w' = new @ w_sent w \<and> list_all A new)"

locale sending =
  fixes A :: "string \<times> json \<Rightarrow> bool"

sublocale sending \<subseteq> framing "sends_only A"
proof
  fix w w' w'' :: world
  show "sends_only A w w" by (simp add: sends_only_def)
  assume "sends_only A w w'" and "sends_only A w' w''"
  then show "sends_only A w w''" unfolding sends_only_def by (metis append.assoc list_all_append)
qed

context sending
begin

lemma sends_sqlE: "preserves (sends_only A) (sqlE rq err f)"
  by (auto simp: preserves_def sqlE_def sends_only_def Let_def split_beta split: sum.split option.split)

lemma sends_query: "preserves (sends_only A) (query rq f)"
  unfolding query_def by (rule sends_sqlE)

lemma sends_execute: "preserves (sends_only A) (execute rq f)"
  unfolding execute_def by (rule sends_sqlE)

lemma sends_audit: "preserves (sends_only A) (record_audit rq org actor entity eid action before after)"
  unfolding record_audit_def by (rule sends_sqlE)

lemma sends_role: "preserves (sends_only A) (require_role c roles)"
  unfolding require_role_def by (intro pres_if pres_ok pres_throw)

lemma sends_gate: "preserves (sends_only A) (gate rq)"
  unfolding gate_def by (rule pres_lift)

lemma sends_user: "preserves (sends_only A) (user_id c)"
  unfolding user_id_def by (rule pres_lift)

lemma sends_post: "A (path, body) \<Longrightarrow> preserves (sends_only A) (post ap rq path body)"
  by (auto simp: preserves_def sends_only_def post_sent)

lemma sends_post_unit: "A (path, body) \<Longrightarrow> preserves (sends_only A) (post_unit ap rq path body)"
  by (auto simp: preserves_def sends_only_def post_unit_sent)

lemma sends_start: "A (''/v1/workflows/start'', start_body wid wt input) \<Longrightarrow>
    preserves (sends_only A) (start_workflow ap rq wid wt input)"
  by (auto simp: preserves_def sends_only_def start_workflow_sent)

lemma sends_lost: "preserves (sends_only A) (transition_lost rq org jid action)"
  unfolding transition_lost_def Let_def by (intro pres_rules sends_query)

lemma sends_target: "preserves (sends_only A) (action_target rq org jid action from)"
  unfolding action_target_def by (intro pres_rules sends_query)

lemma sends_on_temporal: "(\<And>x. preserves (sends_only A) (f x)) \<Longrightarrow> preserves (sends_only A) (on_temporal t f)"
  by (cases t) (auto simp: on_temporal_def intro: pres_ok)

lemmas sends_rules = pres_rules sends_sqlE sends_query sends_execute sends_audit sends_role sends_gate sends_user
  sends_lost sends_target sends_on_temporal sends_post_unit sends_start

end

section \<open>Without a license\<close>

text \<open>
  What may still be sent: stopping things, changing the timing of a schedule, testing a connector and
  exporting the results of a finished job.
\<close>

definition harmless :: "string \<times> json \<Rightarrow> bool" where
  "harmless m \<longleftrightarrow> fst m \<in> {''/v1/workflows/cancel'', ''/v1/schedules/update'', ''/v1/schedules/pause'',
        ''/v1/schedules/delete'', ''/v1/connectors/sftp/test''}
     \<or> fst m = ''/v1/workflows/start'' \<and> jget_str (snd m) ''workflowType'' = Some ''ExportResultsWorkflow''
     \<or> fst m = ''/v1/workflows/signal'' \<and> jget_str (snd m) ''signal'' = Some ''pause''"

interpretation unlicensed: sending harmless .

lemma harmless_simps:
  "harmless (''/v1/workflows/cancel'', b)" "harmless (''/v1/schedules/update'', b)" "harmless (''/v1/schedules/pause'', b)"
  "harmless (''/v1/schedules/delete'', b)" "harmless (''/v1/connectors/sftp/test'', b)"
  "harmless (''/v1/workflows/start'', start_body wid ''ExportResultsWorkflow'' input)"
  "harmless (''/v1/workflows/signal'', json_obj [(''workflowId'', JStr wid), (''signal'', JStr ''pause''), (''payload'', p)])"
  by (simp_all add: harmless_def start_body_def jget_str_def)

lemma gate_closed: "require_licensed (rq_license rq) (rq_now rq) = Inl e \<Longrightarrow> gate rq = throw e"
  by (simp add: gate_def lift_def throw_def)

lemma bindE_throw [simp]: "bindE (throw e) f = throw e"
  by (simp add: bindE_def throw_def)

lemma sends_gated:
  assumes "require_licensed (rq_license rq) (rq_now rq) = Inl e"
  shows "preserves (sends_only harmless) (create_job ap rq c jc)" "preserves (sends_only harmless) (resume_job ap rq c n)"
    "preserves (sends_only harmless) (retry_row ap rq c n i body)"
    "preserves (sends_only harmless) (retry_all_failed ap rq c n body)"
    "preserves (sends_only harmless) (create_schedule ap rq c cs)" "preserves (sends_only harmless) (resume_schedule ap rq c n)"
    "preserves (sends_only harmless) (trigger_schedule ap rq c n)" "preserves (sends_only harmless) (create_batch ap rq c bc)"
  unfolding create_job_def resume_job_def retry_row_def retry_all_failed_def create_schedule_def resume_schedule_def
    trigger_schedule_def create_batch_def gate_closed [OF assms] bindE_throw
  by (intro unlicensed.sends_rules)+

lemma sends_pause_job: "preserves (sends_only harmless) (pause_job ap rq c n)"
  unfolding pause_job_def signal_and_record_def signal_workflow_def audit_job_def
  by (intro unlicensed.sends_rules harmless_simps | auto split: sum.split temporal_error.split
      intro!: unlicensed.sends_rules harmless_simps)+

lemma sends_cancel_job: "preserves (sends_only harmless) (cancel_job ap rq c n)"
  unfolding cancel_job_def cancel_workflow_def audit_job_def
  by (intro unlicensed.sends_rules harmless_simps | auto split: sum.split temporal_error.split
      intro!: unlicensed.sends_rules harmless_simps)+

lemma sends_retry_export: "preserves (sends_only harmless) (retry_export ap rq c n)"
  unfolding retry_export_def audit_job_def Let_def by (intro unlicensed.sends_rules harmless_simps)

lemma sends_schedule_ops:
  "preserves (sends_only harmless) (bridge_pause_schedule ap rq t)"
  "preserves (sends_only harmless) (bridge_delete_schedule ap rq t)"
  "preserves (sends_only harmless) (bridge_update_schedule ap rq t spec input)"
  unfolding bridge_pause_schedule_def bridge_delete_schedule_def bridge_update_schedule_def schedule_op_def
  by (intro unlicensed.sends_post_unit harmless_simps)+

lemma sends_update_schedule:
  assumes "require_licensed (rq_license rq) (rq_now rq) = Inl e"
  shows "preserves (sends_only harmless) (update_schedule ap rq c n us)"
proof (cases "up_enabled us = Some True")
  case True
  then show ?thesis
    unfolding update_schedule_def by (simp add: gate_closed [OF assms]) (intro unlicensed.sends_rules)
next
  case False
  then have "preserves (sends_only harmless) (apply_enabled ap rq (up_enabled us) x)" for x
    unfolding apply_enabled_def
    by (cases "up_enabled us") (auto intro!: unlicensed.sends_rules sends_schedule_ops)
  then show ?thesis
    unfolding update_schedule_def apply_spec_def apply_rest_def check_overlap_def audit_schedule_def Let_def
    by (intro unlicensed.sends_rules sends_schedule_ops)
qed

lemma sends_other_schedules:
  "preserves (sends_only harmless) (delete_schedule ap rq c n)" "preserves (sends_only harmless) (pause_schedule ap rq c n)"
  unfolding delete_schedule_def pause_schedule_def temporal_id_def audit_schedule_def
  by (intro unlicensed.sends_rules sends_schedule_ops)+

lemma sends_templates:
  "preserves (sends_only harmless) (create_template ap rq c cr)" "preserves (sends_only harmless) (create_version ap rq c n cr)"
  "preserves (sends_only harmless) (publish_template ap rq c n)" "preserves (sends_only harmless) (delete_template rq c n)"
  unfolding create_template_def create_version_def publish_template_def delete_template_def key_of_def audit_template_def Let_def
  by (intro unlicensed.sends_rules)+

lemma sends_connectors:
  "preserves (sends_only harmless) (create_connector ap rq c cc)" "preserves (sends_only harmless) (delete_connector rq c n)"
  "preserves (sends_only harmless) (test_connector ap rq c n)" "preserves (sends_only harmless) (put_secret ap rq c name val)"
  "preserves (sends_only harmless) (revoke_secret rq c name)"
  unfolding create_connector_def delete_connector_def test_connector_def test_sftp_connector_def put_secret_def
    revoke_secret_def Let_def
  by (intro unlicensed.sends_rules harmless_simps)+

lemma sends_suggest_loop: "preserves (sends_only harmless) (suggest_loop n ap rq c r cfg key err msgs)"
  by (induction n arbitrary: err msgs)
    (auto simp: call_llm_def Let_def sends_only_def intro!: unlicensed.sends_rules unlicensed.pres_fails)

lemma sends_upload_parts: "preserves (sends_only harmless) (upload_parts ap rq c parts)"
  by (induction ap rq c parts rule: upload_parts.induct)
    (auto simp: store_upload_def register_upload_def Let_def split: sum.split intro!: unlicensed.sends_rules)

lemma sends_lookup: "preserves (sends_only harmless) (resolve_object rq org sr)"
  by (cases sr) (auto simp: resolve_object_def lookup_object_def require_connector_def split: resolved_source.split
      intro!: unlicensed.sends_rules)

lemma sends_outside:
  "preserves (sends_only harmless) (create_spec ap rq c cp)" "preserves (sends_only harmless) (delete_spec rq c n)"
  "preserves (sends_only harmless) (list_specs ap rq c)" "preserves (sends_only harmless) (get_spec rq c n)"
  "preserves (sends_only harmless) (list_operations ap rq c n)" "preserves (sends_only harmless) (put_config ap rq c pc)"
  "preserves (sends_only harmless) (get_config rq c)" "preserves (sends_only harmless) (suggest_mapping ap rq c sg)"
  "preserves (sends_only harmless) (upload_file ap rq c parts)" "preserves (sends_only harmless) (login ap rq email password)"
  "preserves (sends_only harmless) (me rq c)"
  unfolding create_spec_def delete_spec_def list_specs_def get_spec_def list_operations_def put_config_def get_config_def
    suggest_mapping_def load_api_key_def target_operation_def upload_file_def login_def me_def Let_def
  by (intro unlicensed.sends_rules unlicensed.pres_fails sends_suggest_loop sends_upload_parts)+

lemma sends_sample: "preserves (sends_only harmless) (sample_file ap rq c sp)"
  unfolding sample_file_def
  by (intro unlicensed.pres_bind unlicensed.sends_role unlicensed.pres_lift sends_lookup)
    (auto split: range_reply.split intro!: unlicensed.sends_rules)

lemma sends_download: "preserves (sends_only harmless) (download_results ap rq c n failed)"
  unfolding download_results_def stream_results_from_db_def Let_def
  by (intro unlicensed.pres_bind unlicensed.sends_query) (auto split: option.split s3_reply.split intro!: unlicensed.sends_rules)

lemma sends_reads:
  "preserves (sends_only harmless) (list_jobs ap rq c jq)" "preserves (sends_only harmless) (get_job ap rq c n)"
  "preserves (sends_only harmless) (list_rows rq c n jq)" "preserves (sends_only harmless) (list_row_steps rq c n i)"
  "preserves (sends_only harmless) (stream_updates rq c n)" "preserves (sends_only harmless) (list_templates ap rq c lq)"
  "preserves (sends_only harmless) (get_template rq c n)" "preserves (sends_only harmless) (list_versions rq c n)"
  "preserves (sends_only harmless) (list_schedules ap rq c)" "preserves (sends_only harmless) (get_schedule rq c n)"
  "preserves (sends_only harmless) (list_runs ap rq c n)" "preserves (sends_only harmless) (list_batches ap rq c bq)"
  "preserves (sends_only harmless) (get_batch rq c n)" "preserves (sends_only harmless) (list_connectors ap rq c)"
  "preserves (sends_only harmless) (get_connector rq c n)" "preserves (sends_only harmless) (list_secrets ap rq c)"
  "preserves (sends_only harmless) (get_secret rq c name)"
  unfolding list_jobs_def get_job_def list_rows_def list_row_steps_def stream_updates_def require_owned_def key_of_def
    list_templates_def get_template_def list_versions_def list_schedules_def get_schedule_def list_runs_def
    list_batches_def get_batch_def list_connectors_def get_connector_def list_secrets_def get_secret_def
  by (intro unlicensed.sends_rules)+

lemma runs_sends: "preserves (sends_only A) m \<Longrightarrow> sends_only A w (snd (m w))"
  by (simp add: preserves_def)

lemma unlicensed_step:
  assumes "api_step ap rq c w w'" and "require_licensed (rq_license rq) (rq_now rq) = Inl e"
  shows "sends_only harmless w w'"
  using assms(1)
  by (induction rule: api_step.induct)
    (intro runs_sends sends_gated [OF assms(2)] sends_pause_job sends_cancel_job sends_retry_export
      sends_update_schedule [OF assms(2)] sends_other_schedules sends_templates sends_connectors sends_download sends_reads sends_outside sends_sample)+

section \<open>Roles that may not change anything\<close>

text \<open>With nothing else running, the world is as before: the same rows, and nothing sent.\<close>

definition idle :: "world \<Rightarrow> world \<Rightarrow> bool" where
  "idle w w' \<longleftrightarrow> w_db w' = w_db w \<and> w_sent w' = w_sent w"

interpretation idle: framing idle
  by unfold_locales (auto simp: idle_def)

definition alone :: "request \<Rightarrow> bool" where
  "alone rq \<longleftrightarrow> (\<forall>n d. rq_other rq n d = d)"

lemma idle_read: "alone rq \<Longrightarrow> preserves idle (sqlE rq err (\<lambda>now d. (f d, d)))"
  by (auto simp: preserves_def sqlE_def idle_def alone_def Let_def split: sum.split option.split)

lemma idle_query: "alone rq \<Longrightarrow> preserves idle (query rq f)"
  unfolding query_def by (rule idle_read)

lemma refused: "cl_role c \<notin> set roles \<Longrightarrow> require_role c roles = throw Forbidden"
  by (simp add: require_role_def)

lemma mapE_throw: "mapE f (throw e) = throw (f e)"
  by (simp add: mapE_def throw_def fun_eq_iff)

lemma idle_writes:
  assumes "cl_role c \<notin> {''admin'', ''editor'', ''operator''}"
  shows "preserves idle (create_job ap rq c jc)" "preserves idle (pause_job ap rq c n)" "preserves idle (resume_job ap rq c n)"
    "preserves idle (cancel_job ap rq c n)" "preserves idle (retry_export ap rq c n)" "preserves idle (retry_row ap rq c n i body)"
    "preserves idle (retry_all_failed ap rq c n body)" "preserves idle (create_template ap rq c cr)"
    "preserves idle (create_version ap rq c n cr)" "preserves idle (publish_template ap rq c n)"
    "preserves idle (delete_template rq c n)" "preserves idle (create_schedule ap rq c cs)"
    "preserves idle (update_schedule ap rq c n us)" "preserves idle (delete_schedule ap rq c n)"
    "preserves idle (pause_schedule ap rq c n)" "preserves idle (resume_schedule ap rq c n)"
    "preserves idle (trigger_schedule ap rq c n)" "preserves idle (create_batch ap rq c bc)"
    "preserves idle (create_connector ap rq c cc)" "preserves idle (delete_connector rq c n)"
    "preserves idle (test_connector ap rq c n)" "preserves idle (put_secret ap rq c name val)"
    "preserves idle (revoke_secret rq c name)" "preserves idle (list_secrets ap rq c)" "preserves idle (get_secret rq c name)"
    "preserves idle (create_spec ap rq c cp)" "preserves idle (delete_spec rq c n)" "preserves idle (put_config ap rq c pc)"
    "preserves idle (suggest_mapping ap rq c sg)" "preserves idle (upload_file ap rq c parts)"
  using assms
  by (simp_all add: create_job_def pause_job_def resume_job_def cancel_job_def retry_export_def retry_row_def
      retry_all_failed_def create_template_def create_version_def publish_template_def delete_template_def
      create_schedule_def update_schedule_def delete_schedule_def pause_schedule_def resume_schedule_def
      trigger_schedule_def create_batch_def create_connector_def delete_connector_def test_connector_def
      put_secret_def revoke_secret_def list_secrets_def get_secret_def create_spec_def delete_spec_def put_config_def
      suggest_mapping_def fails_def upload_file_def operators_def refused mapE_throw idle.pres_throw)

lemma idle_download: "alone rq \<Longrightarrow> preserves idle (download_results ap rq c n failed)"
  unfolding download_results_def stream_results_from_db_def Let_def
  by (intro idle.pres_bind idle_query)
    (auto split: option.split s3_reply.split intro!: idle.pres_rules idle_query)

lemma idle_reads:
  assumes "alone rq"
  shows "preserves idle (list_jobs ap rq c jq)" "preserves idle (get_job ap rq c n)"
  "preserves idle (list_rows rq c n jq)" "preserves idle (list_row_steps rq c n i)"
  "preserves idle (stream_updates rq c n)" "preserves idle (list_templates ap rq c lq)"
  "preserves idle (get_template rq c n)" "preserves idle (list_versions rq c n)"
  "preserves idle (list_schedules ap rq c)" "preserves idle (get_schedule rq c n)"
  "preserves idle (list_runs ap rq c n)" "preserves idle (list_batches ap rq c bq)"
  "preserves idle (get_batch rq c n)" "preserves idle (list_connectors ap rq c)"
  "preserves idle (get_connector rq c n)"
  unfolding list_jobs_def get_job_def list_rows_def list_row_steps_def stream_updates_def require_owned_def key_of_def
    list_templates_def get_template_def list_versions_def list_schedules_def get_schedule_def list_runs_def
    list_batches_def get_batch_def list_connectors_def get_connector_def
  by (intro idle.pres_rules idle_query idle_read assms)+

lemma idle_other_reads:
  assumes "alone rq"
  shows "preserves idle (list_specs ap rq c)" "preserves idle (get_spec rq c n)" "preserves idle (list_operations ap rq c n)"
    "preserves idle (get_config rq c)" "preserves idle (login ap rq email password)" "preserves idle (me rq c)"
  unfolding list_specs_def get_spec_def list_operations_def get_config_def login_def me_def user_id_def
  by (intro idle.pres_rules idle_query assms)+

lemma idle_lookup: "alone rq \<Longrightarrow> preserves idle (resolve_object rq org sr)"
  by (cases sr) (auto simp: resolve_object_def lookup_object_def require_connector_def split: resolved_source.split
      intro!: idle.pres_rules idle_query)

lemma idle_role: "preserves idle (require_role c roles)"
  unfolding require_role_def by (intro idle.pres_rules)

lemma idle_sample: "alone rq \<Longrightarrow> preserves idle (sample_file ap rq c sp)"
  unfolding sample_file_def
  by (intro idle.pres_bind idle_role idle.pres_lift idle_lookup) (auto split: range_reply.split intro!: idle.pres_rules)

lemma runs_idle: "preserves idle m \<Longrightarrow> idle w (snd (m w))"
  by (simp add: preserves_def)

lemma viewer_step:
  assumes "api_step ap rq c w w'" and "alone rq" and "cl_role c \<notin> {''admin'', ''editor'', ''operator''}"
  shows "idle w w'"
  using assms(1)
  by (induction rule: api_step.induct)
    (intro runs_idle idle_writes [OF assms(3)] idle_reads [OF assms(2)] idle_other_reads [OF assms(2)]
      idle_sample [OF assms(2)] idle_download [OF assms(2)])+

end
