(* ===== verification/Query_Facts.thy ===== *)
theory Query_Facts
  imports App_State "HOL-Library.Multiset"
begin

text \<open>
  What the \<^verbatim>\<open>ORDER BY\<close> of the queries gives: the same rows, in order, when the comparison is a total
  preorder. The locale \<open>sort_order\<close> is interpreted beside the queries that sort.
\<close>

lemma mset_insert_by [simp]: "mset (insert_by le x xs) = add_mset x (mset xs)"
  by (induction xs) auto

lemma mset_order_by [simp]: "mset (order_by le xs) = mset xs"
  unfolding order_by_def by (induction xs) auto

lemma length_order_by [simp]: "length (order_by le xs) = length xs"
  using mset_order_by size_mset by metis

lemma distinct_order_by: "distinct (map f (order_by le xs)) \<longleftrightarrow> distinct (map f xs)"
  by (metis mset_eq_imp_distinct_iff mset_map mset_order_by)

locale sort_order =
  fixes le :: "'r \<Rightarrow> 'r \<Rightarrow> bool"
  assumes le_total: "le x y \<or> le y x"
    and le_trans: "le x y \<Longrightarrow> le y z \<Longrightarrow> le x z"
begin

lemma sorted_insert: "sorted_wrt le xs \<Longrightarrow> sorted_wrt le (insert_by le x xs)"
proof (induction xs)
  case (Cons y ys)
  then show ?case using le_total [of x y] by (auto intro: le_trans)
qed simp

lemma sorted_order_by: "sorted_wrt le (order_by le xs)"
  unfolding order_by_def by (induction xs) (auto intro: sorted_insert)

lemma take_order_by_first:
  assumes "x \<in> set (take n (order_by le xs))" and "y \<in> set xs" and "y \<notin> set (take n (order_by le xs))"
  shows "le x y"
proof -
  let ?ys = "order_by le xs"
  have "sorted_wrt le (take n ?ys @ drop n ?ys)" using sorted_order_by by simp
  then have "\<forall>a \<in> set (take n ?ys). \<forall>b \<in> set (drop n ?ys). le a b" by (simp add: sorted_wrt_append del: append_take_drop_id)
  moreover have "y \<in> set (drop n ?ys)"
    using assms(2,3) set_order_by [of le xs] by (metis Un_iff append_take_drop_id set_append)
  ultimately show ?thesis using assms(1) by blast
qed

end

end
