(* ===== verification/Templates_Facts.thy ===== *)
theory Templates_Facts
  imports Examples Gate_Facts Query_Facts
begin

text \<open>
  What holds of rule templates: the cross-step checks accept exactly the templates whose references
  point to earlier steps and whose deliveries are complete, a new version is newer than every
  other of its key, and the overview lists the latest version of each key.
\<close>

section \<open>References between steps\<close>

text \<open>A value refers to a step when some object inside it has the key \<^verbatim>\<open>$fromResponse\<close> with that step's name.\<close>

inductive refers :: "json \<Rightarrow> string \<Rightarrow> bool" where
  here: "map_of m ''$fromResponse'' = Some (JStr s) \<Longrightarrow> refers (JObj m) s"
| field: "(k, v) \<in> set m \<Longrightarrow> refers v s \<Longrightarrow> refers (JObj m) s"
| item: "v \<in> set vs \<Longrightarrow> refers v s \<Longrightarrow> refers (JArr vs) s"

inductive_simps refers_simps: "refers (JObj m) s" "refers (JArr vs) s" "refers JNull s" "refers (JBool b) s"
  "refers (JNum n) s" "refers (JStr x) s"

lemma collect_refers:
  "s \<in> set (collect_response_refs v) \<longleftrightarrow> refers v s"
  "s \<in> set (collect_list vs) \<longleftrightarrow> (\<exists>v \<in> set vs. refers v s)"
  "s \<in> set (collect_entries m) \<longleftrightarrow> (\<exists>(k, v) \<in> set m. refers v s)"
  by (induction v and vs and m rule: collect_response_refs_collect_list_collect_entries.induct)
    (auto simp: refers_simps split: option.splits json.splits)

definition step_refers :: "step \<Rightarrow> string \<Rightarrow> bool" where
  "step_refers s r \<longleftrightarrow> (\<exists>m. st_mapping s = Some m \<and> refers (JObj (mp_payload m)) r) \<or> refers (destination_json (st_destination s)) r"

lemma set_step_refs: "r \<in> set (step_refs s) \<longleftrightarrow> step_refers s r"
  unfolding step_refs_def step_refers_def
  by (cases "st_mapping s") (auto simp: collect_refers(1) simp del: collect_response_refs.simps)

lemma check_references_iff:
  "check_references seen ss = Inr () \<longleftrightarrow>
     distinct (map st_name ss) \<and> set (map st_name ss) \<inter> set seen = {}
     \<and> (\<forall>i < length ss. \<forall>r. step_refers (ss ! i) r \<longrightarrow> r \<in> set seen \<union> set (map st_name (take i ss)))"
proof (induction ss arbitrary: seen)
  case (Cons s ss)
  have ref: "List.find (\<lambda>r. r \<notin> set seen) (step_refs s) = None \<longleftrightarrow> (\<forall>r. step_refers s r \<longrightarrow> r \<in> set seen)"
    by (auto simp: find_None_iff set_step_refs)
  have all: "(\<forall>i < length (s # ss). P i) \<longleftrightarrow> P 0 \<and> (\<forall>i < length ss. P (Suc i))" for P
    by (auto simp: less_Suc_eq_0_disj)
  show ?case
    unfolding all using ref Cons.IH [of "seen @ [st_name s]"] by (auto split: option.splits)
qed simp

text \<open>
  C22: The cross-step check accepts a template exactly when its step names are distinct and every
  reference to a response, at any depth of a step's mapping or destination, names a strictly
  earlier step.
\<close>

theorem references_point_backwards:
  "validate_step_references t = Inr () \<longleftrightarrow>
     distinct (map st_name (execution_steps t))
     \<and> (\<forall>i < length (execution_steps t). \<forall>r. step_refers (execution_steps t ! i) r \<longrightarrow>
          r \<in> set (map st_name (take i (execution_steps t))))"
  by (simp add: validate_step_references_def check_references_iff)

definition demo_step :: "string \<Rightarrow> json btree \<Rightarrow> step" where
  "demo_step name payload = \<lparr>st_name = name, st_description = None, st_mapping = Some \<lparr>mp_payload = payload\<rparr>,
     st_destination = demo_dest, st_on_failure = None\<rparr>"

definition demo_chain :: rule_template where
  "demo_chain = demo_template\<lparr>tm_mapping := None, tm_destination := None,
     tm_steps := Some [demo_step ''a'' [], demo_step ''b'' [(''x'', JObj [(''$fromResponse'', JStr ''a'')])]]\<rparr>"

theorem references_point_backwards_witness:
  "validate_step_references demo_chain = Inr () \<and> step_refers (execution_steps demo_chain ! 1) ''a''
   \<and> ''a'' \<in> set (map st_name (take 1 (execution_steps demo_chain)))"
proof -
  have v: "validate_step_references demo_chain = Inr ()" by code_simp
  have n: "1 < length (execution_steps demo_chain)" by code_simp
  have "''a'' \<in> set (step_refs (execution_steps demo_chain ! 1))" by code_simp
  then have r: "step_refers (execution_steps demo_chain ! 1) ''a''" by (simp add: set_step_refs)
  from v n r references_point_backwards [of demo_chain] show ?thesis by blast
qed

section \<open>Deliveries\<close>

text \<open>
  The delivery check accepts a template exactly when the runtime can carry out every step: each
  authentication is of a supported type and names a secret; an idempotent delivery has its header, a
  lookup delivery has its lookup, and no other mode carries one.
\<close>

theorem deliveries_complete:
  "validate_destinations t = Inr () \<longleftrightarrow>
     (\<forall>s \<in> set (execution_steps t). let d = st_destination s in
        (\<forall>a. de_auth d = Some a \<longrightarrow> at_type a \<noteq> Oauth2Client \<and> (\<exists>x. at_secret_ref a = Some x \<and> x \<noteq> []))
        \<and> (\<forall>dl. de_delivery d = Some dl \<longrightarrow>
             (dl_mode dl = Idempotent \<longrightarrow> (\<exists>h. de_idempotency_header d = Some h \<and> h \<noteq> []))
             \<and> (dl_mode dl = Lookup \<longleftrightarrow> dl_lookup dl \<noteq> None)))"
proof -
  have blank: "unwrap_or [] x = [] \<longleftrightarrow> \<not> (\<exists>y. x = Some y \<and> y \<noteq> [])" for x :: "string option"
    by (cases x) auto
  have one: "destination_problem d = None \<longleftrightarrow>
      (\<forall>a. de_auth d = Some a \<longrightarrow> at_type a \<noteq> Oauth2Client \<and> (\<exists>x. at_secret_ref a = Some x \<and> x \<noteq> []))
        \<and> (\<forall>dl. de_delivery d = Some dl \<longrightarrow>
             (dl_mode dl = Idempotent \<longrightarrow> (\<exists>h. de_idempotency_header d = Some h \<and> h \<noteq> []))
             \<and> (dl_mode dl = Lookup \<longleftrightarrow> dl_lookup dl \<noteq> None))" for d
  proof -
    have m: "dl_mode dl = Idempotent \<or> dl_mode dl = Lookup \<or> dl_mode dl = Manual" for dl
      by (cases "dl_mode dl") auto
    show ?thesis
      unfolding destination_problem_def Let_def blank
      by (cases "de_auth d"; cases "de_delivery d") (use m in auto)
  qed
  have "check_destinations ss = Inr () \<longleftrightarrow> (\<forall>s \<in> set ss. destination_problem (st_destination s) = None)" for ss
    by (induction ss) (auto split: option.splits)
  then show ?thesis unfolding validate_destinations_def Let_def one by simp
qed

theorem deliveries_complete_witness:
  "validate_destinations demo_chain = Inr () \<and> at_type (the (de_auth demo_dest)) \<noteq> Oauth2Client"
proof -
  have v: "validate_destinations demo_chain = Inr ()" by code_simp
  have s: "demo_step ''a'' [] \<in> set (execution_steps demo_chain)" "st_destination (demo_step ''a'' []) = demo_dest"
    "de_auth demo_dest = Some \<lparr>at_type = Bearer, at_secret_ref = Some ''tok'', at_header_name = None\<rparr>"
    by (simp_all add: demo_chain_def execution_steps_def demo_step_def demo_dest_def)
  from v deliveries_complete [of demo_chain] s show ?thesis unfolding Let_def by force
qed

section \<open>Versions\<close>

lemma next_version_greater: "r \<in> set (versions_of org key d) \<Longrightarrow> rt_version r < next_version org key d"
proof -
  have upper: "x \<in> set (v # vs) \<Longrightarrow> x \<le> foldr max vs v" for x v :: int and vs
    by (induction vs) auto
  assume "r \<in> set (versions_of org key d)"
  then have r: "rt_version r \<in> set (map rt_version (versions_of org key d))" by simp
  show ?thesis
  proof (cases "map rt_version (versions_of org key d)")
    case Nil
    then show ?thesis using r by simp
  next
    case (Cons v vs)
    then have "rt_version r \<le> foldr max vs v" using r upper by metis
    then show ?thesis unfolding next_version_def Cons by simp
  qed
qed

text \<open>
  A new version of a template, when nothing else runs at the same time, is an unpublished row
  with the old key and the checked body, its version is greater than that of every other row of
  the key, and it is the only change to the templates.
\<close>

theorem version_is_newest:
  assumes "create_version ap rq c tid r w = (Inr row, w')" and "alone rq"
  shows "\<exists>old t. template_by_id (cl_org c) tid (w_db w) = Some old \<and> rt_template_key row = rt_template_key old
     \<and> rt_org_id row = cl_org c \<and> rt_schema_json row = cr_schema_json r \<and> validate_template ap (cr_schema_json r) = Inr t
     \<and> \<not> rt_published row
     \<and> (\<forall>x \<in> set (versions_of (cl_org c) (rt_template_key old) (w_db w)). rt_version x < rt_version row)
     \<and> db_templates (w_db w') = db_templates (w_db w) @ [row]"
proof -
  have a [simp]: "rq_other rq n d = d" for n d using assms(2) by (simp add: alone_def)
  from assms(1) obtain t old u now where t: "validate_template ap (cr_schema_json r) = Inr t"
    and old: "template_by_id (cl_org c) tid (w_db w) = Some old"
    and row: "fst (insert_template (cl_org c) (rt_template_key old) (next_version (cl_org c) (rt_template_key old) (w_db w))
        (cr_name r) (cr_schema_json r) u now (w_db w)) = Inr row"
    and db: "db_templates (w_db w') = db_templates (snd (insert_template (cl_org c) (rt_template_key old)
        (next_version (cl_org c) (rt_template_key old) (w_db w)) (cr_name r) (cr_schema_json r) u now (w_db w)))"
    unfolding create_version_def key_of_def audit_template_def by (force simp: act_simps Let_def)
  have "row = \<lparr>rt_id = db_next (w_db w) T_templates, rt_org_id = cl_org c, rt_template_key = rt_template_key old,
      rt_version = next_version (cl_org c) (rt_template_key old) (w_db w),
      rt_name = cr_name r, rt_schema_json = cr_schema_json r, rt_published = False, rt_created_by = Some u, rt_created_at = now\<rparr>"
    and "db_templates (w_db w') = db_templates (w_db w) @ [row]"
    using row db by (auto simp: insert_template_def Let_def split: if_splits)
  with t old next_version_greater [of _ "cl_org c" "rt_template_key old" "w_db w"] show ?thesis
    by (intro exI conjI ballI) simp_all
qed

definition demo_create :: create_request where
  "demo_create = \<lparr>cr_template_key = None, cr_name = ''T2'', cr_schema_json = rule_template_json demo_template\<rparr>"

lemma demo_alone: "alone demo_rq"
  by (simp add: alone_def demo_rq_def)

lemma demo_valid: "validate_template demo_app (cr_schema_json demo_create) = Inr demo_template"
proof -
  have "validate_step_references demo_template = Inr ()" "validate_destinations demo_template = Inr ()" by code_simp+
  then show ?thesis
    by (simp add: validate_template_def demo_create_def template_rt [OF demo_template_ok]) (simp add: demo_app_def)
qed

lemmas demo_site_lookups = demo_rq_def demo_claims_def demo_site_world_def demo_site_def demo_db_def demo_user_def
  demo_template_row_def template_by_id_def insert_template_def next_version_def versions_of_def org_exists_def
  user_exists_def bump_def Let_def demo_user_id

theorem version_is_newest_witness:
  "\<exists>row w'. create_version demo_app demo_rq demo_claims 3 demo_create demo_site_world = (Inr row, w')
     \<and> rt_template_key row = ''k'' \<and> 2 < rt_version row \<and> \<not> rt_published row"
proof -
  have "\<exists>row w'. create_version demo_app demo_rq demo_claims 3 demo_create demo_site_world = (Inr row, w')"
    by (simp add: create_version_def key_of_def audit_template_def act_simps demo_valid demo_site_lookups)
  then obtain row w' where r: "create_version demo_app demo_rq demo_claims 3 demo_create demo_site_world = (Inr row, w')"
    by blast
  have old: "template_by_id (cl_org demo_claims) 3 (w_db demo_site_world) = Some (demo_template_row 3 1 True)"
    and mem: "demo_template_row 4 2 False \<in> set (versions_of (cl_org demo_claims) ''k'' (w_db demo_site_world))"
    by (simp_all add: template_by_id_def versions_of_def demo_claims_def demo_site_world_def demo_site_def demo_template_row_def)
  have f: "rt_template_key (demo_template_row 3 1 True) = ''k''" "rt_version (demo_template_row 4 2 False) = 2"
    by (simp_all add: demo_template_row_def)
  obtain o' t where p: "template_by_id (cl_org demo_claims) 3 (w_db demo_site_world) = Some o'"
    "rt_template_key row = rt_template_key o'" "\<not> rt_published row"
    "\<forall>x \<in> set (versions_of (cl_org demo_claims) (rt_template_key o') (w_db demo_site_world)). rt_version x < rt_version row"
    using version_is_newest [OF r demo_alone] by blast
  have "o' = demo_template_row 3 1 True" using p(1) old by simp
  then have "rt_template_key row = ''k''" "2 < rt_version row" using p(2,4) mem f by fastforce+
  with r p(3) show ?thesis by blast
qed

section \<open>The overview\<close>

interpretation by_version: sort_order by_version_desc
  by unfold_locales (auto simp: by_version_desc_def)

lemma distinct_on_key_fresh: "r \<in> set (distinct_on_key seen rs) \<Longrightarrow> r \<in> set rs \<and> rt_template_key r \<notin> set seen"
  by (induction seen rs rule: distinct_on_key.induct) (auto split: if_splits)

lemma distinct_on_key_distinct: "distinct (map rt_template_key (distinct_on_key seen rs))"
proof (induction seen rs rule: distinct_on_key.induct)
  case (2 seen r rs)
  have "rt_template_key r \<notin> rt_template_key ` set (distinct_on_key (rt_template_key r # seen) rs)"
    using distinct_on_key_fresh by fastforce
  with 2 show ?case by simp
qed simp

lemma distinct_on_key_covers:
  "rt_template_key ` set rs \<subseteq> rt_template_key ` set (distinct_on_key seen rs) \<union> set seen"
proof (induction seen rs rule: distinct_on_key.induct)
  case (2 seen r rs)
  then show ?case by (cases "rt_template_key r \<in> set seen") simp_all
qed simp

lemma distinct_on_key_latest:
  "sorted_wrt by_version_desc rs \<Longrightarrow> r \<in> set (distinct_on_key seen rs) \<Longrightarrow> x \<in> set rs \<Longrightarrow>
   rt_template_key x = rt_template_key r \<Longrightarrow> rt_version x \<le> rt_version r"
proof (induction seen rs rule: distinct_on_key.induct)
  case (2 seen y rs)
  show ?case
  proof (cases "rt_template_key y \<in> set seen")
    case True
    with 2(4) have r: "r \<in> set (distinct_on_key seen rs)" by simp
    with True 2(6) have "x \<noteq> y" using distinct_on_key_fresh [OF r] by metis
    with 2(5) have "x \<in> set rs" by simp
    with 2(1) [OF True _ r] 2(3,6) show ?thesis by simp
  next
    case False
    show ?thesis
    proof (cases "r = y")
      case True
      with 2(3,5) show ?thesis by (auto simp: by_version_desc_def)
    next
      case other: False
      with False 2(4) have r: "r \<in> set (distinct_on_key (rt_template_key y # seen) rs)" by simp
      have "x \<noteq> y" using distinct_on_key_fresh [OF r] 2(6) by auto
      with 2(5) have "x \<in> set rs" by simp
      with 2(2) [OF False _ r] 2(3,6) show ?thesis by simp
    qed
  qed
qed simp

text \<open>
  The overview of templates shows each key once, with the row of greatest version among those the
  caller's organization owns and the filter asks for; at most 500 rows come back, and when the
  limit is not reached no key is missing.
\<close>

theorem latest_per_key:
  assumes "lq_template_key q = None" and "select_templates ap org q d = Inr rows"
  defines "own \<equiv> {r \<in> set (db_templates d). rt_org_id r = org \<and> matches_published (lq_published q) r}"
  shows "distinct (map rt_template_key rows) \<and> set rows \<subseteq> own
    \<and> (\<forall>r \<in> set rows. \<forall>x \<in> own. rt_template_key x = rt_template_key r \<longrightarrow> rt_version x \<le> rt_version r)
    \<and> length rows \<le> 500
    \<and> (int (length rows) < min (unwrap_or 100 (lq_limit q)) 500 \<longrightarrow> rt_template_key ` own = rt_template_key ` set rows)"
proof -
  define limit where "limit = min (unwrap_or 100 (lq_limit q)) 500"
  define mine where "mine = filter (\<lambda>r. rt_org_id r = org \<and> matches_published (lq_published q) r) (db_templates d)"
  define reps where "reps = distinct_on_key [] (order_by by_version_desc mine)"
  define page where "page = order_by (\<lambda>a b. ap_collate ap (rt_template_key a) (rt_template_key b)) reps"
  have own: "own = set mine" by (auto simp: own_def mine_def)
  have rows: "rows = take (nat limit) page" and pos: "0 \<le> limit"
    using assms(1,2) by (auto simp: select_templates_def limit_to_def Let_def limit_def mine_def reps_def page_def split: if_splits)
  have sub: "set rows \<subseteq> set reps" using set_take_subset [of "nat limit" page] by (simp add: rows page_def)
  have "distinct (map rt_template_key page)" by (simp add: page_def reps_def distinct_order_by distinct_on_key_distinct)
  then have "distinct (map rt_template_key rows)" unfolding rows by (metis distinct_take take_map)
  moreover have reps: "set reps \<subseteq> own"
    unfolding own reps_def using distinct_on_key_fresh set_order_by by (metis subsetI)
  moreover have keys: "rt_template_key ` own \<subseteq> rt_template_key ` set reps"
    using distinct_on_key_covers [of "order_by by_version_desc mine" "[]"] by (simp add: own reps_def)
  moreover have latest: "\<forall>r \<in> set reps. \<forall>x \<in> own. rt_template_key x = rt_template_key r \<longrightarrow> rt_version x \<le> rt_version r"
    unfolding own reps_def using distinct_on_key_latest [OF by_version.sorted_order_by] by simp
  moreover have "length rows \<le> 500" unfolding rows limit_def by simp
  moreover have "rt_template_key ` own = rt_template_key ` set rows" if "int (length rows) < limit"
  proof -
    have "length page < nat limit" using that pos unfolding rows by (auto simp: min_def split: if_splits)
    then have "set rows = set reps" by (simp add: rows page_def)
    then show ?thesis using keys reps by (simp add: image_mono subset_antisym)
  qed
  ultimately show ?thesis using sub unfolding limit_def by (meson subsetD subset_trans)
qed

definition demo_list :: list_query where
  "demo_list = \<lparr>lq_template_key = None, lq_published = None, lq_limit = None\<rparr>"

theorem latest_per_key_witness:
  "\<exists>rows. select_templates demo_app 1 demo_list demo_site = Inr rows \<and> map rt_id rows = [4]
     \<and> rt_version (demo_template_row 3 1 True) \<le> rt_version (hd rows) \<and> distinct (map rt_template_key rows)"
proof -
  have "(case select_templates demo_app 1 demo_list demo_site of Inr rs \<Rightarrow> map rt_id rs = [4] \<and> map rt_template_key rs = [''k''] | Inl _ \<Rightarrow> False)"
    by code_simp
  then obtain rows where r: "select_templates demo_app 1 demo_list demo_site = Inr rows" "map rt_id rows = [4]"
    "map rt_template_key rows = [''k'']"
    by (auto split: sum.splits)
  have n: "lq_template_key demo_list = None" "lq_published demo_list = None" by (simp_all add: demo_list_def)
  have one: "demo_template_row 3 1 True \<in> set (db_templates demo_site)" "rt_template_key (demo_template_row 3 1 True) = ''k''"
    "rt_version (demo_template_row 3 1 True) = 1" "rt_org_id (demo_template_row 3 1 True) = 1"
    by (simp_all add: demo_site_def demo_template_row_def)
  have k: "rt_template_key x = ''k''" if "x \<in> set rows" for x
    using that r(3) by (metis imageI list.set_map empty_iff insert_iff list.set(1,2))
  have "1 \<le> rt_version x" if "x \<in> set rows" for x
    using latest_per_key [OF n(1) r(1)] that k [OF that] one n(2) by (fastforce simp: matches_published_def)
  moreover have "distinct (map rt_template_key rows)" using latest_per_key [OF n(1) r(1)] by blast
  moreover have "hd rows \<in> set rows" using r(2) by (cases rows) simp_all
  ultimately show ?thesis using r(1,2) one(3) by (intro exI [of _ rows]) simp
qed

section \<open>A change without its record\<close>

text \<open>
  The audit record is a statement of its own: when the database stops answering between the two, the template stays
  published, the caller is told of an error, and nothing is recorded.
\<close>

lemma published_without_record:
  assumes "cl_role c \<in> {''admin'', ''editor''}" and "alone rq" and "fst (set_published (cl_org c) tid (w_db w)) = Some row"
    and "rq_outage rq (w_steps w) = None" and "rq_outage rq (w_steps w + 1) = Some e"
  shows "\<exists>w'. publish_template ap rq c tid w = (Inl (Database e), w') \<and> w_db w' = snd (set_published (cl_org c) tid (w_db w))
    \<and> db_audit (w_db w') = db_audit (w_db w)"
proof -
  have "require_role c [''admin'', ''editor''] = ok ()" using assms(1) by (auto simp: require_role_def)
  then have "publish_template ap rq c tid w = (Inl (Database e), w\<lparr>w_db := snd (set_published (cl_org c) tid (w_db w)), w_steps := w_steps w + 2\<rparr>)"
    using assms(2-) unfolding publish_template_def
    by (cases "set_published (cl_org c) tid (w_db w)")
      (simp add: bindE_def ok_def sqlE_def alone_def lift_def ok_or_def audit_template_def record_audit_def Let_def)
  then show ?thesis by (simp add: set_published_def Let_def)
qed

end
