(* ===== verification/Api_Facts.thy ===== *)
theory Api_Facts
  imports Handler_Frame Sources_Facts
begin

text \<open>
  What no request to the API can do, whatever it is and whatever runs beside it: touch another
  tenant's rows, move a finished job, change a published template, or remove an audit entry. Each is a
  relation between databases for which the laws of the store hold. What the rest of the
  system must keep for this is the same relation.
\<close>

lemma bump_simps [simp]:
  "db_orgs (bump t d) = db_orgs d" "db_users (bump t d) = db_users d" "db_templates (bump t d) = db_templates d"
  "db_connectors (bump t d) = db_connectors d" "db_jobs (bump t d) = db_jobs d" "db_job_rows (bump t d) = db_job_rows d"
  "db_schedules (bump t d) = db_schedules d" "db_sources (bump t d) = db_sources d" "db_batches (bump t d) = db_batches d"
  "db_secrets (bump t d) = db_secrets d" "db_audit (bump t d) = db_audit d" "db_specs (bump t d) = db_specs d"
  "db_llm_configs (bump t d) = db_llm_configs d"
  "db_next (bump t d) = (db_next d)(t := db_next d t + 1)"
  by (simp_all add: bump_def)

lemma rolled_back_simps [simp]:
  "db_templates (rolled_back d x) = db_templates d" "db_connectors (rolled_back d x) = db_connectors d"
  "db_jobs (rolled_back d x) = db_jobs d" "db_job_rows (rolled_back d x) = db_job_rows d"
  "db_schedules (rolled_back d x) = db_schedules d" "db_sources (rolled_back d x) = db_sources d"
  "db_batches (rolled_back d x) = db_batches d" "db_secrets (rolled_back d x) = db_secrets d"
  "db_audit (rolled_back d x) = db_audit d" "db_specs (rolled_back d x) = db_specs d"
  "db_llm_configs (rolled_back d x) = db_llm_configs d" "db_next (rolled_back d x) = db_next x"
  by (simp_all add: rolled_back_def)

lemmas statement_defs = insert_template_def set_published_def delete_draft_def insert_job_def mark_start_failed_def
  record_run_def transition_def upsert_source_def insert_batch_def mark_batch_failed_def mark_batch_running_def
  insert_schedule_def delete_schedules_def save_schedule_def set_enabled_def delete_connectors_def secret_tx_def
  revoke_row_def insert_secret_def upsert_spec_def delete_specs_def

text \<open>What a connector creation leaves: nothing new, or rows of the caller's organization.\<close>

lemma insert_secret_fields [simp]:
  "db_templates (snd (insert_secret org nm ct nonce k now d)) = db_templates d"
  "db_jobs (snd (insert_secret org nm ct nonce k now d)) = db_jobs d"
  "db_job_rows (snd (insert_secret org nm ct nonce k now d)) = db_job_rows d"
  "db_schedules (snd (insert_secret org nm ct nonce k now d)) = db_schedules d"
  "db_sources (snd (insert_secret org nm ct nonce k now d)) = db_sources d"
  "db_batches (snd (insert_secret org nm ct nonce k now d)) = db_batches d"
  "db_audit (snd (insert_secret org nm ct nonce k now d)) = db_audit d"
  "db_connectors (snd (insert_secret org nm ct nonce k now d)) = db_connectors d"
  "db_specs (snd (insert_secret org nm ct nonce k now d)) = db_specs d"
  "db_llm_configs (snd (insert_secret org nm ct nonce k now d)) = db_llm_configs d"
  "t \<noteq> T_secrets \<Longrightarrow> db_next (snd (insert_secret org nm ct nonce k now d)) t = db_next d t"
  "org \<noteq> ten \<Longrightarrow> filter (\<lambda>s. sc_org_id s = ten) (db_secrets (snd (insert_secret org nm ct nonce k now d)))
     = filter (\<lambda>s. sc_org_id s = ten) (db_secrets d)"
  by (simp_all add: insert_secret_def Let_def)

lemma insert_connector_fields [simp]:
  "db_templates (snd (insert_connector org nm k cfg sid u now d)) = db_templates d"
  "db_jobs (snd (insert_connector org nm k cfg sid u now d)) = db_jobs d"
  "db_job_rows (snd (insert_connector org nm k cfg sid u now d)) = db_job_rows d"
  "db_schedules (snd (insert_connector org nm k cfg sid u now d)) = db_schedules d"
  "db_sources (snd (insert_connector org nm k cfg sid u now d)) = db_sources d"
  "db_batches (snd (insert_connector org nm k cfg sid u now d)) = db_batches d"
  "db_audit (snd (insert_connector org nm k cfg sid u now d)) = db_audit d"
  "db_secrets (snd (insert_connector org nm k cfg sid u now d)) = db_secrets d"
  "db_specs (snd (insert_connector org nm k cfg sid u now d)) = db_specs d"
  "db_llm_configs (snd (insert_connector org nm k cfg sid u now d)) = db_llm_configs d"
  "t \<noteq> T_connectors \<Longrightarrow> db_next (snd (insert_connector org nm k cfg sid u now d)) t = db_next d t"
  "org \<noteq> ten \<Longrightarrow> filter (\<lambda>s. cn_org_id s = ten) (db_connectors (snd (insert_connector org nm k cfg sid u now d)))
     = filter (\<lambda>s. cn_org_id s = ten) (db_connectors d)"
  by (simp_all add: insert_connector_def Let_def)

definition secret_part :: "app \<Rightarrow> request \<Rightarrow> claims \<Rightarrow> create_connector_req \<Rightarrow> instant \<Rightarrow> db \<Rightarrow> (api_error + int option) \<times> db" where
  "secret_part ap rq c r now d = (case cc_secret r of
              None \<Rightarrow> (Inr None, d)
            | Some secret \<Rightarrow>
                (case encrypt ap rq secret of
                   Inl e \<Rightarrow> (Inl e, d)
                 | Inr (ct, nonce) \<Rightarrow>
                     (case insert_secret (cl_org c) (cc_name r @ ''-secret'') ct nonce ''internal'' now d of
                        (Inl e, d1) \<Rightarrow> (Inl (database e), d1)
                      | (Inr sid, d1) \<Rightarrow> (Inr (Some sid), d1))))"

lemma secret_part_db:
  "\<exists>ct nonce. snd (secret_part ap rq c r now d) = d
     \<or> snd (secret_part ap rq c r now d) = snd (insert_secret (cl_org c) (cc_name r @ ''-secret'') ct nonce ''internal'' now d)"
  by (auto simp: secret_part_def split: option.splits sum.splits prod.splits) (metis snd_conv)+

lemma connector_tx_db:
  "let d1 = snd (secret_part ap rq c r now d); d' = snd (connector_tx ap rq c r kind now d) in
     (\<exists>sid u. d' = snd (insert_connector (cl_org c) (cc_name r) kind (cc_config_json r) sid u now d1)
        \<or> d' = rolled_back d (snd (insert_connector (cl_org c) (cc_name r) kind (cc_config_json r) sid u now d1)))
     \<or> d' = rolled_back d d1"
proof -
  have tx: "connector_tx ap rq c r kind now d = (case secret_part ap rq c r now d of
        (Inl e, d1) \<Rightarrow> (Inl e, rolled_back d d1)
      | (Inr secret_id, d1) \<Rightarrow>
          (case parse_i64 (cl_sub c) of
             None \<Rightarrow> (Inl Unauthorized, rolled_back d d1)
           | Some created_by \<Rightarrow>
               (case insert_connector (cl_org c) (cc_name r) kind (cc_config_json r) secret_id created_by now d1 of
                  (Inl UniqueViolation, d2) \<Rightarrow>
                    (Inl (Conflict (''connector '' @ cc_name r @ '' already exists'')), rolled_back d d2)
                | (Inl e, d2) \<Rightarrow> (Inl (database e), rolled_back d d2)
                | (Inr row, d2) \<Rightarrow> (Inr row, d2))))"
    unfolding connector_tx_def secret_part_def ..
  show ?thesis
    unfolding tx Let_def
    by (auto split: sum.splits option.splits prod.splits db_error.splits) (metis snd_conv)+
qed

lemma secret_part_fields [simp]:
  "db_templates (snd (secret_part ap rq c r now d)) = db_templates d" "db_jobs (snd (secret_part ap rq c r now d)) = db_jobs d"
  "db_job_rows (snd (secret_part ap rq c r now d)) = db_job_rows d" "db_schedules (snd (secret_part ap rq c r now d)) = db_schedules d"
  "db_sources (snd (secret_part ap rq c r now d)) = db_sources d" "db_batches (snd (secret_part ap rq c r now d)) = db_batches d"
  "db_audit (snd (secret_part ap rq c r now d)) = db_audit d" "db_specs (snd (secret_part ap rq c r now d)) = db_specs d"
  "db_llm_configs (snd (secret_part ap rq c r now d)) = db_llm_configs d" "db_connectors (snd (secret_part ap rq c r now d)) = db_connectors d"
  "t \<noteq> T_secrets \<Longrightarrow> db_next (snd (secret_part ap rq c r now d)) t = db_next d t"
  "cl_org c \<noteq> ten \<Longrightarrow> filter (\<lambda>s. sc_org_id s = ten) (db_secrets (snd (secret_part ap rq c r now d)))
     = filter (\<lambda>s. sc_org_id s = ten) (db_secrets d)"
  using secret_part_db [of ap rq c r now d] by auto

lemma connector_tx_fields:
  shows "db_templates (snd (connector_tx ap rq c r kind now d)) = db_templates d"
    "db_jobs (snd (connector_tx ap rq c r kind now d)) = db_jobs d"
    "db_job_rows (snd (connector_tx ap rq c r kind now d)) = db_job_rows d"
    "db_schedules (snd (connector_tx ap rq c r kind now d)) = db_schedules d"
    "db_sources (snd (connector_tx ap rq c r kind now d)) = db_sources d"
    "db_batches (snd (connector_tx ap rq c r kind now d)) = db_batches d"
    "db_audit (snd (connector_tx ap rq c r kind now d)) = db_audit d"
    "db_specs (snd (connector_tx ap rq c r kind now d)) = db_specs d"
    "db_llm_configs (snd (connector_tx ap rq c r kind now d)) = db_llm_configs d"
    "t \<notin> {T_secrets, T_connectors} \<Longrightarrow> db_next (snd (connector_tx ap rq c r kind now d)) t = db_next d t"
    "cl_org c \<noteq> ten \<Longrightarrow> filter (\<lambda>s. sc_org_id s = ten) (db_secrets (snd (connector_tx ap rq c r kind now d)))
     = filter (\<lambda>s. sc_org_id s = ten) (db_secrets d)"
    "cl_org c \<noteq> ten \<Longrightarrow> filter (\<lambda>s. cn_org_id s = ten) (db_connectors (snd (connector_tx ap rq c r kind now d)))
     = filter (\<lambda>s. cn_org_id s = ten) (db_connectors d)"
  using connector_tx_db [of ap rq c r now d kind] unfolding Let_def by auto

text \<open>The same for the transaction that stores the LLM configuration with its key.\<close>

lemma filter_update_foreign:
  assumes "\<And>x. p x \<Longrightarrow> \<not> P x \<and> \<not> P (f x)"
  shows "filter P (update_where p f xs) = filter P xs"
  using assms by (induction xs) (auto simp: update_where_def)

lemma upsert_api_key_fields [simp]:
  "db_templates (snd (upsert_api_key org ct nonce now d)) = db_templates d"
  "db_jobs (snd (upsert_api_key org ct nonce now d)) = db_jobs d"
  "db_job_rows (snd (upsert_api_key org ct nonce now d)) = db_job_rows d"
  "db_schedules (snd (upsert_api_key org ct nonce now d)) = db_schedules d"
  "db_sources (snd (upsert_api_key org ct nonce now d)) = db_sources d"
  "db_batches (snd (upsert_api_key org ct nonce now d)) = db_batches d"
  "db_audit (snd (upsert_api_key org ct nonce now d)) = db_audit d"
  "db_connectors (snd (upsert_api_key org ct nonce now d)) = db_connectors d"
  "db_specs (snd (upsert_api_key org ct nonce now d)) = db_specs d"
  "db_llm_configs (snd (upsert_api_key org ct nonce now d)) = db_llm_configs d"
  "t \<noteq> T_secrets \<Longrightarrow> db_next (snd (upsert_api_key org ct nonce now d)) t = db_next d t"
  "org \<noteq> ten \<Longrightarrow> filter (\<lambda>s. sc_org_id s = ten) (db_secrets (snd (upsert_api_key org ct nonce now d)))
     = filter (\<lambda>s. sc_org_id s = ten) (db_secrets d)"
  by (auto simp: upsert_api_key_def upsert_secret_row_def Let_def split: option.split intro!: filter_update_foreign)

definition key_part :: "app \<Rightarrow> request \<Rightarrow> claims \<Rightarrow> put_config_req \<Rightarrow> instant \<Rightarrow> db \<Rightarrow> (api_error + int option) \<times> db" where
  "key_part ap rq c r now d = (case pc_api_key r of
              Some key \<Rightarrow>
                (case encrypt ap rq key of
                   Inl e \<Rightarrow> (Inl e, d)
                 | Inr (ct, nonce) \<Rightarrow>
                     (case upsert_api_key (cl_org c) ct nonce now d of
                        (Inl e, d1) \<Rightarrow> (Inl (database e), d1) | (Inr sid, d1) \<Rightarrow> (Inr (Some sid), d1)))
            | None \<Rightarrow> (Inr (Option.bind (llm_config (cl_org c) d) lc_secret_id), d))"

lemma key_part_db:
  "\<exists>ct nonce. snd (key_part ap rq c r now d) = d
     \<or> snd (key_part ap rq c r now d) = snd (upsert_api_key (cl_org c) ct nonce now d)"
  by (auto simp: key_part_def split: option.splits sum.splits prod.splits) (metis snd_conv)+

lemma key_part_fields [simp]:
  "db_templates (snd (key_part ap rq c r now d)) = db_templates d"
  "db_jobs (snd (key_part ap rq c r now d)) = db_jobs d"
  "db_job_rows (snd (key_part ap rq c r now d)) = db_job_rows d"
  "db_schedules (snd (key_part ap rq c r now d)) = db_schedules d"
  "db_sources (snd (key_part ap rq c r now d)) = db_sources d"
  "db_batches (snd (key_part ap rq c r now d)) = db_batches d"
  "db_audit (snd (key_part ap rq c r now d)) = db_audit d"
  "db_connectors (snd (key_part ap rq c r now d)) = db_connectors d"
  "db_specs (snd (key_part ap rq c r now d)) = db_specs d"
  "db_llm_configs (snd (key_part ap rq c r now d)) = db_llm_configs d"
  "t \<noteq> T_secrets \<Longrightarrow> db_next (snd (key_part ap rq c r now d)) t = db_next d t"
  "cl_org c \<noteq> ten \<Longrightarrow> filter (\<lambda>s. sc_org_id s = ten) (db_secrets (snd (key_part ap rq c r now d)))
     = filter (\<lambda>s. sc_org_id s = ten) (db_secrets d)"
  using key_part_db [of ap rq c r now d] by auto

lemma config_tx_db:
  "\<exists>row. lc_org_id row = cl_org c \<and> (let d1 = snd (key_part ap rq c r now d); d' = snd (config_tx ap rq c r provider u now d) in
     d' = snd (upsert_config row d1) \<or> d' = rolled_back d d1)"
proof -
  let ?row = "\<lambda>secret_id. \<lparr>lc_org_id = cl_org c, lc_provider = provider,
     lc_base_url = trim_end_matches (CHR ''/'') (pc_base_url r), lc_model = pc_model r, lc_secret_id = secret_id,
     lc_redact_pii = unwrap_or True (pc_redact_pii r), lc_enabled = unwrap_or True (pc_enabled r),
     lc_updated_by = Some u, lc_updated_at = now\<rparr>"
  have tx: "config_tx ap rq c r provider u now d = (case key_part ap rq c r now d of
        (Inl e, d1) \<Rightarrow> (Inl e, rolled_back d d1)
      | (Inr secret_id, d1) \<Rightarrow> (case upsert_config (?row secret_id) d1 of
             (Inl e, d2) \<Rightarrow> (Inl (database e), rolled_back d d2) | (Inr _, d2) \<Rightarrow> (Inr (), d2)))"
    unfolding config_tx_def key_part_def ..
  have same: "upsert_config row d1 = (Inl e, d2) \<Longrightarrow> d2 = d1" for row d1 e d2 by (auto simp: upsert_config_def split: if_splits)
  obtain x d1 where k: "key_part ap rq c r now d = (x, d1)" by fastforce
  show ?thesis
  proof (cases x)
    case (Inl e)
    then show ?thesis by (intro exI [of _ "?row None"]) (simp add: tx k)
  next
    case (Inr sid)
    then show ?thesis
      by (intro exI [of _ "?row sid"], cases "upsert_config (?row sid) d1") (auto simp: tx k dest: same split: sum.splits)
  qed
qed

lemma upsert_config_fields [simp]:
  "db_templates (snd (upsert_config row d)) = db_templates d"
  "db_jobs (snd (upsert_config row d)) = db_jobs d"
  "db_job_rows (snd (upsert_config row d)) = db_job_rows d"
  "db_schedules (snd (upsert_config row d)) = db_schedules d"
  "db_sources (snd (upsert_config row d)) = db_sources d"
  "db_batches (snd (upsert_config row d)) = db_batches d"
  "db_audit (snd (upsert_config row d)) = db_audit d"
  "db_connectors (snd (upsert_config row d)) = db_connectors d"
  "db_specs (snd (upsert_config row d)) = db_specs d"
  "db_secrets (snd (upsert_config row d)) = db_secrets d"
  "db_next (snd (upsert_config row d)) = db_next d"
  "lc_org_id row \<noteq> ten \<Longrightarrow> filter (\<lambda>x. lc_org_id x = ten) (db_llm_configs (snd (upsert_config row d)))
     = filter (\<lambda>x. lc_org_id x = ten) (db_llm_configs d)"
  by (auto simp: upsert_config_def intro!: filter_update_foreign)

lemma config_tx_fields:
  shows "db_templates (snd (config_tx ap rq c r provider u now d)) = db_templates d"
  "db_jobs (snd (config_tx ap rq c r provider u now d)) = db_jobs d"
  "db_job_rows (snd (config_tx ap rq c r provider u now d)) = db_job_rows d"
  "db_schedules (snd (config_tx ap rq c r provider u now d)) = db_schedules d"
  "db_sources (snd (config_tx ap rq c r provider u now d)) = db_sources d"
  "db_batches (snd (config_tx ap rq c r provider u now d)) = db_batches d"
  "db_audit (snd (config_tx ap rq c r provider u now d)) = db_audit d"
  "db_connectors (snd (config_tx ap rq c r provider u now d)) = db_connectors d"
  "db_specs (snd (config_tx ap rq c r provider u now d)) = db_specs d"
    "t \<noteq> T_secrets \<Longrightarrow> db_next (snd (config_tx ap rq c r provider u now d)) t = db_next d t"
    "cl_org c \<noteq> ten \<Longrightarrow> filter (\<lambda>s. sc_org_id s = ten) (db_secrets (snd (config_tx ap rq c r provider u now d)))
     = filter (\<lambda>s. sc_org_id s = ten) (db_secrets d)"
    "cl_org c \<noteq> ten \<Longrightarrow> filter (\<lambda>x. lc_org_id x = ten) (db_llm_configs (snd (config_tx ap rq c r provider u now d)))
     = filter (\<lambda>x. lc_org_id x = ten) (db_llm_configs d)"
  using config_tx_db [of c ap rq r now d provider u] unfolding Let_def by auto

section \<open>The audit log only grows\<close>

definition audit_grows :: "db \<Rightarrow> db \<Rightarrow> bool" where
  "audit_grows d d' \<longleftrightarrow> suffix (db_audit d) (db_audit d')"

lemma audit_growsI: "db_audit d' = db_audit d \<Longrightarrow> audit_grows d d'"
  by (simp add: audit_grows_def)

lemma audit_kept:
  "db_audit (snd (insert_template own key version name body u now d)) = db_audit d"
  "db_audit (snd (set_published own tid d)) = db_audit d" "db_audit (snd (delete_draft own tid d)) = db_audit d"
  "db_audit (snd (insert_job own tid version ref wid u now d)) = db_audit d"
  "db_audit (mark_start_failed jid m now d) = db_audit d" "db_audit (snd (record_run jid run now d)) = db_audit d"
  "db_audit (snd (transition own jid from f d)) = db_audit d" "db_audit (snd (upsert_source up d)) = db_audit d"
  "db_audit (snd (insert_batch own k ref wid now d)) = db_audit d" "db_audit (mark_batch_failed bid m now d) = db_audit d"
  "db_audit (snd (mark_batch_running bid run now d)) = db_audit d"
  "db_audit (snd (insert_schedule own r spec tz ov ca en si u now d)) = db_audit d"
  "db_audit (snd (delete_schedules hit d)) = db_audit d" "db_audit (snd (save_schedule own sid x now d)) = db_audit d"
  "db_audit (set_enabled own sid b now d) = db_audit d" "db_audit (snd (delete_connectors own kid d)) = db_audit d"
  "db_audit (snd (secret_tx own nm ct nonce now d)) = db_audit d" "db_audit (snd (revoke_row own nm now d)) = db_audit d"
  "db_audit (snd (upsert_spec own nm url spec u now d)) = db_audit d" "db_audit (snd (delete_specs own sid d)) = db_audit d"
  unfolding statement_defs Let_def by (auto split: option.split prod.split sum.split)

interpretation audit: uniform_laws audit_grows own for own
proof
  fix d1 d2 d3 :: db
  assume "audit_grows d1 d2" "audit_grows d2 d3"
  then show "audit_grows d1 d3" unfolding audit_grows_def by (rule suffix_order.trans)
next
  fix e and d :: db
  show "audit_grows d (d\<lparr>db_audit := e # db_audit d\<rparr>)" by (simp add: audit_grows_def suffix_Cons)
qed (auto intro!: audit_growsI simp: audit_kept connector_tx_fields config_tx_fields)

section \<open>Published templates are immutable\<close>

definition published_kept :: "db \<Rightarrow> db \<Rightarrow> bool" where
  "published_kept d d' \<longleftrightarrow> (\<forall>r \<in> set (db_templates d). rt_published r \<longrightarrow> r \<in> set (db_templates d'))"

lemma published_keptI: "db_templates d' = db_templates d \<Longrightarrow> published_kept d d'"
  by (simp add: published_kept_def)

lemma templates_kept:
  "db_templates (snd (insert_job own tid version ref wid u now d)) = db_templates d"
  "db_templates (mark_start_failed jid m now d) = db_templates d" "db_templates (snd (record_run jid run now d)) = db_templates d"
  "db_templates (snd (transition own jid from f d)) = db_templates d" "db_templates (snd (upsert_source up d)) = db_templates d"
  "db_templates (snd (insert_batch own k ref wid now d)) = db_templates d" "db_templates (mark_batch_failed bid m now d) = db_templates d"
  "db_templates (snd (mark_batch_running bid run now d)) = db_templates d"
  "db_templates (snd (insert_schedule own r spec tz ov ca en si u now d)) = db_templates d"
  "db_templates (snd (delete_schedules hit d)) = db_templates d" "db_templates (snd (save_schedule own sid x now d)) = db_templates d"
  "db_templates (set_enabled own sid b now d) = db_templates d" "db_templates (snd (delete_connectors own kid d)) = db_templates d"
  "db_templates (snd (secret_tx own nm ct nonce now d)) = db_templates d" "db_templates (snd (revoke_row own nm now d)) = db_templates d"
  "db_templates (snd (upsert_spec own nm url spec u now d)) = db_templates d" "db_templates (snd (delete_specs own sid d)) = db_templates d"
  unfolding statement_defs Let_def by (auto split: option.split prod.split sum.split)

interpretation published: uniform_laws published_kept own for own
proof
  fix d1 d2 d3 :: db
  assume "published_kept d1 d2" "published_kept d2 d3"
  then show "published_kept d1 d3" by (auto simp: published_kept_def)
next
  fix key version name body u now and d :: db
  show "published_kept d (snd (insert_template own key version name body u now d))"
    by (simp add: published_kept_def insert_template_def Let_def)
next
  fix tid and d :: db
  show "published_kept d (snd (set_published own tid d))"
    by (force simp: published_kept_def set_published_def update_where_def Let_def)
  show "published_kept d (snd (delete_draft own tid d))"
    by (simp add: published_kept_def delete_draft_def Let_def)
qed (auto intro!: published_keptI simp: templates_kept connector_tx_fields config_tx_fields)

section \<open>The lifecycle of jobs\<close>

text \<open>
  How a job may look later: the same job, its status moved along the edges of the lifecycle, and, once
  finished, with its outcome as it was.
\<close>

definition job_later :: "job_row \<Rightarrow> job_row \<Rightarrow> bool" where
  "job_later j j' \<longleftrightarrow> jb_id j' = jb_id j \<and> jb_org_id j' = jb_org_id j \<and> jb_rule_template_id j' = jb_rule_template_id j
     \<and> jb_source_ref j' = jb_source_ref j \<and> jb_temporal_workflow_id j' = jb_temporal_workflow_id j
     \<and> (jb_status j, jb_status j') \<in> job_edges\<^sup>*
     \<and> (jb_status j \<notin> set CANCELLABLE \<longrightarrow> jb_status j' = jb_status j \<and> jb_totals_json j' = jb_totals_json j
          \<and> jb_finished_at j' = jb_finished_at j \<and> jb_last_error j' = jb_last_error j)"

definition jobs_advance :: "db \<Rightarrow> db \<Rightarrow> bool" where
  "jobs_advance d d' \<longleftrightarrow> (\<forall>j \<in> set (db_jobs d). \<exists>j' \<in> set (db_jobs d'). job_later j j')"

lemma job_later_refl: "job_later j j"
  by (simp add: job_later_def)

lemma job_later_trans: "job_later a b \<Longrightarrow> job_later b c \<Longrightarrow> job_later a c"
  unfolding job_later_def by (auto intro: rtrancl_trans)

lemma jobs_advanceI: "db_jobs d' = db_jobs d \<Longrightarrow> jobs_advance d d'"
  unfolding jobs_advance_def using job_later_refl by auto

lemma jobs_advance_update:
  assumes "db_jobs d' = update_where p f (db_jobs d)" and "\<And>j. p j \<Longrightarrow> job_later j (f j)"
  shows "jobs_advance d d'"
  unfolding jobs_advance_def
proof
  fix j assume "j \<in> set (db_jobs d)"
  then have "(if p j then f j else j) \<in> set (db_jobs d')" by (auto simp: assms(1) update_where_def)
  moreover have "job_later j (if p j then f j else j)" using assms(2) job_later_refl by simp
  ultimately show "\<exists>j' \<in> set (db_jobs d'). job_later j j'" by blast
qed

lemma edge_later: "(a, b) \<in> job_edges \<Longrightarrow> a \<in> set CANCELLABLE"
  by (auto simp: job_edges_def CANCELLABLE_def)

lemma jobs_kept:
  "db_jobs (snd (insert_template own key version name body u now d)) = db_jobs d"
  "db_jobs (snd (set_published own tid d)) = db_jobs d" "db_jobs (snd (delete_draft own tid d)) = db_jobs d"
  "db_jobs (snd (upsert_source up d)) = db_jobs d"
  "db_jobs (snd (insert_batch own k ref wid now d)) = db_jobs d" "db_jobs (mark_batch_failed bid m now d) = db_jobs d"
  "db_jobs (snd (mark_batch_running bid run now d)) = db_jobs d"
  "db_jobs (snd (insert_schedule own r spec tz ov ca en si u now d)) = db_jobs d"
  "db_jobs (snd (save_schedule own sid x now d)) = db_jobs d"
  "db_jobs (set_enabled own sid b now d) = db_jobs d" "db_jobs (snd (delete_connectors own kid d)) = db_jobs d"
  "db_jobs (snd (secret_tx own nm ct nonce now d)) = db_jobs d" "db_jobs (snd (revoke_row own nm now d)) = db_jobs d"
  "db_jobs (snd (upsert_spec own nm url spec u now d)) = db_jobs d" "db_jobs (snd (delete_specs own sid d)) = db_jobs d"
  unfolding statement_defs Let_def by (auto split: option.split prod.split sum.split)

lemma advance_delete_schedules: "jobs_advance d (snd (delete_schedules hit d))"
  by (rule jobs_advance_update [where f = "\<lambda>j. j\<lparr>jb_schedule_id := None\<rparr>"])
    (simp_all add: delete_schedules_def Let_def job_later_def)

interpretation lifecycle: uniform_laws jobs_advance own for own
proof
  fix d1 d2 d3 :: db
  assume "jobs_advance d1 d2" "jobs_advance d2 d3"
  then show "jobs_advance d1 d3" unfolding jobs_advance_def by (meson job_later_trans)
next
  fix tid version ref wid u now and d :: db
  show "jobs_advance d (snd (insert_job own tid version ref wid u now d))"
    unfolding jobs_advance_def using job_later_refl by (auto simp: insert_job_def Let_def)
next
  fix "from" f jid and d :: db
  assume "lawful_change from f"
  then show "jobs_advance d (snd (transition own jid from f d))"
    by (intro jobs_advance_update [where f = f and p = "\<lambda>j. jb_id j = jid \<and> jb_org_id j = own \<and> jb_status j \<in> set from"])
      (auto simp: transition_def Let_def job_later_def lawful_change_def dest: edge_later)
next
  fix jid message t run and d :: db
  show "jobs_advance d (mark_start_failed jid message t d)"
    by (rule jobs_advance_update [OF _ , where f = "\<lambda>j. j\<lparr>jb_status := ''failed'', jb_last_error := Some message,
          jb_finished_at := Some t, jb_updated_at := t\<rparr>"], simp add: mark_start_failed_def)
      (auto simp: job_later_def job_edges_def CANCELLABLE_def)
  have "snd (record_run jid run t d) = d\<lparr>db_jobs := update_where (\<lambda>j. jb_id j = jid)
            (\<lambda>j. j\<lparr>jb_status := (if jb_status j = ''pending'' then ''running'' else jb_status j),
               jb_temporal_run_id := Some run, jb_started_at := or_else (jb_started_at j) (Some t),
               jb_updated_at := t\<rparr>) (db_jobs d)\<rparr>"
    by (simp add: record_run_def Let_def split: option.split)
  then show "jobs_advance d (snd (record_run jid run t d))"
    by (intro jobs_advance_update [where p = "\<lambda>j. jb_id j = jid"])
      (auto simp: job_later_def job_edges_def CANCELLABLE_def)
qed (auto intro!: jobs_advanceI advance_delete_schedules simp: jobs_kept connector_tx_fields config_tx_fields)

end
