(* ===== verification/Tenant_Facts.thy ===== *)
theory Tenant_Facts
  imports Api_Facts
begin

text \<open>
  Isolation of tenants: a request leaves every row of another organization as it was. The only
  columns left out of the comparison are the references that a foreign key clears when a schedule
  or connector goes (\<^verbatim>\<open>ON DELETE SET NULL\<close>).
\<close>

definition erase_job :: "job_row \<Rightarrow> job_row" where
  "erase_job j = j\<lparr>jb_schedule_id := None\<rparr>"

definition erase_batch :: "batch_row \<Rightarrow> batch_row" where
  "erase_batch b = b\<lparr>bt_schedule_id := None, bt_connector_id := None\<rparr>"

lemma erase_ids [simp]: "jb_id (erase_job j) = jb_id j" "bt_id (erase_batch b) = bt_id b"
  by (simp_all add: erase_job_def erase_batch_def)

definition tenant_jobs :: "int \<Rightarrow> db \<Rightarrow> job_row list" where
  "tenant_jobs ten d = map erase_job (filter (\<lambda>j. jb_org_id j = ten) (db_jobs d))"

definition tenant_batches :: "int \<Rightarrow> db \<Rightarrow> batch_row list" where
  "tenant_batches ten d = map erase_batch (filter (\<lambda>b. bt_org_id b = ten) (db_batches d))"

definition tenant_schedules :: "int \<Rightarrow> db \<Rightarrow> schedule_row list" where
  "tenant_schedules ten d = filter (\<lambda>s. sd_org_id s = ten) (db_schedules d)"

definition tenant_rest :: "int \<Rightarrow> db \<Rightarrow> rule_template_row list \<times> connector_row list \<times> registered_source list
    \<times> secret_row list \<times> audit_entry list \<times> openapi_spec_row list \<times> llm_config_row list" where
  "tenant_rest ten d = (filter (\<lambda>r. rt_org_id r = ten) (db_templates d), filter (\<lambda>s. cn_org_id s = ten) (db_connectors d),
     filter (\<lambda>s. rs_org_id s = ten) (db_sources d), filter (\<lambda>s. sc_org_id s = ten) (db_secrets d),
     filter (\<lambda>e. au_org_id e = ten) (db_audit d), filter (\<lambda>s. os_org_id s = ten) (db_specs d),
     filter (\<lambda>x. lc_org_id x = ten) (db_llm_configs d))"

definition tenant_job_rows :: "int \<Rightarrow> db \<Rightarrow> job_row_detail list" where
  "tenant_job_rows ten d = filter (\<lambda>r. jr_job_id r \<in> set (map jb_id (tenant_jobs ten d))) (db_job_rows d)"

definition tenant_rows where
  "tenant_rows ten d = (tenant_jobs ten d, tenant_batches ten d, tenant_schedules ten d, tenant_rest ten d, tenant_job_rows ten d)"

text \<open>Ids below the sequence that hands them out.\<close>

definition ids_fresh :: "db \<Rightarrow> bool" where
  "ids_fresh d \<longleftrightarrow> (\<forall>j \<in> set (db_jobs d). jb_id j < db_next d T_jobs)
     \<and> (\<forall>b \<in> set (db_batches d). bt_id b < db_next d T_batches)
     \<and> (\<forall>s \<in> set (db_schedules d). sd_id s < db_next d T_schedules)"

definition leaves_tenant :: "int \<Rightarrow> int \<Rightarrow> db \<Rightarrow> db \<Rightarrow> bool" where
  "leaves_tenant ten own d d' \<longleftrightarrow>
     (own \<noteq> ten \<longrightarrow> ids_fresh d \<longrightarrow> ids_fresh d' \<and> tenant_rows ten d' = tenant_rows ten d)"

lemma filter_update_where:
  assumes "\<And>x. x \<in> set xs \<Longrightarrow> p x \<Longrightarrow> P (f x) = P x \<and> (P x \<longrightarrow> e (f x) = e x)"
  shows "map e (filter P (update_where p f xs)) = map e (filter P xs)"
  using assms by (induction xs) (auto simp: update_where_def)

lemma filter_update_where_id:
  assumes "\<And>x. x \<in> set xs \<Longrightarrow> p x \<Longrightarrow> P (f x) = P x \<and> (P x \<longrightarrow> f x = x)"
  shows "filter P (update_where p f xs) = filter P xs"
  using filter_update_where [where e = "\<lambda>x. x", of xs p P f] assms by simp

lemma set_update_where: "set (update_where p f xs) = (\<lambda>x. if p x then f x else x) ` set xs"
  by (simp add: update_where_def)

lemmas tenant_defs = leaves_tenant_def tenant_rows_def tenant_jobs_def tenant_batches_def tenant_schedules_def
  tenant_rest_def ids_fresh_def

text \<open>A statement that keeps jobs and job rows of the tenant keeps all of its rows if it keeps the others.\<close>

lemma leaves_tenantI:
  assumes "own \<noteq> ten \<Longrightarrow> ids_fresh d \<Longrightarrow> ids_fresh d' \<and> tenant_jobs ten d' = tenant_jobs ten d
      \<and> tenant_batches ten d' = tenant_batches ten d \<and> tenant_schedules ten d' = tenant_schedules ten d
      \<and> tenant_rest ten d' = tenant_rest ten d \<and> db_job_rows d' = db_job_rows d"
  shows "leaves_tenant ten own d d'"
  using assms by (simp add: leaves_tenant_def tenant_rows_def tenant_job_rows_def)

lemmas tenant_parts = tenant_jobs_def tenant_batches_def tenant_schedules_def tenant_rest_def ids_fresh_def

lemma fresh_mono: "\<forall>x \<in> A. f x < (n :: int) \<Longrightarrow> \<forall>x \<in> A. f x \<le> n"
  by (simp add: less_imp_le)

lemma leaves_insert_job: "leaves_tenant ten own d (snd (insert_job own tid version ref wid u now d))"
  by (rule leaves_tenantI) (auto simp: insert_job_def tenant_parts Let_def fresh_mono)

lemma leaves_insert_batch: "leaves_tenant ten own d (snd (insert_batch own k ref wid now d))"
  by (rule leaves_tenantI) (auto simp: insert_batch_def tenant_parts Let_def fresh_mono)

lemma leaves_insert_schedule: "leaves_tenant ten own d (snd (insert_schedule own r spec tz ov ca en si u now d))"
  by (rule leaves_tenantI) (auto simp: insert_schedule_def tenant_parts Let_def fresh_mono)

text \<open>The rows that another request's id can hit: none of this tenant, when the id is fresh.\<close>

lemma fresh_job:
  assumes "insert_job own tid version ref wid u now d = (Inr row, d1)" and "leaves_tenant ten own d1 d2"
    and "own \<noteq> ten" and "ids_fresh d"
  shows "ids_fresh d2" and "tenant_rows ten d2 = tenant_rows ten d"
    and "\<And>j. j \<in> set (db_jobs d2) \<Longrightarrow> jb_id j = jb_id row \<Longrightarrow> jb_org_id j \<noteq> ten"
proof -
  have jid: "jb_id row = db_next d T_jobs" using assms(1) by (auto simp: insert_job_def Let_def split: if_splits)
  have "leaves_tenant ten own d d1" using leaves_insert_job [of ten own d tid version ref wid u now] assms(1) by simp
  then have "ids_fresh d1" and "tenant_rows ten d1 = tenant_rows ten d" using assms(3,4) by (simp_all add: leaves_tenant_def)
  then show f2: "ids_fresh d2" and rows: "tenant_rows ten d2 = tenant_rows ten d"
    using assms(2,3) by (simp_all add: leaves_tenant_def)
  fix j assume j: "j \<in> set (db_jobs d2)" "jb_id j = jb_id row"
  show "jb_org_id j \<noteq> ten"
  proof
    assume "jb_org_id j = ten"
    with j have "erase_job j \<in> set (tenant_jobs ten d2)" by (simp add: tenant_jobs_def)
    then have "erase_job j \<in> set (tenant_jobs ten d)" using rows by (simp add: tenant_rows_def)
    then obtain j' where "j' \<in> set (db_jobs d)" "erase_job j = erase_job j'" by (auto simp: tenant_jobs_def)
    then have "jb_id j < db_next d T_jobs" using assms(4) by (metis erase_ids(1) ids_fresh_def)
    with j jid show False by simp
  qed
qed

lemma fresh_batch:
  assumes "insert_batch own k ref wid now d = (Inr row, d1)" and "leaves_tenant ten own d1 d2"
    and "own \<noteq> ten" and "ids_fresh d"
  shows "ids_fresh d2" and "tenant_rows ten d2 = tenant_rows ten d"
    and "\<And>b. b \<in> set (db_batches d2) \<Longrightarrow> bt_id b = bt_id row \<Longrightarrow> bt_org_id b \<noteq> ten"
proof -
  have bid: "bt_id row = db_next d T_batches" using assms(1) by (auto simp: insert_batch_def Let_def split: if_splits)
  have "leaves_tenant ten own d d1" using leaves_insert_batch [of ten own d k ref wid now] assms(1) by simp
  then have "ids_fresh d1" and "tenant_rows ten d1 = tenant_rows ten d" using assms(3,4) by (simp_all add: leaves_tenant_def)
  then show f2: "ids_fresh d2" and rows: "tenant_rows ten d2 = tenant_rows ten d"
    using assms(2,3) by (simp_all add: leaves_tenant_def)
  fix b assume b: "b \<in> set (db_batches d2)" "bt_id b = bt_id row"
  show "bt_org_id b \<noteq> ten"
  proof
    assume "bt_org_id b = ten"
    with b have "erase_batch b \<in> set (tenant_batches ten d2)" by (simp add: tenant_batches_def)
    then have "erase_batch b \<in> set (tenant_batches ten d)" using rows by (simp add: tenant_rows_def)
    then obtain b' where "b' \<in> set (db_batches d)" "erase_batch b = erase_batch b'" by (auto simp: tenant_batches_def)
    then have "bt_id b < db_next d T_batches" using assms(4) by (metis erase_ids(2) ids_fresh_def)
    with b bid show False by simp
  qed
qed

lemma fresh_schedule:
  assumes "insert_schedule own r spec tz ov ca en si u now d = (Inr row, d1)" and "leaves_tenant ten own d1 d2"
    and "own \<noteq> ten" and "ids_fresh d"
  shows "ids_fresh d2" and "tenant_rows ten d2 = tenant_rows ten d"
    and "\<And>s. s \<in> set (db_schedules d2) \<Longrightarrow> sd_id s = sd_id row \<Longrightarrow> sd_org_id s \<noteq> ten"
proof -
  have sid: "sd_id row = db_next d T_schedules" using assms(1) by (auto simp: insert_schedule_def Let_def split: if_splits)
  have "leaves_tenant ten own d d1" using leaves_insert_schedule [of ten own d r spec tz ov ca en si u now] assms(1) by simp
  then have "ids_fresh d1" and "tenant_rows ten d1 = tenant_rows ten d" using assms(3,4) by (simp_all add: leaves_tenant_def)
  then show f2: "ids_fresh d2" and rows: "tenant_rows ten d2 = tenant_rows ten d"
    using assms(2,3) by (simp_all add: leaves_tenant_def)
  fix s assume s: "s \<in> set (db_schedules d2)" "sd_id s = sd_id row"
  show "sd_org_id s \<noteq> ten"
  proof
    assume "sd_org_id s = ten"
    with s have "s \<in> set (tenant_schedules ten d2)" by (simp add: tenant_schedules_def)
    then have "s \<in> set (tenant_schedules ten d)" using rows by (simp add: tenant_rows_def)
    then have "s \<in> set (db_schedules d)" by (simp add: tenant_schedules_def)
    then show False using s sid assms(4) by (auto simp: ids_fresh_def)
  qed
qed

lemma map_update_where: "(\<And>x. h (f x) = h x) \<Longrightarrow> map h (update_where p f xs) = map h xs"
  by (simp add: update_where_def)

lemma ball_ids: "(\<forall>x \<in> set xs. h x < n) \<longleftrightarrow> (\<forall>i \<in> set (map h xs). i < n)"
  by simp

lemma leaves_jobs_update:
  assumes "d' = d\<lparr>db_jobs := update_where p f (db_jobs d)\<rparr>"
    and "\<And>j. jb_id (f j) = jb_id j \<and> jb_org_id (f j) = jb_org_id j"
    and "\<And>j. own \<noteq> ten \<Longrightarrow> j \<in> set (db_jobs d) \<Longrightarrow> p j \<Longrightarrow> jb_org_id j \<noteq> ten"
  shows "leaves_tenant ten own d d'"
proof (rule leaves_tenantI)
  assume "own \<noteq> ten" and "ids_fresh d"
  moreover from \<open>own \<noteq> ten\<close> have "tenant_jobs ten d' = tenant_jobs ten d"
    using assms by (auto simp: tenant_jobs_def intro!: filter_update_where)
  moreover have "map jb_id (db_jobs d') = map jb_id (db_jobs d)"
    using assms by (simp add: map_update_where)
  ultimately show "ids_fresh d' \<and> tenant_jobs ten d' = tenant_jobs ten d
      \<and> tenant_batches ten d' = tenant_batches ten d \<and> tenant_schedules ten d' = tenant_schedules ten d
      \<and> tenant_rest ten d' = tenant_rest ten d \<and> db_job_rows d' = db_job_rows d"
    unfolding ids_fresh_def ball_ids [of "db_jobs _"]
    by (simp add: assms(1) tenant_batches_def tenant_schedules_def tenant_rest_def)
qed

lemma leaves_batches_update:
  assumes "d' = d\<lparr>db_batches := update_where p f (db_batches d)\<rparr>"
    and "\<And>b. bt_id (f b) = bt_id b \<and> bt_org_id (f b) = bt_org_id b"
    and "\<And>b. own \<noteq> ten \<Longrightarrow> b \<in> set (db_batches d) \<Longrightarrow> p b \<Longrightarrow> bt_org_id b \<noteq> ten"
  shows "leaves_tenant ten own d d'"
proof (rule leaves_tenantI)
  assume "own \<noteq> ten" and "ids_fresh d"
  moreover from \<open>own \<noteq> ten\<close> have "tenant_batches ten d' = tenant_batches ten d"
    using assms by (auto simp: tenant_batches_def intro!: filter_update_where)
  moreover have "map bt_id (db_batches d') = map bt_id (db_batches d)"
    using assms by (simp add: map_update_where)
  ultimately show "ids_fresh d' \<and> tenant_jobs ten d' = tenant_jobs ten d
      \<and> tenant_batches ten d' = tenant_batches ten d \<and> tenant_schedules ten d' = tenant_schedules ten d
      \<and> tenant_rest ten d' = tenant_rest ten d \<and> db_job_rows d' = db_job_rows d"
    unfolding ids_fresh_def ball_ids [of "db_batches _"]
    by (simp add: assms(1) tenant_jobs_def tenant_schedules_def tenant_rest_def)
qed

lemma leaves_schedules_update:
  assumes "d' = d\<lparr>db_schedules := update_where p f (db_schedules d)\<rparr>"
    and "\<And>s. sd_id (f s) = sd_id s \<and> sd_org_id (f s) = sd_org_id s"
    and "\<And>s. own \<noteq> ten \<Longrightarrow> s \<in> set (db_schedules d) \<Longrightarrow> p s \<Longrightarrow> sd_org_id s \<noteq> ten"
  shows "leaves_tenant ten own d d'"
proof (rule leaves_tenantI)
  assume "own \<noteq> ten" and "ids_fresh d"
  moreover from \<open>own \<noteq> ten\<close> have "tenant_schedules ten d' = tenant_schedules ten d"
    using assms by (auto simp: tenant_schedules_def intro!: filter_update_where_id)
  moreover have "map sd_id (db_schedules d') = map sd_id (db_schedules d)"
    using assms by (simp add: map_update_where)
  ultimately show "ids_fresh d' \<and> tenant_jobs ten d' = tenant_jobs ten d
      \<and> tenant_batches ten d' = tenant_batches ten d \<and> tenant_schedules ten d' = tenant_schedules ten d
      \<and> tenant_rest ten d' = tenant_rest ten d \<and> db_job_rows d' = db_job_rows d"
    unfolding ids_fresh_def ball_ids [of "db_schedules _"]
    by (simp add: assms(1) tenant_jobs_def tenant_batches_def tenant_rest_def)
qed

lemma leaves_delete_schedules:
  assumes "\<And>s. own \<noteq> ten \<Longrightarrow> s \<in> set (db_schedules d) \<Longrightarrow> hit s \<Longrightarrow> sd_org_id s \<noteq> ten"
  shows "leaves_tenant ten own d (snd (delete_schedules hit d))"
proof (rule leaves_tenantI)
  assume "own \<noteq> ten" and "ids_fresh d"
  let ?d = "snd (delete_schedules hit d)"
  have "tenant_jobs ten ?d = tenant_jobs ten d"
    by (auto simp: tenant_jobs_def delete_schedules_def Let_def erase_job_def intro!: filter_update_where)
  moreover have "tenant_batches ten ?d = tenant_batches ten d"
    by (auto simp: tenant_batches_def delete_schedules_def Let_def erase_batch_def intro!: filter_update_where)
  moreover have "tenant_schedules ten ?d = tenant_schedules ten d"
    using assms \<open>own \<noteq> ten\<close> by (auto simp: tenant_schedules_def delete_schedules_def Let_def intro!: filter_cong)
  moreover have "map jb_id (db_jobs ?d) = map jb_id (db_jobs d)" "map bt_id (db_batches ?d) = map bt_id (db_batches d)"
    by (simp_all add: delete_schedules_def Let_def map_update_where)
  moreover have "ids_fresh ?d"
    using \<open>ids_fresh d\<close> calculation(4,5) unfolding ids_fresh_def ball_ids [of "db_jobs _"] ball_ids [of "db_batches _"]
    by (simp add: delete_schedules_def Let_def)
  ultimately show "ids_fresh ?d \<and> tenant_jobs ten ?d = tenant_jobs ten d
      \<and> tenant_batches ten ?d = tenant_batches ten d \<and> tenant_schedules ten ?d = tenant_schedules ten d
      \<and> tenant_rest ten ?d = tenant_rest ten d \<and> db_job_rows ?d = db_job_rows d"
    by (simp add: delete_schedules_def Let_def tenant_rest_def)
qed

lemma record_run_db: "snd (record_run jid run t d) = d\<lparr>db_jobs := update_where (\<lambda>j. jb_id j = jid)
            (\<lambda>j. j\<lparr>jb_status := (if jb_status j = ''pending'' then ''running'' else jb_status j),
               jb_temporal_run_id := Some run, jb_started_at := or_else (jb_started_at j) (Some t),
               jb_updated_at := t\<rparr>) (db_jobs d)\<rparr>"
  by (simp add: record_run_def Let_def split: option.split)

lemma mark_batch_running_db: "snd (mark_batch_running bid run t d) = d\<lparr>db_batches := update_where (\<lambda>b. bt_id b = bid)
            (\<lambda>b. b\<lparr>bt_status := ''running'', bt_temporal_run_id := Some run, bt_updated_at := t\<rparr>) (db_batches d)\<rparr>"
  by (simp add: mark_batch_running_def Let_def split: option.split)

lemma save_schedule_db:
  "sd_overlap_policy x \<in> set OVERLAP_POLICIES \<Longrightarrow> snd (save_schedule org sid x now d) =
     d\<lparr>db_schedules := update_where (\<lambda>s. sd_id s = sid \<and> sd_org_id s = org) (\<lambda>s. s\<lparr>sd_spec_json := sd_spec_json x,
        sd_timezone := sd_timezone x, sd_overlap_policy := sd_overlap_policy x,
        sd_catchup_window_seconds := sd_catchup_window_seconds x, sd_enabled := sd_enabled x, sd_updated_at := now\<rparr>)
      (db_schedules d)\<rparr>"
  by (simp add: save_schedule_def Let_def split: option.split)

lemma leaves_trans: "leaves_tenant ten own a b \<Longrightarrow> leaves_tenant ten own b c \<Longrightarrow> leaves_tenant ten own a c"
  by (simp add: leaves_tenant_def)

text \<open>From before an insertion, through whatever leaves the tenant alone, to a change that leaves it alone.\<close>

lemma leaves_after:
  assumes "own \<noteq> ten \<Longrightarrow> ids_fresh d \<Longrightarrow> ids_fresh d2 \<and> tenant_rows ten d2 = tenant_rows ten d"
    and "own \<noteq> ten \<Longrightarrow> ids_fresh d \<Longrightarrow> leaves_tenant ten own d2 d3"
  shows "leaves_tenant ten own d d3"
  using assms by (auto simp: leaves_tenant_def)

interpretation tenant: store_laws "leaves_tenant ten own" own for ten own
proof
  fix d1 d2 d3 :: db
  show "leaves_tenant ten own d1 d1" by (simp add: leaves_tenant_def)
  show "leaves_tenant ten own d1 d2 \<Longrightarrow> leaves_tenant ten own d2 d3 \<Longrightarrow> leaves_tenant ten own d1 d3" by (rule leaves_trans)
next
  fix e :: audit_entry and d :: db assume "au_org_id e = own"
  then show "leaves_tenant ten own d (d\<lparr>db_audit := e # db_audit d\<rparr>)" by (intro leaves_tenantI) (auto simp: tenant_parts)
next
  fix key version name body u now and d :: db
  show "leaves_tenant ten own d (snd (insert_template own key version name body u now d))"
    by (rule leaves_tenantI) (auto simp: insert_template_def tenant_parts Let_def)
next
  fix tid and d :: db
  show "leaves_tenant ten own d (snd (set_published own tid d))"
    by (rule leaves_tenantI) (auto simp: set_published_def tenant_parts Let_def intro!: filter_update_where_id)
  show "leaves_tenant ten own d (snd (delete_draft own tid d))"
    by (rule leaves_tenantI) (auto simp: delete_draft_def tenant_parts Let_def intro!: filter_cong)
next
  fix "from" f jid and d :: db assume "lawful_change from f"
  then show "leaves_tenant ten own d (snd (transition own jid from f d))"
    by (intro leaves_jobs_update [where f = f and p = "\<lambda>j. jb_id j = jid \<and> jb_org_id j = own \<and> jb_status j \<in> set from"])
      (auto simp: transition_def Let_def lawful_change_def)
next
  fix up :: new_upload and d :: db assume "nu_org up = own"
  then show "leaves_tenant ten own d (snd (upsert_source up d))"
    by (intro leaves_tenantI) (auto simp: upsert_source_def tenant_parts Let_def source_by_object_def
        split: option.split dest!: find_Some_in intro!: filter_update_where_id)
next
  fix sid x now b and d :: db
  show "leaves_tenant ten own d (snd (save_schedule own sid x now d))"
  proof (cases "sd_overlap_policy x \<in> set OVERLAP_POLICIES")
    case True
    show ?thesis by (rule leaves_schedules_update [OF save_schedule_db [OF True]]) auto
  qed (simp add: save_schedule_def leaves_tenant_def)
  show "leaves_tenant ten own d (set_enabled own sid b now d)"
    by (rule leaves_schedules_update [where p = "\<lambda>s. sd_id s = sid \<and> sd_org_id s = own", OF set_enabled_def]) auto
next
  fix c :: claims and ap rq cr kind now and d :: db assume "cl_org c = own"
  then show "leaves_tenant ten own d (snd (connector_tx ap rq c cr kind now d))"
    by (intro leaves_tenantI) (auto simp: tenant_parts connector_tx_fields)
next
  fix kid and d :: db
  show "leaves_tenant ten own d (snd (delete_connectors own kid d))"
  proof (rule leaves_tenantI)
    assume "own \<noteq> ten" and "ids_fresh d"
    let ?d = "snd (delete_connectors own kid d)"
    have "tenant_batches ten ?d = tenant_batches ten d"
      by (auto simp: tenant_batches_def delete_connectors_def Let_def erase_batch_def intro!: filter_update_where)
    moreover have "map bt_id (db_batches ?d) = map bt_id (db_batches d)"
      by (simp add: delete_connectors_def Let_def map_update_where)
    moreover from this have "ids_fresh ?d"
      using \<open>ids_fresh d\<close> unfolding ids_fresh_def ball_ids [of "db_batches _"]
      by (simp add: delete_connectors_def Let_def)
    ultimately show "ids_fresh ?d \<and> tenant_jobs ten ?d = tenant_jobs ten d
      \<and> tenant_batches ten ?d = tenant_batches ten d \<and> tenant_schedules ten ?d = tenant_schedules ten d
      \<and> tenant_rest ten ?d = tenant_rest ten d \<and> db_job_rows ?d = db_job_rows d"
      using \<open>own \<noteq> ten\<close>
      by (auto simp: delete_connectors_def Let_def tenant_jobs_def tenant_schedules_def tenant_rest_def intro!: filter_cong)
  qed
next
  fix nm ct nonce now and d :: db
  show "leaves_tenant ten own d (snd (secret_tx own nm ct nonce now d))"
    by (rule leaves_tenantI) (auto simp: secret_tx_def insert_secret_def tenant_parts Let_def split: option.split dest!: find_Some_in
        intro!: filter_update_where_id)
  show "leaves_tenant ten own d (snd (revoke_row own nm now d))"
    by (rule leaves_tenantI) (auto simp: revoke_row_def tenant_parts Let_def intro!: filter_update_where_id)
next
  fix nm url spec u now sid and d :: db
  show "leaves_tenant ten own d (snd (upsert_spec own nm url spec u now d))"
    by (rule leaves_tenantI) (auto simp: upsert_spec_def tenant_parts Let_def split: option.split intro!: filter_update_foreign)
  show "leaves_tenant ten own d (snd (delete_specs own sid d))"
    by (rule leaves_tenantI) (auto simp: delete_specs_def tenant_parts Let_def intro!: filter_cong)
next
  fix c :: claims and ap rq pc provider u now and d :: db assume "cl_org c = own"
  then show "leaves_tenant ten own d (snd (config_tx ap rq c pc provider u now d))"
    by (intro leaves_tenantI) (auto simp: tenant_parts config_tx_fields)
next
  fix tid version ref wid u now and d :: db and row d1 and d2 :: db and message t run
  assume ins: "insert_job own tid version ref wid u now d = (Inr row, d1)" "leaves_tenant ten own d1 d2"
  show "leaves_tenant ten own d (mark_start_failed (jb_id row) message t d2)"
    by (rule leaves_after [of own ten d d2], simp add: fresh_job [OF ins], rule leaves_jobs_update [OF mark_start_failed_def])
      ((simp; fail) | (use fresh_job(3) [OF ins] in blast))+
  show "leaves_tenant ten own d (snd (record_run (jb_id row) run t d2))"
    by (rule leaves_after [of own ten d d2], simp add: fresh_job [OF ins], rule leaves_jobs_update [OF record_run_db])
      ((simp; fail) | (use fresh_job(3) [OF ins] in blast))+
next
  fix k ref wid now and d :: db and row d1 and d2 :: db and message t run
  assume ins: "insert_batch own k ref wid now d = (Inr row, d1)" "leaves_tenant ten own d1 d2"
  show "leaves_tenant ten own d (mark_batch_failed (bt_id row) message t d2)"
    by (rule leaves_after [of own ten d d2], simp add: fresh_batch [OF ins], rule leaves_batches_update [OF mark_batch_failed_def])
      ((simp; fail) | (use fresh_batch(3) [OF ins] in blast))+
  show "leaves_tenant ten own d (snd (mark_batch_running (bt_id row) run t d2))"
    by (rule leaves_after [of own ten d d2], simp add: fresh_batch [OF ins], rule leaves_batches_update [OF mark_batch_running_db])
      ((simp; fail) | (use fresh_batch(3) [OF ins] in blast))+
next
  fix r spec tz ov ca en si u now and d :: db and row d1 and d2 :: db
  assume ins: "insert_schedule own r spec tz ov ca en si u now d = (Inr row, d1)" "leaves_tenant ten own d1 d2"
  show "leaves_tenant ten own d (snd (delete_schedules (\<lambda>s. sd_id s = sd_id row) d2))"
    by (rule leaves_after [of own ten d d2], simp add: fresh_schedule [OF ins], rule leaves_delete_schedules)
      ((simp; fail) | (use fresh_schedule(3) [OF ins] in blast))+
qed (auto intro: leaves_insert_job leaves_insert_batch leaves_insert_schedule intro!: leaves_delete_schedules)

end
