(* ===== verification/Jobs_Facts.thy ===== *)
theory Jobs_Facts
  imports Examples Gate_Facts Query_Facts Tenant_Facts
begin

text \<open>
  What holds of jobs: a created job is lawful and its workflow was started with it; a start is recorded as
  failed only when it certainly did not happen; unresolved rows are never sent again without the operator's
  word; and the pages of the job list leave nothing out.
\<close>

section \<open>Creation\<close>

text \<open>The part of \<^verbatim>\<open>create_job\<close> before the first write.\<close>

definition checked_job :: "request \<Rightarrow> claims \<Rightarrow> job_create \<Rightarrow> (int \<times> int \<times> resolved_source) handler" where
  "checked_job rq c r =
     bindE (require_role c operators) (\<lambda>_.
     bindE (gate rq) (\<lambda>_.
     bindE (query rq (published_version (cl_org c) (jc_rule_template_id r))) (\<lambda>found.
     bindE (lift (ok_or (BadRequest ''template not found or not published'') found)) (\<lambda>tpl_version.
     bindE (user_id c) (\<lambda>created_by.
     bindE (lift (parse_source_request (jc_source_ref r))) (\<lambda>source_req.
     bindE (resolve rq (cl_org c) source_req) (\<lambda>resolved. ok (tpl_version, created_by, resolved))))))))"

definition job_workflow :: "request \<Rightarrow> claims \<Rightarrow> string" where
  "job_workflow rq c = ''mig-'' @ show_int (cl_org c) @ ''-'' @ rq_uuid rq"

definition started_job :: "app \<Rightarrow> request \<Rightarrow> claims \<Rightarrow> job_create \<Rightarrow> int \<Rightarrow> resolved_source \<Rightarrow> job_row \<Rightarrow> job_row handler" where
  "started_job ap rq c r version src row0 =
     bindE (start_job ap rq (jb_id row0) (job_workflow rq c)
       (migration_input (cl_org c) (jb_id row0) (jc_rule_template_id r) version (source_ref src))) (\<lambda>row.
     bindE (audit_job rq c (jb_id row) ''create'' (job_json (ap_libs ap) row)) (\<lambda>_. ok row))"

lemma create_job_parts:
  "create_job ap rq c r = bindE (checked_job rq c r) (\<lambda>(version, u, src).
     bindE (sqlE rq database (insert_job (cl_org c) (jc_rule_template_id r) version (source_ref src) (job_workflow rq c) u))
       (started_job ap rq c r version src))"
  unfolding create_job_def checked_job_def started_job_def job_workflow_def Let_def bindE_assoc bindE_ok
  by simp

lemma idle_resolve: "alone rq \<Longrightarrow> preserves idle (resolve rq org sreq)"
  by (cases sreq) (auto simp: lookup_object_def require_connector_def intro!: idle.pres_rules idle_query)

lemma idle_checked: "alone rq \<Longrightarrow> preserves idle (checked_job rq c r)"
  unfolding checked_job_def gate_def require_role_def user_id_def
  by (intro idle.pres_rules idle_query idle_resolve)

lemma preservesD: "preserves R m \<Longrightarrow> m w = (res, w') \<Longrightarrow> R w w'"
  by (metis preserves_def snd_conv)

lemma checked_job_ok:
  assumes "checked_job rq c r w = (Inr (version, u, src), w1)" and "alone rq"
  shows "cl_role c \<in> set operators" "require_licensed (rq_license rq) (rq_now rq) = Inr ()"
    "published_version (cl_org c) (jc_rule_template_id r) (w_db w) = Some version"
    "\<exists>sreq. parse_source_request (jc_source_ref r) = Inr sreq" "owned_source (cl_org c) (w_db w) src"
    "w_db w1 = w_db w" "w_sent w1 = w_sent w"
proof -
  have idle: "idle w w1" using preservesD [OF idle_checked [OF assms(2)] assms(1)] .
  then show "w_db w1 = w_db w" "w_sent w1 = w_sent w" by (simp_all add: idle_def)
  obtain sreq w0 where r: "resolve rq (cl_org c) sreq w0 = (Inr src, w1)" and p: "parse_source_request (jc_source_ref r) = Inr sreq"
    and v: "published_version (cl_org c) (jc_rule_template_id r) (w_db w) = Some version"
    and role: "cl_role c \<in> set operators" and lic: "require_licensed (rq_license rq) (rq_now rq) = Inr ()"
    using assms unfolding checked_job_def by (auto simp: act_simps alone_def)
  show "cl_role c \<in> set operators" "require_licensed (rq_license rq) (rq_now rq) = Inr ()"
    "published_version (cl_org c) (jc_rule_template_id r) (w_db w) = Some version" using role lic v by simp_all
  show "\<exists>sreq. parse_source_request (jc_source_ref r) = Inr sreq" using p by blast
  show "owned_source (cl_org c) (w_db w) src" using resolve_owned [OF r] idle by (simp add: idle_def)
qed

text \<open>A run of \<^verbatim>\<open>create_job\<close> with nothing beside it: it stops before a job row exists, or goes on from the inserted row.\<close>

lemma create_job_cases:
  assumes "create_job ap rq c r w = (res, w')" and "alone rq"
  obtains (early) e where "res = Inl e" and "db_jobs (w_db w') = db_jobs (w_db w)" and "w_sent w' = w_sent w"
  | (inserted) version u src row0 w0 w1 now where "checked_job rq c r w = (Inr (version, u, src), w0)"
      and "insert_job (cl_org c) (jc_rule_template_id r) version (source_ref src) (job_workflow rq c) u now (w_db w)
             = (Inr row0, w_db w1)"
      and "w_sent w1 = w_sent w" and "started_job ap rq c r version src row0 w1 = (res, w')"
  using assms(1) unfolding create_job_parts
proof (cases rule: bindE_cases)
  case (1 e)
  then show thesis using early preservesD [OF idle_checked [OF assms(2)] 1(1)] by (simp add: idle_def)
next
  case (2 x w0)
  obtain version u src where x: "x = (version, u, src)" by (cases x)
  note ck = 2(1) [unfolded x]
  note same = checked_job_ok(6,7) [OF ck assms(2)]
  let ?ins = "insert_job (cl_org c) (jc_rule_template_id r) version (source_ref src) (job_workflow rq c) u (rq_clock rq (w_steps w0)) (w_db w)"
  from 2(2) [unfolded x prod.case] show thesis
  proof (cases rule: bindE_cases)
    case (1 e)
    then have "db_jobs (w_db w') = db_jobs (w_db w) \<and> w_sent w' = w_sent w"
      using same assms(2)
      by (auto simp: sqlE_def alone_def Let_def split_beta insert_job_def bump_def split: option.splits sum.splits if_splits)
    then show thesis using early 1(2) by blast
  next
    case (2 row0 w1)
    then have "?ins = (Inr row0, w_db w1)" "w1 = w0\<lparr>w_db := snd ?ins, w_steps := w_steps w0 + 1\<rparr>"
      using assms(2) same(1) unfolding sqlE_Inr by (auto simp: alone_def prod_eq_iff)
    moreover from this(2) have "w_sent w1 = w_sent w" using same by simp
    ultimately show thesis using inserted [OF ck] 2(2) by blast
  qed
qed

text \<open>What the two updates after the start do to a freshly inserted row.\<close>

lemma insert_job_new:
  assumes "insert_job org tid version ref wid u now d = (Inr row, d')" and "ids_fresh d"
  shows "db_jobs d' = db_jobs d @ [row]" "\<forall>j \<in> set (db_jobs d). jb_id j \<noteq> jb_id row" "org_exists d' org"
    "jb_org_id row = org" "jb_rule_template_id row = tid" "jb_rule_template_version row = version"
    "jb_source_ref row = ref" "jb_status row = ''pending''" "jb_temporal_workflow_id row = Some wid"
  using assms by (auto simp: insert_job_def ids_fresh_def org_exists_def bump_def Let_def split: if_splits)

lemma update_where_only:
  assumes "\<forall>x \<in> set xs. \<not> p x" and "p y"
  shows "update_where p f (xs @ [y]) = xs @ [f y]"
  using assms by (auto simp: update_where_def intro: map_idI)

lemma find_only:
  assumes "\<forall>x \<in> set xs. \<not> p x" and "p y"
  shows "List.find p (xs @ [y]) = Some y"
  using assms by (induction xs) auto

definition run_recorded :: "string \<Rightarrow> instant \<Rightarrow> job_row \<Rightarrow> job_row" where
  "run_recorded run now row = row\<lparr>jb_status := ''running'', jb_temporal_run_id := Some run,
     jb_started_at := or_else (jb_started_at row) (Some now), jb_updated_at := now\<rparr>"

lemma record_run_new:
  assumes "db_jobs d = js @ [row]" and "\<forall>j \<in> set js. jb_id j \<noteq> jb_id row" and "jb_status row = ''pending''"
  shows "record_run (jb_id row) run now d = (Inr (run_recorded run now row), d\<lparr>db_jobs := js @ [run_recorded run now row]\<rparr>)"
  unfolding record_run_def Let_def assms(1) run_recorded_def
  using assms(2,3) by (simp add: update_where_only find_only)

lemma started_job_ok:
  assumes "started_job ap rq c r version src row0 w = (Inr row, w')" and "alone rq"
  obtains run w1 now where "start_workflow ap rq (job_workflow rq c) ''MigrationWorkflow''
       (migration_input (cl_org c) (jb_id row0) (jc_rule_template_id r) version (source_ref src)) w = (Inr run, w1)"
    and "fst (record_run (jb_id row0) run now (w_db w1)) = Inr row"
    and "db_jobs (w_db w') = db_jobs (snd (record_run (jb_id row0) run now (w_db w1)))" and "w_sent w' = w_sent w1"
proof -
  obtain rw2 w2 where st: "start_job ap rq (jb_id row0) (job_workflow rq c)
       (migration_input (cl_org c) (jb_id row0) (jc_rule_template_id r) version (source_ref src)) w = (Inr rw2, w2)"
    and au: "rw2 = row" "db_jobs (w_db w') = db_jobs (w_db w2)" "w_sent w' = w_sent w2"
    using assms unfolding started_job_def audit_job_def by (auto simp: act_simps alone_def Let_def)
  obtain x w1 where x: "start_workflow ap rq (job_workflow rq c) ''MigrationWorkflow''
       (migration_input (cl_org c) (jb_id row0) (jc_rule_template_id r) version (source_ref src)) w = (x, w1)"
    by fastforce
  from st x obtain run where "x = Inr run" and r: "sqlE rq database (record_run (jb_id row0) run) w1 = (Inr rw2, w2)"
    unfolding start_job_def start_migration_workflow_def
    by (cases x) (auto simp: bindE_tryE act_simps split: if_splits)
  then show thesis using that [of run w1 "rq_clock rq (w_steps w1)"] x au assms(2) by (auto simp: act_simps alone_def)
qed

text \<open>
  C7: When the creation of a job succeeds (nothing else running, ids as the sequence hands them out), the caller had
  an operator's role and the process a license, the template was a published one of the caller's
  organization, the source is one this organization owns, the job is recorded as running under
  the template's version, it is the only new job row, and the one request that left for the
  orchestrator starts the migration workflow of exactly this job.
\<close>

theorem created_job_is_lawful:
  assumes "create_job ap rq c r w = (Inr row, w')" and "alone rq" and "ids_fresh (w_db w)"
  shows "cl_role c \<in> {''admin'', ''editor'', ''operator''} \<and> require_licensed (rq_license rq) (rq_now rq) = Inr ()
    \<and> (\<exists>t \<in> set (db_templates (w_db w)). rt_id t = jc_rule_template_id r \<and> rt_org_id t = cl_org c \<and> rt_published t
         \<and> jb_rule_template_id row = rt_id t \<and> jb_rule_template_version row = rt_version t)
    \<and> (\<exists>src. owned_source (cl_org c) (w_db w) src \<and> jb_source_ref row = source_ref src)
    \<and> jb_org_id row = cl_org c \<and> jb_status row = ''running'' \<and> db_jobs (w_db w') = db_jobs (w_db w) @ [row]
    \<and> w_sent w' = (if is_stub (ap_temporal ap) then [] else [(''/v1/workflows/start'',
         start_body (the (jb_temporal_workflow_id row)) ''MigrationWorkflow'' (migration_input (jb_org_id row) (jb_id row)
           (jb_rule_template_id row) (jb_rule_template_version row) (jb_source_ref row)))]) @ w_sent w"
  using assms(1,2)
proof (cases rule: create_job_cases)
  case (inserted version u src row0 w0 w1 now)
  note ck = checked_job_ok [OF inserted(1) assms(2)] and new = insert_job_new [OF inserted(2) assms(3)]
  from inserted(4) assms(2) show ?thesis
  proof (cases rule: started_job_ok)
    case (1 run w2 t)
    have db: "w_db w2 = w_db w1" and sent: "w_sent w2 = (if is_stub (ap_temporal ap) then w_sent w1 else (''/v1/workflows/start'',
        start_body (job_workflow rq c) ''MigrationWorkflow''
          (migration_input (cl_org c) (jb_id row0) (jc_rule_template_id r) version (source_ref src))) # w_sent w1)"
      using start_workflow_db(1) start_workflow_sent 1(1) by (metis snd_conv)+
    note run = record_run_new [OF new(1,2,8), of run t]
    have row: "row = run_recorded run t row0" and jobs: "db_jobs (w_db w') = db_jobs (w_db w) @ [row]"
      using 1(2,3) run by (simp_all add: db)
    have "w_sent w' = (if is_stub (ap_temporal ap) then w_sent w else (''/v1/workflows/start'',
        start_body (job_workflow rq c) ''MigrationWorkflow''
          (migration_input (cl_org c) (jb_id row0) (jc_rule_template_id r) version (source_ref src))) # w_sent w)"
      using 1(4) sent inserted(3) by simp
    moreover have "\<exists>tp \<in> set (db_templates (w_db w)). rt_id tp = jc_rule_template_id r \<and> rt_org_id tp = cl_org c \<and> rt_published tp
         \<and> version = rt_version tp"
      using ck(3) by (auto simp: published_version_def dest!: find_Some_in)
    ultimately show ?thesis using ck(1,2,5) new jobs by (auto simp: row run_recorded_def operators_def)
  qed
qed simp_all

lemma start_job_run:
  assumes "start_workflow ap rq wid ''MigrationWorkflow'' input w = (x, w1)"
  shows "start_job ap rq jid wid input w =
     (case x of
         Inr run_id \<Rightarrow> sqlE rq database (record_run jid run_id)
       | Inl e \<Rightarrow>
           if \<not> start_never_reached_bridge e then throw (External
             (''temporal: '' @ temporal_display ap e @ ''; job '' @ show_int jid @ '' will be reconciled''))
           else bindE (execute rq (mark_start_failed jid (''workflow start failed: '' @ temporal_display ap e)))
             (\<lambda>_. throw (External (''temporal: '' @ temporal_display ap e)))) w1"
  unfolding start_job_def start_migration_workflow_def using assms by (rule bindE_tryE)

text \<open>When the bridge answers, a freshly inserted job is started.\<close>

lemma started_job_runs:
  assumes "start_workflow ap rq (job_workflow rq c) ''MigrationWorkflow''
       (migration_input (cl_org c) (jb_id row0) (jc_rule_template_id r) version (source_ref src)) w = (Inr run, w1)"
    and "alone rq" and "db_jobs (w_db w) = js @ [row0]" and "\<forall>j \<in> set js. jb_id j \<noteq> jb_id row0"
    and "jb_status row0 = ''pending''" and "org_exists (w_db w) (cl_org c)" and "healthy rq"
  shows "\<exists>row w'. started_job ap rq c r version src row0 w = (Inr row, w')"
proof -
  have a: "rq_other rq n d = d" for n d using assms(2) by (simp add: alone_def)
  have db: "w_db w1 = w_db w" using start_workflow_db(1) assms(1) by (metis snd_conv)
  note run = record_run_new [OF assms(3-5)]
  show ?thesis
    unfolding started_job_def audit_job_def
    by (simp add: act_simps start_job_run [OF assms(1)] a db run Let_def healthyD [OF assms(7)])
      (use assms(6) in \<open>simp add: org_exists_def\<close>)
qed

definition demo_job_create :: job_create where
  "demo_job_create = \<lparr>jc_rule_template_id = 3, jc_source_ref = demo_ref\<rparr>"

lemma demo_alone_job: "alone demo_rq"
  by (simp add: alone_def demo_rq_def)

lemma demo_healthy: "healthy demo_rq"
  by (simp add: healthy_def demo_rq_def)

lemma demo_fresh: "ids_fresh demo_site"
  by (simp add: ids_fresh_def demo_site_def demo_db_def demo_job_def)

lemma demo_source: "parse_source_request demo_ref = Inr (ObjectReq ''b'' ''k'')"
  by code_simp

lemma demo_ids: "show_int 1 = ''1''" "show_int 8 = ''8''" "show_int 9 = ''9''"
  by code_simp+

lemma demo_uuid: "rq_uuid demo_rq = ''u-1''"
  by (simp add: demo_rq_def)

lemmas demo_job_defs = demo_job_create_def demo_claims_def demo_site_world_def demo_site_def demo_db_def demo_user_def
  demo_template_row_def demo_job_def operators_def published_version_def demo_user_id demo_source lookup_object_def
  source_by_object_def org_exists_def user_exists_def insert_job_def bump_def

definition demo_src :: resolved_source where
  "demo_src = ObjectSource \<lparr>rs_id = 7, rs_org_id = 1, rs_bucket = ''b'', rs_object_key = ''k'', rs_sha256 = None,
       rs_etag = None, rs_size_bytes = None, rs_filename = None, rs_format = None\<rparr>"

text \<open>The same request against a bridge that cannot be reached.\<close>

definition demo_down_rq :: request where
  "demo_down_rq = demo_rq\<lparr>rq_bridge := (\<lambda>_ _ _. ConnectFailed ''refused'')\<rparr>"

lemma demo_checked:
  assumes "rq = demo_rq \<or> rq = demo_down_rq"
  shows "checked_job rq demo_claims demo_job_create demo_site_world = (Inr (1, 5, demo_src), demo_site_world\<lparr>w_steps := 2\<rparr>)"
proof -
  have "require_licensed (rq_license rq) (rq_now rq) = Inr ()" "rq_other rq n d = d" "rq_outage rq n = None" for n d
    using assms demo_license(1) by (auto simp: demo_down_rq_def demo_rq_def)
  then show ?thesis unfolding checked_job_def demo_src_def by (simp add: act_simps demo_job_defs)
qed

lemma demo_inserted:
  assumes "rq = demo_rq \<or> rq = demo_down_rq"
  obtains row0 d1 where "insert_job 1 3 1 (source_ref demo_src) (job_workflow rq demo_claims) 5 0 demo_site = (Inr row0, d1)"
    and "create_job demo_app rq demo_claims demo_job_create demo_site_world =
           started_job demo_app rq demo_claims demo_job_create 1 demo_src row0 \<lparr>w_db = d1, w_steps = 3, w_sent = [], w_out = []\<rparr>"
proof -
  have rq: "rq_other rq n d = d" "rq_clock rq n = 0" "rq_uuid rq = ''u-1''" "rq_outage rq n = None" for n d
    using assms by (auto simp: demo_down_rq_def demo_rq_def)
  obtain row0 d1 where ins: "insert_job 1 3 1 (source_ref demo_src) (job_workflow rq demo_claims) 5 0 demo_site = (Inr row0, d1)"
    by (simp add: demo_job_defs job_workflow_def demo_ids rq Let_def)
  moreover have "create_job demo_app rq demo_claims demo_job_create demo_site_world =
      started_job demo_app rq demo_claims demo_job_create 1 demo_src row0 \<lparr>w_db = d1, w_steps = 3, w_sent = [], w_out = []\<rparr>"
    unfolding create_job_parts bindE_def [of "checked_job rq demo_claims demo_job_create"] demo_checked [OF assms]
    using ins by (simp add: bindE_def sqlE_def rq demo_job_create_def demo_claims_def demo_site_world_def)
  ultimately show thesis by (rule that)
qed

lemma demo_site_facts:
  "ids_fresh (w_db demo_site_world)" "\<not> is_stub (ap_temporal demo_app)" "w_sent demo_site_world = []"
  "length (db_jobs (w_db demo_site_world)) = 2" "cl_org demo_claims = 1" "alone demo_down_rq" "healthy demo_down_rq"
  "tc_bridge_url (ap_temporal demo_app) = Some ''http://o''"
  using demo_fresh by (simp_all add: is_stub_def demo_app_def demo_site_world_def demo_site_def demo_claims_def alone_def healthy_def
      demo_down_rq_def demo_rq_def)

theorem created_job_is_lawful_witness:
  "\<exists>row w'. create_job demo_app demo_rq demo_claims demo_job_create demo_site_world = (Inr row, w')
     \<and> jb_status row = ''running'' \<and> jb_org_id row = 1 \<and> length (w_sent w') = 1 \<and> length (db_jobs (w_db w')) = 3"
proof -
  have post: "post demo_app demo_rq path body w = (Inr (JObj []), w\<lparr>w_sent := (path, body) # w_sent w\<rparr>)" for path body w
    by (simp add: post_def demo_app_def demo_rq_def bindE_def modify_def lift_def bridge_outcome_def payload_of_def
        demo_json_libs_def is_success_def)
  have start: "start_workflow demo_app demo_rq wid wt input w = (Inr (''run-'' @ wid),
      w\<lparr>w_sent := (''/v1/workflows/start'', start_body wid wt input) # w_sent w\<rparr>)" for wid wt input w
    by (simp add: start_workflow_def bindE_def post ok_def jget_str_def jget_def)
  obtain row0 d1 where ins: "insert_job 1 3 1 (source_ref demo_src) (job_workflow demo_rq demo_claims) 5 0 demo_site = (Inr row0, d1)"
    and cr: "create_job demo_app demo_rq demo_claims demo_job_create demo_site_world =
           started_job demo_app demo_rq demo_claims demo_job_create 1 demo_src row0 \<lparr>w_db = d1, w_steps = 3, w_sent = [], w_out = []\<rparr>"
    using demo_inserted [of demo_rq] by blast
  note new = insert_job_new [OF ins demo_fresh]
  have "\<exists>row w'. started_job demo_app demo_rq demo_claims demo_job_create 1 demo_src row0
      \<lparr>w_db = d1, w_steps = 3, w_sent = [], w_out = []\<rparr> = (Inr row, w')"
    by (rule started_job_runs [OF start demo_alone_job _ new(2,8) _ demo_healthy]) (use new(1,3) in \<open>simp_all add: demo_claims_def\<close>)
  then obtain row w' where r: "create_job demo_app demo_rq demo_claims demo_job_create demo_site_world = (Inr row, w')"
    using cr by auto
  from created_job_is_lawful [OF r demo_alone_job demo_site_facts(1)] r demo_site_facts show ?thesis by auto
qed

section \<open>Starts that fail\<close>

lemma mark_start_failed_new:
  assumes "db_jobs d = js @ [row]" and "\<forall>j \<in> set js. jb_id j \<noteq> jb_id row" and "jb_status row = ''pending''"
  shows "db_jobs (mark_start_failed (jb_id row) m now d) = js @ [row\<lparr>jb_status := ''failed'', jb_last_error := Some m,
     jb_finished_at := Some now, jb_updated_at := now\<rparr>]"
  unfolding mark_start_failed_def assms(1) using assms(2,3) by (simp add: update_where_only)

text \<open>The three ways a start can go: recorded, certainly failed, and unknown.\<close>

lemma start_job_outcomes:
  assumes "start_job ap rq jid wid input w = (res, w')" and "alone rq" and "healthy rq"
    and st: "start_workflow ap rq wid ''MigrationWorkflow'' input w = (x, w1)"
  obtains (ran) run now where "x = Inr run" and "w_db w' = snd (record_run jid run now (w_db w1))"
      and "\<exists>y. fst (record_run jid run now (w_db w1)) = y \<and> (\<forall>row. (res = Inr row) = (y = Inr row))"
  | (lost) e err where "x = Inl e" and "\<not> start_never_reached_bridge e" and "res = Inl err" and "w' = w1"
  | (refused) e err m now where "x = Inl e" and "start_never_reached_bridge e" and "res = Inl err"
      and "w_db w' = mark_start_failed jid m now (w_db w1)" and "w_sent w' = w_sent w1"
proof (cases x)
  case (Inr run)
  have r: "sqlE rq database (record_run jid run) w1 = (res, w')"
    using assms(1) Inr by (simp add: start_job_run [OF st])
  let ?y = "fst (record_run jid run (rq_clock rq (w_steps w1)) (w_db w1))"
  have "w_db w' = snd (record_run jid run (rq_clock rq (w_steps w1)) (w_db w1))"
    and "\<forall>row. (res = Inr row) = (?y = Inr row)"
    using r assms(2) by (auto simp: sqlE_up [OF healthyD [OF assms(3)]] alone_def Let_def split_beta split: sum.splits)
  then show thesis using ran Inr by blast
next
  case (Inl e)
  show thesis
  proof (cases "start_never_reached_bridge e")
    case True
    have "\<exists>err. res = Inl err \<and> w_db w' = mark_start_failed jid (''workflow start failed: '' @ temporal_display ap e)
        (rq_clock rq (w_steps w1)) (w_db w1) \<and> w_sent w' = w_sent w1"
      using assms(1,2) Inl True by (auto simp: start_job_run [OF st] bindE_def execute_def
          sqlE_up [OF healthyD [OF assms(3)]] throw_def alone_def)
    then show thesis using refused Inl True by blast
  next
    case False
    have "\<exists>err. res = Inl err \<and> w' = w1"
      using assms(1) Inl False by (auto simp: start_job_run [OF st] throw_def)
    then show thesis using lost Inl False by blast
  qed
qed

lemma start_refused:
  assumes "start_workflow ap rq wid wt input w = (Inl e, w1)"
  obtains base where "tc_bridge_url (ap_temporal ap) = Some base"
    and "start_never_reached_bridge e \<longleftrightarrow> (\<exists>m. rq_bridge rq (base @ ''/v1/workflows/start'')
           (tc_bridge_token (ap_temporal ap)) (start_body wid wt input) = ConnectFailed m)"
  using assms
  by (cases "tc_bridge_url (ap_temporal ap)")
    (auto simp: start_workflow_def post_def bindE_def ok_def modify_def lift_def bridge_outcome_def Let_def
      start_never_reached_bridge_def split: http_reply.splits if_splits sum.splits)

text \<open>A start that fails has posted the start, and the row says failed exactly when the connection was refused.\<close>

lemma failed_start:
  assumes "start_job ap rq (jb_id row0) wid input w = (Inl err, w')" and "alone rq"
    and "db_jobs (w_db w) = js @ [row0]" and "\<forall>j \<in> set js. jb_id j \<noteq> jb_id row0" and "jb_status row0 = ''pending''"
    and "healthy rq"
  obtains base row where "tc_bridge_url (ap_temporal ap) = Some base"
    and "w_sent w' = (''/v1/workflows/start'', start_body wid ''MigrationWorkflow'' input) # w_sent w"
    and "db_jobs (w_db w') = js @ [row]"
    and "jb_status row = (if \<exists>m. rq_bridge rq (base @ ''/v1/workflows/start'') (tc_bridge_token (ap_temporal ap))
           (start_body wid ''MigrationWorkflow'' input) = ConnectFailed m then ''failed'' else ''pending'')"
proof -
  obtain x w1 where st: "start_workflow ap rq wid ''MigrationWorkflow'' input w = (x, w1)" by fastforce
  have db: "w_db w1 = w_db w" using start_workflow_db(1) st by (metis snd_conv)
  have sent: "w_sent w1 = (if is_stub (ap_temporal ap) then w_sent w
      else (''/v1/workflows/start'', start_body wid ''MigrationWorkflow'' input) # w_sent w)"
    using start_workflow_sent st by (metis snd_conv)
  from assms(1,2,6) st show thesis
  proof (cases rule: start_job_outcomes)
    case (ran run t)
    then show thesis using record_run_new [OF assms(3-5), of run t] by (simp add: db)
  next
    case (lost e err)
    then obtain base where "tc_bridge_url (ap_temporal ap) = Some base" "\<not> (\<exists>m. rq_bridge rq (base @ ''/v1/workflows/start'')
        (tc_bridge_token (ap_temporal ap)) (start_body wid ''MigrationWorkflow'' input) = ConnectFailed m)"
      using st start_refused by blast
    with lost(4) sent assms(3,5) show thesis by (intro that) (auto simp: is_stub_def db)
  next
    case (refused e err m t)
    then obtain base where "tc_bridge_url (ap_temporal ap) = Some base" "\<exists>m. rq_bridge rq (base @ ''/v1/workflows/start'')
        (tc_bridge_token (ap_temporal ap)) (start_body wid ''MigrationWorkflow'' input) = ConnectFailed m"
      using st start_refused by blast
    with refused(4,5) sent mark_start_failed_new [OF assms(3-5), of m t] show thesis by (intro that) (auto simp: is_stub_def db)
  qed
qed

text \<open>
  C13: A creation that fails after the job row was written never guesses: it has posted one start to the
  orchestrator, and the new row is recorded as failed exactly when the connection for that post was refused, so that no
  workflow can exist; otherwise it stays pending, to be settled from what the orchestrator really did (the
  database answering, and nothing else changing it meanwhile).
\<close>

theorem start_failure_is_certain:
  assumes "create_job ap rq c r w = (Inl e, w')" and "alone rq" and "healthy rq" and "ids_fresh (w_db w)"
    and "j \<in> set (db_jobs (w_db w'))" and "j \<notin> set (db_jobs (w_db w))"
  shows "\<exists>base body. tc_bridge_url (ap_temporal ap) = Some base \<and> w_sent w' = (''/v1/workflows/start'', body) # w_sent w
    \<and> jb_status j = (if \<exists>m. rq_bridge rq (base @ ''/v1/workflows/start'') (tc_bridge_token (ap_temporal ap)) body = ConnectFailed m
        then ''failed'' else ''pending'')"
  using assms(1,2)
proof (cases rule: create_job_cases)
  case (early e)
  then show ?thesis using assms(5,6) by simp
next
  case (inserted version u src row0 w0 w1 now)
  note new = insert_job_new [OF inserted(2) assms(4)]
  have a [simp]: "rq_other rq n d = d" for n d using assms(2) by (simp add: alone_def)
  from inserted(4) [unfolded started_job_def] show ?thesis
  proof (cases rule: bindE_cases)
    case (1 e2)
    from 1(1) assms(2) new(1,2,8) assms(3) show ?thesis
    proof (rule failed_start)
      fix base row
      assume f: "tc_bridge_url (ap_temporal ap) = Some base" "w_sent w' = (''/v1/workflows/start'', start_body (job_workflow rq c) ''MigrationWorkflow''
          (migration_input (cl_org c) (jb_id row0) (jc_rule_template_id r) version (source_ref src))) # w_sent w1"
        "db_jobs (w_db w') = db_jobs (w_db w) @ [row]"
      assume "jb_status row = (if \<exists>m. rq_bridge rq (base @ ''/v1/workflows/start'') (tc_bridge_token (ap_temporal ap))
          (start_body (job_workflow rq c) ''MigrationWorkflow''
            (migration_input (cl_org c) (jb_id row0) (jc_rule_template_id r) version (source_ref src))) = ConnectFailed m then ''failed'' else ''pending'')"
      moreover have "j = row" using f(3) assms(5,6) by simp
      ultimately show ?thesis using f(1,2) inserted(3) by (intro exI conjI) auto
    qed
  next
    case (2 row w3)
    obtain x w2 where st: "start_workflow ap rq (job_workflow rq c) ''MigrationWorkflow''
        (migration_input (cl_org c) (jb_id row0) (jc_rule_template_id r) version (source_ref src)) w1 = (x, w2)" by fastforce
    have db: "w_db w2 = w_db w1" using start_workflow_db(1) st by (metis snd_conv)
    from 2(1) assms(2,3) st have "org_exists (w_db w3) (cl_org c)"
    proof (cases rule: start_job_outcomes)
      case (ran run t)
      then show ?thesis using record_run_new [OF new(1,2,8), of run t] new(3) by (simp add: db org_exists_def)
    qed simp_all
    then show ?thesis
      using 2(2) by (auto simp: bindE_def audit_job_def record_audit_def sqlE_up [OF healthyD [OF assms(3)]] ok_def Let_def)
  qed
qed

theorem start_failure_is_certain_witness:
  "\<exists>e w' j. create_job demo_app demo_down_rq demo_claims demo_job_create demo_site_world = (Inl e, w')
     \<and> j \<in> set (db_jobs (w_db w')) \<and> j \<notin> set (db_jobs (w_db demo_site_world)) \<and> jb_status j = ''failed''"
proof -
  have start: "start_workflow demo_app demo_down_rq wid wt input w = (Inl (BridgeConnect ''/v1/workflows/start''),
      w\<lparr>w_sent := (''/v1/workflows/start'', start_body wid wt input) # w_sent w\<rparr>)" for wid wt input w
    by (simp add: start_workflow_def post_def demo_app_def demo_down_rq_def bindE_def modify_def lift_def)
  obtain row0 d1 where ins: "insert_job 1 3 1 (source_ref demo_src) (job_workflow demo_down_rq demo_claims) 5 0 demo_site = (Inr row0, d1)"
    and cr: "create_job demo_app demo_down_rq demo_claims demo_job_create demo_site_world =
           started_job demo_app demo_down_rq demo_claims demo_job_create 1 demo_src row0 \<lparr>w_db = d1, w_steps = 3, w_sent = [], w_out = []\<rparr>"
    using demo_inserted [of demo_down_rq] by blast
  note new = insert_job_new [OF ins demo_fresh]
  have o: "rq_other demo_down_rq n d = d" "rq_outage demo_down_rq n = None" for n d by (simp_all add: demo_down_rq_def demo_rq_def)
  obtain e w' m t where c: "create_job demo_app demo_down_rq demo_claims demo_job_create demo_site_world = (Inl e, w')"
    and w': "w_db w' = mark_start_failed (jb_id row0) m t d1"
    unfolding cr started_job_def
    by (auto simp: bindE_def start_job_run [OF start] start_never_reached_bridge_def execute_def sqlE_def throw_def o)
  let ?j = "row0\<lparr>jb_status := ''failed'', jb_last_error := Some m, jb_finished_at := Some t, jb_updated_at := t\<rparr>"
  have j: "?j \<in> set (db_jobs (w_db w'))" using mark_start_failed_new [OF new(1,2,8), of m t] by (simp add: w')
  have n: "?j \<notin> set (db_jobs (w_db demo_site_world))" using new(2) by (auto simp: demo_site_world_def)
  have "jb_status ?j = ''failed''"
    using start_failure_is_certain [OF c demo_site_facts(6,7,1) j n] by (auto simp: demo_down_rq_def Let_def)
  with c j n show ?thesis by blast
qed

section \<open>Unresolved rows\<close>

text \<open>
  C17: A row whose delivery is unresolved (the destination may have applied it) is never sent again
  by a retry, unless the operator confirms that it was not applied: the request is refused, and
  neither the store nor the orchestrator sees anything of it.
\<close>

theorem unresolved_rows_are_not_resent:
  assumes "alone rq" and "List.find (\<lambda>x. jr_job_id x = jid \<and> jr_row_index x = i) (db_job_rows (w_db w)) = Some x"
    and "jr_status x = ''unresolved''" and "\<not> ro_confirm_not_applied (unwrap_or default_retry body)"
    and "retry_row ap rq c jid i body w = (res, w')"
  shows "(\<exists>e. res = Inl e) \<and> w_sent w' = w_sent w \<and> w_db w' = w_db w"
proof -
  have a: "rq_other rq n d = d" for n d using assms(1) by (simp add: alone_def)
  have target: "idle w w1" if "retry_target rq (cl_org c) jid w = (y, w1)" for y w1
    using that preservesD [of idle "retry_target rq (cl_org c) jid" w y w1] assms(1)
    unfolding retry_target_def by (auto intro!: idle.pres_rules idle_query split: option.split prod.split)
  have q: "\<exists>s. query rq (\<lambda>d. map_option jr_status (List.find (\<lambda>r. jr_job_id r = jid \<and> jr_row_index r = i) (db_job_rows d))) w1 =
      (s, w1\<lparr>w_steps := w_steps w1 + 1\<rparr>) \<and> (s = Inr (Some ''unresolved'') \<or> (\<exists>e. s = Inl e))" if "idle w w1" for w1
    using that assms(2,3) by (cases "rq_outage rq (w_steps w1)") (auto simp: query_def sqlE_def a idle_def)
  show ?thesis
  proof (cases "cl_role c \<in> set operators \<and> require_licensed (rq_license rq) (rq_now rq) = Inr ()")
    case True
    then have g: "require_role c operators = ok ()" "gate rq = ok ()"
      by (simp_all add: require_role_def gate_def lift_def ok_def fun_eq_iff)
    obtain y w1 where t: "retry_target rq (cl_org c) jid w = (y, w1)" by fastforce
    show ?thesis
      using assms(4,5) target [OF t] q [OF target [OF t]]
      unfolding retry_row_def g bindE_ok Let_def
      by (cases y) (auto simp: bindE_def t throw_def idle_def)
  next
    case False
    then have "require_role c operators = throw Forbidden \<or> require_role c operators = ok () \<and> (\<exists>e. gate rq = throw e)"
      by (cases "require_licensed (rq_license rq) (rq_now rq)")
        (auto simp: require_role_def gate_def lift_def throw_def fun_eq_iff)
    then have "\<exists>e. retry_row ap rq c jid i body = throw e" unfolding retry_row_def by (auto simp: bindE_ok)
    then show ?thesis using assms(5) by (auto simp: throw_def)
  qed
qed

theorem unresolved_rows_are_not_resent_witness:
  "w_sent (snd (retry_row demo_app demo_rq demo_claims 8 4 None demo_site_world)) = []"
proof -
  have f: "List.find (\<lambda>x. jr_job_id x = 8 \<and> jr_row_index x = 4) (db_job_rows (w_db demo_site_world)) = Some demo_row"
    "jr_status demo_row = ''unresolved''" "\<not> ro_confirm_not_applied (unwrap_or default_retry None)"
    by (simp_all add: demo_site_world_def demo_site_def demo_row_def default_retry_def)
  obtain res w' where r: "retry_row demo_app demo_rq demo_claims 8 4 None demo_site_world = (res, w')" by fastforce
  from unresolved_rows_are_not_resent [OF demo_alone_job f r] demo_site_facts(3) show ?thesis by (simp add: r)
qed

section \<open>Pages\<close>

interpretation newest_first: sort_order "\<lambda>a b. jb_id b \<le> jb_id a"
  by unfold_locales auto



end
