(* ===== verification/Operations_Facts.thy ===== *)
theory Operations_Facts
  imports Examples Gate_Facts Tenant_Facts
begin

text \<open>
  Schedules, batches, connectors and secrets: a schedule that could not be created leaves no row
  behind, credentials of connectors are out of reach of the secret handlers, and a revoked
  secret loses its ciphertext. Two lemmas state where the handlers of schedules and batches leave the
  database and the orchestrator apart.
\<close>

section \<open>A failed creation leaves no schedule\<close>

text \<open>An action that, started on the database \<open>d\<close>, leaves the schedules of \<open>d\<close> when it fails.\<close>

definition undone :: "db \<Rightarrow> 'a handler \<Rightarrow> bool" where
  "undone d m \<longleftrightarrow> (\<forall>w e w'. w_db w = d \<longrightarrow> m w = (Inl e, w') \<longrightarrow> db_schedules (w_db w') = db_schedules d)"

lemma bindE_run: "m w = (Inr x, w') \<Longrightarrow> bindE m f w = f x w'"
  by (simp add: bindE_def)

lemma undone_bind:
  assumes "preserves idle m" and "\<And>x. undone d (f x)"
  shows "undone d (bindE m f)"
  unfolding undone_def
proof (intro allI impI)
  fix w e w' assume d: "w_db w = d" and m: "bindE m f w = (Inl e, w')"
  have idle: "w_db (snd (m w)) = d" using assms(1) d by (simp add: preserves_def idle_def)
  from m show "db_schedules (w_db w') = db_schedules d"
    by (cases rule: bindE_cases) (use idle assms(2) in \<open>auto simp: undone_def\<close>)
qed

lemma insert_schedule_new:
  assumes "insert_schedule org r spec tz ov ca en si u now d = (Inr row, d')" and "ids_fresh d"
  shows "db_schedules d' = db_schedules d @ [row]" "\<forall>s \<in> set (db_schedules d). sd_id s \<noteq> sd_id row" "org_exists d' org"
  using assms by (auto simp: insert_schedule_def ids_fresh_def org_exists_def bump_def Let_def split: if_splits)

text \<open>What follows the insertion in \<^verbatim>\<open>create_schedule\<close> either succeeds or takes the row away again.\<close>

definition finish_schedule ::
    "app \<Rightarrow> request \<Rightarrow> claims \<Rightarrow> create_schedule_req \<Rightarrow> json \<Rightarrow> string \<Rightarrow> string \<Rightarrow> int \<Rightarrow> bool \<Rightarrow> string \<Rightarrow> schedule_row
     \<Rightarrow> schedule_row handler" where
  "finish_schedule ap rq c r spec tz ov ca en si row =
     bindE (tryE (bridge_create_schedule ap rq si spec (schedule_input (cl_org c) (sd_id row) r) ov ca tz)) (\<lambda>created.
     case created of
       Inl e \<Rightarrow> bindE (tryE (execute rq (\<lambda>_ d. snd (delete_schedules (\<lambda>s. sd_id s = sd_id row) d)) :: unit handler))
         (\<lambda>_. throw (External (''temporal: '' @ temporal_display ap e)))
     | Inr _ \<Rightarrow>
     bindE (if en then ok (Inr ()) else tryE (bridge_pause_schedule ap rq si)) (\<lambda>_.
     bindE (audit_schedule rq c (sd_id row) ''create'' (Some (schedule_json (ap_libs ap) row))) (\<lambda>_. ok row)))"

lemma bridge_schedule_db:
  "w_db (snd (bridge_create_schedule ap rq si spec input ov ca tz w)) = w_db w"
  "w_db (snd (bridge_pause_schedule ap rq si w)) = w_db w"
  by (simp_all add: bridge_create_schedule_def bridge_pause_schedule_def schedule_op_def)

lemma finish_schedule_undone:
  assumes "alone rq" and "db_schedules (w_db w) = ss @ [row]" and "\<forall>s \<in> set ss. sd_id s \<noteq> sd_id row"
    and "org_exists (w_db w) (cl_org c)" and "finish_schedule ap rq c r spec tz ov ca en si row w = (Inl e, w')" and "healthy rq"
  shows "db_schedules (w_db w') = ss"
proof -
  have a: "rq_other rq n d = d" for n d using assms(1) by (simp add: alone_def)
  note up = sqlE_up [OF healthyD [OF assms(6)]]
  let ?create = "bridge_create_schedule ap rq si spec (schedule_input (cl_org c) (sd_id row) r) ov ca tz"
  let ?pause = "(if en then ok (Inr ()) else tryE (bridge_pause_schedule ap rq si)) :: (temporal_error + unit) handler"
  obtain x w1 where st: "?create w = (x, w1)" by fastforce
  have db: "w_db w1 = w_db w" using bridge_schedule_db(1) st by (metis snd_conv)
  note run = assms(5) [unfolded finish_schedule_def bindE_tryE [of ?create, OF st]]
  show ?thesis
  proof (cases x)
    case (Inl y)
    have "filter (\<lambda>s. sd_id s \<noteq> sd_id row) ss = ss" using assms(3) by (simp add: filter_id_conv)
    then show ?thesis
      using assms(2) Inl run by (auto simp: bindE_def tryE_def execute_def up throw_def a db delete_schedules_def Let_def)
  next
    case (Inr y)
    obtain z w2 where st2: "?pause w1 = (Inr z, w2)" and db2: "w_db w2 = w_db w1"
      by (cases "bridge_pause_schedule ap rq si w1"; cases en)
        (use bridge_schedule_db(2) [of ap rq si w1] in \<open>auto simp: ok_def tryE_def\<close>)
    have "bindE (audit_schedule rq c (sd_id row) ''create'' (Some (schedule_json (ap_libs ap) row))) (\<lambda>_. ok row) w2 = (Inl e, w')"
      using run Inr by (simp add: bindE_run [of ?pause, OF st2])
    then show ?thesis
      using assms(4) by (auto simp: audit_schedule_def record_audit_def bindE_def up ok_def a db db2 Let_def)
  qed
qed

lemma idle_connector: "alone rq \<Longrightarrow> preserves idle (require_connector rq org k)"
  unfolding require_connector_def by (intro idle.pres_rules idle_query)

lemma idle_checks: "preserves idle (require_role c rs)" "preserves idle (gate rq)" "preserves idle (user_id c)"
  "preserves idle (check_overlap ov)"
  unfolding require_role_def gate_def user_id_def check_overlap_def by (intro idle.pres_rules)+


definition demo_connector :: connector_row where
  "demo_connector = \<lparr>cn_id = 6, cn_org_id = 1, cn_name = ''in'', cn_connector_kind = ''watched_prefix'', cn_config_json = JObj [],
     cn_secret_id = None, cn_created_by = None, cn_created_at = 0, cn_updated_at = 0\<rparr>"

definition demo_schedule_req :: create_schedule_req where
  "demo_schedule_req = \<lparr>cs_name = ''nightly'', cs_rule_template_id = 3, cs_rule_template_version = 1, cs_connector_id = 6,
     cs_spec = json_obj [(''every'', JStr ''1h'')], cs_timezone = None, cs_overlap_policy = None,
     cs_catchup_window_seconds = None, cs_enabled = None\<rparr>"

definition demo_watching :: world where
  "demo_watching = \<lparr>w_db = demo_site\<lparr>db_connectors := [demo_connector]\<rparr>, w_steps = 0, w_sent = [], w_out = []\<rparr>"

definition demo_refusing :: request where
  "demo_refusing = demo_rq\<lparr>rq_bridge := (\<lambda>_ _ _. Reply 500 [])\<rparr>"

lemma demo_refused:
  "\<exists>e w'. create_schedule demo_app demo_refusing demo_claims demo_schedule_req demo_watching = (Inl e, w') \<and> length (w_sent w') = 1"
proof -
  have c: "require_role demo_claims [''admin'', ''editor''] = ok ()" "gate demo_refusing = ok ()" "user_id demo_claims = ok 5"
    using demo_license(1) by (simp_all add: require_role_def gate_def user_id_def lift_def ok_def ok_or_def demo_claims_def
        demo_refusing_def demo_user_id)
  have n: "normalise_spec demo_app (cs_spec demo_schedule_req) = Inr (json_obj [(''every'', JStr ''1h'')])" by code_simp
  show ?thesis
    unfolding create_schedule_def c bindE_ok n Let_def
    by (simp add: bindE_def mapE_def lift_def check_overlap_def guardE_def OVERLAP_POLICIES_def require_connector_def query_def sqlE_def
        connector_by_id_def template_by_id_def demo_schedule_req_def demo_watching_def demo_site_def demo_db_def demo_connector_def
        demo_template_row_def demo_claims_def ok_def ok_or_def insert_schedule_def org_exists_def user_exists_def
        demo_user_def Let_def tryE_def bridge_create_schedule_def post_unit_def post_def demo_app_def modify_def
        demo_refusing_def demo_rq_def bridge_outcome_def is_success_def execute_def throw_def)
qed


section \<open>Where database and orchestrator come apart\<close>

text \<open>
  \<^verbatim>\<open>update_schedule\<close> checks the overlap policy after it has already paused the Temporal schedule: the caller
  gets an error and the row still says enabled, but nothing will run.
\<close>

lemma rejected_update_already_paused:
  assumes "alone rq" and "cl_role c \<in> {''admin'', ''editor''}" and "schedule_by_id (cl_org c) sid (w_db w) = Some x"
    and "sd_temporal_schedule_id x = Some t" and "ov \<notin> set OVERLAP_POLICIES"
    and "bridge_pause_schedule ap rq t (w\<lparr>w_steps := w_steps w + 1\<rparr>) = (Inr (), w1)" and "rq_outage rq (w_steps w) = None"
  shows "update_schedule ap rq c sid \<lparr>up_spec = None, up_enabled = Some False, up_catchup_window_seconds = None,
      up_timezone = None, up_overlap_policy = Some ov\<rparr> w = (Inl (BadRequest (''invalid overlap_policy '' @ ov)), w1) \<and> w_db w1 = w_db w"
proof -
  have a: "rq_other rq n d = d" for n d using assms(1) by (simp add: alone_def)
  have "w_db w1 = w_db w" using bridge_schedule_db(2) [of ap rq t "w\<lparr>w_steps := w_steps w + 1\<rparr>"] assms(6) by simp
  then show ?thesis
    using assms(2-7)
    by (auto simp: update_schedule_def require_role_def bindE_ok apply_spec_def apply_enabled_def apply_rest_def on_temporal_def
        check_overlap_def bindE_def query_up a lift_def ok_or_def ok_def mapE_def guardE_def throw_def)
qed

text \<open>
  A new time zone, overlap policy or catch-up window is written to the row only: the schedule that runs keeps the old ones.
\<close>

interpretation silent: sending "\<lambda>_. False" .

lemma policy_update_stays_local:
  assumes "up_spec r = None" and "up_enabled r = None"
  shows "w_sent (snd (update_schedule ap rq c sid r w)) = w_sent w"
proof -
  have "preserves (sends_only (\<lambda>_. False)) (update_schedule ap rq c sid r)"
    unfolding update_schedule_def apply_spec_def apply_enabled_def apply_rest_def check_overlap_def audit_schedule_def Let_def assms option.case
    by (intro silent.sends_rules)
  from runs_sends [OF this, of w] obtain new where "w_sent (snd (update_schedule ap rq c sid r w)) = new @ w_sent w" "list_all (\<lambda>_. False) new"
    by (auto simp: sends_only_def)
  then show ?thesis by (cases new) simp_all
qed

text \<open>
  \<^verbatim>\<open>create_batch\<close> writes \<open>running\<close> over whatever the batch has become since it was started; \<^verbatim>\<open>start_job\<close> does so
  only over \<open>pending\<close>.
\<close>

lemma batch_outcome_overwritten:
  assumes "List.find (\<lambda>b. bt_id b = bid) (db_batches d) = Some b" and "bt_status b = ''succeeded''"
  shows "\<exists>row. fst (mark_batch_running bid run now d) = Inr row \<and> bt_id row = bid \<and> bt_status row = ''running''
     \<and> bt_finished_at row = bt_finished_at b"
  using assms(1) update_where_find [of "\<lambda>b. bt_id b = bid" "\<lambda>b. b\<lparr>bt_status := ''running'', bt_temporal_run_id := Some run,
      bt_updated_at := now\<rparr>" "db_batches d"]
  by (auto simp: mark_batch_running_def Let_def dest: find_Some_in)

section \<open>Secrets\<close>

text \<open>
  Names of secrets are unique within an organization; whatever is neither a destination secret nor the key of the LLM
  provider stays as it is.
\<close>

definition secret_names :: "db \<Rightarrow> (int \<times> string) list" where
  "secret_names d = map (\<lambda>s. (sc_org_id s, sc_name s)) (db_secrets d)"

definition internal_kept :: "db \<Rightarrow> db \<Rightarrow> bool" where
  "internal_kept d d' \<longleftrightarrow> (distinct (secret_names d) \<longrightarrow> distinct (secret_names d')
     \<and> (\<forall>s \<in> set (db_secrets d). sc_kind s \<noteq> ''destination'' \<and> sc_name s \<noteq> ''llm-api-key'' \<longrightarrow> s \<in> set (db_secrets d')))"

lemma internal_keptI: "db_secrets d' = db_secrets d \<Longrightarrow> internal_kept d d'"
  by (simp add: internal_kept_def secret_names_def)

lemma secrets_kept:
  "db_secrets (snd (insert_template own key version name body u now d)) = db_secrets d"
  "db_secrets (snd (set_published own tid d)) = db_secrets d" "db_secrets (snd (delete_draft own tid d)) = db_secrets d"
  "db_secrets (snd (insert_job own tid version ref wid u now d)) = db_secrets d"
  "db_secrets (mark_start_failed jid m now d) = db_secrets d" "db_secrets (snd (record_run jid run now d)) = db_secrets d"
  "db_secrets (snd (transition own jid from f d)) = db_secrets d" "db_secrets (snd (upsert_source up d)) = db_secrets d"
  "db_secrets (snd (insert_batch own k ref wid now d)) = db_secrets d" "db_secrets (mark_batch_failed bid m now d) = db_secrets d"
  "db_secrets (snd (mark_batch_running bid run now d)) = db_secrets d"
  "db_secrets (snd (insert_schedule own r spec tz ov ca en si u now d)) = db_secrets d"
  "db_secrets (snd (delete_schedules hit d)) = db_secrets d" "db_secrets (snd (save_schedule own sid x now d)) = db_secrets d"
  "db_secrets (set_enabled own sid b now d) = db_secrets d" "db_secrets (snd (delete_connectors own kid d)) = db_secrets d"
  "db_secrets (snd (upsert_spec own nm url spec u now d)) = db_secrets d" "db_secrets (snd (delete_specs own sid d)) = db_secrets d"
  unfolding statement_defs Let_def by (auto split: option.split prod.split sum.split)

lemma kept_insert_secret: "internal_kept d (snd (insert_secret own nm ct nonce k now d))"
  by (auto simp: internal_kept_def secret_names_def insert_secret_def bump_def list_ex_iff Let_def)

lemma kept_connector_tx: "internal_kept d (snd (connector_tx ap rq c r kind now d))"
proof -
  have "internal_kept d (snd (secret_part ap rq c r now d))"
    using secret_part_db [of ap rq c r now d] kept_insert_secret internal_keptI [OF refl] by metis
  then show ?thesis
    using connector_tx_db [of ap rq c r now d kind] unfolding Let_def
    by (auto simp: internal_kept_def secret_names_def)
qed

lemma kept_update:
  assumes "db_secrets d' = update_where p f (db_secrets d)"
    and "\<And>s. s \<in> set (db_secrets d) \<Longrightarrow> p s \<Longrightarrow> distinct (secret_names d) \<Longrightarrow>
       (sc_kind s = ''destination'' \<or> sc_name s = ''llm-api-key'') \<and> sc_org_id (f s) = sc_org_id s \<and> sc_name (f s) = sc_name s"
  shows "internal_kept d d'"
  unfolding internal_kept_def
proof (intro impI conjI ballI)
  assume u: "distinct (secret_names d)"
  have "secret_names d' = secret_names d"
    using assms(2) u by (auto simp: secret_names_def assms(1) update_where_def)
  then show "distinct (secret_names d')" using u by simp
  fix s assume "s \<in> set (db_secrets d)" and "sc_kind s \<noteq> ''destination'' \<and> sc_name s \<noteq> ''llm-api-key''"
  then have "\<not> p s" using assms(2) u by blast
  with \<open>s \<in> set (db_secrets d)\<close> show "s \<in> set (db_secrets d')" by (force simp: assms(1) update_where_def)
qed

lemma kept_secret_tx: "internal_kept d (snd (secret_tx own nm ct nonce now d))"
proof (cases "List.find (\<lambda>s. sc_org_id s = own \<and> sc_name s = nm) (db_secrets d)")
  case None
  have "internal_kept d (rolled_back d x)" for x by (rule internal_keptI) simp
  with None show ?thesis
    using kept_insert_secret [of d own nm ct nonce "''destination''" now]
    by (auto simp: secret_tx_def Let_def split: prod.split sum.split)
next
  case (Some old)
  then have old: "old \<in> set (db_secrets d)" "sc_org_id old = own" "sc_name old = nm" by (auto dest: find_Some_in)
  show ?thesis
  proof (cases "sc_kind old = ''destination''")
    case True
    let ?new = "old\<lparr>sc_ciphertext := ct, sc_nonce := nonce, sc_revoked_at := None, sc_updated_at := now\<rparr>"
    have only: "s = old" if "s \<in> set (db_secrets d)" "sc_org_id s = own \<and> sc_name s = nm" "distinct (secret_names d)" for s
      using that old unfolding secret_names_def distinct_map inj_on_def by auto
    show ?thesis
    proof (rule kept_update)
      show "db_secrets (snd (secret_tx own nm ct nonce now d)) =
          update_where (\<lambda>s. sc_org_id s = own \<and> sc_name s = nm) (\<lambda>_. ?new) (db_secrets d)"
        using True Some by (simp add: secret_tx_def Let_def)
    next
      fix s assume "s \<in> set (db_secrets d)" "sc_org_id s = own \<and> sc_name s = nm" "distinct (secret_names d)"
      then have "s = old" by (rule only)
      then show "(sc_kind s = ''destination'' \<or> sc_name s = ''llm-api-key'') \<and> sc_org_id ?new = sc_org_id s \<and> sc_name ?new = sc_name s" using True by simp
    qed
  next
    case False
    with Some show ?thesis by (simp add: secret_tx_def Let_def internal_keptI)
  qed
qed

lemma kept_revoke_row: "internal_kept d (snd (revoke_row own nm now d))"
proof -
  let ?p = "\<lambda>s. sc_org_id s = own \<and> sc_name s = nm \<and> sc_kind s = ''destination'' \<and> sc_revoked_at s = None"
  let ?f = "\<lambda>s. s\<lparr>sc_revoked_at := Some now, sc_updated_at := now, sc_ciphertext := [], sc_nonce := []\<rparr>"
  have "db_secrets (snd (revoke_row own nm now d)) = update_where ?p ?f (db_secrets d)" by (simp add: revoke_row_def Let_def)
  then show ?thesis by (rule kept_update) simp_all
qed

lemma kept_config_tx: "internal_kept d (snd (config_tx ap rq c r provider u now d))"
proof -
  have "internal_kept d (snd (upsert_api_key org ct nonce now d))" for org ct nonce
  proof (cases "List.find (\<lambda>s. sc_org_id s = org \<and> sc_name s = ''llm-api-key'') (db_secrets d)")
    case None
    then show ?thesis using kept_insert_secret by (simp add: upsert_api_key_def upsert_secret_row_def Let_def)
  next
    case (Some old)
    then show ?thesis
      by (intro kept_update [where p = "\<lambda>s. sc_org_id s = org \<and> sc_name s = ''llm-api-key''"
            and f = "\<lambda>s. s\<lparr>sc_ciphertext := ct, sc_nonce := nonce, sc_updated_at := now\<rparr>"])
        (simp_all add: upsert_api_key_def upsert_secret_row_def Let_def)
  qed
  then have "internal_kept d (snd (key_part ap rq c r now d))"
    using key_part_db [of ap rq c r now d] internal_keptI [OF refl] by metis
  then show ?thesis
    using config_tx_db [of c ap rq r now d provider u] unfolding Let_def by (auto simp: internal_kept_def secret_names_def)
qed

interpretation internal: uniform_laws internal_kept own for own
proof
  fix d1 d2 d3 :: db
  assume "internal_kept d1 d2" "internal_kept d2 d3"
  then show "internal_kept d1 d3" by (auto simp: internal_kept_def)
qed (auto intro!: internal_keptI kept_connector_tx kept_secret_tx kept_revoke_row kept_config_tx simp: secrets_kept)

text \<open>
  Revoking a secret erases it: afterwards no active destination secret of that name is left in the
  caller's organization, and the row that was active holds neither ciphertext nor nonce; every
  other secret is as before (nothing else running).
\<close>

theorem revoked_secret_is_erased:
  assumes "revoke_secret rq c name w = (Inr m, w')" and "alone rq"
  shows "mt_name m = name \<and> mt_revoked_at m \<noteq> None
    \<and> \<not> (\<exists>s \<in> set (db_secrets (w_db w')). sc_org_id s = cl_org c \<and> sc_name s = name \<and> sc_kind s = ''destination'' \<and> sc_revoked_at s = None)
    \<and> (\<exists>s \<in> set (db_secrets (w_db w')). sc_org_id s = cl_org c \<and> meta_of s = m \<and> sc_ciphertext s = [] \<and> sc_nonce s = [])
    \<and> filter (\<lambda>s. (sc_org_id s, sc_name s) \<noteq> (cl_org c, name)) (db_secrets (w_db w'))
      = filter (\<lambda>s. (sc_org_id s, sc_name s) \<noteq> (cl_org c, name)) (db_secrets (w_db w))"
proof -
  let ?p = "\<lambda>s. sc_org_id s = cl_org c \<and> sc_name s = name \<and> sc_kind s = ''destination'' \<and> sc_revoked_at s = None"
  obtain t where m: "fst (revoke_row (cl_org c) name t (w_db w)) = Some m"
    and db: "db_secrets (w_db w') = db_secrets (snd (revoke_row (cl_org c) name t (w_db w)))"
    using assms unfolding revoke_secret_def by (auto simp: act_simps alone_def Let_def split_beta)
  let ?f = "\<lambda>s. s\<lparr>sc_revoked_at := Some t, sc_updated_at := t, sc_ciphertext := [], sc_nonce := []\<rparr>"
  obtain s where s: "List.find ?p (db_secrets (w_db w)) = Some s" "m = meta_of (?f s)"
    using m by (auto simp: revoke_row_def Let_def)
  have up: "db_secrets (w_db w') = update_where ?p ?f (db_secrets (w_db w))" using db by (simp add: revoke_row_def Let_def)
  from s(1) have in_s: "s \<in> set (db_secrets (w_db w))" "?p s" by (auto dest: find_Some_in)
  have "?f s \<in> set (db_secrets (w_db w'))" using in_s by (force simp: up update_where_def)
  moreover have "\<not> ?p x" if x: "x \<in> set (db_secrets (w_db w'))" for x
  proof -
    obtain y where "x = (if ?p y then ?f y else y)" using x unfolding up set_update_where by blast
    then show ?thesis by (cases "?p y") simp_all
  qed
  moreover have "filter (\<lambda>s. (sc_org_id s, sc_name s) \<noteq> (cl_org c, name)) (db_secrets (w_db w'))
      = filter (\<lambda>s. (sc_org_id s, sc_name s) \<noteq> (cl_org c, name)) (db_secrets (w_db w))"
    unfolding up by (rule filter_update_where_id) auto
  moreover have "mt_name m = name" "mt_revoked_at m \<noteq> None" using s(2) in_s(2) by (simp_all add: meta_of_def)
  moreover have "sc_org_id (?f s) = cl_org c \<and> meta_of (?f s) = m \<and> sc_ciphertext (?f s) = [] \<and> sc_nonce (?f s) = []"
    using s(2) in_s(2) by simp
  ultimately show ?thesis by blast
qed

definition demo_secret :: "string \<Rightarrow> string \<Rightarrow> secret_row" where
  "demo_secret name kind = \<lparr>sc_id = 1, sc_org_id = 1, sc_name = name, sc_ciphertext = ''c'', sc_nonce = ''n'', sc_kind = kind,
     sc_created_at = 0, sc_updated_at = 0, sc_revoked_at = None\<rparr>"

definition demo_admin :: claims where
  "demo_admin = demo_claims\<lparr>cl_role := ''admin''\<rparr>"

definition demo_vault :: world where
  "demo_vault = \<lparr>w_db = demo_site\<lparr>db_secrets := [demo_secret ''tok'' ''destination'', demo_secret ''in-secret'' ''internal'']\<rparr>,
     w_steps = 0, w_sent = [], w_out = []\<rparr>"

theorem revoked_secret_is_erased_witness:
  "\<exists>m w'. revoke_secret demo_rq demo_admin ''tok'' demo_vault = (Inr m, w') \<and> mt_revoked_at m \<noteq> None
     \<and> demo_secret ''in-secret'' ''internal'' \<in> set (db_secrets (w_db w'))"
proof -
  have v: "validate_name ''tok'' = Inr ()" by code_simp
  have "\<exists>m w'. revoke_secret demo_rq demo_admin ''tok'' demo_vault = (Inr m, w')"
    by (simp add: revoke_secret_def act_simps v revoke_row_def demo_admin_def demo_vault_def demo_secret_def demo_site_def
        demo_claims_def org_exists_def demo_rq_def Let_def)
  then obtain m w' where r: "revoke_secret demo_rq demo_admin ''tok'' demo_vault = (Inr m, w')" by blast
  have a: "alone demo_rq" by (simp add: alone_def demo_rq_def)
  let ?f = "filter (\<lambda>s. (sc_org_id s, sc_name s) \<noteq> (1, ''tok''))"
  have "demo_secret ''in-secret'' ''internal'' \<in> set (?f (db_secrets (w_db demo_vault)))"
    by (simp add: demo_vault_def demo_secret_def)
  moreover have "?f (db_secrets (w_db w')) = ?f (db_secrets (w_db demo_vault))" "mt_revoked_at m \<noteq> None"
    using revoked_secret_is_erased [OF r a] by (simp_all add: demo_admin_def demo_claims_def)
  ultimately have "demo_secret ''in-secret'' ''internal'' \<in> set (?f (db_secrets (w_db w')))" by simp
  with r \<open>mt_revoked_at m \<noteq> None\<close> show ?thesis by auto
qed

end
