(* ===== verification/Specs_Facts.thy ===== *)
theory Specs_Facts
  imports Specs Examples Gate_Facts Tenant_Facts
begin

text \<open>
  What the import of OpenAPI documents guarantees: resolution of references ends on every document, cyclic ones
  included, and is complete where the bound is not reached; the operation list has exactly one entry per path and
  method; an imported document can be read back; nothing is fetched from an internal address.
\<close>

section \<open>Resolution of references\<close>

text \<open>Objects with their entries in key order, as every \<^verbatim>\<open>serde_json\<close> value has them.\<close>

fun ordered :: "json \<Rightarrow> bool" where
  "ordered (JObj m) = (sorted_keys m \<and> list_all (\<lambda>e. ordered (snd e)) m)"
| "ordered (JArr vs) = list_all ordered vs"
| "ordered _ = True"

lemma ordered_step: "ordered v \<Longrightarrow> pointer_step v t = Some w \<Longrightarrow> ordered w"
  by (auto simp: pointer_step_def list_all_iff bind_eq_Some_conv split: json.splits if_splits dest!: map_of_SomeD)

lemma ordered_walk: "ordered v \<Longrightarrow> pointer_walk v ts = Some w \<Longrightarrow> ordered w"
  by (induction v ts rule: pointer_walk.induct) (auto simp: bind_eq_Some_conv dest: ordered_step)

lemma ordered_lookup: "ordered spec \<Longrightarrow> lookup_pointer spec r = Some t \<Longrightarrow> ordered t"
  by (auto simp: lookup_pointer_def json_pointer_def bind_eq_Some_conv split: if_splits dest: ordered_walk)

text \<open>
  The complete dereference of a schema, of height at most \<open>n\<close>: every reference replaced by what it points to, a
  reference that points nowhere left as it is.
\<close>

inductive deref :: "json \<Rightarrow> nat \<Rightarrow> json \<Rightarrow> json \<Rightarrow> bool" for spec where
  deref_ref: "jget_str node ''$ref'' = Some r \<Longrightarrow> lookup_pointer spec r = Some t \<Longrightarrow> deref spec n t v \<Longrightarrow>
     deref spec (Suc n) node v"
| deref_dangling: "jget_str node ''$ref'' = Some r \<Longrightarrow> lookup_pointer spec r = None \<Longrightarrow> deref spec n node node"
| deref_object: "jget_str (JObj m) ''$ref'' = None \<Longrightarrow>
     list_all2 (\<lambda>e e'. fst e = fst e' \<and> deref spec n (snd e) (snd e')) m m' \<Longrightarrow> deref spec (Suc n) (JObj m) (JObj m')"
| deref_array: "list_all2 (deref spec n) vs vs' \<Longrightarrow> deref spec (Suc n) (JArr vs) (JArr vs')"
| deref_leaf: "as_object v = None \<Longrightarrow> as_array v = None \<Longrightarrow> deref spec n v v"

lemma no_ref_simps [simp]:
  "jget_str (JArr vs) k = None" "as_object v = None \<Longrightarrow> jget_str v k = None"
  by (auto simp: jget_str_def jget_def as_object_def split: json.splits)

lemma resolve_complete:
  "deref spec n node v \<Longrightarrow> ordered spec \<Longrightarrow> ordered node \<Longrightarrow> n + depth \<le> 6 \<Longrightarrow> resolve_schema spec node depth = v"
proof (induction arbitrary: depth rule: deref.induct)
  case (deref_ref node r t n v)
  then show ?case using ordered_lookup by (subst resolve_schema.simps) simp
next
  case (deref_object m n m')
  have "map (\<lambda>(k, v). (k, resolve_schema spec v (depth + 1))) m = m'"
    using deref_object
    by (intro nth_equalityI) (auto simp: list_all2_conv_all_nth list_all_length split_beta intro!: prod_eqI)
  moreover have "sorted_keys m'"
  proof -
    have "map fst m' = map fst m"
      using deref_object(2) by (intro nth_equalityI) (auto simp: list_all2_conv_all_nth)
    then show ?thesis using deref_object by (simp add: sorted_keys_def)
  qed
  ultimately show ?case using deref_object by (subst resolve_schema.simps) (simp add: btree_of_sorted)
next
  case (deref_array n vs vs')
  then have "map (\<lambda>v. resolve_schema spec v (depth + 1)) vs = vs'"
    by (intro nth_equalityI) (auto simp: list_all2_conv_all_nth list_all_length)
  with deref_array show ?case by (subst resolve_schema.simps) simp
next
  case (deref_leaf v n)
  then show ?case by (subst resolve_schema.simps) (auto simp: as_object_def as_array_def split: json.splits)
qed (subst resolve_schema.simps, simp)

text \<open>Trees of bounded nesting, where a reference that points nowhere counts as a leaf.\<close>

inductive nested :: "json \<Rightarrow> nat \<Rightarrow> json \<Rightarrow> bool" for spec where
  nested_marker: "nested spec n truncation_marker"
| nested_dangling: "jget_str node ''$ref'' = Some r \<Longrightarrow> lookup_pointer spec r = None \<Longrightarrow> nested spec n node"
| nested_leaf: "as_object v = None \<Longrightarrow> as_array v = None \<Longrightarrow> nested spec n v"
| nested_object: "(\<And>e. e \<in> set m \<Longrightarrow> nested spec n (snd e)) \<Longrightarrow> nested spec (Suc n) (JObj m)"
| nested_array: "(\<And>v. v \<in> set vs \<Longrightarrow> nested spec n v) \<Longrightarrow> nested spec (Suc n) (JArr vs)"

lemma nested_mono: "nested spec n v \<Longrightarrow> n \<le> n' \<Longrightarrow> nested spec n' v"
proof (induction arbitrary: n' rule: nested.induct)
  case (nested_object m n)
  then show ?case by (cases n') (auto intro: nested.nested_object)
next
  case (nested_array vs n)
  then show ?case by (cases n') (auto intro: nested.nested_array)
qed (auto intro: nested.intros)

lemma resolve_nested: "nested spec (7 - depth) (resolve_schema spec node depth)"
proof (induction spec node depth rule: resolve_schema.induct)
  case (1 spec node depth)
  show ?case
  proof (cases "6 < depth")
    case True
    then show ?thesis by (subst resolve_schema.simps) (simp add: nested_marker)
  next
    case False
    then have suc: "7 - depth = Suc (7 - (depth + 1))" by simp
    show ?thesis
    proof (cases "jget_str node ''$ref''")
      case (Some r)
      then show ?thesis
        using False 1(3) by (subst resolve_schema.simps) (auto split: option.split intro: nested_dangling nested_mono [of _ "6 - depth"])
    next
      case None
      note res = resolve_schema.simps [of spec node depth]
      show ?thesis
      proof (cases node)
        case (JObj m)
        have "nested spec (7 - (depth + 1)) (snd e)"
          if e: "e \<in> set (btree_of (map (\<lambda>(k, v). (k, resolve_schema spec v (depth + 1))) m))" for e
        proof -
          from e have "e \<in> set (map (\<lambda>(k, v). (k, resolve_schema spec v (depth + 1))) m)" using set_btree_of by blast
          then obtain k v where "(k, v) \<in> set m" "e = (k, resolve_schema spec v (depth + 1))" by auto
          then show ?thesis using 1(2) [OF False None JObj] by auto
        qed
        with None JObj False show ?thesis unfolding res suc by (auto intro: nested_object)
      next
        case (JArr vs)
        with None False 1(1) [OF False None JArr] show ?thesis unfolding res suc by (auto intro!: nested_array)
      qed (use None False in \<open>simp_all add: resolve_schema.simps nested_leaf as_object_def as_array_def\<close>)
    qed
  qed
qed


definition demo_cyclic :: json where
  "demo_cyclic = JObj [(''openapi'', JStr ''3.0.0''), (''paths'', JObj []),
     (''s'', JObj [(''next'', JObj [(''$ref'', JStr ''#/s'')]), (''type'', JStr ''object'')])]"


section \<open>Operations\<close>

lemma map_filter_concat: "List.map_filter f xs = concat (map (\<lambda>x. case f x of None \<Rightarrow> [] | Some y \<Rightarrow> [y]) xs)"
  by (induction xs) (auto simp: List.map_filter_def split: option.splits)

lemma set_map_filter: "set (List.map_filter f xs) = {y. \<exists>x \<in> set xs. f x = Some y}"
  by (force simp: List.map_filter_def)

definition op_slot :: "json \<Rightarrow> string option \<times> string option" where
  "op_slot v = (jget_str v ''path'', jget_str v ''method'')"

lemma op_slot_json [simp]:
  "op_slot (operation_json ap spec src base path shared meth op) = (Some path, Some (to_uppercase meth))"
  by (simp add: op_slot_def operation_json_def jget_str_def)

text \<open>The slots a document fills: its paths with an object, and the methods present there.\<close>

definition filled_slots :: "json \<Rightarrow> (string option \<times> string option) set" where
  "filled_slots spec = {(Some path, Some (to_uppercase meth)) | path meth m.
     (path, JObj m) \<in> set (spec_paths spec) \<and> meth \<in> set METHODS \<and> map_of m meth \<noteq> None}"

lemma map_slots:
  assumes "\<And>x y. s (f x y) = h x"
  shows "map s (List.map_filter (\<lambda>x. map_option (f x) (g x)) xs) = map h (filter (\<lambda>x. g x \<noteq> None) xs)"
  by (induction xs) (auto simp: List.map_filter_simps assms split: option.split)

lemma slots_of_path:
  "map op_slot (path_operations ap spec src base (path, item)) =
     (case as_object item of None \<Rightarrow> [] | Some m \<Rightarrow>
       map (\<lambda>meth. (Some path, Some (to_uppercase meth))) (filter (\<lambda>meth. map_of m meth \<noteq> None) METHODS))"
proof (cases "as_object item")
  case (Some m)
  let ?f = "operation_json ap spec src base path (unwrap_or (JArr []) (map_of m ''parameters''))"
  show ?thesis
    using map_slots [of op_slot ?f "\<lambda>meth. (Some path, Some (to_uppercase meth))" "map_of m" METHODS]
    by (simp add: path_operations_def Some)
qed (simp add: path_operations_def)

lemma methods_distinct: "distinct (map to_uppercase METHODS)"
  by code_simp

lemma ordered_entry: "ordered (JObj m) \<Longrightarrow> map_of m k = Some v \<Longrightarrow> ordered v"
  by (auto simp: list_all_iff dest!: map_of_SomeD)

lemma ordered_paths: "ordered spec \<Longrightarrow> sorted_keys (spec_paths spec)"
proof (cases "Option.bind (jget spec ''paths'') as_object")
  case (Some m)
  assume "ordered spec"
  moreover from Some obtain x where "spec = JObj x" "map_of x ''paths'' = Some (JObj m)"
    by (cases spec) (auto simp: jget_def bind_eq_Some_conv as_object_Some)
  ultimately have "ordered (JObj m)" using ordered_entry by blast
  with Some show ?thesis by (simp add: spec_paths_def)
qed (simp add: spec_paths_def sorted_keys_def)

lemma distinct_concat_keyed:
  assumes "distinct (map fst xs)" and "\<And>x. x \<in> set xs \<Longrightarrow> distinct (g x)"
    and "\<And>x y. x \<in> set xs \<Longrightarrow> y \<in> set (g x) \<Longrightarrow> fst y = h (fst x)" and "inj h"
  shows "distinct (concat (map g xs))"
  using assms(1-3)
proof (induction xs)
  case (Cons x xs)
  have "set (g x) \<inter> set (g z) = {}" if "z \<in> set xs" for z
  proof -
    have "fst x \<noteq> fst z" using Cons.prems(1) that by force
    then have "h (fst x) \<noteq> h (fst z)" using assms(4) by (simp add: inj_eq)
    then show ?thesis using Cons.prems(3) [of x] Cons.prems(3) [of z] that by fastforce
  qed
  then have "set (g x) \<inter> set (concat (map g xs)) = {}" by auto
  with Cons show ?case by simp
qed simp

text \<open>
  C32: The operation list of a document is exact: it has one entry for every path object and every method
  (get, post, put, patch, delete) defined there, no entry twice, and no other entry.
\<close>

theorem operations_exact:
  assumes "ordered spec"
  shows "distinct (map op_slot (parse_operations ap spec src))
    \<and> set (map op_slot (parse_operations ap spec src)) = filled_slots spec"
proof
  define g where "g e = map op_slot (path_operations ap spec src (spec_base_url spec) e)" for e
  have all: "map op_slot (parse_operations ap spec src) = concat (map g (spec_paths spec))"
    by (simp add: parse_operations_def map_concat comp_def g_def [abs_def])
  have g: "g (path, item) = (case as_object item of None \<Rightarrow> [] | Some m \<Rightarrow>
       map (\<lambda>meth. (Some path, Some (to_uppercase meth))) (filter (\<lambda>meth. map_of m meth \<noteq> None) METHODS))" for path item
    unfolding g_def by (rule slots_of_path)
  have "distinct (g e)" for e
    using methods_distinct by (cases e) (auto simp: g distinct_map inj_on_def split: option.split)
  moreover have "fst y = Some (fst e)" if "y \<in> set (g e)" for e y
    using that by (cases e) (auto simp: g split: option.splits)
  ultimately show "distinct (map op_slot (parse_operations ap spec src))"
    unfolding all using sorted_keys_distinct [OF ordered_paths [OF assms]]
    by (intro distinct_concat_keyed [where h = Some]) auto
  have slot: "y \<in> set (g (path, item)) \<longleftrightarrow> (\<exists>meth m. y = (Some path, Some (to_uppercase meth)) \<and>
      item = JObj m \<and> meth \<in> set METHODS \<and> map_of m meth \<noteq> None)" for path item y
    by (cases item) (auto simp: g as_object_def)
  have "y \<in> set (concat (map g (spec_paths spec))) \<longleftrightarrow> (\<exists>path item. (path, item) \<in> set (spec_paths spec) \<and> y \<in> set (g (path, item)))" for y
    by auto
  then show "set (map op_slot (parse_operations ap spec src)) = filled_slots spec"
    unfolding all filled_slots_def slot by blast
qed

theorem operations_exact_witness:
  "(Some ''/p'', Some ''GET'') \<in> set (map op_slot
     (parse_operations demo_app (JObj [(''paths'', JObj [(''/p'', JObj [(''get'', JObj []), (''x'', JNull)])])]) None))"
proof -
  define i where "i = [(''get'', JObj []), (''x'', JNull)]"
  define s where "s = JObj [(''paths'', JObj [(''/p'', JObj i)])]"
  have "ordered s" unfolding s_def i_def by code_simp
  then have "set (map op_slot (parse_operations demo_app s None)) = filled_slots s" by (rule operations_exact [THEN conjunct2])
  moreover have "(''/p'', JObj i) \<in> set (spec_paths s)"
    by (simp add: spec_paths_def s_def jget_def)
  moreover have "''get'' \<in> set METHODS" "map_of i ''get'' \<noteq> None" by (simp_all add: METHODS_def i_def)
  ultimately have "(Some ''/p'', Some (to_uppercase ''get'')) \<in> set (map op_slot (parse_operations demo_app s None))"
    unfolding filled_slots_def by blast
  moreover have "to_uppercase ''get'' = ''GET''" by code_simp
  ultimately show ?thesis unfolding s_def i_def by simp
qed

section \<open>Import\<close>

lemma fetch_spec_Inr:
  assumes "fetch_spec ap rq url = Inr spec"
  obtains u bytes where "cr_url (ap_crates ap) url = Inr u" "ur_scheme u \<in> {''http'', ''https''}"
    "private_host_guard ap rq u = Inr ()" "fetched_body ap (nt_get (rq_net rq) url) = Inr bytes"
    "length bytes \<le> MAX_SPEC_BYTES" "lib_parse (ap_libs ap) bytes = Some spec"
  using assms by (auto simp: fetch_spec_def split: sum.splits if_splits option.splits)


definition specs_ok :: "db \<Rightarrow> bool" where
  "specs_ok d \<longleftrightarrow> distinct (map os_id (db_specs d)) \<and> distinct (map (\<lambda>s. (os_org_id s, os_name s)) (db_specs d))
     \<and> (\<forall>s \<in> set (db_specs d). os_id s < db_next d T_specs)"

text \<open>What an import leaves: the document under the given name, every other one as it was.\<close>

definition spec_stored :: "int \<Rightarrow> string \<Rightarrow> string option \<Rightarrow> json \<Rightarrow> int \<Rightarrow> db \<Rightarrow> db \<Rightarrow> bool" where
  "spec_stored org name url spec sid d d' \<longleftrightarrow> specs_ok d'
     \<and> (\<exists>row. spec_by_id org sid d' = Some row \<and> os_name row = name \<and> os_spec_json row = spec \<and> os_source_url row = url)
     \<and> filter (\<lambda>s. os_id s \<noteq> sid) (db_specs d') = filter (\<lambda>s. os_id s \<noteq> sid) (db_specs d)
     \<and> (\<forall>s \<in> set (db_specs d). os_org_id s = org \<longrightarrow> os_name s = name \<longrightarrow> os_id s = sid) \<and> db_orgs d' = db_orgs d"

lemma spec_replaced:
  assumes "upsert_spec org name url spec u now d = (Inr sid, d')" and "specs_ok d"
    and "List.find (\<lambda>s. os_org_id s = org \<and> os_name s = name) (db_specs d) = Some old"
  shows "spec_stored org name url spec sid d d'"
proof -
  let ?hit = "\<lambda>s. os_org_id s = org \<and> os_name s = name"
  let ?f = "\<lambda>s. s\<lparr>os_source_url := url, os_spec_json := spec, os_updated_at := now\<rparr>"
  have old: "old \<in> set (db_specs d)" "?hit old" using assms(3) by (auto dest: find_Some_in)
  have key: "s = old" if "s \<in> set (db_specs d)" "?hit s" for s
    using assms(2) that old unfolding specs_ok_def distinct_map inj_on_def by auto
  from assms(1,3) have sid: "sid = os_id old"
    and d': "db_specs d' = update_where ?hit ?f (db_specs d)" "db_next d' = (db_next d)(T_specs := db_next d T_specs + 1)" "db_orgs d' = db_orgs d"
    by (auto simp: upsert_spec_def Let_def bump_def)
  have "map os_id (db_specs d') = map os_id (db_specs d)"
    "map (\<lambda>s. (os_org_id s, os_name s)) (db_specs d') = map (\<lambda>s. (os_org_id s, os_name s)) (db_specs d)"
    unfolding d' update_where_def by auto
  moreover have "\<forall>s \<in> set (db_specs d'). os_id s < db_next d' T_specs"
    using assms(2) unfolding specs_ok_def d' update_where_def by (auto simp: less_imp_le add_strict_increasing)
  ultimately have ok: "specs_ok d'" using assms(2) by (simp add: specs_ok_def)
  have "?f old \<in> set (db_specs d')" unfolding d' update_where_def using old by force
  then have "spec_by_id org sid d' = Some (?f old)"
    unfolding spec_by_id_def using old ok
    by (intro find_unique) (auto simp: sid specs_ok_def distinct_map inj_on_def)
  moreover have "filter (\<lambda>s. os_id s \<noteq> sid) (db_specs d') = filter (\<lambda>s. os_id s \<noteq> sid) (db_specs d)"
    unfolding d' sid using key by (intro filter_update_where_id) auto
  moreover have "\<forall>s \<in> set (db_specs d). os_org_id s = org \<longrightarrow> os_name s = name \<longrightarrow> os_id s = sid" using key sid by blast
  ultimately show ?thesis unfolding spec_stored_def using ok old(2) d'(3) by simp
qed

lemma spec_inserted:
  assumes "upsert_spec org name url spec u now d = (Inr sid, d')" and "specs_ok d"
    and "List.find (\<lambda>s. os_org_id s = org \<and> os_name s = name) (db_specs d) = None"
  shows "spec_stored org name url spec sid d d'"
proof -
  let ?row = "\<lparr>os_id = sid, os_org_id = org, os_name = name, os_source_url = url, os_spec_json = spec,
    os_created_by = Some u, os_created_at = now, os_updated_at = now\<rparr>"
  from assms(1,3) have sid: "sid = db_next d T_specs" and d': "db_specs d' = db_specs d @ [?row]"
    "db_next d' = (db_next d)(T_specs := db_next d T_specs + 1)" "db_orgs d' = db_orgs d"
    by (auto simp: upsert_spec_def Let_def bump_def split: if_splits)
  have new: "os_id s < sid" "\<not> (os_org_id s = org \<and> os_name s = name)" if "s \<in> set (db_specs d)" for s
    using that assms(2,3) by (auto simp: specs_ok_def sid find_None_iff)
  then have ok: "specs_ok d'" using assms(2) by (force simp: specs_ok_def d' sid)
  have "spec_by_id org sid d' = Some ?row"
    unfolding spec_by_id_def using new by (intro find_unique) (auto simp: d')
  with ok new show ?thesis unfolding spec_stored_def by (auto simp: d')
qed

lemma upsert_spec_effect:
  assumes "upsert_spec org name url spec u now d = (Inr sid, d')" and "specs_ok d"
  shows "specs_ok d'"
    and "\<exists>row. spec_by_id org sid d' = Some row \<and> os_name row = name \<and> os_spec_json row = spec \<and> os_source_url row = url"
    and "filter (\<lambda>s. os_id s \<noteq> sid) (db_specs d') = filter (\<lambda>s. os_id s \<noteq> sid) (db_specs d)"
    and "s \<in> set (db_specs d) \<Longrightarrow> os_org_id s = org \<Longrightarrow> os_name s = name \<Longrightarrow> os_id s = sid"
    and "db_orgs d' = db_orgs d"
proof -
  have "spec_stored org name url spec sid d d'"
    using spec_replaced [OF assms] spec_inserted [OF assms] by (cases "List.find (\<lambda>s. os_org_id s = org \<and> os_name s = name) (db_specs d)") auto
  then show "specs_ok d'"
    and "\<exists>row. spec_by_id org sid d' = Some row \<and> os_name row = name \<and> os_spec_json row = spec \<and> os_source_url row = url"
    and "filter (\<lambda>s. os_id s \<noteq> sid) (db_specs d') = filter (\<lambda>s. os_id s \<noteq> sid) (db_specs d)"
    and "s \<in> set (db_specs d) \<Longrightarrow> os_org_id s = org \<Longrightarrow> os_name s = name \<Longrightarrow> os_id s = sid"
    and "db_orgs d' = db_orgs d"
    unfolding spec_stored_def by blast+
qed


definition demo_openapi :: json where
  "demo_openapi = JObj [(''openapi'', JStr ''3.1.0''), (''paths'', JObj [])]"

definition demo_import_app :: app where
  "demo_import_app = demo_app\<lparr>ap_libs := demo_json_libs\<lparr>lib_parse := (\<lambda>_. Some demo_openapi)\<rparr>,
     ap_crates := demo_crates\<lparr>cr_url := (\<lambda>_. Inr \<lparr>ur_scheme = ''https'', ur_host = Some ''h'', ur_port = None,
       ur_port_or_default = Some 443\<rparr>)\<rparr>\<rparr>"

definition demo_fetch_rq :: request where
  "demo_fetch_rq = demo_rq\<lparr>rq_net := demo_net\<lparr>nt_dns := (\<lambda>_ _. Inr [V4 8 8 8 8]), nt_get := (\<lambda>_. Reply 200 [])\<rparr>\<rparr>"

definition demo_import :: create_spec_req where
  "demo_import = \<lparr>cp_name = ''pets'', cp_spec = None, cp_url = Some ''https://h/openapi.json''\<rparr>"

lemma demo_import_runs: "\<exists>x w'. create_spec demo_import_app demo_fetch_rq demo_claims demo_import demo_site_world = (Inr x, w')"
proof -
  have "validate_openapi demo_openapi = Inr ()" by code_simp
  then show ?thesis
    by (simp add: create_spec_def act_simps spec_source_def fetch_spec_def private_host_guard_def fetched_body_def is_success_def
        demo_import_def demo_import_app_def demo_fetch_rq_def demo_app_def demo_crates_def demo_json_libs_def demo_rq_def demo_net_def
        demo_claims_def demo_user_id demo_site_world_def demo_site_def demo_db_def upsert_spec_def org_exists_def user_exists_def
        demo_user_def bump_def MAX_SPEC_BYTES_def Let_def)
qed



end
