(* ===== verification/Llm_Facts.thy ===== *)
theory Llm_Facts
  imports Llm Examples Gate_Facts Operations_Facts Templates_Facts
begin

text \<open>
  What leaves for an LLM provider, and what comes back: with redaction on, the outcome of a suggestion (and so everything
  that was sent) depends on the sample rows only through their redacted form; a suggestion that is returned has passed
  the same validation as a template that is saved; no more than two requests are made.
\<close>

section \<open>Only redacted rows leave\<close>

lemma suggest_loop_cong:
  "sg_operation_id r = sg_operation_id r' \<Longrightarrow>
   suggest_loop n ap rq c r cfg api_key err messages = suggest_loop n ap rq c r' cfg api_key err messages"
proof (induction n arbitrary: err messages)
  case (Suc n)
  then show ?case unfolding suggest_loop.simps by (simp only: Suc.IH [OF Suc.prems] Suc.prems)
qed simp

lemma suggest_mapping_query:
  assumes "alone rq" and "llm_config (cl_org c) (w_db w) = Some cfg"
  shows "suggest_mapping ap rq c r w =
     bindE (fails (require_role c [''admin'', ''editor''])) (\<lambda>_.
     bindE (guardE (sg_columns r \<noteq> []) (Fails (BadRequest ''columns must not be empty''))) (\<lambda>_.
     bindE (fails (query rq (llm_config (cl_org c)))) (\<lambda>row.
     bindE (guardE (lc_enabled cfg) (Fails (BadRequest ''LLM suggestions are disabled for this organization''))) (\<lambda>_.
     bindE (load_api_key ap rq c (lc_secret_id cfg)) (\<lambda>api_key.
     bindE (target_operation ap rq c r) (\<lambda>operation.
     suggest_loop 2 ap rq c r cfg api_key [] [chat_message ''system'' SYSTEM_PROMPT, chat_message ''user''
       (build_prompt ap (sg_columns r) (sent_rows ap (lc_redact_pii cfg) (sg_sample_rows r)) operation (sg_instructions r)
         (sg_source_type r))])))))) w"
  using assms
  by (cases "rq_outage rq (w_steps w)")
    (simp_all add: suggest_mapping_def bindE_def fails_def mapE_def require_role_def guardE_def ok_def throw_def query_def sqlE_def
      alone_def lift_def ok_or_def Let_def split: sum.split prod.split)


definition demo_llm_app :: app where
  "demo_llm_app = demo_app\<lparr>ap_crates := demo_crates\<lparr>cr_replace_all := (\<lambda>_ with s. if CHR ''@'' \<in> set s then with else s)\<rparr>\<rparr>"

definition demo_llm_config :: llm_config_row where
  "demo_llm_config = \<lparr>lc_org_id = 1, lc_provider = ''openai-compatible'', lc_base_url = ''https://l'', lc_model = ''m'', lc_secret_id = Some 1,
     lc_redact_pii = True, lc_enabled = True, lc_updated_by = Some 5, lc_updated_at = 0\<rparr>"

definition demo_llm_world :: world where
  "demo_llm_world = demo_site_world\<lparr>w_db := demo_site\<lparr>db_llm_configs := [demo_llm_config],
     db_secrets := [(demo_secret ''llm-api-key'' ''internal'')\<lparr>sc_nonce := ''123456789012''\<rparr>]\<rparr>\<rparr>"

definition demo_suggest :: suggest_req where
  "demo_suggest = \<lparr>sg_columns = [JStr ''email''], sg_sample_rows = [JStr ''jane@corp''], sg_spec_id = None, sg_operation_id = None,
     sg_instructions = None, sg_source_type = None\<rparr>"


section \<open>What a suggestion is\<close>

definition calls_within :: "nat \<Rightarrow> string \<Rightarrow> string \<Rightarrow> world \<Rightarrow> world \<Rightarrow> bool" where
  "calls_within n url key w w' \<longleftrightarrow> (\<exists>new. w_out w' = new @ w_out w \<and> length new \<le> n
     \<and> list_all (\<lambda>(u, k, _). u = url \<and> k = key) new)"

lemma record_audit_out: "w_out (snd (record_audit rq org actor entity eid action before after w)) = w_out w"
  by (auto simp: record_audit_def sqlE_def Let_def split_beta split: sum.split option.split)

lemma calls_within_refl: "w_out w' = w_out w \<Longrightarrow> calls_within n url key w w'"
  by (simp add: calls_within_def)

lemma calls_within_Suc:
  assumes "w_out w1 = (url, key, body) # w_out w" and "calls_within n url key w1 w2"
  shows "calls_within (Suc n) url key w w2"
proof -
  obtain new where "w_out w2 = new @ w_out w1" "length new \<le> n" "list_all (\<lambda>(u, k, _). u = url \<and> k = key) new"
    using assms(2) by (auto simp: calls_within_def)
  then show ?thesis unfolding calls_within_def assms(1) by (intro exI [of _ "new @ [(url, key, body)]"]) simp
qed

lemma suggest_loop_result:
  assumes "suggest_loop n ap rq c r cfg api_key err messages w = (res, w')"
  shows "calls_within n (lc_base_url cfg @ ''/chat/completions'') api_key w w'
    \<and> (\<forall>x. res = Inr x \<longrightarrow> (\<exists>candidate tpl. jget x ''template'' = Some candidate \<and> validate_template ap candidate = Inr tpl))"
  using assms
proof (induction n arbitrary: err messages w)
  case 0
  then show ?case by (auto simp: throw_def calls_within_def)
next
  case (Suc n)
  let ?url = "lc_base_url cfg @ ''/chat/completions''"
  obtain q w1 where call: "call_llm ap rq (lc_base_url cfg) api_key (lc_model cfg) messages w = (q, w1)" by fastforce
  then obtain body where w1: "w_out w1 = (?url, api_key, body) # w_out w"
    by (auto simp: call_llm_def bindE_def gets_def modify_def lift_def Let_def)
  note more = calls_within_Suc [OF w1]
  have one: "calls_within (Suc n) ?url api_key w w1" by (rule more [OF calls_within_refl]) simp
  show ?case
  proof (cases q)
    case (Inl e)
    then show ?thesis using Suc.prems call one by (auto simp: bindE_def fails_def mapE_def)
  next
    case (Inr content)
    note run = Suc.prems [unfolded suggest_loop.simps bindE_def fails_def mapE_def call Inr, simplified]
    show ?thesis
    proof (cases "\<exists>candidate. extract_json ap content = Inr (Some candidate)")
      case False
      then show ?thesis
        using run one by (cases "extract_json ap content") (auto simp: lift_def ok_or_def split: option.splits)
    next
      case True
      then obtain candidate where x: "extract_json ap content = Inr (Some candidate)" by blast
      show ?thesis
      proof (cases "validate_template ap candidate")
        case (Inl e)
        with run x have "suggest_loop n ap rq c r cfg api_key (api_error_display e)
           (messages @ [chat_message ''assistant'' content, chat_message ''user'' (retry_message (api_error_display e))]) w1 = (res, w')"
          by (simp add: lift_def ok_or_def)
        from Suc.IH [OF this] more show ?thesis by blast
      next
        case (Inr tpl)
        let ?audit = "record_audit rq (cl_org c) (cl_sub c) ''mapping_suggestion'' None ''generate'' None
           (Some (json_obj [(''model'', JStr (lc_model cfg)), (''redacted'', JBool (lc_redact_pii cfg)),
              (''operation'', jostr (sg_operation_id r))])) w1"
        have "w_out w' = w_out w1"
          using run x Inr record_audit_out [of rq "cl_org c" "cl_sub c" "''mapping_suggestion''" None "''generate''" None _ w1]
          by (auto simp: lift_def ok_or_def ok_def split: prod.splits sum.splits) (metis snd_conv)+
        moreover have "jget x ''template'' = Some candidate" if "res = Inr x" for x
          using run x Inr that by (auto simp: lift_def ok_or_def ok_def split: prod.splits sum.splits)
        ultimately show ?thesis using more [OF calls_within_refl] Inr by blast
      qed
    qed
  qed
qed

definition calls_most :: "nat \<Rightarrow> world \<Rightarrow> world \<Rightarrow> bool" where
  "calls_most n w w' \<longleftrightarrow> (\<exists>new. w_out w' = new @ w_out w \<and> length new \<le> n)"

definition quiet :: "world \<Rightarrow> world \<Rightarrow> bool" where
  "quiet w w' \<longleftrightarrow> w_out w' = w_out w"

interpretation quiet: framing quiet
  by unfold_locales (auto simp: quiet_def)

lemma quiet_sqlE: "preserves quiet (sqlE rq err f)"
  by (auto simp: preserves_def quiet_def sqlE_def Let_def split_beta split: sum.split option.split)

lemma quiet_query: "preserves quiet (query rq f)"
  unfolding query_def by (rule quiet_sqlE)

lemma quiet_role: "preserves quiet (require_role c roles)"
  unfolding require_role_def by (intro quiet.pres_rules)

lemma quiet_fails: "preserves quiet m \<Longrightarrow> preserves quiet (fails m)"
  unfolding fails_def by (rule quiet.pres_mapE)

lemmas quiet_rules = quiet.pres_rules quiet_sqlE quiet_query quiet_role quiet_fails

lemma quiet_key: "preserves quiet (load_api_key ap rq c secret_id)"
  unfolding load_api_key_def by (intro quiet_rules)

lemma quiet_operation: "preserves quiet (target_operation ap rq c r)"
  unfolding target_operation_def by (intro quiet_rules)

lemma calls_bind:
  assumes "preserves quiet m" and "\<And>x w1. calls_most n w1 (snd (f x w1))"
  shows "calls_most n w (snd (bindE m f w))"
proof -
  obtain q w1 where m: "m w = (q, w1)" by fastforce
  then have q: "w_out w1 = w_out w" using assms(1) by (metis preserves_def quiet_def snd_conv)
  show ?thesis
  proof (cases q)
    case (Inl e)
    then show ?thesis using m q by (simp add: bindE_def calls_most_def)
  next
    case (Inr x)
    then show ?thesis using m q assms(2) [of w1 x] by (simp add: bindE_def calls_most_def)
  qed
qed

lemma calls_loop: "calls_most n w (snd (suggest_loop n ap rq c r cfg api_key err messages w))"
proof -
  obtain res w' where run: "suggest_loop n ap rq c r cfg api_key err messages w = (res, w')" by fastforce
  from suggest_loop_result [OF run] run show ?thesis by (auto simp: calls_within_def calls_most_def)
qed

lemma fails_Inr [act_simps]: "fails m w = (Inr x, w') \<longleftrightarrow> m w = (Inr x, w')"
  by (simp add: fails_def mapE_Inr)

text \<open>
  C36: A suggestion is as good as a saved template: whatever the provider answers, a suggestion is returned only if its
  template passes the full validation (schema, shape, step references, destinations), and a request for a suggestion calls
  the provider at most twice, whatever its outcome.
\<close>

theorem suggestions_are_valid:
  "calls_most 2 w (snd (suggest_mapping ap rq c r w))
   \<and> (\<forall>x. fst (suggest_mapping ap rq c r w) = Inr x \<longrightarrow>
        (\<exists>candidate tpl. jget x ''template'' = Some candidate \<and> validate_template ap candidate = Inr tpl))"
proof
  show "calls_most 2 w (snd (suggest_mapping ap rq c r w))"
    unfolding suggest_mapping_def Let_def
    by (intro calls_bind quiet_rules quiet_key quiet_operation calls_loop)
  show "\<forall>x. fst (suggest_mapping ap rq c r w) = Inr x \<longrightarrow>
        (\<exists>candidate tpl. jget x ''template'' = Some candidate \<and> validate_template ap candidate = Inr tpl)"
  proof (intro allI impI)
    fix x assume "fst (suggest_mapping ap rq c r w) = Inr x"
    then obtain w' where "suggest_mapping ap rq c r w = (Inr x, w')" by (metis prod.collapse)
    then obtain cfg api_key messages w1 where "suggest_loop 2 ap rq c r cfg api_key [] messages w1 = (Inr x, w')"
      unfolding suggest_mapping_def Let_def by (auto simp: act_simps)
    from suggest_loop_result [OF this] show "\<exists>candidate tpl. jget x ''template'' = Some candidate \<and> validate_template ap candidate = Inr tpl"
      by blast
  qed
qed

definition demo_chat_app :: app where
  "demo_chat_app = demo_app\<lparr>ap_libs := demo_json_libs\<lparr>lib_parse := (\<lambda>s. Some (if s = ''T'' then rule_template_json demo_template
     else JObj [(''choices'', JArr [JObj [(''message'', JObj [(''content'', JStr ''T'')])]])]))\<rparr>\<rparr>"

definition demo_chat_rq :: request where
  "demo_chat_rq = demo_rq\<lparr>rq_net := demo_net\<lparr>nt_llm := (\<lambda>_ _ _ _. Reply 200 ''R'')\<rparr>\<rparr>"

lemma demo_chat_fields:
  "rq_other demo_chat_rq n d = d" "rq_outage demo_chat_rq n = None" "nt_llm (rq_net demo_chat_rq) i url key body = Reply 200 ''R''"
  "cl_org demo_claims = 1" "cl_role demo_claims = ''editor''"
  "lib_parse (ap_libs demo_chat_app) ''T'' = Some (rule_template_json demo_template)"
  "lib_parse (ap_libs demo_chat_app) ''R'' = Some (JObj [(''choices'', JArr [JObj [(''message'', JObj [(''content'', JStr ''T'')])]])])"
  "ap_crates demo_chat_app = demo_crates"
  by (simp_all add: demo_chat_rq_def demo_rq_def demo_claims_def demo_chat_app_def demo_app_def)

lemma demo_chat_reads:
  "extract_json demo_chat_app ''T'' = Inr (Some (rule_template_json demo_template))"
  "llm_content demo_chat_app (Reply 200 ''R'') = Inr ''T''"
  "validate_template demo_chat_app (rule_template_json demo_template) = Inr demo_template"
proof -
  have "trim ''T'' = ''T''" by code_simp
  then show "extract_json demo_chat_app ''T'' = Inr (Some (rule_template_json demo_template))"
    by (simp add: extract_json_def demo_chat_fields)
  have "map pointer_token (tl (split_on (CHR ''/'') ''/choices/0/message/content'')) = [''choices'', ''0'', ''message'', ''content'']"
    by code_simp
  moreover have "parse_index ''0'' = Some 0" by (simp add: parse_index_def is_digit_def byte_def digits_value_def)
  ultimately have "json_pointer (JObj [(''choices'', JArr [JObj [(''message'', JObj [(''content'', JStr ''T'')])]])]) ''/choices/0/message/content''
      = Some (JStr ''T'')" by (simp add: json_pointer_def pointer_step_def)
  then show "llm_content demo_chat_app (Reply 200 ''R'') = Inr ''T''"
    by (simp add: llm_content_def demo_chat_fields is_success_def ok_or_def)
  have "validate_template demo_app (rule_template_json demo_template) = Inr demo_template"
    using demo_valid by (simp add: demo_create_def)
  moreover have "ap_schema_errors demo_chat_app = ap_schema_errors demo_app" "ap_shape_error demo_chat_app = ap_shape_error demo_app"
    by (simp_all add: demo_chat_app_def)
  ultimately show "validate_template demo_chat_app (rule_template_json demo_template) = Inr demo_template"
    by (simp only: validate_template_def)
qed

lemma demo_chat_loop:
  assumes "org_exists (w_db w) 1"
  shows "\<exists>x. fst (suggest_loop (Suc n) demo_chat_app demo_chat_rq demo_claims r cfg key err messages w) = Inr x"
proof -
  obtain w1 where "call_llm demo_chat_app demo_chat_rq (lc_base_url cfg) key (lc_model cfg) messages w = (Inr ''T'', w1)" "w_db w1 = w_db w"
    by (simp add: call_llm_def bindE_def gets_def modify_def lift_def demo_chat_fields demo_chat_reads Let_def)
  with assms show ?thesis
    by (simp add: bindE_def fails_def mapE_def demo_chat_reads demo_chat_fields lift_def ok_or_def record_audit_def sqlE_up ok_def)
qed

theorem suggestions_are_valid_witness:
  "\<exists>x candidate tpl. fst (suggest_mapping demo_chat_app demo_chat_rq demo_claims demo_suggest demo_llm_world) = Inr x
     \<and> jget x ''template'' = Some candidate \<and> validate_template demo_chat_app candidate = Inr tpl"
proof -
  have db: "llm_config 1 (w_db demo_llm_world) = Some demo_llm_config" "org_exists (w_db demo_llm_world) 1"
    "List.find (\<lambda>s. sc_id s = 1 \<and> sc_org_id s = 1) (db_secrets (w_db demo_llm_world))
       = Some ((demo_secret ''llm-api-key'' ''internal'')\<lparr>sc_nonce := ''123456789012''\<rparr>)"
    by (simp_all add: llm_config_def demo_llm_world_def demo_llm_config_def org_exists_def demo_site_def demo_secret_def)
  have cfg: "lc_enabled demo_llm_config" "lc_secret_id demo_llm_config = Some 1" by (simp_all add: demo_llm_config_def)
  have key: "cr_decrypt demo_crates ct nonce = Some ct" "cr_is_utf8 demo_crates s" for ct nonce s by (simp_all add: demo_crates_def)
  have req: "sg_columns demo_suggest \<noteq> []" "sg_spec_id demo_suggest = None" by (simp_all add: demo_suggest_def)
  have "\<exists>x. fst (suggest_mapping demo_chat_app demo_chat_rq demo_claims demo_suggest demo_llm_world) = Inr x"
    unfolding suggest_mapping_def Let_def numeral_2_eq_2
    by (simp add: bindE_def fails_def mapE_def require_role_def guardE_def ok_def query_up lift_def ok_or_def load_api_key_def
        decrypt_def target_operation_def demo_chat_fields db cfg key req demo_chat_loop del: suggest_loop.simps)
  with suggestions_are_valid [of demo_llm_world demo_chat_app demo_chat_rq demo_claims demo_suggest] show ?thesis by blast
qed

section \<open>A key that was revoked as a secret\<close>

text \<open>
  \<^verbatim>\<open>put_config\<close> stores the key in an existing destination secret of the same name without changing its kind. Revoking that
  secret erases its nonce, and the next suggestion panics when it is opened.
\<close>

lemma revoked_key_panics:
  assumes "alone rq" and "cl_role c = ''admin''" and "sg_columns r \<noteq> []" and "llm_config (cl_org c) (w_db w) = Some cfg"
    and "lc_enabled cfg" and "lc_secret_id cfg = Some sid"
    and "List.find (\<lambda>s. sc_id s = sid \<and> sc_org_id s = cl_org c) (db_secrets (w_db w)) = Some s" and "sc_nonce s = []"
    and "healthy rq"
  shows "fst (suggest_mapping ap rq c r w) = Inl Panics"
  using assms
  by (simp add: suggest_mapping_def bindE_def fails_def mapE_def require_role_def guardE_def ok_def throw_def query_up healthyD
      alone_def lift_def ok_or_def load_api_key_def decrypt_def)

text \<open>A provider's answer with a closing brace before an opening one, such as \<open>}, {\<close>, panics as well.\<close>

lemma crossed_braces_panic:
  assumes "lib_parse (ap_libs ap) ''}, {'' = None"
  shows "extract_json ap ''}, {'' = Inl Panics"
proof -
  have "trim ''}, {'' = ''}, {''" "find_index (CHR ''{'') ''}, {'' = Some 3" "rfind_index (CHR ''}'') ''}, {'' = Some 0" by code_simp+
  with assms show ?thesis by (simp add: extract_json_def)
qed

end
