(* ===== verification/Sampling_Facts.thy ===== *)
theory Sampling_Facts
  imports Files Examples Gate_Facts
begin

text \<open>
  What a sample tells about a file: the inferred type of a column is the strictest one that all its values have; a CSV sample
  is exact and says when it was cut; of a clipped JSON array every complete record is kept; a sample never exceeds its cap
  and is taken from a source of the caller's organization.
\<close>

section \<open>Type inference\<close>

definition column_type :: "app \<Rightarrow> string list \<Rightarrow> string" where
  "column_type ap vals =
     (if vals = [] then ''string''
      else if list_all is_bool vals then ''boolean''
      else if list_all (\<lambda>v. parse_i64 v \<noteq> None) vals then ''integer''
      else if list_all parse_f64_ok vals then ''number''
      else if list_all (is_datetime ap) vals then ''datetime''
      else ''string'')"

definition present :: "string list \<Rightarrow> string list" where
  "present vs = filter (\<lambda>v. v \<noteq> []) (map trim vs)"

lemma present_simps [simp]:
  "present [] = []" "present (raw # vs) = (if trim raw = [] then present vs else trim raw # present vs)"
  by (simp_all add: present_def)

lemma infer_loop_spec:
  "infer_loop ap b i n t any vs =
     (if \<not> any \<and> present vs = [] then ''string''
      else if b \<and> list_all is_bool (present vs) then ''boolean''
      else if i \<and> list_all (\<lambda>v. parse_i64 v \<noteq> None) (present vs) then ''integer''
      else if n \<and> list_all parse_f64_ok (present vs) then ''number''
      else if t \<and> list_all (is_datetime ap) (present vs) then ''datetime''
      else ''string'')"
proof (induction vs arbitrary: b i n t any)
  case (Cons raw vs)
  show ?case
  proof (cases "trim raw = []")
    case True
    then show ?thesis by (simp add: Cons.IH)
  next
    case False
    then have "present (raw # vs) = trim raw # present vs" by simp
    then show ?thesis
      using False unfolding infer_loop.simps Let_def Cons.IH
      by (cases "is_bool (trim raw)"; cases "parse_i64 (trim raw) = None"; cases "parse_f64_ok (trim raw)";
          cases "is_datetime ap (trim raw)") (simp_all)
  qed
qed simp

text \<open>
  The inferred type of a column is exactly the strictest type that every present value has, in the order boolean,
  integer, number, datetime, and string otherwise; blank values are ignored, and the early exit of the loop changes nothing.
\<close>

theorem inferred_type_exact: "infer_column_type ap vs = column_type ap (present vs)"
  unfolding infer_column_type_def infer_loop_spec column_type_def by simp

section \<open>CSV\<close>

lemma csv_loop_exact:
  assumes "csv_loop width False cap n records = Inr (cells, truncated)" and "n \<le> cap" and "length records \<le> cap - n + 1"
  shows "truncated \<longleftrightarrow> cap - n < length records"
    and "length cells = min (cap - n) (length records)"
    and "\<forall>k < length cells. \<exists>r. records ! k = Inr r \<and> cells ! k = map (\<lambda>i. if i < length r then r ! i else []) [0..<width]"
proof -
  have "(truncated \<longleftrightarrow> cap - n < length records) \<and> length cells = min (cap - n) (length records)
    \<and> (\<forall>k < length cells. \<exists>r. records ! k = Inr r \<and> cells ! k = map (\<lambda>i. if i < length r then r ! i else []) [0..<width])"
    using assms
  proof (induction records arbitrary: n cells truncated)
    case (Cons rec records)
    show ?case
    proof (cases "n = cap")
      case True
      then show ?thesis using Cons.prems by auto
    next
      case False
      then obtain r rest where r: "rec = Inr r" "csv_loop width False cap (n + 1) records = Inr (rest, truncated)"
        "cells = map (\<lambda>i. if i < length r then r ! i else []) [0..<width] # rest"
        using Cons.prems(1) by (auto split: sum.splits)
      have "n + 1 \<le> cap" "length records \<le> cap - (n + 1) + 1" using False Cons.prems(2,3) by auto
      from Cons.IH [OF r(2) this] show ?thesis
        using False Cons.prems(2) r(1,3) by (auto simp: nth_Cons split: nat.split)
    qed
  qed auto
  then show "truncated \<longleftrightarrow> cap - n < length records" and "length cells = min (cap - n) (length records)"
    and "\<forall>k < length cells. \<exists>r. records ! k = Inr r \<and> cells ! k = map (\<lambda>i. if i < length r then r ! i else []) [0..<width]"
    by auto
qed

text \<open>
  A CSV sample of a complete file is exact: its columns are the headers, it has the first records up to the cap, each
  with the cells of the record under its header (missing and empty cells are null), and it is marked as truncated
  exactly when the file has more records than the cap.
\<close>

theorem csv_sample_exact:
  assumes "csv_sample ap bytes cap False = Inr res"
    and "cr_csv (ap_crates ap) (detect_delimiter bytes) bytes = (Inr headers, records)"
  shows "map co_name (sa_columns res) = headers \<and> sa_row_count res = min cap (length records)
    \<and> length (sa_rows res) = sa_row_count res \<and> (sa_truncated res \<longleftrightarrow> cap < length records)
    \<and> (\<forall>k < sa_row_count res. \<exists>r. records ! k = Inr r \<and> sa_rows res ! k =
         csv_row headers (map (\<lambda>i. if i < length r then r ! i else []) [0..<length headers]))"
proof -
  from assms obtain cells truncated where loop: "csv_loop (length headers) False cap 0 (take (cap + 1) records) = Inr (cells, truncated)"
    and res: "sa_columns res = map (\<lambda>(i, h). csv_column ap cells i h) (List.enumerate 0 headers)" "sa_rows res = map (csv_row headers) cells"
      "sa_row_count res = length cells" "sa_truncated res = truncated"
    by (auto simp: csv_sample_def split: if_splits sum.splits)
  have le: "length (take (cap + 1) records) \<le> cap - 0 + 1" by simp
  have "map co_name (sa_columns res) = headers"
    unfolding res by (simp add: comp_def split_beta csv_column_def)
  moreover have "truncated \<longleftrightarrow> cap < length records" "length cells = min cap (length records)"
    using csv_loop_exact(1,2) [OF loop _ le] by auto
  moreover have "\<forall>k < length cells. \<exists>r. records ! k = Inr r \<and> sa_rows res ! k =
         csv_row headers (map (\<lambda>i. if i < length r then r ! i else []) [0..<length headers])"
    using csv_loop_exact(3) [OF loop _ le] calculation(3) unfolding res by fastforce
  ultimately show ?thesis by (simp add: res)
qed

definition demo_csv_app :: app where
  "demo_csv_app = demo_app\<lparr>ap_crates := demo_crates\<lparr>cr_csv := (\<lambda>_ _. (Inr [''a'', ''b''], [Inr [''1''], Inr [''2'', ''x'']]))\<rparr>\<rparr>"

theorem csv_sample_exact_witness:
  "\<exists>res. csv_sample demo_csv_app ''f'' 1 False = Inr res \<and> sa_row_count res = 1 \<and> sa_truncated res"
proof -
  have rd: "cr_csv (ap_crates demo_csv_app) d bytes = (Inr [''a'', ''b''], [Inr [''1''], Inr [''2'', ''x'']])" for d bytes
    by (simp add: demo_csv_app_def)
  then obtain res where r: "csv_sample demo_csv_app ''f'' 1 False = Inr res" by (simp add: csv_sample_def)
  from csv_sample_exact [OF r rd] r show ?thesis by simp
qed

section \<open>Clipped JSON arrays\<close>

text \<open>The state of the walk (depth, in a string, after a backslash), and the texts after which it is back at depth 0 for the first time.\<close>

fun walk_step :: "int \<times> bool \<times> bool \<Rightarrow> char \<Rightarrow> int \<times> bool \<times> bool" where
  "walk_step (depth, in_string, escape) ch =
     (if in_string then
        (if escape then (depth, True, False) else if ch = chr_backslash then (depth, True, True) else (depth, ch \<noteq> chr_quote, False))
      else if ch = chr_quote then (depth, True, escape)
      else if ch = CHR ''{'' then (depth + 1, False, escape)
      else if ch = CHR ''}'' then (depth - 1, False, escape)
      else (depth, False, escape))"

fun closes :: "int \<times> bool \<times> bool \<Rightarrow> string \<Rightarrow> bool" where
  "closes st [] = False"
| "closes st (ch # u) =
     (let st' = walk_step st ch in if u = [] then st' = (0, False, False) else 1 \<le> fst st' \<and> closes st' u)"

fun stays_open :: "int \<times> bool \<times> bool \<Rightarrow> string \<Rightarrow> bool" where
  "stays_open st [] = True"
| "stays_open st (ch # u) = (let st' = walk_step st ch in 1 \<le> fst st' \<and> stays_open st' u)"

definition object_text :: "string \<Rightarrow> bool" where
  "object_text t \<longleftrightarrow> (\<exists>u. t = CHR ''{'' # u \<and> closes (1, False, False) u)"

definition clipped_text :: "string \<Rightarrow> bool" where
  "clipped_text t \<longleftrightarrow> t = [] \<or> (\<exists>u. t = CHR ''{'' # u \<and> stays_open (1, False, False) u)"

definition filler :: "string \<Rightarrow> bool" where
  "filler u \<longleftrightarrow> list_all (\<lambda>ch. ch \<noteq> chr_quote \<and> ch \<noteq> CHR ''{'' \<and> ch \<noteq> CHR ''}'') u"

lemma braces_differ:
  "CHR ''{'' \<noteq> chr_quote" "CHR ''}'' \<noteq> chr_quote" "CHR ''}'' \<noteq> CHR ''{''"
  "CHR ''{'' \<noteq> chr_backslash" "CHR ''}'' \<noteq> chr_backslash" "chr_quote \<noteq> chr_backslash"
  by code_simp+

lemma walk_filler:
  "filler u \<Longrightarrow> array_walk ap s d st False e i (u @ rest) = array_walk ap s d st False e (i + length u) rest"
  by (induction u arbitrary: i) (auto simp: filler_def)

lemma walk_closes:
  assumes "closes (d, ins, esc) u" and "1 \<le> d"
  shows "array_walk ap s d (Some st) ins esc i (u @ rest) =
     (case lib_parse (ap_libs ap) (take (i + length u - st) (drop st s)) of None \<Rightarrow> [] | Some v \<Rightarrow> [v])
     @ array_walk ap s 0 None False False (i + length u) rest"
  using assms
proof (induction u arbitrary: d ins esc i)
  case (Cons ch u)
  obtain d' ins' esc' where st': "walk_step (d, ins, esc) ch = (d', ins', esc')" by (metis prod_cases3)
  show ?case
  proof (cases "u = []")
    case True
    then have "ch = CHR ''}''" "d = 1" "\<not> ins" "\<not> esc" using Cons.prems by (auto split: if_splits)
    then show ?thesis using True braces_differ by (auto split: option.split)
  next
    case False
    then have "1 \<le> d'" "closes (d', ins', esc') u" using Cons.prems st' by (auto simp: Let_def)
    moreover have "array_walk ap s d (Some st) ins esc i ((ch # u) @ rest) = array_walk ap s d' (Some st) ins' esc' (i + 1) (u @ rest)"
      using st' Cons.prems(2) \<open>1 \<le> d'\<close> braces_differ by (auto split: if_splits)
    ultimately show ?thesis using Cons.IH [of d' ins' esc' "i + 1"] by simp
  qed
qed simp

lemma walk_open:
  "stays_open (d, ins, esc) u \<Longrightarrow> 1 \<le> d \<Longrightarrow> array_walk ap s d (Some st) ins esc i u = []"
proof (induction u arbitrary: d ins esc i)
  case (Cons ch u)
  obtain d' ins' esc' where st': "walk_step (d, ins, esc) ch = (d', ins', esc')" by (metis prod_cases3)
  then have "1 \<le> d'" "stays_open (d', ins', esc') u" using Cons.prems by (auto simp: Let_def)
  moreover have "array_walk ap s d (Some st) ins esc i (ch # u) = array_walk ap s d' (Some st) ins' esc' (i + 1) u"
    using st' Cons.prems(2) \<open>1 \<le> d'\<close> braces_differ by (auto split: if_splits)
  ultimately show ?case using Cons.IH by simp
qed simp

lemma walk_records:
  assumes "\<forall>(sep, t) \<in> set parts. filler sep \<and> object_text t" and "filler tail" and "clipped_text clip"
    and "s = pre @ concat (map (\<lambda>(sep, t). sep @ t) parts) @ tail @ clip"
  shows "array_walk ap s 0 None False False (length pre) (concat (map (\<lambda>(sep, t). sep @ t) parts) @ tail @ clip) =
     List.map_filter (\<lambda>(sep, t). lib_parse (ap_libs ap) t) parts"
  using assms(1,4)
proof (induction parts arbitrary: pre)
  case Nil
  show ?case
  proof (cases "clip = []")
    case True
    then show ?thesis using walk_filler [OF assms(2), where rest = "[]"] by (simp add: List.map_filter_simps)
  next
    case False
    then obtain u where "clip = CHR ''{'' # u" "stays_open (1, False, False) u" using assms(3) by (auto simp: clipped_text_def)
    then show ?thesis
      using braces_differ walk_open by (simp add: walk_filler [OF assms(2)] List.map_filter_simps)
  qed
next
  case (Cons p parts)
  obtain sep t where p: "p = (sep, t)" by (cases p)
  then obtain u where t: "filler sep" "t = CHR ''{'' # u" "closes (1, False, False) u" using Cons.prems(1) by (auto simp: object_text_def)
  let ?rest = "concat (map (\<lambda>(sep, t). sep @ t) parts) @ tail @ clip"
  have whole: "s = (pre @ sep @ t) @ ?rest" using Cons.prems(2) p by simp
  have slice: "take (length pre + length sep + 1 + length u - (length pre + length sep)) (drop (length pre + length sep) s) = t"
    using whole t(2) by simp
  have "array_walk ap s 0 None False False (length pre) ((sep @ t) @ ?rest)
      = array_walk ap s 0 None False False (length pre + length sep) (CHR ''{'' # u @ ?rest)"
    using walk_filler [OF t(1)] by (simp add: t(2))
  also have "\<dots> = array_walk ap s 1 (Some (length pre + length sep)) False False (length pre + length sep + 1) (u @ ?rest)"
    using braces_differ by simp
  also have "\<dots> = (case lib_parse (ap_libs ap) t of None \<Rightarrow> [] | Some v \<Rightarrow> [v])
      @ array_walk ap s 0 None False False (length (pre @ sep @ t)) ?rest"
    using walk_closes [OF t(3), of ap s "length pre + length sep" "length pre + length sep + 1" ?rest] slice
    by (simp add: t(2) add.assoc)
  also have "array_walk ap s 0 None False False (length (pre @ sep @ t)) ?rest = List.map_filter (\<lambda>(sep, t). lib_parse (ap_libs ap) t) parts"
    using Cons.IH [OF _ whole] Cons.prems(1) by simp
  finally show ?case by (simp add: p List.map_filter_simps split: option.split)
qed

text \<open>
  Of a JSON array that was clipped at the byte cap every complete record is kept: when the text is a sequence of
  complete object texts with separators between them, followed by the beginning of one more, the walk gives exactly
  the values of the complete ones, in order.
\<close>

theorem clipped_array_keeps_records:
  assumes "\<forall>(sep, t) \<in> set parts. filler sep \<and> object_text t \<and> lib_parse (ap_libs ap) t \<noteq> None"
    and "filler tail" and "clipped_text clip" and "parts \<noteq> []"
    and "s = concat (map (\<lambda>(sep, t). sep @ t) parts) @ tail @ clip" and "cr_is_utf8 (ap_crates ap) s"
  shows "best_effort_array ap s = Inr (map (\<lambda>(sep, t). the (lib_parse (ap_libs ap) t)) parts)"
proof -
  have "array_walk ap s 0 None False False (length ([] :: string)) s = List.map_filter (\<lambda>(sep, t). lib_parse (ap_libs ap) t) parts"
    using walk_records [of parts tail clip s "[]" ap] assms(1-3,5) by fastforce
  moreover have "List.map_filter (\<lambda>(sep, t). lib_parse (ap_libs ap) t) parts = map (\<lambda>(sep, t). the (lib_parse (ap_libs ap) t)) parts"
    using assms(1) by (induction parts) (auto simp: List.map_filter_simps split: option.split)
  ultimately show ?thesis using assms(4,6) by (simp add: best_effort_array_def)
qed

definition quoted_object :: string where
  \<open>quoted_object = ''{"a":"}"}''\<close>

definition clipped_object :: string where
  \<open>clipped_object = ''{"a":{"b''\<close>

theorem clipped_array_keeps_records_witness:
  "best_effort_array demo_app (''['' @ quoted_object @ '', '' @ clipped_object) = Inr [JObj []]"
proof -
  have "object_text quoted_object"
  proof -
    have "quoted_object = CHR ''{'' # tl quoted_object" "closes (1, False, False) (tl quoted_object)" by code_simp+
    then show ?thesis by (auto simp: object_text_def)
  qed
  moreover have "clipped_text clipped_object"
  proof -
    have "clipped_object = CHR ''{'' # tl clipped_object" "stays_open (1, False, False) (tl clipped_object)" by code_simp+
    then show ?thesis by (auto simp: clipped_text_def)
  qed
  moreover have "filler ''[''" "filler '', ''" by code_simp+
  ultimately show ?thesis
    using clipped_array_keeps_records [of "[(''['', quoted_object)]" demo_app "'', ''" clipped_object
        "''['' @ quoted_object @ '', '' @ clipped_object"]
    by (simp add: demo_app_def demo_json_libs_def demo_crates_def)
qed

section \<open>Bounds\<close>

definition TYPE_NAMES :: "string set" where
  "TYPE_NAMES = {''string'', ''integer'', ''number'', ''boolean'', ''datetime''}"

text \<open>A table of at most \<open>cap\<close> rows whose columns name every key of a row, once each, and carry a type name.\<close>

definition sound_sample :: "nat \<Rightarrow> sample_result \<Rightarrow> bool" where
  "sound_sample cap res \<longleftrightarrow> length (sa_rows res) \<le> cap \<and> sa_row_count res = length (sa_rows res)
     \<and> (\<forall>row \<in> set (sa_rows res). fst ` set row \<subseteq> co_name ` set (sa_columns res))
     \<and> (\<forall>col \<in> set (sa_columns res). co_type col \<in> TYPE_NAMES)"

lemma infer_names: "infer_column_type ap vs \<in> TYPE_NAMES"
  unfolding infer_column_type_def infer_loop_spec TYPE_NAMES_def by simp

lemma set_key_union: "set (key_union rows) = fst ` (\<Union>r \<in> set rows. set r)"
proof -
  have "set (foldl (\<lambda>seen k. if k \<in> set seen then seen else seen @ [k]) acc ks) = set acc \<union> set ks" for acc ks :: "string list"
    by (induction ks arbitrary: acc) auto
  then show ?thesis by (auto simp: key_union_def)
qed

lemma keyed_sound: "length rows \<le> cap \<Longrightarrow> sound_sample cap (keyed_result ap fmt rows truncated bytes)"
  by (auto simp: sound_sample_def keyed_result_def keyed_column_def infer_names image_image set_key_union)

lemma csv_loop_length: "csv_loop width ti cap n records = Inr (cells, t) \<Longrightarrow> n \<le> cap \<Longrightarrow> length cells \<le> cap - n"
proof (induction records arbitrary: n cells t)
  case (Cons rec records)
  then show ?case by (fastforce split: if_splits sum.splits)
qed simp

lemma csv_sound: "csv_sample ap bytes cap ti = Inr res \<Longrightarrow> sound_sample cap res"
proof -
  assume "csv_sample ap bytes cap ti = Inr res"
  then obtain headers records cells truncated where loop: "csv_loop (length headers) ti cap 0 (take (cap + 1) records) = Inr (cells, truncated)"
    and res: "sa_columns res = map (\<lambda>(i, h). csv_column ap cells i h) (List.enumerate 0 headers)" "sa_rows res = map (csv_row headers) cells"
      "sa_row_count res = length cells"
    by (auto simp: csv_sample_def split: if_splits sum.splits prod.splits)
  have names: "map co_name (sa_columns res) = headers"
    unfolding res by (simp add: comp_def split_beta csv_column_def)
  then have "co_name ` set (sa_columns res) = set headers" by (metis set_map)
  moreover have "fst ` set (csv_row headers r) \<subseteq> set headers" for r
    unfolding csv_row_def by (auto dest!: subsetD [OF set_btree_of] set_zip_leftD)
  ultimately show ?thesis
    using csv_loop_length [OF loop] by (auto simp: sound_sample_def res csv_column_def infer_names)
qed

lemma xml_loop_length: "xml_loop ap tag ti cap n evs = Inr (rows, t) \<Longrightarrow> n \<le> cap \<Longrightarrow> length rows \<le> cap - n"
proof (induction ap tag ti cap n evs arbitrary: rows t rule: xml_loop.induct)
  case (1 ap tag ti cap n evs)
  from "1.prems" show ?case
    by (subst (asm) xml_loop.simps) (fastforce split: sum.splits option.splits if_splits dest: "1.IH")
qed

lemma object_rows_length: "object_rows recs = Inr rows \<Longrightarrow> length rows = length recs"
  by (induction recs arbitrary: rows) (auto split: json.splits sum.splits)

lemma samplers_sound: "run_sampler ap r fmt bytes cap ti = Inr (Inr res) \<Longrightarrow> sound_sample cap res"
  by (auto simp: run_sampler_def json_sample_def xml_sample_def Let_def dest: csv_sound object_rows_length xml_loop_length
      split: if_splits sum.splits intro!: keyed_sound)

lemma map_sum_Inr: "map_sum f id x = Inr y \<longleftrightarrow> x = Inr y"
  by (cases x) auto

text \<open>
  C38: A sample is small, sound and of the caller's own data: whatever the file, the format and the requested number of rows,
  a successful sample has at most 200 rows, counts them correctly, names every key of every row as a column with one of the
  five type names, and comes from a source registered for the caller's organization.
\<close>

theorem samples_bounded_and_owned:
  assumes "sample_file ap rq c r w = (Inr (res, src), w')"
  shows "sound_sample 200 res \<and> src \<in> set (db_sources (w_db w')) \<and> rs_org_id src = cl_org c"
proof -
  from assms obtain req src' w1 fmt where src: "resolve_object rq (cl_org c) req w = (Inr src', w1)"
    and run: "(case nt_range (rq_net rq) (rs_bucket src') (rs_object_key src') sample_range of
       RangeFailed e \<Rightarrow> throw (External (''s3 get: '' @ e))
     | RangeReadFailed e \<Rightarrow> throw (External (''s3 read: '' @ e))
     | Chunk content_length bytes \<Rightarrow>
         bindE (lift (run_sampler ap r fmt bytes (sample_row_cap r) (cut_short content_length bytes))) (\<lambda>result.
         bindE (lift (map_sum sample_failure id result)) (\<lambda>res. ok (res, src')))) w1 = (Inr (res, src), w')"
    unfolding sample_file_def by (auto simp: act_simps)
  from run have eq: "src' = src" "w1 = w'" by (auto simp: act_simps split: range_reply.splits)
  from run obtain bytes ti where "run_sampler ap r fmt bytes (sample_row_cap r) ti = Inr (Inr res)"
    by (cases "nt_range (rq_net rq) (rs_bucket src') (rs_object_key src') sample_range") (auto simp: act_simps map_sum_Inr)
  then have "sound_sample (sample_row_cap r) res" by (rule samplers_sound)
  moreover have "sample_row_cap r \<le> 200" by (simp add: sample_row_cap_def MAX_ROW_CAP_def)
  ultimately have "sound_sample 200 res" by (auto simp: sound_sample_def)
  moreover have "resolve rq (cl_org c) req w = (Inr (ObjectSource src), w')"
  proof -
    from src obtain x v where x: "resolve rq (cl_org c) req w = (Inr x, v)"
      and rest: "(case x of ObjectSource src \<Rightarrow> ok src
        | ConnectorSource _ _ _ \<Rightarrow> throw (BadRequest ''this operation needs an uploaded file source, not a connector'')) v = (Inr src', w1)"
      unfolding resolve_object_def by (auto simp: act_simps)
    from rest eq have "x = ObjectSource src \<and> v = w'" by (cases x) (auto simp: act_simps)
    with x show ?thesis by simp
  qed
  ultimately show ?thesis using resolve_owned by fastforce
qed

definition demo_sample_req :: sample_req where
  "demo_sample_req = \<lparr>sp_source_id = Some 7, sp_bucket = None, sp_key = [], sp_format = Some ''csv'', sp_rows = None, sp_record_tag = None\<rparr>"

definition demo_sample_rq :: request where
  "demo_sample_rq = demo_rq\<lparr>rq_net := demo_net\<lparr>nt_range := (\<lambda>_ _ _. Chunk (Some 1) ''f'')\<rparr>\<rparr>"

theorem samples_bounded_and_owned_witness:
  "\<exists>res src w'. sample_file demo_csv_app demo_sample_rq demo_viewer demo_sample_req demo_site_world = (Inr (res, src), w')
     \<and> sound_sample 200 res \<and> rs_org_id src = 1"
proof -
  have f: "to_ascii_lowercase ''csv'' = ''csv''" by code_simp
  obtain res where res: "csv_sample demo_csv_app ''f'' 25 False = Inr res"
    by (simp add: csv_sample_def demo_csv_app_def)
  have "\<exists>src w'. sample_file demo_csv_app demo_sample_rq demo_viewer demo_sample_req demo_site_world = (Inr (res, src), w')"
    using res
    by (simp add: sample_file_def act_simps sample_source_def demo_sample_req_def sample_format_def ok_or_def f resolve_object_def
        lookup_object_def source_by_id_def demo_site_world_def demo_site_def demo_db_def demo_viewer_def demo_claims_def
        demo_sample_rq_def demo_rq_def run_sampler_def sample_row_cap_def MAX_ROW_CAP_def DEFAULT_ROW_CAP_def cut_short_def)
  then obtain src w' where r: "sample_file demo_csv_app demo_sample_rq demo_viewer demo_sample_req demo_site_world = (Inr (res, src), w')" by blast
  from samples_bounded_and_owned [OF r] r show ?thesis by (auto simp: demo_viewer_def demo_claims_def)
qed

end
