(* ===== verification/Dry_Run.thy ===== *)
theory Dry_Run
  imports App_State
begin

text \<open>
  The preview of a template on sample rows (\<^verbatim>\<open>src/apps/api/src/routes/dry_run.rs\<close>): normalization of both template shapes
  into named payload mappings, and their rendering.
\<close>

definition payload_mapping :: "json \<Rightarrow> json btree" where
  "payload_mapping v = unwrap_or [] (Option.bind (Option.bind (jget v ''mapping'') (\<lambda>m. jget m ''payload'')) as_object)"

definition extract_steps :: "json \<Rightarrow> (string \<times> json btree) list" where
  "extract_steps template =
     (case Option.bind (jget template ''steps'') as_array of
        Some steps \<Rightarrow> map (\<lambda>s. (unwrap_or ''step'' (jget_str s ''name''), payload_mapping s)) steps
      | None \<Rightarrow> [(''main'', payload_mapping template)])"

function resolve_value :: "json \<Rightarrow> json \<Rightarrow> json" where
  "resolve_value template row =
     (case template of
        JObj m \<Rightarrow>
          (case jget_str template ''$from'' of Some field \<Rightarrow> unwrap_or JNull (jget row field) | None \<Rightarrow>
          (case jget_str template ''$py'' of Some expr \<Rightarrow> JStr (''<py: '' @ expr @ ''>'') | None \<Rightarrow>
          (case jget_str template ''$fromResponse'' of
             Some step \<Rightarrow> JStr (''<response of '' @ step @ '': '' @ unwrap_or ''$'' (jget_str template ''path'') @ ''>'')
           | None \<Rightarrow>
          (case jget template ''$literal'' of Some lit \<Rightarrow> lit | None \<Rightarrow>
             JObj (btree_of (map (\<lambda>(k, v). (k, resolve_value v row)) m))))))
      | JArr vs \<Rightarrow> JArr (map (\<lambda>v. resolve_value v row) vs)
      | v \<Rightarrow> v)"
  by pat_completeness auto

lemma size_entry: "(k, v) \<in> set m \<Longrightarrow> size v < Suc (size_list (size_prod size size) m)"
  by (induction m) auto

termination resolve_value
  by (relation "measure (\<lambda>(template, _). size template)")
    (auto dest: size_entry simp: less_Suc_eq_le intro: size_list_estimation')

declare resolve_value.simps [simp del]

definition render :: "json btree \<Rightarrow> json \<Rightarrow> json" where
  "render mapping row = JObj (btree_of (map (\<lambda>(k, v). (k, resolve_value v row)) mapping))"

definition preview_row :: "(string \<times> json btree) list \<Rightarrow> json \<Rightarrow> json" where
  "preview_row steps row =
     (let per_step = map (\<lambda>(name, mapping). json_obj [(''step'', JStr name), (''payload'', render mapping row)]) steps in
      if length per_step = 1 then unwrap_or JNull (jget (hd per_step) ''payload'')
      else json_obj [(''steps'', JArr per_step)])"

definition dry_run :: "json \<Rightarrow> json list \<Rightarrow> json" where
  "dry_run template rows = json_obj [(''previews'', JArr (map (preview_row (extract_steps template)) (take 20 rows)))]"

end
