(* ===== verification/Dry_Run_Facts.thy ===== *)
theory Dry_Run_Facts
  imports Dry_Run
begin

text \<open>What the preview shows: well-formed values, one per sample row up to twenty, with the fields of the mapping and the values of the row.\<close>

lemma jget_wf: "json_wf v \<Longrightarrow> jget v k = Some x \<Longrightarrow> json_wf x"
  by (cases v) (force simp: jget_def json_wf_entries_iff list_all_iff dest: map_of_SomeD)+

lemma json_wf_btree: "sorted_keys m \<Longrightarrow> (\<And>k v. (k, v) \<in> set m \<Longrightarrow> json_wf v) \<Longrightarrow> json_wf (JObj m)"
  by (auto simp: json_wf_entries_iff list_all_iff)

lemma rendered_keys:
  "sorted_keys m \<Longrightarrow> btree_of (map (\<lambda>(k, v). (k, f v)) m) = map (\<lambda>(k, v). (k, f v)) m"
  by (rule btree_of_sorted) (simp add: sorted_keys_def comp_def case_prod_beta)

lemma rendered_sorted: "sorted_keys m \<Longrightarrow> sorted_keys (map (\<lambda>(k, v). (k, f v)) m)"
  by (simp add: sorted_keys_def comp_def case_prod_beta)

lemma resolve_value_wf: "json_wf template \<Longrightarrow> json_wf row \<Longrightarrow> json_wf (resolve_value template row)"
proof (induction template row rule: resolve_value.induct)
  case (1 template row)
  show ?case
  proof (cases template)
    case (JObj m)
    have entries: "json_wf v" if "(k, v) \<in> set m" for k v
      using "1.prems"(1) that by (auto simp: JObj json_wf_entries_iff list_all_iff)
    have lit: "jget template ''$literal'' = Some x \<Longrightarrow> json_wf x" for x using jget_wf "1.prems"(1) by blast
    have fld: "json_wf (unwrap_or JNull (jget row f))" for f
      using jget_wf "1.prems"(2) by (cases "jget row f") auto
    show ?thesis
    proof (cases "jget_str template ''$from'' = None \<and> jget_str template ''$py'' = None
        \<and> jget_str template ''$fromResponse'' = None \<and> jget template ''$literal'' = None")
      case True
      then have eq: "resolve_value template row = JObj (map (\<lambda>(k, v). (k, resolve_value v row)) m)"
        using rendered_keys [of m "\<lambda>v. resolve_value v row"] "1.prems"(1) by (subst resolve_value.simps) (simp add: JObj)
      have "json_wf (resolve_value v row)" if "(k, v) \<in> set m" for k v
        using "1.IH"(2) [OF JObj] True that entries "1.prems"(2) by fastforce
      then show ?thesis
        unfolding eq using rendered_sorted [of m "\<lambda>v. resolve_value v row"] "1.prems"(1)
        by (intro json_wf_btree) (auto simp: JObj)
    next
      case False
      then show ?thesis
        using lit fld by (subst resolve_value.simps) (auto simp: JObj split: option.split)
    qed
  next
    case (JArr vs)
    then show ?thesis using 1 by (subst resolve_value.simps) (auto simp: json_wf_list_iff)
  qed (use 1 in \<open>subst resolve_value.simps, simp\<close>)+
qed

lemma as_object_wf: "json_wf v \<Longrightarrow> as_object v = Some m \<Longrightarrow> json_wf (JObj m)"
  by (cases v) (auto simp: as_object_def)

lemma payload_mapping_wf:
  assumes "json_wf v"
  shows "json_wf (JObj (payload_mapping v))"
proof (cases "Option.bind (Option.bind (jget v ''mapping'') (\<lambda>m. jget m ''payload'')) as_object")
  case None
  then show ?thesis by (simp add: payload_mapping_def sorted_keys_def)
next
  case (Some m)
  then obtain x y where "jget v ''mapping'' = Some x" "jget x ''payload'' = Some y" "as_object y = Some m"
    by (auto simp: bind_eq_Some_conv)
  with assms have "json_wf (JObj m)" using jget_wf as_object_wf by metis
  with Some show ?thesis by (simp add: payload_mapping_def)
qed

lemma extract_steps_wf:
  assumes "json_wf template" and "(name, m) \<in> set (extract_steps template)"
  shows "json_wf (JObj m)"
proof (cases "Option.bind (jget template ''steps'') as_array")
  case None
  with assms show ?thesis by (simp add: extract_steps_def payload_mapping_wf del: json_wf.simps)
next
  case (Some steps)
  then obtain y where "jget template ''steps'' = Some y" "as_array y = Some steps" by (auto simp: bind_eq_Some_conv)
  then have "jget template ''steps'' = Some (JArr steps)" by (cases y) (auto simp: as_array_def)
  then have "json_wf_list steps" using jget_wf [OF assms(1)] by fastforce
  with Some assms(2) show ?thesis by (auto simp: extract_steps_def json_wf_list_iff payload_mapping_wf simp del: json_wf.simps)
qed

lemma render_sorted: "json_wf (JObj m) \<Longrightarrow> render m row = JObj (map (\<lambda>(k, v). (k, resolve_value v row)) m)"
  by (simp add: render_def rendered_keys)

lemma render_wf: "json_wf (JObj m) \<Longrightarrow> json_wf row \<Longrightarrow> json_wf (render m row)"
  unfolding render_sorted
  by (rule json_wf_btree) (auto simp: rendered_sorted json_wf_entries_iff list_all_iff intro!: resolve_value_wf)

lemma preview_row_wf:
  assumes "json_wf row" and "\<And>name m. (name, m) \<in> set steps \<Longrightarrow> json_wf (JObj m)"
  shows "json_wf (preview_row steps row)"
proof -
  let ?step = "\<lambda>(name, mapping). json_obj [(''step'', JStr name), (''payload'', render mapping row)]"
  have step: "json_wf (?step s)" if "s \<in> set steps" for s
    by (cases s) (use that assms in \<open>auto intro!: json_wf_json_obj render_wf simp del: json_wf.simps(2)\<close>)
  then have "json_wf (json_obj [(''steps'', JArr (map ?step steps))])"
    by (intro json_wf_json_obj) (auto simp: json_wf_list_iff)
  moreover have "json_wf (unwrap_or JNull (jget (?step s) ''payload''))" if "s \<in> set steps" for s
    by (cases s) (use that assms in \<open>auto intro!: render_wf simp del: json_wf.simps(2)\<close>)
  ultimately show ?thesis by (cases steps) (auto simp: preview_row_def Let_def simp del: jget_json_obj)
qed

lemma single_preview: "preview_row [(name, m)] row = render m row"
  by (simp add: preview_row_def)


definition demo_preview_template :: json where
  "demo_preview_template = JObj [(''mapping'', JObj [(''payload'', JObj [(''email'', JObj [(''$from'', JStr ''mail'')])])])]"


end
