(* ===== verification/License_Routes.thy ===== *)
theory License_Routes
  imports Temporal License_Server
begin

text \<open>
  The license as the API shows it (\<^verbatim>\<open>src/apps/api/src/routes/license.rs\<close>): the status of the process, its hint to the
  operator, and the start of a trial by an admin. The last one works on the database and on the license state of the process;
  \<open>texts\<close> is the text of an error of the license subsystem. \<open>later\<close> is the time \<^verbatim>\<open>days_remaining\<close> reads for itself.
\<close>

section \<open>Status\<close>

fun kind_str :: "license_kind \<Rightarrow> string" where
  "kind_str Trial = ''trial''"
| "kind_str Commercial = ''commercial''"

definition activation_hint :: "bool \<Rightarrow> license_kind option \<Rightarrow> license_problem option \<Rightarrow> bool \<Rightarrow> string" where
  "activation_hint enforce licensed_kind problem server_configured =
     (case licensed_kind of
        Some Commercial \<Rightarrow> ''Commercial license active. To renew or re-issue, mount the new vendor-signed file via LICENSE_FILE (or copy it to LICENSE_STORE_PATH); the API adopts a changed store file within a minute.''
      | Some Trial \<Rightarrow> ''To replace a trial with a commercial license, mount a vendor-signed file via LICENSE_FILE (or copy it to LICENSE_STORE_PATH); the API adopts a changed store file within a minute.''
      | None \<Rightarrow>
     (case problem of
        Some HeartbeatGraceExpired \<Rightarrow> ''The license server has been unreachable for more than 72 hours. Restore connectivity to LICENSE_SERVER_URL (the next heartbeat re-attests automatically) or mount a commercial LICENSE_FILE.''
      | Some Revoked \<Rightarrow> ''The vendor revoked this license. Contact support, then mount a new LICENSE_FILE.''
      | Some FingerprintMismatch \<Rightarrow> ''This license is bound to a different install ID. Request a license for the install ID shown above.''
      | _ \<Rightarrow>
          if enforce then
            if server_configured
            then ''No valid license. An admin can start a 10-day trial below with a contact email, or mount a commercial LICENSE_FILE signed with migration-admin license-sign.''
            else ''No valid license. Configure LICENSE_SERVER_URL + LICENSE_SERVER_TOKEN to start a trial, or mount a commercial LICENSE_FILE signed with migration-admin license-sign.''
          else ''Development mode (LICENSE_ENFORCE unset). For production set LICENSE_ENFORCE=true and either LICENSE_FILE or LICENSE_SERVER_URL for a 10-day trial.''))"

definition status_problem :: "license_proc \<Rightarrow> instant \<Rightarrow> license_state \<Rightarrow> license_problem option" where
  "status_problem p now state =
     Option.bind (ls_doc state) (\<lambda>doc.
       if ls_revoked_reason state \<noteq> None then Some Revoked
       else (case validity doc (process_fingerprint p) now of Inl x \<Rightarrow> Some x | Inr _ \<Rightarrow> None))"

definition heartbeat_json :: "libs \<Rightarrow> env \<Rightarrow> instant \<Rightarrow> license_state \<Rightarrow> license_problem option \<Rightarrow> bool \<Rightarrow> license_doc \<Rightarrow> json" where
  "heartbeat_json L env now state problem server_configured doc =
     (let status = (if \<not> ld_requires_heartbeat doc then ''not_required''
                    else if ls_revoked_reason state \<noteq> None then ''revoked''
                    else if problem = Some HeartbeatGraceExpired then ''grace_expired''
                    else if ls_last_heartbeat_error state \<noteq> None then ''degraded'' else ''ok'') in
      json_obj [(''required'', JBool (ld_requires_heartbeat doc)), (''status'', JStr status),
        (''last_attested_at'', jots L (ld_issued_at doc)), (''grace_until'', jots L (grace_until doc)),
        (''due'', JBool (heartbeat_due env state now)), (''last_attempt_at'', jots L (ls_last_heartbeat_attempt state)),
        (''last_error'', jostr (ls_last_heartbeat_error state)), (''server_configured'', JBool server_configured)])"

definition failed_mode :: "bool \<Rightarrow> license_problem option \<Rightarrow> string" where
  "failed_mode enforce problem =
     (case problem of
        Some Revoked \<Rightarrow> ''revoked''
      | Some HeartbeatGraceExpired \<Rightarrow> ''grace_expired''
      | Some FingerprintMismatch \<Rightarrow> ''fingerprint_mismatch''
      | _ \<Rightarrow> if enforce then ''expired'' else ''development'')"

definition status_json :: "libs \<Rightarrow> env \<Rightarrow> license_proc \<Rightarrow> instant \<Rightarrow> instant \<Rightarrow> license_state \<Rightarrow> json" where
  "status_json L env p now later state =
     (let short_fp = short_fingerprint (process_fingerprint p); enforce = enforce_enabled p;
          server_configured = (server_from_env env \<noteq> None); problem = status_problem p now state;
          heartbeat = jopt (heartbeat_json L env now state problem server_configured) (ls_doc state) in
      case ls_doc state of
        Some doc \<Rightarrow>
          if problem = None then
            json_obj [(''licensed'', JBool True), (''enforce'', JBool enforce), (''kind'', JStr (kind_str (ld_kind doc))),
              (''licensee'', JStr (ld_licensee doc)), (''expires_at'', jts L (ld_expires_at doc)),
              (''days_remaining'', jint (days_remaining doc later)), (''features'', JArr (map JStr (ld_features doc))),
              (''max_seats'', jopt (\<lambda>n. JNum (PosInt n)) (ld_max_seats doc)), (''fingerprint'', JStr short_fp),
              (''heartbeat'', heartbeat), (''trial_available'', JBool (server_configured \<and> ld_kind doc \<noteq> Commercial)),
              (''activation_hint'', JStr (activation_hint enforce (Some (ld_kind doc)) None server_configured))]
          else
            json_obj [(''licensed'', JBool False), (''enforce'', JBool enforce), (''kind'', JStr (kind_str (ld_kind doc))),
              (''licensee'', JStr (ld_licensee doc)), (''expires_at'', jts L (ld_expires_at doc)), (''days_remaining'', jint 0),
              (''mode'', JStr (failed_mode enforce problem)), (''problem'', jostr (map_option problem_as_str problem)),
              (''revoked_reason'', jostr (ls_revoked_reason state)), (''fingerprint'', JStr short_fp),
              (''heartbeat'', heartbeat), (''trial_available'', JBool server_configured),
              (''activation_hint'', JStr (activation_hint enforce None problem server_configured))]
      | None \<Rightarrow>
          json_obj [(''licensed'', JBool False), (''enforce'', JBool enforce),
            (''mode'', JStr (if enforce then ''unlicensed'' else ''development'')), (''days_remaining'', jint 0),
            (''fingerprint'', JStr short_fp), (''trial_available'', JBool server_configured),
            (''activation_hint'', JStr (activation_hint enforce None None server_configured))])"

definition license_status :: "app \<Rightarrow> license_proc \<Rightarrow> instant \<Rightarrow> instant \<Rightarrow> claims \<Rightarrow> json" where
  "license_status ap p now later c =
     (let body = status_json (ap_libs ap) (ap_env ap) p now later (lp_state p) in
      if cl_role c = ''admin'' then set_key ''install_id_full'' (JStr (process_fingerprint p)) body else body)"

section \<open>Starting a trial\<close>

definition on_fst :: "('a, 'e, 'x) act \<Rightarrow> ('a \<times> 'b, 'e, 'x) act" where
  "on_fst m s = (let (r, a) = m (fst s) in (r, (a, snd s)))"

definition on_snd :: "('b, 'e, 'x) act \<Rightarrow> ('a \<times> 'b, 'e, 'x) act" where
  "on_snd m s = (let (r, b) = m (snd s) in (r, (fst s, b)))"

definition start_trial_route ::
    "app \<Rightarrow> request \<Rightarrow> post \<Rightarrow> string option \<Rightarrow> (license_error \<Rightarrow> string) \<Rightarrow> claims \<Rightarrow> string
     \<Rightarrow> (world \<times> lic_world, api_error, json) act" where
  "start_trial_route ap rq net io texts c req_email =
     bindE (on_fst (require_role c [''admin''])) (\<lambda>_.
     bindE (lift (map_sum (\<lambda>e. BadRequest (email_error_display e)) id (validate_trial_email req_email))) (\<lambda>email.
     bindE (guardE (server_from_env (ap_env ap) \<noteq> None)
       (BadRequest ''LICENSE_SERVER_URL and LICENSE_SERVER_TOKEN must be configured on the API to start a trial'')) (\<lambda>_.
     bindE (gets (\<lambda>(_, lw). lw_proc lw)) (\<lambda>p.
     bindE (guardE (case ls_doc (lp_state p) of None \<Rightarrow> True
         | Some doc \<Rightarrow> \<not> (ld_kind doc = Commercial \<and> is_licensed p (rq_now rq)))
       (Conflict ''a valid commercial license is already active; a trial would not replace it'')) (\<lambda>_.
     bindE (mapE (\<lambda>e. External (''trial activation failed: '' @ texts e))
       (on_snd (start_trial (ap_libs ap) (ap_env ap) net io (rq_now rq) email))) (\<lambda>doc.
     bindE (on_fst (record_audit rq (cl_org c) (cl_sub c) ''license'' (Some (short_fingerprint (process_fingerprint p)))
       ''trial_start'' None (Some (json_obj [(''licensee'', JStr (ld_licensee doc)),
         (''expires_at'', jts (ap_libs ap) (ld_expires_at doc)), (''kind'', JStr ''trial'')])))) (\<lambda>_.
     bindE (gets (\<lambda>(_, lw). lw_proc lw)) (\<lambda>q.
     ok (set_key ''install_id_full'' (JStr (process_fingerprint q))
       (status_json (ap_libs ap) (ap_env ap) q (rq_now rq) (rq_now rq) (lp_state q)))))))))))"

end
