(* ===== verification/License_Routes_Facts.thy ===== *)
theory License_Routes_Facts
  imports License_Routes Examples
begin

text \<open>
  The status shown to users is the truth about the gate, the full install id is shown to admins only, and
  a trial started from the settings page neither replaces a usable commercial license nor goes unrecorded.
\<close>

lemma jget_set_key: "jget (set_key k v (JObj m)) k' = (if k' = k then Some v else jget (JObj m) k')"
  by (simp add: set_key_def jget_def)

lemma status_problem_current:
  "ls_doc (lp_state p) \<noteq> None \<Longrightarrow> status_problem p now (lp_state p) = current_problem p now"
  by (auto simp: status_problem_def current_problem_def problem_for_def)

text \<open>The fields of the status the theorem speaks about.\<close>

lemma status_object: "\<exists>m. status_json L env p now later state = JObj m"
  by (simp add: status_json_def json_obj_def Let_def split: option.split)

lemma status_fields:
  "jget (status_json L env p now later (lp_state p)) ''licensed'' = Some (JBool (is_licensed p now))"
  "jget (status_json L env p now later (lp_state p)) ''install_id_full'' = None"
  by (auto simp: status_json_def is_licensed_def current_problem_def status_problem_def problem_for_def Let_def
      split: option.split)

lemma status_reason:
  assumes "ls_doc (lp_state p) \<noteq> None" and "current_problem p now = Some x"
  shows "jget (status_json L env p now later (lp_state p)) ''problem'' = Some (JStr (problem_as_str x))"
  using assms status_problem_current [of p now] by (auto simp: status_json_def jostr_def jopt_def Let_def)

text \<open>
  C29: The status page tells the truth: under enforcement it says licensed exactly when the gate lets work through,
  it names the very problem for which the gate refuses, and the full install id is there for admins and for nobody else.
\<close>

theorem status_matches_gate:
  assumes "enforce_enabled p"
  shows "jget (license_status ap p now later c) ''licensed'' = Some (JBool (require_licensed p now = Inr ()))
    \<and> jget (license_status ap p now later c) ''install_id_full''
      = (if cl_role c = ''admin'' then Some (JStr (process_fingerprint p)) else None)
    \<and> (\<forall>x. ls_doc (lp_state p) \<noteq> None \<and> current_problem p now = Some x \<longrightarrow>
        jget (license_status ap p now later c) ''problem'' = Some (JStr (problem_as_str x)))"
proof -
  let ?s = "status_json (ap_libs ap) (ap_env ap) p now later (lp_state p)"
  obtain m where m: "?s = JObj m" using status_object by blast
  have "is_licensed p now \<longleftrightarrow> require_licensed p now = Inr ()"
    using assms by (simp add: is_licensed_def require_licensed_def Let_def)
  moreover have "jget (license_status ap p now later c) k = (if cl_role c = ''admin'' \<and> k = ''install_id_full''
      then Some (JStr (process_fingerprint p)) else jget ?s k)" for k
    by (simp add: license_status_def m jget_set_key Let_def)
  ultimately show ?thesis
    using status_fields [of "ap_libs ap" "ap_env ap" p now later] status_reason [of p now _ "ap_libs ap" "ap_env ap" later]
    by auto
qed

theorem status_matches_gate_witness:
  "jget (license_status demo_app demo_proc (hours 71) (hours 71) demo_viewer) ''licensed'' = Some (JBool True)
   \<and> jget (license_status demo_app demo_proc (hours 73) (hours 73) demo_viewer) ''problem'' = Some (JStr ''heartbeat_grace_expired'')
   \<and> jget (license_status demo_app demo_proc (hours 71) (hours 71) demo_viewer) ''install_id_full'' = None"
proof -
  have e: "enforce_enabled demo_proc" by code_simp
  have g: "require_licensed demo_proc (hours 71) = Inr ()" "current_problem demo_proc (hours 73) = Some HeartbeatGraceExpired"
    "ls_doc (lp_state demo_proc) \<noteq> None" "cl_role demo_viewer \<noteq> ''admin''"
    by code_simp+
  show ?thesis
    using status_matches_gate [OF e, of demo_app "hours 71" "hours 71" demo_viewer]
      status_matches_gate [OF e, of demo_app "hours 73" "hours 73" demo_viewer] g by auto
qed

section \<open>Trials from the settings page\<close>

lemma on_fst_Inr [act_simps]: "on_fst m s = (Inr x, s') \<longleftrightarrow> m (fst s) = (Inr x, fst s') \<and> snd s' = snd s"
  by (cases s') (auto simp: on_fst_def Let_def split: prod.splits)

lemma on_snd_Inr [act_simps]: "on_snd m s = (Inr x, s') \<longleftrightarrow> m (snd s) = (Inr x, snd s') \<and> fst s' = fst s"
  by (cases s') (auto simp: on_snd_def Let_def split: prod.splits)

lemma started_trial:
  assumes "start_trial L env net io now email lw = (Inr doc, lw')"
  shows "ls_doc (lp_state (lw_proc lw')) = Some doc \<and> ld_kind doc = Trial
     \<and> ld_fingerprint doc = Some (process_fingerprint (lw_proc lw)) \<and> now < ld_expires_at doc"
  using assms
  by (auto simp: start_trial_def activate_trial_phone_home_def verify_license_def activate_def Let_def
      split: if_splits sum.splits option.splits prod.splits http_reply.splits)

text \<open>
  C30: Starting a trial from the settings page is safe: without the admin role, or while a usable commercial license is active,
  it fails and leaves everything as it was, the database and the license; and when it succeeds, the active license is a
  running trial bound to this install, and the newest audit entry says who started it.
\<close>

theorem trial_route_safe:
  assumes "start_trial_route ap rq net io texts c email (w, lw) = (r, (w', lw'))"
  shows "(cl_role c \<noteq> ''admin''
        \<or> (\<exists>d. ls_doc (lp_state (lw_proc lw)) = Some d \<and> ld_kind d = Commercial) \<and> is_licensed (lw_proc lw) (rq_now rq)
      \<longrightarrow> isl r \<and> w' = w \<and> lw' = lw)
    \<and> (\<not> isl r \<longrightarrow> (\<exists>d e. ls_doc (lp_state (lw_proc lw')) = Some d \<and> ld_kind d = Trial
        \<and> ld_fingerprint d = Some (process_fingerprint (lw_proc lw)) \<and> rq_now rq < ld_expires_at d
        \<and> hd (db_audit (w_db w')) = e \<and> au_action e = ''trial_start'' \<and> au_actor e = cl_sub c \<and> au_org_id e = cl_org c))"
proof (intro conjI impI)
  assume "cl_role c \<noteq> ''admin''
        \<or> (\<exists>d. ls_doc (lp_state (lw_proc lw)) = Some d \<and> ld_kind d = Commercial) \<and> is_licensed (lw_proc lw) (rq_now rq)"
  then have "isl r \<and> w' = w \<and> lw' = lw"
    using assms
    by (auto simp: start_trial_route_def bindE_def on_fst_def require_role_def lift_def guardE_def gets_def throw_def ok_def
        split: sum.splits if_splits)
  then show "isl r" "w' = w" "lw' = lw" by simp_all
next
  assume "\<not> isl r"
  then obtain body where "start_trial_route ap rq net io texts c email (w, lw) = (Inr body, (w', lw'))"
    using assms by (cases r) auto
  then show "\<exists>d e. ls_doc (lp_state (lw_proc lw')) = Some d \<and> ld_kind d = Trial
        \<and> ld_fingerprint d = Some (process_fingerprint (lw_proc lw)) \<and> rq_now rq < ld_expires_at d
        \<and> hd (db_audit (w_db w')) = e \<and> au_action e = ''trial_start'' \<and> au_actor e = cl_sub c \<and> au_org_id e = cl_org c"
    unfolding start_trial_route_def
    by (auto simp: act_simps Let_def dest!: started_trial)
qed

definition demo_paid :: lic_world where
  "demo_paid = \<lparr>lw_proc = demo_proc\<lparr>lp_state := (lp_state demo_proc)\<lparr>ls_doc := Some (demo_doc\<lparr>ld_kind := Commercial\<rparr>)\<rparr>\<rparr>,
     lw_files = (\<lambda>_. None)\<rparr>"

theorem trial_route_safe_witness:
  "\<exists>e. start_trial_route demo_app demo_rq (\<lambda>_ _ _. Reply 200 []) None (\<lambda>_. []) (demo_claims\<lparr>cl_role := ''admin''\<rparr>) ''a@b.co''
     (demo_site_world, demo_paid) = (Inl e, (demo_site_world, demo_paid))"
proof -
  obtain r w' lw' where run: "start_trial_route demo_app demo_rq (\<lambda>_ _ _. Reply 200 []) None (\<lambda>_. [])
     (demo_claims\<lparr>cl_role := ''admin''\<rparr>) ''a@b.co'' (demo_site_world, demo_paid) = (r, (w', lw'))"
    by (metis surj_pair)
  have "ls_doc (lp_state (lw_proc demo_paid)) = Some (demo_doc\<lparr>ld_kind := Commercial\<rparr>)" by (simp add: demo_paid_def)
  moreover have "is_licensed (lw_proc demo_paid) (rq_now demo_rq)" by code_simp
  ultimately have "isl r \<and> w' = demo_site_world \<and> lw' = demo_paid" using trial_route_safe [OF run] by auto
  with run show ?thesis by (cases r) auto
qed

end
