(* ===== verification/Commands.thy ===== *)
theory Commands
  imports License_Server Connectors Auth
begin

text \<open>
  The command line tools: \<^verbatim>\<open>migration-admin\<close> (\<^verbatim>\<open>src/apps/api/src/bin/admin.rs\<close>: signing and checking licenses, creating users,
  storing secrets) and the revocation commands of \<^verbatim>\<open>migration-license-server\<close> (\<^verbatim>\<open>src/apps/api/src/bin/license_server.rs\<close>).
  The flag loops of the admin tool index one past the flag and panic when the value is missing. A number that cannot be read
  is an error whose text is left out, as is that of a key that cannot be read. What a command prints is its result.
\<close>

datatype cli_error = CliPanics | CliFails string | NotANumber string | KeyUnreadable

definition unknown_flag :: "string \<Rightarrow> cli_error" where
  "unknown_flag flag = CliFails (''unknown flag '' @ flag)"

definition required :: "string \<Rightarrow> 'a option \<Rightarrow> cli_error + 'a" where
  "required flag x = ok_or (CliFails (flag @ '' required'')) x"

section \<open>Signing a license\<close>

record sign_args =
  sa_key :: "string option"
  sa_licensee :: "string option"
  sa_expires :: "string option"
  sa_features :: "string list"
  sa_max_seats :: "nat option"
  sa_kind :: license_kind
  sa_fingerprint :: "string option"
  sa_require_heartbeat :: bool
  sa_out :: "string option"

definition no_sign_args :: sign_args where
  "no_sign_args = \<lparr>sa_key = None, sa_licensee = None, sa_expires = None, sa_features = [], sa_max_seats = None,
     sa_kind = Commercial, sa_fingerprint = None, sa_require_heartbeat = False, sa_out = None\<rparr>"

text \<open>\<^verbatim>\<open>str::parse::<u32>\<close>: an optional plus sign, one or more digits, and the range of the type.\<close>

definition parse_u32 :: "string \<Rightarrow> nat option" where
  "parse_u32 s =
     (let ds = (case s of c # cs \<Rightarrow> if c = CHR ''+'' then cs else s | [] \<Rightarrow> s) in
      if ds = [] \<or> \<not> list_all is_digit ds \<or> 2 ^ 32 \<le> digits_value ds then None else Some (digits_value ds))"

definition sign_flag :: "sign_args \<Rightarrow> string \<Rightarrow> string \<Rightarrow> cli_error + sign_args" where
  "sign_flag a flag v =
     (if flag = ''--key'' then Inr (a\<lparr>sa_key := Some v\<rparr>)
      else if flag = ''--licensee'' then Inr (a\<lparr>sa_licensee := Some v\<rparr>)
      else if flag = ''--expires'' then Inr (a\<lparr>sa_expires := Some v\<rparr>)
      else if flag = ''--features'' then Inr (a\<lparr>sa_features := map trim (split_on (CHR '','') v)\<rparr>)
      else if flag = ''--max-seats'' then
        (case parse_u32 v of None \<Rightarrow> Inl (NotANumber v) | Some n \<Rightarrow> Inr (a\<lparr>sa_max_seats := Some n\<rparr>))
      else if flag = ''--kind'' then
        (if v = ''trial'' then Inr (a\<lparr>sa_kind := Trial\<rparr>)
         else if v = ''commercial'' then Inr (a\<lparr>sa_kind := Commercial\<rparr>)
         else Inl (CliFails (''--kind must be trial or commercial, got '' @ v)))
      else if flag = ''--fingerprint'' then Inr (a\<lparr>sa_fingerprint := Some v\<rparr>)
      else if flag = ''--out'' then Inr (a\<lparr>sa_out := Some v\<rparr>)
      else Inl (unknown_flag flag))"

definition sign_value_flags :: "string list" where
  "sign_value_flags = [''--key'', ''--licensee'', ''--expires'', ''--features'', ''--max-seats'', ''--kind'', ''--fingerprint'', ''--out'']"

fun sign_flags :: "sign_args \<Rightarrow> string list \<Rightarrow> cli_error + sign_args" where
  "sign_flags a [] = Inr a"
| "sign_flags a (flag # rest) =
     (if flag = ''--require-heartbeat'' then sign_flags (a\<lparr>sa_require_heartbeat := True\<rparr>) rest
      else if flag \<notin> set sign_value_flags then Inl (unknown_flag flag)
      else (case rest of
              [] \<Rightarrow> Inl CliPanics
            | v # rest' \<Rightarrow> (case sign_flag a flag v of Inl e \<Rightarrow> Inl e | Inr a' \<Rightarrow> sign_flags a' rest')))"

text \<open>\<open>day_end\<close> reads a date and gives its last second; \<open>issued\<close> is the second reading of the clock.\<close>

definition sign_doc ::
    "libs \<Rightarrow> (string \<Rightarrow> instant option) \<Rightarrow> instant \<Rightarrow> instant \<Rightarrow> sign_args \<Rightarrow> cli_error + string \<times> string \<times> license_doc" where
  "sign_doc L day_end now issued a =
     (case required ''--key'' (sa_key a) of Inl e \<Rightarrow> Inl e | Inr key_path \<Rightarrow>
     (case required ''--licensee'' (sa_licensee a) of Inl e \<Rightarrow> Inl e | Inr licensee \<Rightarrow>
     (case ok_or (CliFails ''--expires required (YYYY-MM-DD or RFC3339)'') (sa_expires a) of Inl e \<Rightarrow> Inl e | Inr expires \<Rightarrow>
     (case required ''--out'' (sa_out a) of Inl e \<Rightarrow> Inl e | Inr out \<Rightarrow>
     (case or_else (lib_parse_rfc3339 L expires) (day_end expires) of
        None \<Rightarrow> Inl (CliFails ''--expires must be YYYY-MM-DD or RFC3339'')
      | Some expires_at \<Rightarrow>
          if expires_at \<le> now then Inl (CliFails ''--expires is already in the past'')
          else if (case sa_fingerprint a of None \<Rightarrow> False
                   | Some fp \<Rightarrow> length fp < 16 \<or> \<not> list_all is_ascii_hexdigit fp)
          then Inl (CliFails (''--fingerprint must be the full hex install ID (see Settings '' @ map char_of [0xE2::nat, 0x86, 0x92]
                 @ '' License)''))
          else if sa_require_heartbeat a \<and> sa_fingerprint a = None
          then Inl (CliFails ''--require-heartbeat requires --fingerprint so the server can bind the heartbeat'')
          else Inr (key_path, out, \<lparr>ld_licensee = licensee, ld_expires_at = expires_at, ld_features = sa_features a,
                 ld_max_seats = sa_max_seats a, ld_issued_at = Some issued, ld_kind = sa_kind a,
                 ld_fingerprint = map_option to_ascii_lowercase (sa_fingerprint a),
                 ld_requires_heartbeat = sa_require_heartbeat a\<rparr>))))))"

definition license_sign ::
    "libs \<Rightarrow> (string \<Rightarrow> instant option) \<Rightarrow> instant \<Rightarrow> instant \<Rightarrow> string option \<Rightarrow> string list \<Rightarrow> files
     \<Rightarrow> (cli_error + license_doc) \<times> files" where
  "license_sign L day_end now issued io args fs =
     (case sign_flags no_sign_args args of
        Inl e \<Rightarrow> (Inl e, fs)
      | Inr a \<Rightarrow>
          (case sign_doc L day_end now issued a of
             Inl e \<Rightarrow> (Inl e, fs)
           | Inr (key_path, out, doc) \<Rightarrow>
               (case fs key_path of
                  None \<Rightarrow> (Inl (CliFails (''reading '' @ key_path)), fs)
                | Some f \<Rightarrow>
                    (case sign_license L doc (f_content f) of
                       None \<Rightarrow> (Inl (CliFails ''parsing private key''), fs)
                     | Some raw_file \<Rightarrow>
                         (case io of
                            Some e \<Rightarrow> (Inl (CliFails e), fs)
                          | None \<Rightarrow> (Inr doc, fs(out \<mapsto> \<lparr>f_content = raw_file, f_mtime = issued\<rparr>)))))))"

section \<open>Checking a license\<close>

fun verify_flags :: "string option \<Rightarrow> string option \<Rightarrow> string list \<Rightarrow> cli_error + string option \<times> string option" where
  "verify_flags file key [] = Inr (file, key)"
| "verify_flags file key (flag # rest) =
     (if flag \<notin> {''--file'', ''--public-key''} then Inl (unknown_flag flag)
      else (case rest of
              [] \<Rightarrow> Inl CliPanics
            | v # rest' \<Rightarrow>
                if flag = ''--file'' then verify_flags (Some v) key rest' else verify_flags file (Some v) rest'))"

definition license_verify :: "libs \<Rightarrow> instant \<Rightarrow> string list \<Rightarrow> files \<Rightarrow> cli_error + license_doc" where
  "license_verify L now args fs =
     (case verify_flags None None args of
        Inl e \<Rightarrow> Inl e
      | Inr (file, public_key) \<Rightarrow>
     (case required ''--file'' file of Inl e \<Rightarrow> Inl e | Inr path \<Rightarrow>
     (case fs path of None \<Rightarrow> Inl (CliFails ''No such file or directory (os error 2)'') | Some f \<Rightarrow>
     (case (case public_key of
              Some p \<Rightarrow> ok_or (CliFails ''No such file or directory (os error 2)'') (map_option f_content (fs p))
            | None \<Rightarrow> Inr (lib_embedded_key L)) of
        Inl e \<Rightarrow> Inl e
      | Inr pem \<Rightarrow>
          if \<not> lib_public_key L pem then Inl KeyUnreadable
          else (case verify_license L now (f_content f) pem of
                  Inl e \<Rightarrow> Inl (CliFails (verify_error_display L e)) | Inr doc \<Rightarrow> Inr doc)))))"

section \<open>Users and secrets\<close>

record user_args =
  ua_org :: "int option"
  ua_email :: "string option"
  ua_role :: string
  ua_password :: "string option"

definition user_flag :: "user_args \<Rightarrow> string \<Rightarrow> string \<Rightarrow> cli_error + user_args" where
  "user_flag a flag v =
     (if flag = ''--org'' then
        (case parse_i64 v of None \<Rightarrow> Inl (NotANumber v) | Some n \<Rightarrow> Inr (a\<lparr>ua_org := Some n\<rparr>))
      else if flag = ''--email'' then Inr (a\<lparr>ua_email := Some v\<rparr>)
      else if flag = ''--role'' then Inr (a\<lparr>ua_role := v\<rparr>)
      else if flag = ''--password'' then Inr (a\<lparr>ua_password := Some v\<rparr>)
      else Inl (unknown_flag flag))"

fun user_flags :: "user_args \<Rightarrow> string list \<Rightarrow> cli_error + user_args" where
  "user_flags a [] = Inr a"
| "user_flags a (flag # rest) =
     (if flag \<notin> {''--org'', ''--email'', ''--role'', ''--password''} then Inl (unknown_flag flag)
      else (case rest of
              [] \<Rightarrow> Inl CliPanics
            | v # rest' \<Rightarrow> (case user_flag a flag v of Inl e \<Rightarrow> Inl e | Inr a' \<Rightarrow> user_flags a' rest')))"

definition USER_ROLES :: "string list" where
  "USER_ROLES = [''admin'', ''editor'', ''operator'', ''viewer'']"

text \<open>A user with that address keeps its organization and its disabled mark; role and password are replaced.\<close>

definition upsert_user :: "app \<Rightarrow> int \<Rightarrow> string \<Rightarrow> string \<Rightarrow> string \<Rightarrow> instant \<Rightarrow> db \<Rightarrow> (db_error + int) \<times> db" where
  "upsert_user ap org email role hash now d =
     (if role \<notin> set USER_ROLES then (Inl InvalidEnum, d)
      else (let uid = db_next d T_users; d' = bump T_users d;
                hit = (\<lambda>u. case us_email u of None \<Rightarrow> False | Some e \<Rightarrow> cr_citext_eq (ap_crates ap) e email) in
        case List.find hit (db_users d) of
          Some old \<Rightarrow> (Inr (us_id old), d'\<lparr>db_users := update_where hit
            (\<lambda>u. u\<lparr>us_role := role, us_password_hash := hash\<rparr>) (db_users d)\<rparr>)
        | None \<Rightarrow>
            if \<not> org_exists d org then (Inl ForeignKeyViolation, d')
            else (Inr uid, d'\<lparr>db_users := db_users d @ [\<lparr>us_id = uid, us_org_id = org, us_email = Some email, us_role = role,
               us_password_hash = hash, us_disabled = False, us_created_at = now, us_updated_at = now\<rparr>]\<rparr>)))"

definition cli_db :: "(db_error + 'a) \<times> db \<Rightarrow> (cli_error + 'a) \<times> db" where
  "cli_db rd = (case rd of (Inl e, d) \<Rightarrow> (Inl (CliFails (db_error_text e)), d) | (Inr x, d) \<Rightarrow> (Inr x, d))"

definition create_user :: "app \<Rightarrow> string \<Rightarrow> instant \<Rightarrow> string list \<Rightarrow> db \<Rightarrow> (cli_error + int) \<times> db" where
  "create_user ap salt now args d =
     (case user_flags \<lparr>ua_org = None, ua_email = None, ua_role = ''viewer'', ua_password = None\<rparr> args of
        Inl e \<Rightarrow> (Inl e, d)
      | Inr a \<Rightarrow>
     (case required ''--org'' (ua_org a) of Inl e \<Rightarrow> (Inl e, d) | Inr org \<Rightarrow>
     (case required ''--email'' (ua_email a) of Inl e \<Rightarrow> (Inl e, d) | Inr email \<Rightarrow>
     (case required ''--password'' (ua_password a) of Inl e \<Rightarrow> (Inl e, d) | Inr password \<Rightarrow>
     (case hash_password ap salt password of
        Inl e \<Rightarrow> (Inl (CliFails (api_error_display e)), d)
      | Inr hash \<Rightarrow> cli_db (upsert_user ap org email (ua_role a) hash now d))))))"

record secret_args =
  xa_org :: "int option"
  xa_name :: "string option"
  xa_value :: "string option"

fun secret_flags :: "secret_args \<Rightarrow> string list \<Rightarrow> cli_error + secret_args" where
  "secret_flags a [] = Inr a"
| "secret_flags a (flag # rest) =
     (if flag \<notin> {''--org'', ''--name'', ''--value''} then Inl (unknown_flag flag)
      else (case rest of
              [] \<Rightarrow> Inl CliPanics
            | v # rest' \<Rightarrow>
                if flag = ''--org'' then
                  (case parse_i64 v of None \<Rightarrow> Inl (NotANumber v) | Some n \<Rightarrow> secret_flags (a\<lparr>xa_org := Some n\<rparr>) rest')
                else if flag = ''--name'' then secret_flags (a\<lparr>xa_name := Some v\<rparr>) rest'
                else secret_flags (a\<lparr>xa_value := Some v\<rparr>) rest'))"

definition upsert_secret :: "app \<Rightarrow> string \<Rightarrow> instant \<Rightarrow> string list \<Rightarrow> db \<Rightarrow> (cli_error + int) \<times> db" where
  "upsert_secret ap nonce now args d =
     (case secret_flags \<lparr>xa_org = None, xa_name = None, xa_value = None\<rparr> args of
        Inl e \<Rightarrow> (Inl e, d)
      | Inr a \<Rightarrow>
     (case required ''--org'' (xa_org a) of Inl e \<Rightarrow> (Inl e, d) | Inr org \<Rightarrow>
     (case required ''--name'' (xa_name a) of Inl e \<Rightarrow> (Inl e, d) | Inr name \<Rightarrow>
     (case required ''--value'' (xa_value a) of Inl e \<Rightarrow> (Inl e, d) | Inr v \<Rightarrow>
     (case ap_encrypt ap nonce v of
        None \<Rightarrow> (Inl (CliFails ''aes-gcm encrypt: aead::Error''), d)
      | Some ct \<Rightarrow> cli_db (upsert_secret_row org name ct nonce now d))))))"

section \<open>Revoking licenses\<close>

text \<open>Here the value is looked up before the flag, and a missing one is an error.\<close>

fun revoke_flags ::
    "string option \<Rightarrow> string option \<Rightarrow> string \<Rightarrow> string list \<Rightarrow> cli_error + string option \<times> string option \<times> string" where
  "revoke_flags fp licensee reason [] = Inr (fp, licensee, reason)"
| "revoke_flags fp licensee reason [flag] = Inl (CliFails (flag @ '' requires a value''))"
| "revoke_flags fp licensee reason (flag # v # rest) =
     (if flag = ''--fingerprint'' then revoke_flags (Some v) licensee reason rest
      else if flag = ''--licensee'' then revoke_flags fp (Some v) reason rest
      else if flag = ''--reason'' then revoke_flags fp licensee v rest
      else Inl (unknown_flag flag))"

definition revoke_cmd :: "libs \<Rightarrow> instant \<Rightarrow> bool \<Rightarrow> string list \<Rightarrow> server_state \<Rightarrow> (cli_error + nat) \<times> server_state" where
  "revoke_cmd L now revoking args s =
     (case revoke_flags None None ''revoked by vendor'' args of
        Inl e \<Rightarrow> (Inl e, s)
      | Inr (fp, licensee, reason) \<Rightarrow>
     (case ok_or (CliFails ''--fingerprint required (full hex install ID)'') fp of
        Inl e \<Rightarrow> (Inl e, s)
      | Inr fingerprint \<Rightarrow>
          if revoking then
            (case revoke L now fingerprint (unwrap_or ''*'' licensee) reason s of
               (None, s') \<Rightarrow> (Inl (CliFails (se_message bad_fingerprint)), s') | (Some _, s') \<Rightarrow> (Inr 1, s'))
          else
            (case unrevoke fingerprint licensee s of
               (None, s') \<Rightarrow> (Inl (CliFails (se_message bad_fingerprint)), s') | (Some n, s') \<Rightarrow> (Inr n, s'))))"

end
