(* ===== verification/Commands_Facts.thy ===== *)
theory Commands_Facts
  imports Commands License_Facts
begin

text \<open>
  A license written by the admin tool is one the platform accepts: it verifies, and the install it is bound to loads it. Two
  lemmas state what the tools for users and secrets leave in place.
\<close>

lemma parse_u32_bound: "parse_u32 s = Some n \<Longrightarrow> n < 2 ^ 32"
  by (auto simp: parse_u32_def Let_def split: if_splits)

lemma sign_flag_seats:
  assumes "sign_flag a flag v = Inr a'" and "sa_max_seats a' = Some n" and "\<And>k. sa_max_seats a = Some k \<Longrightarrow> k < 2 ^ 32"
  shows "n < 2 ^ 32"
  using assms parse_u32_bound [of v n] by (auto simp: sign_flag_def split: if_splits option.splits)

lemma sign_flags_seats:
  assumes "sign_flags a args = Inr a'" and "\<And>k. sa_max_seats a = Some k \<Longrightarrow> k < 2 ^ 32"
  shows "\<And>n. sa_max_seats a' = Some n \<Longrightarrow> n < 2 ^ 32"
  using assms
proof (induction a args rule: sign_flags.induct)
  case (2 a flag rest)
  show ?case
  proof (cases "flag = ''--require-heartbeat''")
    case True
    with 2 show ?thesis by simp
  next
    case False
    with "2.prems" obtain v rest' b where r: "rest = v # rest'" "sign_flag a flag v = Inr b" "sign_flags b rest' = Inr a'"
      "flag \<in> set sign_value_flags"
      by (auto split: if_splits list.splits sum.splits)
    with "2.IH"(2) False "2.prems" sign_flag_seats show ?thesis by blast
  qed
qed simp

lemma hexdigit_to_lower: "is_ascii_hexdigit c \<Longrightarrow> is_ascii_hexdigit (to_lower c)"
  by (auto simp: is_ascii_hexdigit_def to_lower_def byte_def is_digit_def)

lemma sign_doc_fields:
  assumes "sign_doc L day_end now issued a = Inr (kp, out, doc)"
  shows "sa_key a = Some kp" "sa_out a = Some out" "ld_max_seats doc = sa_max_seats a" "now < ld_expires_at doc"
    "ld_requires_heartbeat doc \<Longrightarrow> \<exists>fp. ld_fingerprint doc = Some fp \<and> 16 \<le> length fp \<and> list_all is_ascii_hexdigit fp"
  using assms
  by (auto simp: sign_doc_def required_def ok_or_def to_ascii_lowercase_def list_all_iff hexdigit_to_lower not_less
      split: option.splits if_splits)

text \<open>
  C28: What the admin tool signs is usable: the file it writes passes its own check under the matching public key until it
  expires, the install it is bound to (or any install, if unbound) loads exactly that document, and a license that requires a
  heartbeat is bound to a full hexadecimal install id, without which no heartbeat could be answered.
\<close>

theorem signed_license_is_usable:
  assumes "json_text_ok L" and "timestamps_ok L" and "license_sign L day_end now issued None args fs = (Inr doc, fs')"
    and "sign_flags no_sign_args args = Inr a" and "sa_key a = Some kp" and "sa_out a = Some out"
    and "fs kp = Some k" and "signatures_ok L (f_content k)" and "t < ld_expires_at doc"
    and "fs' pub = Some pk" and "f_content pk = lib_public_of L (f_content k)" and "lib_public_key L (f_content pk)"
  shows "license_verify L t [''--file'', out, ''--public-key'', pub] fs' = Inr doc
    \<and> (\<forall>env fp. ld_fingerprint doc \<in> {None, Some fp} \<longrightarrow>
        (\<exists>l. load_and_verify_path L env fs' t out (f_content pk) fp = Inr l \<and> ll_doc l = doc))
    \<and> now < ld_expires_at doc
    \<and> (ld_requires_heartbeat doc \<longrightarrow> (\<exists>fp. ld_fingerprint doc = Some fp \<and> 16 \<le> length fp \<and> list_all is_ascii_hexdigit fp))"
proof -
  from assms(3,4) obtain kp' out' k' raw where sd: "sign_doc L day_end now issued a = Inr (kp', out', doc)" "fs kp' = Some k'"
    and sl: "sign_license L doc (f_content k') = Some raw" "fs' = fs(out' \<mapsto> \<lparr>f_content = raw, f_mtime = issued\<rparr>)"
    by (auto simp: license_sign_def split: sum.splits prod.splits option.splits)
  from sign_doc_fields(1,2) [OF sd(1)] assms(5-7) sd(2) have same: "kp' = kp" "out' = out" "k' = k" by auto
  note d = sd(1) [unfolded same] and raw = sl(1) [unfolded same] and fs' = sl(2) [unfolded same]
  have "seats_ok doc"
    unfolding seats_ok_def sign_doc_fields(3) [OF d]
    using sign_flags_seats [OF assms(4)] by (simp add: no_sign_args_def)
  from signed_verifies [OF assms(1,2,8) this assms(9) raw]
  have v: "verify_license L t raw (f_content pk) = Inr doc" by (simp add: assms(11))
  have out: "fs' out = Some \<lparr>f_content = raw, f_mtime = issued\<rparr>" by (simp add: fs')
  have "license_verify L t [''--file'', out, ''--public-key'', pub] fs' = Inr doc"
    using v assms(10,12) by (simp add: license_verify_def required_def ok_or_def out)
  moreover have "\<exists>l. load_and_verify_path L env fs' t out (f_content pk) fp = Inr l \<and> ll_doc l = doc"
    if "ld_fingerprint doc \<in> {None, Some fp}" for env fp
    using that v by (auto simp: load_and_verify_path_def out)
  ultimately show ?thesis using sign_doc_fields(4,5) [OF d] by blast
qed

definition demo_sign_args :: "string list" where
  "demo_sign_args = [''--key'', ''k'', ''--licensee'', ''ACME'', ''--expires'', ''xx'', ''--out'', ''o'', ''--require-heartbeat'',
     ''--fingerprint'', ''00112233445566FF'']"

definition demo_vendor_files :: files where
  "demo_vendor_files = [''k'' \<mapsto> \<lparr>f_content = ''key'', f_mtime = 0\<rparr>, ''p'' \<mapsto> \<lparr>f_content = ''key'', f_mtime = 0\<rparr>]"

theorem signed_license_is_usable_witness:
  "\<exists>doc fs'. license_sign (demo_libs\<lparr>lib_parse_rfc3339 := (\<lambda>_. Some 10)\<rparr>) (\<lambda>_. None) 0 0 None demo_sign_args demo_vendor_files = (Inr doc, fs')
     \<and> license_verify (demo_libs\<lparr>lib_parse_rfc3339 := (\<lambda>_. Some 10)\<rparr>) 5 [''--file'', ''o'', ''--public-key'', ''p''] fs' = Inr doc
     \<and> ld_fingerprint doc = Some ''00112233445566ff''"
proof -
  let ?L = "demo_libs\<lparr>lib_parse_rfc3339 := (\<lambda>_. Some 10)\<rparr>"
  let ?a = "\<lparr>sa_key = Some ''k'', sa_licensee = Some ''ACME'', sa_expires = Some ''xx'', sa_features = [], sa_max_seats = None,
     sa_kind = Commercial, sa_fingerprint = Some ''00112233445566FF'', sa_require_heartbeat = True, sa_out = Some ''o''\<rparr>"
  have flags: "sign_flags no_sign_args demo_sign_args = Inr ?a" by code_simp
  have hex: "\<not> length ''00112233445566FF'' < 16" "list_all is_ascii_hexdigit ''00112233445566FF''"
    "to_ascii_lowercase ''00112233445566FF'' = ''00112233445566ff''" by code_simp+
  define doc where "doc = \<lparr>ld_licensee = ''ACME'', ld_expires_at = 10, ld_features = [], ld_max_seats = None,
     ld_issued_at = Some 0, ld_kind = Commercial, ld_fingerprint = Some ''00112233445566ff'', ld_requires_heartbeat = True\<rparr>"
  have d: "sign_doc ?L (\<lambda>_. None) 0 0 ?a = Inr (''k'', ''o'', doc)"
    using hex by (simp add: sign_doc_def required_def ok_or_def doc_def)
  obtain raw where sl: "sign_license ?L doc ''key'' = Some raw" by (simp add: sign_license_def demo_libs_def Let_def)
  obtain fs' where run: "license_sign ?L (\<lambda>_. None) 0 0 None demo_sign_args demo_vendor_files = (Inr doc, fs')"
    and p: "fs' ''p'' = Some \<lparr>f_content = ''key'', f_mtime = 0\<rparr>"
    by (simp add: license_sign_def flags d demo_vendor_files_def sl)
  have ok: "json_text_ok ?L" "timestamps_ok ?L" "signatures_ok ?L x" for x
    by (simp_all add: json_text_ok_def timestamps_ok_def signatures_ok_def demo_libs_def)
  have "license_verify ?L 5 [''--file'', ''o'', ''--public-key'', ''p''] fs' = Inr doc"
    using signed_license_is_usable [OF ok(1,2) run flags _ _ _ ok(3), of "''k''" "''o''" "\<lparr>f_content = ''key'', f_mtime = 0\<rparr>" 5
        "''p''" "\<lparr>f_content = ''key'', f_mtime = 0\<rparr>"] p
    by (simp add: demo_vendor_files_def demo_libs_def doc_def)
  with run show ?thesis by (auto simp: doc_def)
qed

section \<open>What the tools leave in place\<close>

text \<open>\<^verbatim>\<open>create-user\<close> for an address that exists changes role and password, but the user stays in its organization.\<close>

lemma existing_user_keeps_org:
  assumes "role \<in> set USER_ROLES" and "u \<in> set (db_users d)" and "us_email u = Some e" and "cr_citext_eq (ap_crates ap) e email"
  shows "\<exists>u' \<in> set (db_users (snd (upsert_user ap org email role hash now d))).
     us_id u' = us_id u \<and> us_org_id u' = us_org_id u \<and> us_role u' = role \<and> us_password_hash u' = hash"
proof -
  let ?hit = "\<lambda>u. case us_email u of None \<Rightarrow> False | Some e \<Rightarrow> cr_citext_eq (ap_crates ap) e email"
  have hit: "?hit u" using assms(3,4) by simp
  then obtain old where "List.find ?hit (db_users d) = Some old"
    using assms(2) by (cases "List.find ?hit (db_users d)") (auto simp: find_None_iff)
  then have "db_users (snd (upsert_user ap org email role hash now d))
      = update_where ?hit (\<lambda>u. u\<lparr>us_role := role, us_password_hash := hash\<rparr>) (db_users d)"
    using assms(1) by (simp add: upsert_user_def Let_def)
  then show ?thesis
    using assms(2) hit by (auto simp: update_where_def intro!: bexI [of _ "u\<lparr>us_role := role, us_password_hash := hash\<rparr>"])
qed

text \<open>\<^verbatim>\<open>upsert-secret\<close> over a revoked secret stores the new ciphertext, but the secret stays revoked.\<close>

lemma upsert_keeps_revoked:
  assumes "s \<in> set (db_secrets d)" and "sc_org_id s = org" and "sc_name s = name"
  shows "\<exists>s' \<in> set (db_secrets (snd (upsert_secret_row org name ct nonce now d))).
     sc_id s' = sc_id s \<and> sc_ciphertext s' = ct \<and> sc_kind s' = sc_kind s \<and> sc_revoked_at s' = sc_revoked_at s"
proof -
  let ?hit = "\<lambda>s. sc_org_id s = org \<and> sc_name s = name"
  obtain old where "List.find ?hit (db_secrets d) = Some old"
    using assms by (cases "List.find ?hit (db_secrets d)") (auto simp: find_None_iff)
  then have "db_secrets (snd (upsert_secret_row org name ct nonce now d))
      = update_where ?hit (\<lambda>s. s\<lparr>sc_ciphertext := ct, sc_nonce := nonce, sc_updated_at := now\<rparr>) (db_secrets d)"
    by (simp add: upsert_secret_row_def bump_def Let_def)
  then show ?thesis
    using assms
    by (auto simp: update_where_def intro!: bexI [of _ "s\<lparr>sc_ciphertext := ct, sc_nonce := nonce, sc_updated_at := now\<rparr>"])
qed

end
