(* ===== verification/Files_Facts.thy ===== *)
theory Files_Facts
  imports Sampling_Facts
begin

text \<open>
  From the upload to the sample: what was uploaded is what is sampled. The object store is asked for the first eight
  megabytes; the length it announces is that of the range it returns, which is why a clipped file is not recognised.
\<close>

lemma upload_key_nonempty: "trim (upload_key org sha) \<noteq> []"
proof -
  have "\<not> is_whitespace [CHR ''u'']" by code_simp
  moreover have "upload_key org sha = CHR ''u'' # CHR ''p'' # drop 2 (upload_key org sha)" by (simp add: upload_key_def)
  moreover have "\<not> is_cont (CHR ''p'')" by code_simp
  ultimately show ?thesis using trim_nonempty [of "CHR ''u''" "CHR ''p'' # drop 2 (upload_key org sha)"] by simp
qed

lemma uploaded:
  assumes "upload_file ap rq c [Inr p] w = (Inr resp, w')" and "pt_name p = Some ''file''" and "pt_bytes p = Inr bytes"
  obtains src where "source_by_object (cl_org c) (ap_minio_bucket ap) (upload_key (cl_org c) (cr_sha256_hex (ap_crates ap) bytes)) (w_db w') = Some src"
    and "jget resp ''source_id'' = Some (jint (rs_id src))" and "rs_filename src = Some (unwrap_or ''upload.bin'' (pt_file_name p))"
proof -
  let ?sha = "cr_sha256_hex (ap_crates ap) bytes"
  let ?name = "unwrap_or ''upload.bin'' (pt_file_name p)"
  from assms obtain etag src
    where reg: "register_upload rq \<lparr>nu_org = cl_org c, nu_created_by = parse_i64 (cl_sub c), nu_bucket = ap_minio_bucket ap,
        nu_key = upload_key (cl_org c) ?sha, nu_sha256 = ?sha, nu_etag = map_option (trim_matches chr_quote) etag,
        nu_size = int (length bytes), nu_filename = ?name\<rparr> w = (Inr src, w')"
      and resp: "jget resp ''source_id'' = Some (jint (rs_id src))"
    by (auto simp: upload_file_def store_upload_def act_simps Let_def split: sum.splits)
  have "rs_filename src = Some ?name"
    using registered_source_found(2) [OF reg] by (auto simp: upsert_source_def Let_def split: if_splits option.splits)
  with registered_source_found(1) [OF reg] resp show thesis by (intro that [of src]) simp_all
qed

lemma sampled:
  assumes "source_by_object (cl_org c) (ap_minio_bucket ap) key (w_db w) = Some src" and "trim key \<noteq> []"
    and "rq_other rq (w_steps w) (w_db w) = w_db w \<and> rq_outage rq (w_steps w) = None"
    and "cl_role c \<in> {''admin'', ''editor'', ''operator'', ''viewer''}"
    and "nt_range (rq_net rq) (ap_minio_bucket ap) key sample_range = Chunk len chunk"
    and "r = \<lparr>sp_source_id = None, sp_bucket = None, sp_key = key, sp_format = Some ''csv'', sp_rows = n, sp_record_tag = tag\<rparr>"
  shows "result (sample_file ap rq c r w) = (case csv_sample ap chunk (sample_row_cap r) (cut_short len chunk) of
     Inl e \<Rightarrow> Inl (sample_failure e) | Inr res \<Rightarrow> Inr (res, src))"
proof -
  have at: "rs_bucket src = ap_minio_bucket ap" "rs_object_key src = key"
    using assms(1) by (auto simp: source_by_object_def dest: find_Some_in)
  have f: "to_ascii_lowercase ''csv'' = ''csv''" by code_simp
  have fmt: "sample_format r src = Inr ''csv''" using f by (simp add: assms(6) sample_format_def ok_or_def)
  have "require_role c [''admin'', ''editor'', ''operator'', ''viewer''] = ok ()" using assms(4) by (auto simp: require_role_def)
  moreover have "sample_source ap r = Inr (ObjectReq (ap_minio_bucket ap) key)"
    using assms(2) by (simp add: assms(6) sample_source_def)
  moreover have "resolve_object rq (cl_org c) (ObjectReq (ap_minio_bucket ap) key) w = (Inr src, w\<lparr>w_steps := w_steps w + 1\<rparr>)"
    using assms(1,3) by (simp add: resolve_object_def lookup_object_def bindE_def query_up lift_def ok_or_def ok_def)
  ultimately show ?thesis
    using assms(5) fmt at
    by (simp add: sample_file_def bindE_ok bindE_def lift_def run_sampler_def result_def ok_def split: sum.split)
qed


text \<open>Whatever lies beyond the eight megabytes, the sampler is not told that its input was cut.\<close>

lemma clipped_upload_unflagged: "\<not> cut_short (Some (int (length (take DEFAULT_BYTE_CAP bytes)))) (take DEFAULT_BYTE_CAP bytes)"
  by (simp add: cut_short_def)

definition demo_part :: part where
  "demo_part = \<lparr>pt_name = Some ''file'', pt_file_name = Some ''x.csv'', pt_bytes = Inr ''f''\<rparr>"

definition demo_store_rq :: request where
  "demo_store_rq = demo_rq\<lparr>rq_net := demo_net\<lparr>nt_put := (\<lambda>_ _ _ _. Inr None), nt_range := (\<lambda>_ _ _. Chunk (Some 1) ''f'')\<rparr>\<rparr>"


end
