(* ===== verification/Routing.thy ===== *)
theory Routing
  imports Prelude
begin

text \<open>
  The routes of the API: the \<^verbatim>\<open>router\<close> function of every file under \<^verbatim>\<open>src/apps/api/src/routes/\<close>, merged in the order of
  \<^verbatim>\<open>build_router\<close> (\<^verbatim>\<open>src/apps/api/src/lib.rs\<close>), with the matching of paths as \<^verbatim>\<open>axum\<close> does it: segment by segment, a fixed
  segment before a parameter, going back to the parameter when the fixed one leads nowhere. A parameter takes one segment that is
  not empty. \<open>get\<close> answers \<^verbatim>\<open>HEAD\<close> as well.
\<close>

datatype meth = GET | HEAD | POST | PUT | DELETE | PATCH | OPTIONS

text \<open>The handlers, one type per file of routes.\<close>

datatype health_ep = E_health | E_ready | E_authorize_work
datatype auth_ep = E_login | E_me
datatype template_ep = E_list_templates | E_create_template | E_get_template | E_delete_template | E_list_versions | E_create_version | E_publish_template
datatype file_ep = E_upload_file | E_sample_file
datatype connector_ep = E_list_connectors | E_create_connector | E_get_connector | E_delete_connector | E_test_connector | E_sf_oauth_callback
datatype job_ep = E_list_jobs | E_create_job | E_get_job | E_pause_job | E_resume_job | E_cancel_job | E_list_rows | E_list_row_steps | E_retry_row | E_retry_all_failed | E_download_results | E_retry_export | E_stream_updates
datatype secret_ep = E_list_secrets | E_get_secret | E_put_secret | E_revoke_secret
datatype batch_ep = E_list_batches | E_create_batch | E_get_batch
datatype schedule_ep = E_list_schedules | E_create_schedule | E_get_schedule | E_update_schedule | E_delete_schedule | E_pause_schedule | E_resume_schedule | E_trigger_schedule | E_list_runs
datatype preview_ep = E_dry_run
datatype described_ep = E_spec | E_docs
datatype spec_ep = E_list_specs | E_create_spec | E_get_spec | E_delete_spec | E_list_operations | E_parse_preview
datatype llm_ep = E_get_config | E_put_config | E_suggest_mapping
datatype license_ep = E_license_status | E_start_trial

datatype endpoint =
    Ep_Health health_ep
  | Ep_Auth auth_ep
  | Ep_Templates template_ep
  | Ep_Files file_ep
  | Ep_Connectors connector_ep
  | Ep_Jobs job_ep
  | Ep_Secrets secret_ep
  | Ep_Batches batch_ep
  | Ep_Schedules schedule_ep
  | Ep_Preview preview_ep
  | Ep_Described described_ep
  | Ep_Specs spec_ep
  | Ep_Llm llm_ep
  | Ep_Licensing license_ep

type_synonym route = "string \<times> (meth \<times> endpoint) list"

section \<open>The routers\<close>

definition health_router :: "route list" where
  "health_router = [(''/healthz'', [(GET, Ep_Health E_health)]), (''/readyz'', [(GET, Ep_Health E_ready)]),
     (''/internal/license/authorize'', [(GET, Ep_Health E_authorize_work)])]"

definition auth_router :: "route list" where
  "auth_router = [(''/auth/login'', [(POST, Ep_Auth E_login)]), (''/auth/me'', [(GET, Ep_Auth E_me)])]"

definition templates_router :: "route list" where
  "templates_router =
     [(''/rule-templates'', [(GET, Ep_Templates E_list_templates), (POST, Ep_Templates E_create_template)]),
      (''/rule-templates/:id'', [(GET, Ep_Templates E_get_template), (DELETE, Ep_Templates E_delete_template)]),
      (''/rule-templates/:id/versions'', [(GET, Ep_Templates E_list_versions), (POST, Ep_Templates E_create_version)]),
      (''/rule-templates/:id/publish'', [(POST, Ep_Templates E_publish_template)])]"

definition files_router :: "route list" where
  "files_router = [(''/files'', [(POST, Ep_Files E_upload_file)]), (''/files/sample'', [(POST, Ep_Files E_sample_file)])]"

definition connectors_router :: "route list" where
  "connectors_router =
     [(''/connectors'', [(GET, Ep_Connectors E_list_connectors), (POST, Ep_Connectors E_create_connector)]),
      (''/connectors/:id'', [(GET, Ep_Connectors E_get_connector), (DELETE, Ep_Connectors E_delete_connector)]),
      (''/connectors/:id/test'', [(POST, Ep_Connectors E_test_connector)]),
      (''/connectors/salesforce/oauth/callback'', [(GET, Ep_Connectors E_sf_oauth_callback)])]"

definition jobs_router :: "route list" where
  "jobs_router =
     [(''/jobs'', [(GET, Ep_Jobs E_list_jobs), (POST, Ep_Jobs E_create_job)]),
      (''/jobs/:id'', [(GET, Ep_Jobs E_get_job)]),
      (''/jobs/:id/pause'', [(POST, Ep_Jobs E_pause_job)]),
      (''/jobs/:id/resume'', [(POST, Ep_Jobs E_resume_job)]),
      (''/jobs/:id/cancel'', [(POST, Ep_Jobs E_cancel_job)]),
      (''/jobs/:id/rows'', [(GET, Ep_Jobs E_list_rows)]),
      (''/jobs/:id/rows/:row_index/steps'', [(GET, Ep_Jobs E_list_row_steps)]),
      (''/jobs/:id/rows/:row_index/retry'', [(POST, Ep_Jobs E_retry_row)]),
      (''/jobs/:id/retry-failed'', [(POST, Ep_Jobs E_retry_all_failed)]),
      (''/jobs/:id/results'', [(GET, Ep_Jobs E_download_results)]),
      (''/jobs/:id/export'', [(POST, Ep_Jobs E_retry_export)]),
      (''/jobs/:id/stream'', [(GET, Ep_Jobs E_stream_updates)])]"

definition secrets_router :: "route list" where
  "secrets_router =
     [(''/secrets'', [(GET, Ep_Secrets E_list_secrets)]),
      (''/secrets/:name'', [(GET, Ep_Secrets E_get_secret), (PUT, Ep_Secrets E_put_secret), (DELETE, Ep_Secrets E_revoke_secret)])]"

definition batches_router :: "route list" where
  "batches_router = [(''/batches'', [(GET, Ep_Batches E_list_batches), (POST, Ep_Batches E_create_batch)]), (''/batches/:id'', [(GET, Ep_Batches E_get_batch)])]"

definition schedules_router :: "route list" where
  "schedules_router =
     [(''/schedules'', [(GET, Ep_Schedules E_list_schedules), (POST, Ep_Schedules E_create_schedule)]),
      (''/schedules/:id'', [(GET, Ep_Schedules E_get_schedule), (PUT, Ep_Schedules E_update_schedule), (DELETE, Ep_Schedules E_delete_schedule)]),
      (''/schedules/:id/pause'', [(POST, Ep_Schedules E_pause_schedule)]),
      (''/schedules/:id/resume'', [(POST, Ep_Schedules E_resume_schedule)]),
      (''/schedules/:id/trigger'', [(POST, Ep_Schedules E_trigger_schedule)]),
      (''/schedules/:id/runs'', [(GET, Ep_Schedules E_list_runs)])]"

definition dry_run_router :: "route list" where
  "dry_run_router = [(''/dry-run'', [(POST, Ep_Preview E_dry_run)])]"

definition openapi_router :: "route list" where
  "openapi_router = [(''/openapi.json'', [(GET, Ep_Described E_spec)]), (''/docs'', [(GET, Ep_Described E_docs)])]"

definition specs_router :: "route list" where
  "specs_router =
     [(''/openapi-specs'', [(GET, Ep_Specs E_list_specs), (POST, Ep_Specs E_create_spec)]),
      (''/openapi-specs/:id'', [(GET, Ep_Specs E_get_spec), (DELETE, Ep_Specs E_delete_spec)]),
      (''/openapi-specs/:id/operations'', [(GET, Ep_Specs E_list_operations)]),
      (''/openapi-specs/parse-preview'', [(POST, Ep_Specs E_parse_preview)])]"

definition llm_router :: "route list" where
  "llm_router = [(''/llm-config'', [(GET, Ep_Llm E_get_config), (PUT, Ep_Llm E_put_config)]), (''/mapping-suggestions'', [(POST, Ep_Llm E_suggest_mapping)])]"

definition license_router :: "route list" where
  "license_router = [(''/license'', [(GET, Ep_Licensing E_license_status)]), (''/license/trial'', [(POST, Ep_Licensing E_start_trial)])]"

definition routes :: "route list" where
  "routes = health_router @ auth_router @ templates_router @ files_router @ connectors_router @ jobs_router @ secrets_router
     @ batches_router @ schedules_router @ dry_run_router @ openapi_router @ specs_router @ llm_router @ license_router"

section \<open>Matching\<close>

datatype segment = Fixed_seg string | Param_seg string

definition segments :: "string \<Rightarrow> string list option" where
  "segments path = (case path of c # cs \<Rightarrow> if c = CHR ''/'' then Some (split_on (CHR ''/'') cs) else None | [] \<Rightarrow> None)"

definition read_segment :: "string \<Rightarrow> segment" where
  "read_segment s = (case s of c # cs \<Rightarrow> if c = CHR '':'' then Param_seg cs else Fixed_seg s | [] \<Rightarrow> Fixed_seg s)"

definition pattern_of :: "string \<Rightarrow> segment list" where
  "pattern_of path = map read_segment (unwrap_or [] (segments path))"

definition after_fixed :: "string \<Rightarrow> (segment list \<times> 'h) list \<Rightarrow> (segment list \<times> 'h) list" where
  "after_fixed s rs = List.map_filter (\<lambda>(p, h). case p of Fixed_seg t # q \<Rightarrow> if t = s then Some (q, h) else None | _ \<Rightarrow> None) rs"

definition after_param :: "(segment list \<times> 'h) list \<Rightarrow> (segment list \<times> 'h) list" where
  "after_param rs = List.map_filter (\<lambda>(p, h). case p of Param_seg _ # q \<Rightarrow> Some (q, h) | _ \<Rightarrow> None) rs"

fun walk :: "(segment list \<times> 'h) list \<Rightarrow> string list \<Rightarrow> ('h \<times> string list) option" where
  "walk rs [] = map_option (\<lambda>(_, h). (h, [])) (List.find (\<lambda>(p, _). p = []) rs)"
| "walk rs (s # ss) =
     (case walk (after_fixed s rs) ss of
        Some found \<Rightarrow> Some found
      | None \<Rightarrow> if s = [] then None else map_option (\<lambda>(h, params). (h, s # params)) (walk (after_param rs) ss))"

definition route_table :: "(segment list \<times> (meth \<times> endpoint) list) list" where
  "route_table = map (\<lambda>(path, ms). (pattern_of path, ms)) routes"

datatype target = No_route | No_method | Target endpoint "string list"

definition method_endpoint :: "meth \<Rightarrow> (meth \<times> endpoint) list \<Rightarrow> endpoint option" where
  "method_endpoint m ms = or_else (map_of ms m) (if m = HEAD then map_of ms GET else None)"

definition dispatch :: "meth \<Rightarrow> string \<Rightarrow> target" where
  "dispatch m path =
     (case Option.bind (segments path) (walk route_table) of
        None \<Rightarrow> No_route
      | Some (ms, params) \<Rightarrow> (case method_endpoint m ms of None \<Rightarrow> No_method | Some e \<Rightarrow> Target e params))"

section \<open>The static description\<close>

text \<open>The document served at \<^verbatim>\<open>/openapi.json\<close>, and the operations it describes.\<close>

definition summary :: "string \<Rightarrow> string \<Rightarrow> string \<times> json" where
  "summary verb text = (verb, json_obj [(''summary'', JStr text)])"

definition described_ok :: "string \<Rightarrow> string \<Rightarrow> string \<times> json" where
  "described_ok verb text = (verb, json_obj [(''summary'', JStr text),
     (''responses'', json_obj [(''200'', json_obj [(''description'', JStr ''ok'')])])])"

definition openapi_spec :: json where
  "openapi_spec = json_obj
     [(''openapi'', JStr ''3.0.3''),
      (''info'', json_obj [(''title'', JStr ''Migration Platform API''), (''version'', JStr ''0.1.0'')]),
      (''paths'', json_obj
        [(''/healthz'', json_obj [described_ok ''get'' ''liveness'']),
         (''/readyz'', json_obj [described_ok ''get'' ''readiness'']),
         (''/auth/login'', json_obj [described_ok ''post'' ''issue JWT'']),
         (''/auth/me'', json_obj [described_ok ''get'' ''current user'']),
         (''/rule-templates'', json_obj [summary ''get'' ''list'', summary ''post'' ''create'']),
         (''/jobs'', json_obj [summary ''get'' ''list'', summary ''post'' ''create'']),
         (''/jobs/{id}/stream'', json_obj [summary ''get'' ''SSE progress'']),
         (''/jobs/{id}/rows/{row_index}/retry'', json_obj [summary ''post''
           (''retry one row; body {from_start, confirm_not_applied}; 409 while the job or another retry runs, '' @
            ''or for an unresolved row without confirm_not_applied'')]),
         (''/jobs/{id}/retry-failed'', json_obj [summary ''post''
           ''retry failed rows (not unresolved ones); 409 while the job or another retry runs'']),
         (''/jobs/{id}/pause'', json_obj [summary ''post'' ''pause a running job; 409 in any other state'']),
         (''/jobs/{id}/resume'', json_obj [summary ''post'' ''resume a paused job; 409 in any other state'']),
         (''/jobs/{id}/cancel'', json_obj [summary ''post'' ''cancel a pending, running or paused job; 409 once finished'']),
         (''/jobs/{id}/export'', json_obj [summary ''post''
           (''re-run only the results export of a finished job (no destination calls); 202, '' @
            ''or 409 while the job or another export runs'')]),
         (''/secrets'', json_obj [summary ''get'' ''list destination secret names (never values)'']),
         (''/secrets/{name}'', json_obj [summary ''get'' ''secret metadata'',
           summary ''put'' ''create or rotate (admin); body {value}'', summary ''delete'' ''revoke (admin)'']),
         (''/schedules'', json_obj [summary ''get'' ''list'', summary ''post'' ''create''])])]"

definition verb_method :: "string \<Rightarrow> meth option" where
  "verb_method verb = map_of [(''get'', GET), (''post'', POST), (''put'', PUT), (''delete'', DELETE)] verb"

definition spec_paths :: "(string \<times> meth option list) list" where
  "spec_paths = map (\<lambda>(path, item). (path, map (\<lambda>(verb, _). verb_method verb) (unwrap_or [] (as_object item))))
     (unwrap_or [] (Option.bind (jget openapi_spec ''paths'') as_object))"

definition docs_redirect :: string where
  "docs_redirect = ''/docs/''"

section \<open>What routing guarantees\<close>

text \<open>A pattern and the segments it stands for, with the values of its parameters.\<close>

fun fits :: "segment list \<Rightarrow> string list \<Rightarrow> string list option" where
  "fits [] [] = Some []"
| "fits (Fixed_seg t # p) (s # ss) = (if t = s then fits p ss else None)"
| "fits (Param_seg n # p) (s # ss) = (if s = [] then None else map_option ((#) s) (fits p ss))"
| "fits _ _ = None"

lemma in_after_fixed: "(q, h) \<in> set (after_fixed s rs) \<longleftrightarrow> (Fixed_seg s # q, h) \<in> set rs"
  by (induction rs) (auto simp: after_fixed_def List.map_filter_simps split: list.splits segment.splits if_splits)

lemma in_after_param: "(q, h) \<in> set (after_param rs) \<longleftrightarrow> (\<exists>n. (Param_seg n # q, h) \<in> set rs)"
  by (induction rs) (auto simp: after_param_def List.map_filter_simps split: list.splits segment.splits)

text \<open>The walk finds a route exactly when a pattern fits, and then one that fits, with its parameters.\<close>

lemma walk_sound: "walk rs ss = Some (h, params) \<Longrightarrow> \<exists>p. (p, h) \<in> set rs \<and> fits p ss = Some params"
proof (induction ss arbitrary: rs params)
  case Nil
  then show ?case by (auto dest!: find_Some_iff [THEN iffD1]) (metis fits.simps(1) nth_mem)
next
  case (Cons s ss)
  show ?case
  proof (cases "walk (after_fixed s rs) ss")
    case (Some found)
    with Cons.prems Cons.IH [of "after_fixed s rs" params] show ?thesis by (force simp: in_after_fixed)
  next
    case None
    with Cons.prems obtain ps where "s \<noteq> []" "walk (after_param rs) ss = Some (h, ps)" "params = s # ps"
      by (auto split: if_splits)
    with Cons.IH [of "after_param rs" ps] show ?thesis by (force simp: in_after_param)
  qed
qed

lemma walk_complete: "(p, h) \<in> set rs \<Longrightarrow> fits p ss = Some params \<Longrightarrow> walk rs ss \<noteq> None"
proof (induction ss arbitrary: rs p params)
  case Nil
  then show ?case by (cases p) (auto simp: find_None_iff elim: fits.elims)
next
  case (Cons s ss)
  then obtain a q where p: "p = a # q" by (cases p) auto
  show ?case
  proof (cases a)
    case (Fixed_seg t)
    with Cons p have "(q, h) \<in> set (after_fixed s rs)" "fits q ss = Some params" by (auto simp: in_after_fixed split: if_splits)
    with Cons.IH show ?thesis by fastforce
  next
    case (Param_seg n)
    with Cons.prems p obtain ps where "s \<noteq> []" "(q, h) \<in> set (after_param rs)" "fits q ss = Some ps"
      by (auto simp: in_after_param split: if_splits)
    with Cons.IH show ?thesis by (fastforce split: option.splits)
  qed
qed

text \<open>What \<^verbatim>\<open>Router::merge\<close> and \<^verbatim>\<open>Router::route\<close> panic on: a path and method given twice, or two names for one parameter.\<close>

fun names_agree :: "segment list \<Rightarrow> segment list \<Rightarrow> bool" where
  "names_agree (Param_seg a # p) (Param_seg b # q) = (a = b \<and> names_agree p q)"
| "names_agree (Fixed_seg s # p) (Fixed_seg t # q) = (s = t \<longrightarrow> names_agree p q)"
| "names_agree _ _ = True"

lemma routers_merge:
  "distinct (map fst route_table)" "list_all (\<lambda>(_, ms). distinct (map fst ms)) route_table"
  "list_all (\<lambda>(p, _). list_all (\<lambda>(q, _). names_agree p q) route_table) route_table"
  by code_simp+

text \<open>Every described operation is routed; the redirect of \<^verbatim>\<open>/docs\<close> is not.\<close>

definition fill_in :: "string \<Rightarrow> string" where
  "fill_in path = concat (map (\<lambda>s. CHR ''/'' # (if prefix ''{'' s then ''7'' else s)) (unwrap_or [] (segments path)))"

lemma described_is_routed:
  "length spec_paths = 16"
  "list_all (\<lambda>(path, ms). list_all (\<lambda>m. case m of None \<Rightarrow> False
     | Some m \<Rightarrow> dispatch m (fill_in path) \<notin> {No_route, No_method}) ms) spec_paths"
  by code_simp+

lemma docs_redirect_unrouted: "dispatch GET docs_redirect = No_route"
  by code_simp

end
