(* ===== verification/Http.thy ===== *)
theory Http
  imports Routing Jobs Templates Schedules Batches Connectors Specs Llm Files Auth Dry_Run License_Routes Server
begin

text \<open>
  The HTTP side of the handlers: what a request carries, how \<^verbatim>\<open>axum\<close>'s extractors turn it into the arguments of a handler (in the
  order of the handler's parameters: claims, path, query, body), and how the result becomes a reply. A request body is
  JSON text, a multipart form or something else, by its content type; a query is the list of its decoded pairs.
  JSON that gives a key twice is read as if only the last one were there.
\<close>

section \<open>Requests and replies\<close>

datatype body = Json_body string | Form_body "(string + part) list" | Other_body

record http_request =
  hr_method :: meth
  hr_path :: string
  hr_query :: "(string \<times> string) list"
  hr_authorization :: "string option"
  hr_body :: body

datatype reply_body = R_json json | R_text string | R_csv string string | R_events string | R_location string | R_none

text \<open>A panic of a handler closes the connection. The text of a refusal by an extractor is the library's.\<close>

datatype reply = Answered nat reply_body | Refused nat | Aborted

definition error_reply :: "api_error \<Rightarrow> reply" where
  "error_reply e = (let (status, body) = into_response e in Answered status (R_json body))"

fun rejection_reply :: "rejection \<Rightarrow> reply" where
  "rejection_reply BadToken = error_reply Unauthorized"
| "rejection_reply r = (case rejection_response r of (status, text) \<Rightarrow> Answered status (R_text text))"

definition ok_json :: "json \<Rightarrow> reply" where
  "ok_json j = Answered 200 (R_json j)"

definition items_json :: "json list \<Rightarrow> json" where
  "items_json js = json_obj [(''items'', JArr js)]"

section \<open>Structs in JSON and in queries\<close>

definition struct :: "string list \<Rightarrow> (json \<Rightarrow> 'a option) \<Rightarrow> json \<Rightarrow> 'a option" where
  "struct names f v = Option.bind (struct_form names (length names) v) f"

definition read_i32 :: "json \<Rightarrow> int option" where
  "read_i32 v = opt_filter (\<lambda>i. - 2147483648 \<le> i \<and> i \<le> 2147483647) (as_i64 v)"

definition read_usize :: "json \<Rightarrow> nat option" where
  "read_usize v = read_uint 64 v"

definition read_login_request :: "json \<Rightarrow> (string \<times> string) option" where
  "read_login_request = struct [''email'', ''password''] (\<lambda>v.
     Option.bind (req v ''email'' as_str) (\<lambda>email. Option.bind (req v ''password'' as_str) (\<lambda>password. Some (email, password))))"

definition read_job_create :: "json \<Rightarrow> job_create option" where
  "read_job_create = struct [''rule_template_id'', ''source_ref''] (\<lambda>v.
     Option.bind (req v ''rule_template_id'' as_i64) (\<lambda>tid. Option.bind (req v ''source_ref'' Some) (\<lambda>ref.
     Some \<lparr>jc_rule_template_id = tid, jc_source_ref = ref\<rparr>)))"

definition read_retry_options :: "json \<Rightarrow> retry_options option" where
  "read_retry_options v0 = Option.bind (struct_form [''from_start'', ''confirm_not_applied''] 0 v0) (\<lambda>v.
     Option.bind (read_default False as_bool (jget v ''from_start'')) (\<lambda>from_start.
     Option.bind (read_default False as_bool (jget v ''confirm_not_applied'')) (\<lambda>confirm.
     Some \<lparr>ro_from_start = from_start, ro_confirm_not_applied = confirm\<rparr>)))"

definition read_create_request :: "json \<Rightarrow> create_request option" where
  "read_create_request = struct [''template_key'', ''name'', ''schema_json''] (\<lambda>v.
     Option.bind (opt v ''template_key'' as_str) (\<lambda>key. Option.bind (req v ''name'' as_str) (\<lambda>name.
     Option.bind (req v ''schema_json'' Some) (\<lambda>schema.
     Some \<lparr>cr_template_key = key, cr_name = name, cr_schema_json = schema\<rparr>))))"

definition read_create_schedule :: "json \<Rightarrow> create_schedule_req option" where
  "read_create_schedule = struct [''name'', ''rule_template_id'', ''rule_template_version'', ''connector_id'', ''spec'', ''timezone'',
       ''overlap_policy'', ''catchup_window_seconds'', ''enabled''] (\<lambda>v.
     Option.bind (req v ''name'' as_str) (\<lambda>name. Option.bind (req v ''rule_template_id'' as_i64) (\<lambda>tid.
     Option.bind (req v ''rule_template_version'' read_i32) (\<lambda>version. Option.bind (req v ''connector_id'' as_i64) (\<lambda>connector.
     Option.bind (req v ''spec'' Some) (\<lambda>spec. Option.bind (opt v ''timezone'' as_str) (\<lambda>tz.
     Option.bind (opt v ''overlap_policy'' as_str) (\<lambda>overlap. Option.bind (opt v ''catchup_window_seconds'' read_i32) (\<lambda>catchup.
     Option.bind (opt v ''enabled'' as_bool) (\<lambda>enabled.
     Some \<lparr>cs_name = name, cs_rule_template_id = tid, cs_rule_template_version = version, cs_connector_id = connector,
       cs_spec = spec, cs_timezone = tz, cs_overlap_policy = overlap, cs_catchup_window_seconds = catchup,
       cs_enabled = enabled\<rparr>))))))))))"

definition read_update_schedule :: "json \<Rightarrow> update_schedule_req option" where
  "read_update_schedule = struct [''spec'', ''enabled'', ''catchup_window_seconds'', ''timezone'', ''overlap_policy''] (\<lambda>v.
     Option.bind (opt v ''spec'' Some) (\<lambda>spec. Option.bind (opt v ''enabled'' as_bool) (\<lambda>enabled.
     Option.bind (opt v ''catchup_window_seconds'' read_i32) (\<lambda>catchup. Option.bind (opt v ''timezone'' as_str) (\<lambda>tz.
     Option.bind (opt v ''overlap_policy'' as_str) (\<lambda>overlap.
     Some \<lparr>up_spec = spec, up_enabled = enabled, up_catchup_window_seconds = catchup, up_timezone = tz,
       up_overlap_policy = overlap\<rparr>))))))"

definition read_batch_create :: "json \<Rightarrow> batch_create option" where
  "read_batch_create = struct [''source_ref'', ''connector_id''] (\<lambda>v.
     Option.bind (req v ''source_ref'' Some) (\<lambda>ref. Option.bind (opt v ''connector_id'' as_i64) (\<lambda>connector.
     Some \<lparr>bc_source_ref = ref, bc_connector_id = connector\<rparr>)))"

definition read_create_connector :: "json \<Rightarrow> create_connector_req option" where
  "read_create_connector = struct [''name'', ''connector_kind'', ''config_json'', ''secret''] (\<lambda>v.
     Option.bind (req v ''name'' as_str) (\<lambda>name. Option.bind (req v ''connector_kind'' as_str) (\<lambda>kind.
     Option.bind (req v ''config_json'' Some) (\<lambda>cfg. Option.bind (opt v ''secret'' as_str) (\<lambda>secret.
     Some \<lparr>cc_name = name, cc_connector_kind = kind, cc_config_json = cfg, cc_secret = secret\<rparr>)))))"

definition read_one :: "string \<Rightarrow> (json \<Rightarrow> 'a option) \<Rightarrow> json \<Rightarrow> 'a option" where
  "read_one k f = struct [k] (\<lambda>v. req v k f)"

definition read_create_spec :: "json \<Rightarrow> create_spec_req option" where
  "read_create_spec = struct [''name'', ''spec'', ''url''] (\<lambda>v.
     Option.bind (req v ''name'' as_str) (\<lambda>name. Option.bind (opt v ''spec'' Some) (\<lambda>spec.
     Option.bind (opt v ''url'' as_str) (\<lambda>url. Some \<lparr>cp_name = name, cp_spec = spec, cp_url = url\<rparr>))))"

definition read_put_config :: "json \<Rightarrow> put_config_req option" where
  "read_put_config = struct [''provider'', ''base_url'', ''model'', ''api_key'', ''redact_pii'', ''enabled''] (\<lambda>v.
     Option.bind (opt v ''provider'' as_str) (\<lambda>provider. Option.bind (req v ''base_url'' as_str) (\<lambda>base_url.
     Option.bind (req v ''model'' as_str) (\<lambda>model. Option.bind (opt v ''api_key'' as_str) (\<lambda>key.
     Option.bind (opt v ''redact_pii'' as_bool) (\<lambda>redact. Option.bind (opt v ''enabled'' as_bool) (\<lambda>enabled.
     Some \<lparr>pc_provider = provider, pc_base_url = base_url, pc_model = model, pc_api_key = key, pc_redact_pii = redact,
       pc_enabled = enabled\<rparr>)))))))"

definition read_suggest :: "json \<Rightarrow> suggest_req option" where
  "read_suggest = struct [''columns'', ''sample_rows'', ''spec_id'', ''operation_id'', ''instructions'', ''source_type''] (\<lambda>v.
     Option.bind (req v ''columns'' as_array) (\<lambda>columns. Option.bind (req v ''sample_rows'' as_array) (\<lambda>rows.
     Option.bind (opt v ''spec_id'' as_i64) (\<lambda>spec. Option.bind (opt v ''operation_id'' as_str) (\<lambda>operation.
     Option.bind (opt v ''instructions'' as_str) (\<lambda>instructions. Option.bind (opt v ''source_type'' as_str) (\<lambda>source.
     Some \<lparr>sg_columns = columns, sg_sample_rows = rows, sg_spec_id = spec, sg_operation_id = operation,
       sg_instructions = instructions, sg_source_type = source\<rparr>)))))))"

definition read_sample :: "json \<Rightarrow> sample_req option" where
  "read_sample = struct [''source_id'', ''bucket'', ''key'', ''format'', ''rows'', ''record_tag''] (\<lambda>v.
     Option.bind (opt v ''source_id'' as_i64) (\<lambda>sid. Option.bind (opt v ''bucket'' as_str) (\<lambda>bucket.
     Option.bind (read_default [] as_str (jget v ''key'')) (\<lambda>key. Option.bind (opt v ''format'' as_str) (\<lambda>fmt.
     Option.bind (opt v ''rows'' read_usize) (\<lambda>rows. Option.bind (opt v ''record_tag'' as_str) (\<lambda>tag.
     Some \<lparr>sp_source_id = sid, sp_bucket = bucket, sp_key = key, sp_format = fmt, sp_rows = rows, sp_record_tag = tag\<rparr>)))))))"

definition read_dry_run :: "json \<Rightarrow> (json \<times> json list) option" where
  "read_dry_run = struct [''template'', ''rows''] (\<lambda>v.
     Option.bind (req v ''template'' Some) (\<lambda>template. Option.bind (req v ''rows'' as_array) (\<lambda>rows. Some (template, rows))))"

text \<open>A query struct: a key may come once; a value is parsed as it stands.\<close>

definition q_opt :: "(string \<times> string) list \<Rightarrow> string \<Rightarrow> (string \<Rightarrow> 'a option) \<Rightarrow> 'a option option" where
  "q_opt q k f =
     (case filter (\<lambda>(k', _). k' = k) q of [] \<Rightarrow> Some None | [(_, v)] \<Rightarrow> map_option Some (f v) | _ \<Rightarrow> None)"

definition parse_bool :: "string \<Rightarrow> bool option" where
  "parse_bool s = (if s = ''true'' then Some True else if s = ''false'' then Some False else None)"

definition read_jobs_query :: "(string \<times> string) list \<Rightarrow> jobs_list_query option" where
  "read_jobs_query q =
     Option.bind (q_opt q ''status'' Some) (\<lambda>status. Option.bind (q_opt q ''limit'' parse_i64) (\<lambda>limit.
     Option.bind (q_opt q ''cursor'' parse_i64) (\<lambda>cursor. Some \<lparr>jq_status = status, jq_limit = limit, jq_cursor = cursor\<rparr>)))"

definition read_results_query :: "(string \<times> string) list \<Rightarrow> bool option" where
  "read_results_query q = map_option (unwrap_or False) (q_opt q ''failed'' parse_bool)"

definition read_templates_query :: "(string \<times> string) list \<Rightarrow> list_query option" where
  "read_templates_query q =
     Option.bind (q_opt q ''template_key'' Some) (\<lambda>key. Option.bind (q_opt q ''published'' parse_bool) (\<lambda>published.
     Option.bind (q_opt q ''limit'' parse_i64) (\<lambda>limit. Some \<lparr>lq_template_key = key, lq_published = published, lq_limit = limit\<rparr>)))"

definition read_batches_query :: "(string \<times> string) list \<Rightarrow> batch_list_query option" where
  "read_batches_query q =
     Option.bind (q_opt q ''cursor'' parse_i64) (\<lambda>cursor. Option.bind (q_opt q ''limit'' parse_i64) (\<lambda>limit.
     Option.bind (q_opt q ''status'' Some) (\<lambda>status. Some \<lparr>bq_cursor = cursor, bq_limit = limit, bq_status = status\<rparr>)))"

definition read_oauth_query :: "(string \<times> string) list \<Rightarrow> (string \<times> string) option" where
  "read_oauth_query q = Option.bind (q_opt q ''code'' Some) (\<lambda>code. Option.bind (q_opt q ''state'' Some) (\<lambda>state.
     Option.bind code (\<lambda>c. map_option (Pair c) state)))"

section \<open>Rows as JSON\<close>

definition row_detail_json :: "libs \<Rightarrow> job_row_detail \<Rightarrow> json" where
  "row_detail_json L r = json_obj
     [(''job_id'', jint (jr_job_id r)), (''row_index'', jint (jr_row_index r)), (''status'', JStr (jr_status r)),
      (''attempts'', jint (jr_attempts r)), (''last_error'', jostr (jr_last_error r)),
      (''idempotency_key'', jostr (jr_idempotency_key r)), (''row_json'', jojson (jr_row_json r)),
      (''payload_json'', jojson (jr_payload_json r)), (''response_json'', jojson (jr_response_json r)),
      (''updated_at'', jts L (jr_updated_at r))]"

definition step_detail_json :: "libs \<Rightarrow> job_row_step_detail \<Rightarrow> json" where
  "step_detail_json L r = json_obj
     [(''job_id'', jint (js_job_id r)), (''row_index'', jint (js_row_index r)), (''step_index'', jint (js_step_index r)),
      (''step_name'', JStr (js_step_name r)), (''status'', JStr (js_status r)), (''attempts'', jint (js_attempts r)),
      (''request_url'', jostr (js_request_url r)), (''request_json'', jojson (js_request_json r)),
      (''response_status'', joint (js_response_status r)), (''response_json'', jojson (js_response_json r)),
      (''last_error'', jostr (js_last_error r)), (''updated_at'', jts L (js_updated_at r))]"

definition stage_json :: "libs \<Rightarrow> batch_stage_row \<Rightarrow> json" where
  "stage_json L r = json_obj
     [(''id'', jint (bs_id r)), (''batch_id'', jint (bs_batch_id r)), (''stage_index'', jint (bs_stage_index r)),
      (''stage_key'', JStr (bs_stage_key r)), (''file_path'', JStr (bs_file_path r)), (''template_key'', JStr (bs_template_key r)),
      (''rule_template_id'', joint (bs_rule_template_id r)), (''rule_template_version'', joint (bs_rule_template_version r)),
      (''job_id'', joint (bs_job_id r)), (''status'', JStr (bs_status r)), (''on_stage_failure'', jostr (bs_on_stage_failure r)),
      (''depends_on'', JArr (map JStr (bs_depends_on r))), (''error_message'', jostr (bs_error_message r)),
      (''created_at'', jts L (bs_created_at r)), (''updated_at'', jts L (bs_updated_at r))]"

definition batch_detail_json :: "libs \<Rightarrow> batch_row \<times> batch_stage_row list \<Rightarrow> json" where
  "batch_detail_json L bs = set_key ''stages'' (JArr (map (stage_json L) (snd bs))) (batch_json L (fst bs))"

definition secret_meta_json :: "libs \<Rightarrow> secret_meta \<Rightarrow> json" where
  "secret_meta_json L m = json_obj [(''name'', JStr (mt_name m)), (''created_at'', jts L (mt_created_at m)),
     (''updated_at'', jts L (mt_updated_at m)), (''revoked_at'', jots L (mt_revoked_at m))]"

definition login_json :: "login_response \<Rightarrow> json" where
  "login_json r = json_obj [(''token'', JStr (lr_token r)), (''role'', JStr (lr_role r)), (''org_id'', jint (lr_org_id r)),
     (''user_id'', jint (lr_user_id r))]"

definition me_json :: "me_response \<Rightarrow> json" where
  "me_json r = json_obj [(''id'', jint (me_id r)), (''email'', JStr (me_email r)), (''org_id'', jint (me_org_id r)),
     (''role'', JStr (me_role r))]"

definition sample_json :: "sample_result \<times> registered_source \<Rightarrow> json" where
  "sample_json rs = (case rs of (r, src) \<Rightarrow> json_obj
     [(''format'', JStr (sa_format r)),
      (''columns'', JArr (map (\<lambda>co. json_obj [(''name'', JStr (co_name co)), (''type'', JStr (co_type co)),
         (''nullable'', JBool (co_nullable co))]) (sa_columns r))),
      (''rows'', JArr (map JObj (sa_rows r))), (''row_count'', juint (sa_row_count r)), (''truncated'', JBool (sa_truncated r)),
      (''bytes_read'', juint (sa_bytes_read r)),
      (''source'', json_obj [(''source_id'', jint (rs_id src)), (''bucket'', JStr (rs_bucket src)), (''key'', JStr (rs_object_key src))])])"

definition rows_json :: "libs \<Rightarrow> job_row_detail list \<times> int option \<Rightarrow> json" where
  "rows_json L p = json_obj [(''items'', JArr (map (row_detail_json L) (fst p))), (''next_cursor'', joint (snd p))]"

text \<open>\<^verbatim>\<open>HeaderValue::from_str\<close>\<close>

definition header_value :: "string \<Rightarrow> bool" where
  "header_value = list_all (\<lambda>c. 32 \<le> byte c \<and> byte c \<noteq> 127 \<or> byte c = 9)"

definition csv_attachment :: "string \<times> string \<Rightarrow> reply" where
  "csv_attachment p =
     (let disp = ''attachment; filename='' @ [chr_quote] @ fst p @ [chr_quote] in
      Answered 200 (R_csv (if header_value disp then disp else ''attachment'') (snd p)))"

end
