(* ===== verification/Serve.thy ===== *)
theory Serve
  imports Http
begin

text \<open>
  The API as one function from HTTP requests to replies: routing, extractors, handler, reply, on the world of the handlers and
  the license state of the process (\<^verbatim>\<open>build_router\<close> of \<^verbatim>\<open>src/apps/api/src/lib.rs\<close> with the handlers of \<^verbatim>\<open>routes/\<close>).
  The license gate of a request looks at the state the process has when the request comes in. The permissive CORS layer answers
  \<^verbatim>\<open>OPTIONS\<close> itself.
\<close>

section \<open>Extractors\<close>

type_synonym site = "world \<times> lic_world"
type_synonym served = "site \<Rightarrow> reply \<times> site"

text \<open>The surroundings of a request that are not part of the database: probes, the bridge token, the license server.\<close>

record host =
  ho_db_ok :: bool
  ho_bridge_token :: "string option"
  ho_post :: post
  ho_store_error :: "string option"
  ho_error_text :: "license_error \<Rightarrow> string"
  ho_later :: instant

definition refuse :: "nat \<Rightarrow> served" where
  "refuse status s = (Refused status, s)"

definition reply_with :: "reply \<Rightarrow> served" where
  "reply_with r s = (r, s)"

definition answer :: "('a \<Rightarrow> reply) \<Rightarrow> 'a handler \<Rightarrow> served" where
  "answer f m s = (case m (fst s) of (Inl e, w) \<Rightarrow> (error_reply e, (w, snd s)) | (Inr x, w) \<Rightarrow> (f x, (w, snd s)))"

definition with_claims :: "app \<Rightarrow> request \<Rightarrow> http_request \<Rightarrow> (claims \<Rightarrow> served) \<Rightarrow> served" where
  "with_claims ap rq hr k =
     (case from_request_parts ap (rq_now rq) (hr_authorization hr) of Inl r \<Rightarrow> reply_with (rejection_reply r) | Inr c \<Rightarrow> k c)"

fun hex_value :: "char \<Rightarrow> nat" where
  "hex_value c = (if is_digit c then byte c - 48 else if 97 \<le> byte c then byte c - 87 else byte c - 55)"

fun percent_decode :: "string \<Rightarrow> string" where
  "percent_decode (c # h # l # cs) =
     (if c = CHR ''%'' \<and> is_ascii_hexdigit h \<and> is_ascii_hexdigit l
      then char_of (16 * hex_value h + hex_value l) # percent_decode cs else c # percent_decode (h # l # cs))"
| "percent_decode cs = cs"

definition path_text :: "app \<Rightarrow> string \<Rightarrow> string option" where
  "path_text ap s = opt_filter (cr_is_utf8 (ap_crates ap)) (Some (percent_decode s))"

definition path_i64 :: "app \<Rightarrow> string \<Rightarrow> int option" where
  "path_i64 ap s = Option.bind (path_text ap s) parse_i64"

definition with_id :: "app \<Rightarrow> string list \<Rightarrow> (int \<Rightarrow> served) \<Rightarrow> served" where
  "with_id ap params k =
     (case params of [p] \<Rightarrow> (case path_i64 ap p of None \<Rightarrow> refuse 400 | Some n \<Rightarrow> k n) | _ \<Rightarrow> refuse 500)"

definition with_row :: "app \<Rightarrow> string list \<Rightarrow> (int \<Rightarrow> int \<Rightarrow> served) \<Rightarrow> served" where
  "with_row ap params k =
     (case params of
        [p, q] \<Rightarrow> (case path_i64 ap p of None \<Rightarrow> refuse 400 | Some n \<Rightarrow>
                    (case path_i64 ap q of None \<Rightarrow> refuse 400 | Some i \<Rightarrow> k n i))
      | _ \<Rightarrow> refuse 500)"

definition with_name :: "app \<Rightarrow> string list \<Rightarrow> (string \<Rightarrow> served) \<Rightarrow> served" where
  "with_name ap params k =
     (case params of [p] \<Rightarrow> (case path_text ap p of None \<Rightarrow> refuse 400 | Some t \<Rightarrow> k t) | _ \<Rightarrow> refuse 500)"

definition with_query :: "((string \<times> string) list \<Rightarrow> 'a option) \<Rightarrow> http_request \<Rightarrow> ('a \<Rightarrow> served) \<Rightarrow> served" where
  "with_query f hr k = (case f (hr_query hr) of None \<Rightarrow> refuse 400 | Some q \<Rightarrow> k q)"

text \<open>Bodies over two megabytes are refused (the library's default limit, which the API does not raise).\<close>

definition BODY_LIMIT :: nat where
  "BODY_LIMIT = 2097152"

definition json_extract :: "app \<Rightarrow> (json \<Rightarrow> 'a option) \<Rightarrow> http_request \<Rightarrow> nat + 'a" where
  "json_extract ap f hr =
     (case hr_body hr of
        Json_body text \<Rightarrow>
          if BODY_LIMIT < length text then Inl 413
          else (case lib_parse (ap_libs ap) text of
                  None \<Rightarrow> Inl 400
                | Some v \<Rightarrow> (case f v of None \<Rightarrow> Inl 422 | Some x \<Rightarrow> Inr x))
      | _ \<Rightarrow> Inl 415)"

definition with_json :: "app \<Rightarrow> (json \<Rightarrow> 'a option) \<Rightarrow> http_request \<Rightarrow> ('a \<Rightarrow> served) \<Rightarrow> served" where
  "with_json ap f hr k = (case json_extract ap f hr of Inl status \<Rightarrow> refuse status | Inr x \<Rightarrow> k x)"

text \<open>\<^verbatim>\<open>Option<Json<_>>\<close>: whatever keeps the body from being read leaves the option empty.\<close>

definition optional_json :: "app \<Rightarrow> (json \<Rightarrow> 'a option) \<Rightarrow> http_request \<Rightarrow> 'a option" where
  "optional_json ap f hr = (case json_extract ap f hr of Inl _ \<Rightarrow> None | Inr x \<Rightarrow> Some x)"

definition with_form :: "http_request \<Rightarrow> ((string + part) list \<Rightarrow> served) \<Rightarrow> served" where
  "with_form hr k = (case hr_body hr of Form_body parts \<Rightarrow> k parts | _ \<Rightarrow> refuse 400)"

section \<open>Endpoints\<close>

fun serve_templates :: "app \<Rightarrow> request \<Rightarrow> http_request \<Rightarrow> string list \<Rightarrow> claims \<Rightarrow> template_ep \<Rightarrow> served" where
  "serve_templates ap rq hr ps c E_list_templates = with_query read_templates_query hr (\<lambda>q.
     answer (\<lambda>rs. ok_json (items_json (map (template_json (ap_libs ap)) rs))) (list_templates ap rq c q))"
| "serve_templates ap rq hr ps c E_create_template = with_json ap read_create_request hr (\<lambda>r.
     answer (\<lambda>t. ok_json (template_json (ap_libs ap) t)) (create_template ap rq c r))"
| "serve_templates ap rq hr ps c E_get_template = with_id ap ps (\<lambda>n.
     answer (\<lambda>t. ok_json (template_json (ap_libs ap) t)) (get_template rq c n))"
| "serve_templates ap rq hr ps c E_delete_template = with_id ap ps (\<lambda>n. answer ok_json (delete_template rq c n))"
| "serve_templates ap rq hr ps c E_list_versions = with_id ap ps (\<lambda>n.
     answer (\<lambda>rs. ok_json (items_json (map (template_json (ap_libs ap)) rs))) (list_versions rq c n))"
| "serve_templates ap rq hr ps c E_create_version = with_id ap ps (\<lambda>n. with_json ap read_create_request hr (\<lambda>r.
     answer (\<lambda>t. ok_json (template_json (ap_libs ap) t)) (create_version ap rq c n r)))"
| "serve_templates ap rq hr ps c E_publish_template = with_id ap ps (\<lambda>n.
     answer (\<lambda>t. ok_json (template_json (ap_libs ap) t)) (publish_template ap rq c n))"

fun serve_files :: "app \<Rightarrow> request \<Rightarrow> http_request \<Rightarrow> claims \<Rightarrow> file_ep \<Rightarrow> served" where
  "serve_files ap rq hr c E_upload_file = with_form hr (\<lambda>parts. answer ok_json (upload_file ap rq c parts))"
| "serve_files ap rq hr c E_sample_file = with_json ap read_sample hr (\<lambda>r.
     answer (\<lambda>x. ok_json (sample_json x)) (sample_file ap rq c r))"

definition oauth_reply :: json where
  "oauth_reply = json_obj [(''ok'', JBool True), (''instructions'', JStr ''exchange the code server-side then call POST /connectors'')]"

fun serve_connectors :: "app \<Rightarrow> request \<Rightarrow> http_request \<Rightarrow> string list \<Rightarrow> claims \<Rightarrow> connector_ep \<Rightarrow> served" where
  "serve_connectors ap rq hr ps c E_list_connectors =
     answer (\<lambda>rs. ok_json (items_json (map (connector_json (ap_libs ap)) rs))) (list_connectors ap rq c)"
| "serve_connectors ap rq hr ps c E_create_connector = with_json ap read_create_connector hr (\<lambda>r.
     answer (\<lambda>k. ok_json (connector_json (ap_libs ap) k)) (create_connector ap rq c r))"
| "serve_connectors ap rq hr ps c E_get_connector = with_id ap ps (\<lambda>n.
     answer (\<lambda>k. ok_json (connector_json (ap_libs ap) k)) (get_connector rq c n))"
| "serve_connectors ap rq hr ps c E_delete_connector = with_id ap ps (\<lambda>n. answer ok_json (delete_connector rq c n))"
| "serve_connectors ap rq hr ps c E_test_connector = with_id ap ps (\<lambda>n. answer ok_json (test_connector ap rq c n))"
| "serve_connectors ap rq hr ps c E_sf_oauth_callback = with_query read_oauth_query hr (\<lambda>_. reply_with (ok_json oauth_reply))"

fun serve_jobs :: "app \<Rightarrow> request \<Rightarrow> http_request \<Rightarrow> string list \<Rightarrow> claims \<Rightarrow> job_ep \<Rightarrow> served" where
  "serve_jobs ap rq hr ps c E_list_jobs = with_query read_jobs_query hr (\<lambda>q. answer ok_json (list_jobs ap rq c q))"
| "serve_jobs ap rq hr ps c E_create_job = with_json ap read_job_create hr (\<lambda>r.
     answer (\<lambda>j. ok_json (job_json (ap_libs ap) j)) (create_job ap rq c r))"
| "serve_jobs ap rq hr ps c E_get_job = with_id ap ps (\<lambda>n. answer ok_json (get_job ap rq c n))"
| "serve_jobs ap rq hr ps c E_pause_job = with_id ap ps (\<lambda>n.
     answer (\<lambda>j. ok_json (job_json (ap_libs ap) j)) (pause_job ap rq c n))"
| "serve_jobs ap rq hr ps c E_resume_job = with_id ap ps (\<lambda>n.
     answer (\<lambda>j. ok_json (job_json (ap_libs ap) j)) (resume_job ap rq c n))"
| "serve_jobs ap rq hr ps c E_cancel_job = with_id ap ps (\<lambda>n.
     answer (\<lambda>j. ok_json (job_json (ap_libs ap) j)) (cancel_job ap rq c n))"
| "serve_jobs ap rq hr ps c E_list_rows = with_id ap ps (\<lambda>n. with_query read_jobs_query hr (\<lambda>q.
     answer (\<lambda>p. ok_json (rows_json (ap_libs ap) p)) (list_rows rq c n q)))"
| "serve_jobs ap rq hr ps c E_list_row_steps = with_row ap ps (\<lambda>n i.
     answer (\<lambda>rs. ok_json (items_json (map (step_detail_json (ap_libs ap)) rs))) (list_row_steps rq c n i))"
| "serve_jobs ap rq hr ps c E_retry_row = with_row ap ps (\<lambda>n i.
     answer ok_json (retry_row ap rq c n i (optional_json ap read_retry_options hr)))"
| "serve_jobs ap rq hr ps c E_retry_all_failed = with_id ap ps (\<lambda>n.
     answer ok_json (retry_all_failed ap rq c n (optional_json ap read_retry_options hr)))"
| "serve_jobs ap rq hr ps c E_download_results = with_id ap ps (\<lambda>n. with_query read_results_query hr (\<lambda>failed.
     answer csv_attachment (download_results ap rq c n failed)))"
| "serve_jobs ap rq hr ps c E_retry_export = with_id ap ps (\<lambda>n.
     answer (\<lambda>j. Answered 202 (R_json j)) (retry_export ap rq c n))"
| "serve_jobs ap rq hr ps c E_stream_updates = with_id ap ps (\<lambda>n.
     answer (\<lambda>channel. Answered 200 (R_events channel)) (stream_updates rq c n))"

fun serve_secrets :: "app \<Rightarrow> request \<Rightarrow> http_request \<Rightarrow> string list \<Rightarrow> claims \<Rightarrow> secret_ep \<Rightarrow> served" where
  "serve_secrets ap rq hr ps c E_list_secrets =
     answer (\<lambda>ms. ok_json (items_json (map (secret_meta_json (ap_libs ap)) ms))) (list_secrets ap rq c)"
| "serve_secrets ap rq hr ps c E_get_secret = with_name ap ps (\<lambda>name.
     answer (\<lambda>m. ok_json (secret_meta_json (ap_libs ap) m)) (get_secret rq c name))"
| "serve_secrets ap rq hr ps c E_put_secret = with_name ap ps (\<lambda>name. with_json ap (read_one ''value'' as_str) hr (\<lambda>v.
     answer (\<lambda>m. ok_json (secret_meta_json (ap_libs ap) m)) (put_secret ap rq c name v)))"
| "serve_secrets ap rq hr ps c E_revoke_secret = with_name ap ps (\<lambda>name.
     answer (\<lambda>m. ok_json (secret_meta_json (ap_libs ap) m)) (revoke_secret rq c name))"

fun serve_batches :: "app \<Rightarrow> request \<Rightarrow> http_request \<Rightarrow> string list \<Rightarrow> claims \<Rightarrow> batch_ep \<Rightarrow> served" where
  "serve_batches ap rq hr ps c E_list_batches = with_query read_batches_query hr (\<lambda>q. answer ok_json (list_batches ap rq c q))"
| "serve_batches ap rq hr ps c E_create_batch = with_json ap read_batch_create hr (\<lambda>r.
     answer (\<lambda>b. ok_json (batch_json (ap_libs ap) b)) (create_batch ap rq c r))"
| "serve_batches ap rq hr ps c E_get_batch = with_id ap ps (\<lambda>n.
     answer (\<lambda>bs. ok_json (batch_detail_json (ap_libs ap) bs)) (get_batch rq c n))"

fun serve_schedules :: "app \<Rightarrow> request \<Rightarrow> http_request \<Rightarrow> string list \<Rightarrow> claims \<Rightarrow> schedule_ep \<Rightarrow> served" where
  "serve_schedules ap rq hr ps c E_list_schedules =
     answer (\<lambda>rs. ok_json (items_json (map (schedule_json (ap_libs ap)) rs))) (list_schedules ap rq c)"
| "serve_schedules ap rq hr ps c E_create_schedule = with_json ap read_create_schedule hr (\<lambda>r.
     answer (\<lambda>s. ok_json (schedule_json (ap_libs ap) s)) (create_schedule ap rq c r))"
| "serve_schedules ap rq hr ps c E_get_schedule = with_id ap ps (\<lambda>n.
     answer (\<lambda>s. ok_json (schedule_json (ap_libs ap) s)) (get_schedule rq c n))"
| "serve_schedules ap rq hr ps c E_update_schedule = with_id ap ps (\<lambda>n. with_json ap read_update_schedule hr (\<lambda>r.
     answer (\<lambda>s. ok_json (schedule_json (ap_libs ap) s)) (update_schedule ap rq c n r)))"
| "serve_schedules ap rq hr ps c E_delete_schedule = with_id ap ps (\<lambda>n. answer ok_json (delete_schedule ap rq c n))"
| "serve_schedules ap rq hr ps c E_pause_schedule = with_id ap ps (\<lambda>n. answer ok_json (pause_schedule ap rq c n))"
| "serve_schedules ap rq hr ps c E_resume_schedule = with_id ap ps (\<lambda>n. answer ok_json (resume_schedule ap rq c n))"
| "serve_schedules ap rq hr ps c E_trigger_schedule = with_id ap ps (\<lambda>n. answer ok_json (trigger_schedule ap rq c n))"
| "serve_schedules ap rq hr ps c E_list_runs = with_id ap ps (\<lambda>n. answer ok_json (list_runs ap rq c n))"

fun serve_specs :: "app \<Rightarrow> request \<Rightarrow> http_request \<Rightarrow> string list \<Rightarrow> claims \<Rightarrow> spec_ep \<Rightarrow> served" where
  "serve_specs ap rq hr ps c E_list_specs = answer ok_json (list_specs ap rq c)"
| "serve_specs ap rq hr ps c E_create_spec = with_json ap read_create_spec hr (\<lambda>r. answer ok_json (create_spec ap rq c r))"
| "serve_specs ap rq hr ps c E_get_spec = with_id ap ps (\<lambda>n. answer ok_json (get_spec rq c n))"
| "serve_specs ap rq hr ps c E_delete_spec = with_id ap ps (\<lambda>n. answer ok_json (delete_spec rq c n))"
| "serve_specs ap rq hr ps c E_list_operations = with_id ap ps (\<lambda>n. answer ok_json (list_operations ap rq c n))"
| "serve_specs ap rq hr ps c E_parse_preview = with_json ap (read_one ''spec'' Some) hr (\<lambda>v. answer ok_json (parse_preview ap v))"

text \<open>A suggestion may panic.\<close>

definition suggest_reply :: "app \<Rightarrow> request \<Rightarrow> claims \<Rightarrow> suggest_req \<Rightarrow> served" where
  "suggest_reply ap rq c r s =
     (case suggest_mapping ap rq c r (fst s) of
        (Inl (Fails e), w) \<Rightarrow> (error_reply e, (w, snd s))
      | (Inl Panics, w) \<Rightarrow> (Aborted, (w, snd s))
      | (Inr j, w) \<Rightarrow> (ok_json j, (w, snd s)))"

fun serve_llm :: "app \<Rightarrow> request \<Rightarrow> http_request \<Rightarrow> claims \<Rightarrow> llm_ep \<Rightarrow> served" where
  "serve_llm ap rq hr c E_get_config = answer ok_json (get_config rq c)"
| "serve_llm ap rq hr c E_put_config = with_json ap read_put_config hr (\<lambda>r. answer ok_json (put_config ap rq c r))"
| "serve_llm ap rq hr c E_suggest_mapping = with_json ap read_suggest hr (suggest_reply ap rq c)"

definition trial_reply :: "app \<Rightarrow> host \<Rightarrow> request \<Rightarrow> claims \<Rightarrow> string \<Rightarrow> served" where
  "trial_reply ap ho rq c email s =
     (case start_trial_route ap rq (ho_post ho) (ho_store_error ho) (ho_error_text ho) c email s of
        (Inl e, s') \<Rightarrow> (error_reply e, s') | (Inr j, s') \<Rightarrow> (ok_json j, s'))"

fun serve_license :: "app \<Rightarrow> host \<Rightarrow> request \<Rightarrow> http_request \<Rightarrow> claims \<Rightarrow> license_ep \<Rightarrow> served" where
  "serve_license ap ho rq hr c E_license_status =
     (\<lambda>s. (ok_json (license_status ap (lw_proc (snd s)) (rq_now rq) (ho_later ho) c), s))"
| "serve_license ap ho rq hr c E_start_trial = with_json ap (read_one ''email'' as_str) hr (trial_reply ap ho rq c)"

section \<open>The whole API\<close>

text \<open>The handlers that do not ask for claims.\<close>

fun public_endpoint :: "endpoint \<Rightarrow> bool" where
  "public_endpoint (Ep_Health _) = True"
| "public_endpoint (Ep_Described _) = True"
| "public_endpoint (Ep_Auth e) = (e = E_login)"
| "public_endpoint (Ep_Connectors e) = (e = E_sf_oauth_callback)"
| "public_endpoint _ = False"

fun serve_health :: "host \<Rightarrow> request \<Rightarrow> http_request \<Rightarrow> health_ep \<Rightarrow> served" where
  "serve_health ho rq hr E_health = reply_with (ok_json health)"
| "serve_health ho rq hr E_ready = reply_with (case ready (ho_db_ok ho) of (status, j) \<Rightarrow> Answered status (R_json j))"
| "serve_health ho rq hr E_authorize_work = (\<lambda>s. case authorize_work (ho_bridge_token ho) (lw_proc (snd s)) (rq_now rq)
     (hr_authorization hr) of (status, j) \<Rightarrow> (Answered status (R_json j), s))"

fun serve_described :: "described_ep \<Rightarrow> served" where
  "serve_described E_spec = reply_with (ok_json openapi_spec)"
| "serve_described E_docs = reply_with (Answered 307 (R_location docs_redirect))"

definition serve_login :: "app \<Rightarrow> request \<Rightarrow> http_request \<Rightarrow> served" where
  "serve_login ap rq hr = with_json ap read_login_request hr (\<lambda>(email, password).
     answer (\<lambda>r. ok_json (login_json r)) (login ap rq email password))"

fun serve_endpoint :: "app \<Rightarrow> host \<Rightarrow> request \<Rightarrow> http_request \<Rightarrow> string list \<Rightarrow> endpoint \<Rightarrow> served" where
  "serve_endpoint ap ho rq hr ps (Ep_Health e) = serve_health ho rq hr e"
| "serve_endpoint ap ho rq hr ps (Ep_Described e) = serve_described e"
| "serve_endpoint ap ho rq hr ps (Ep_Auth E_login) = serve_login ap rq hr"
| "serve_endpoint ap ho rq hr ps (Ep_Auth E_me) =
     with_claims ap rq hr (\<lambda>c. answer (\<lambda>r. ok_json (me_json r)) (me rq c))"
| "serve_endpoint ap ho rq hr ps (Ep_Templates e) = with_claims ap rq hr (\<lambda>c. serve_templates ap rq hr ps c e)"
| "serve_endpoint ap ho rq hr ps (Ep_Files e) = with_claims ap rq hr (\<lambda>c. serve_files ap rq hr c e)"
| "serve_endpoint ap ho rq hr ps (Ep_Connectors E_sf_oauth_callback) =
     with_query read_oauth_query hr (\<lambda>_. reply_with (ok_json oauth_reply))"
| "serve_endpoint ap ho rq hr ps (Ep_Connectors e) = with_claims ap rq hr (\<lambda>c. serve_connectors ap rq hr ps c e)"
| "serve_endpoint ap ho rq hr ps (Ep_Jobs e) = with_claims ap rq hr (\<lambda>c. serve_jobs ap rq hr ps c e)"
| "serve_endpoint ap ho rq hr ps (Ep_Secrets e) = with_claims ap rq hr (\<lambda>c. serve_secrets ap rq hr ps c e)"
| "serve_endpoint ap ho rq hr ps (Ep_Batches e) = with_claims ap rq hr (\<lambda>c. serve_batches ap rq hr ps c e)"
| "serve_endpoint ap ho rq hr ps (Ep_Schedules e) = with_claims ap rq hr (\<lambda>c. serve_schedules ap rq hr ps c e)"
| "serve_endpoint ap ho rq hr ps (Ep_Preview e) =
     with_claims ap rq hr (\<lambda>_. with_json ap read_dry_run hr (\<lambda>(template, rows). reply_with (ok_json (dry_run template rows))))"
| "serve_endpoint ap ho rq hr ps (Ep_Specs e) = with_claims ap rq hr (\<lambda>c. serve_specs ap rq hr ps c e)"
| "serve_endpoint ap ho rq hr ps (Ep_Llm e) = with_claims ap rq hr (\<lambda>c. serve_llm ap rq hr c e)"
| "serve_endpoint ap ho rq hr ps (Ep_Licensing e) = with_claims ap rq hr (\<lambda>c. serve_license ap ho rq hr c e)"

text \<open>The reply to \<^verbatim>\<open>HEAD\<close> has no body.\<close>

definition head_only :: "meth \<Rightarrow> reply \<Rightarrow> reply" where
  "head_only m r = (case r of Answered status _ \<Rightarrow> if m = HEAD then Answered status R_none else r | _ \<Rightarrow> r)"

definition under_license :: "request \<Rightarrow> site \<Rightarrow> request" where
  "under_license rq s = rq\<lparr>rq_license := lw_proc (snd s)\<rparr>"

definition serve :: "app \<Rightarrow> host \<Rightarrow> request \<Rightarrow> http_request \<Rightarrow> served" where
  "serve ap ho rq hr s =
     (if hr_method hr = OPTIONS then (Answered 200 R_none, s)
      else (case dispatch (hr_method hr) (hr_path hr) of
              No_route \<Rightarrow> (Answered 404 R_none, s)
            | No_method \<Rightarrow> (Answered 405 R_none, s)
            | Target ep ps \<Rightarrow>
                (case serve_endpoint ap ho (under_license rq s) hr ps ep s of (r, s') \<Rightarrow> (head_only (hr_method hr) r, s'))))"

end
