(* ===== verification/Session_Facts.thy ===== *)
theory Session_Facts
  imports Auth_Facts Tenant_Facts Jobs_Facts
begin

text \<open>
  What a login means for later requests: no request touches accounts, and a token handed out for an account of one
  organization never stands for claims of another.
\<close>

section \<open>Requests do not touch accounts\<close>

definition accounts_kept :: "db \<Rightarrow> db \<Rightarrow> bool" where
  "accounts_kept d d' \<longleftrightarrow> db_users d' = db_users d"

lemma rolled_back_users [simp]: "db_users (rolled_back d x) = db_users d"
  by (simp add: rolled_back_def)

lemma users_kept:
  "db_users (snd (insert_template own key version name body u now d)) = db_users d"
  "db_users (snd (set_published own tid d)) = db_users d" "db_users (snd (delete_draft own tid d)) = db_users d"
  "db_users (snd (insert_job own tid version ref wid u now d)) = db_users d"
  "db_users (mark_start_failed jid m now d) = db_users d" "db_users (snd (record_run jid run now d)) = db_users d"
  "db_users (snd (transition own jid from f d)) = db_users d" "db_users (snd (upsert_source up d)) = db_users d"
  "db_users (snd (insert_batch own k ref wid now d)) = db_users d" "db_users (mark_batch_failed bid m now d) = db_users d"
  "db_users (snd (mark_batch_running bid run now d)) = db_users d"
  "db_users (snd (insert_schedule own r spec tz ov ca en si u now d)) = db_users d"
  "db_users (snd (delete_schedules hit d)) = db_users d" "db_users (snd (save_schedule own sid x now d)) = db_users d"
  "db_users (set_enabled own sid b now d) = db_users d" "db_users (snd (delete_connectors own kid d)) = db_users d"
  "db_users (snd (secret_tx own nm ct nonce now d)) = db_users d" "db_users (snd (revoke_row own nm now d)) = db_users d"
  "db_users (snd (upsert_spec own nm url spec u now d)) = db_users d" "db_users (snd (delete_specs own sid d)) = db_users d"
  unfolding statement_defs Let_def by (auto split: option.split prod.split sum.split)

lemma tx_users_kept:
  "db_users (snd (connector_tx ap rq c r kind now d)) = db_users d"
  "db_users (snd (config_tx ap rq c pc provider u now d)) = db_users d"
proof -
  have sec: "db_users (snd (insert_secret org nm ct nonce k now d1)) = db_users d1" for org nm ct nonce k d1
    by (simp add: insert_secret_def Let_def)
  have con: "db_users (snd (insert_connector org nm k cfg sid v now d1)) = db_users d1" for org nm k cfg sid v d1
    by (simp add: insert_connector_def Let_def)
  have key: "db_users (snd (upsert_api_key org ct nonce now d1)) = db_users d1" for org ct nonce d1
    by (simp add: upsert_api_key_def upsert_secret_row_def sec Let_def split: option.split)
  have cfg: "db_users (snd (upsert_config row d1)) = db_users d1" for row d1
    by (simp add: upsert_config_def)
  have "db_users (snd (secret_part ap rq c r now d)) = db_users d"
    using secret_part_db [of ap rq c r now d] by (auto simp: sec)
  then show "db_users (snd (connector_tx ap rq c r kind now d)) = db_users d"
    using connector_tx_db [of ap rq c r now d kind] by (auto simp: Let_def con)
  have "db_users (snd (key_part ap rq c pc now d)) = db_users d"
    using key_part_db [of ap rq c pc now d] by (auto simp: key)
  then show "db_users (snd (config_tx ap rq c pc provider u now d)) = db_users d"
    using config_tx_db [of c ap rq pc now d provider u] by (auto simp: Let_def cfg)
qed

interpretation accounts: uniform_laws accounts_kept own for own
  by unfold_locales (simp_all add: accounts_kept_def users_kept tx_users_kept)

section \<open>Tokens of other organizations\<close>

text \<open>The token of a bearer header, as the extractor reads it.\<close>

definition bearer_of :: "string \<Rightarrow> string option" where
  "bearer_of auth = map_option trim (strip_prefix ''Bearer '' auth)"

text \<open>What the credentials of a caller amount to: tokens of organizations other than \<open>ten\<close>.\<close>

definition foreign_token :: "app \<Rightarrow> int \<Rightarrow> string \<Rightarrow> bool" where
  "foreign_token ap ten token \<longleftrightarrow> (\<exists>c. cr_jwt_encode (ap_crates ap) c = Inr token \<and> cl_org c \<noteq> ten)"

lemma foreign_token_claims:
  assumes "foreign_token ap ten token" and "jwt_ok ap" and "bearer_of auth = Some token"
    and "from_request_parts ap now (Some auth) = Inr c"
  shows "cl_org c \<noteq> ten"
proof -
  obtain cl where "cr_jwt_encode (ap_crates ap) cl = Inr token" and other: "cl_org cl \<noteq> ten"
    using assms(1) by (auto simp: foreign_token_def)
  then have "cr_jwt_decode (ap_crates ap) iss aud now token = Some c \<Longrightarrow> c = cl" for iss aud
    using assms(2) by (auto simp: jwt_ok_def split: if_splits)
  moreover have "verify ap now token = Inr c"
    using assms(3,4) by (auto simp: from_request_parts_def bearer_of_def split: option.splits sum.splits)
  ultimately show ?thesis using other by (auto simp: verify_def ok_or_def split: option.splits)
qed

lemma login_token_foreign:
  assumes "login ap rq email password w = (Inr resp, w')" and "relies accounts_kept rq"
    and "\<And>u. u \<in> set (db_users (w_db w)) \<Longrightarrow> \<not> us_disabled u \<Longrightarrow> verify_password ap password (us_password_hash u) = Inr True \<Longrightarrow>
       us_org_id u \<noteq> ten"
  shows "foreign_token ap ten (lr_token resp)"
proof -
  from assms(1) obtain u d where "user_by_email ap email d = Some u" "d = rq_other rq (w_steps w) (w_db w)" "\<not> us_disabled u"
    "verify_password ap password (us_password_hash u) = Inr True"
    and issue: "issue ap (rq_now rq) (us_id u) (us_org_id u) (us_role u) = Inr (lr_token resp)"
    unfolding login_def by (auto simp: act_simps)
  moreover from this(1,2) have "u \<in> set (db_users (w_db w))"
    using assms(2) by (auto simp: user_by_email_def relies_def accounts_kept_def dest!: find_Some_in)
  ultimately have "us_org_id u \<noteq> ten" using assms(3) by blast
  with issue show ?thesis by (auto simp: foreign_token_def issue_def split: sum.splits)
qed

lemma login_within:
  assumes "login ap rq email password w = (r, w')" and "relies (leaves_tenant ten own) rq" and "relies accounts_kept rq"
  shows "leaves_tenant ten own (w_db w) (w_db w')" and "db_users (w_db w') = db_users (w_db w)"
proof -
  have "w' = snd (login ap rq email password w)" using assms(1) by simp
  then show "leaves_tenant ten own (w_db w) (w_db w')" "db_users (w_db w') = db_users (w_db w)"
    using tenant.preserves_run [OF tenant.pres_other_reads(5) [OF assms(2)]]
      accounts.preserves_run [OF accounts.pres_other_reads(5) [OF assms(3)]] by (simp_all add: accounts_kept_def)
qed

end
