(* ===== verification/Serve_Facts.thy ===== *)
theory Serve_Facts
  imports Serve Session_Facts License_Routes_Facts
begin

text \<open>
  From HTTP requests to steps of the API: whatever is asked, the world changes by one handler run under the claims of the
  accepted token, by a login, or not at all. So what holds of every step holds of every request.
\<close>

section \<open>One request, one step\<close>

text \<open>The change a served request makes to the world of the handlers.\<close>

definition moved :: "(world \<Rightarrow> world \<Rightarrow> bool) \<Rightarrow> served \<Rightarrow> bool" where
  "moved R f \<longleftrightarrow> (\<forall>s. fst (snd (f s)) = fst s \<or> R (fst s) (fst (snd (f s))))"

lemma moved_refuse [intro]: "moved R (refuse n)"
  by (simp add: moved_def refuse_def)

lemma moved_reply [intro]: "moved R (reply_with r)"
  by (simp add: moved_def reply_with_def)

lemma moved_answer: "(\<And>w. R w (snd (m w))) \<Longrightarrow> moved R (answer f m)"
  by (auto simp: moved_def answer_def split: prod.split sum.split) (metis snd_conv)+

lemma moved_with_id: "(\<And>n. moved R (k n)) \<Longrightarrow> moved R (with_id ap ps k)"
  by (auto simp: with_id_def split: list.split option.split)

lemma moved_with_row: "(\<And>n i. moved R (k n i)) \<Longrightarrow> moved R (with_row ap ps k)"
  by (auto simp: with_row_def split: list.split option.split)

lemma moved_with_name: "(\<And>t. moved R (k t)) \<Longrightarrow> moved R (with_name ap ps k)"
  by (auto simp: with_name_def split: list.split option.split)

lemma moved_with_query: "(\<And>q. moved R (k q)) \<Longrightarrow> moved R (with_query f hr k)"
  by (auto simp: with_query_def split: option.split)

lemma moved_with_json: "(\<And>x. moved R (k x)) \<Longrightarrow> moved R (with_json ap f hr k)"
  by (auto simp: with_json_def split: sum.split)

lemma moved_with_form: "(\<And>x. moved R (k x)) \<Longrightarrow> moved R (with_form hr k)"
  by (auto simp: with_form_def split: body.split)

lemmas moved_rules = moved_refuse moved_reply moved_answer moved_with_id moved_with_row moved_with_name moved_with_query
  moved_with_json moved_with_form

lemmas step_rules = moved_rules api_step.intros

lemma moved_templates: "moved (api_step ap rq c) (serve_templates ap rq hr ps c e)"
  by (cases e; simp; intro step_rules)

lemma moved_files: "moved (api_step ap rq c) (serve_files ap rq hr c e)"
  by (cases e; simp; intro step_rules)

lemma moved_connectors: "moved (api_step ap rq c) (serve_connectors ap rq hr ps c e)"
  by (cases e; simp; intro step_rules)

lemma moved_jobs: "moved (api_step ap rq c) (serve_jobs ap rq hr ps c e)"
  by (cases e; simp; intro step_rules)

lemma moved_secrets: "moved (api_step ap rq c) (serve_secrets ap rq hr ps c e)"
  by (cases e; simp; intro step_rules)

lemma moved_batches: "moved (api_step ap rq c) (serve_batches ap rq hr ps c e)"
  by (cases e; simp; intro step_rules)

lemma moved_schedules: "moved (api_step ap rq c) (serve_schedules ap rq hr ps c e)"
  by (cases e; simp; intro step_rules)

lemma parse_preview_world: "snd (parse_preview ap v w) = w"
  by (auto simp: parse_preview_def bindE_def lift_def ok_def split: sum.splits)

lemma moved_preview: "moved R (answer f (parse_preview ap v))"
  unfolding moved_def answer_def using parse_preview_world [of ap v] by (auto split: prod.split sum.split) (metis snd_conv)+

lemma moved_specs: "moved (api_step ap rq c) (serve_specs ap rq hr ps c e)"
  by (cases e; simp; intro moved_preview step_rules)

lemma moved_suggest: "moved (api_step ap rq c) (suggest_reply ap rq c r)"
proof -
  have "api_step ap rq c w (snd (suggest_mapping ap rq c r w))" for w by (rule api_step.intros)
  then show ?thesis by (auto simp: moved_def suggest_reply_def split: prod.split sum.split fault.split) (metis snd_conv)+
qed

lemma moved_llm: "moved (api_step ap rq c) (serve_llm ap rq hr c e)"
  by (cases e; simp; intro moved_suggest step_rules)

text \<open>The start of a trial writes its audit entry, for an admin.\<close>

definition trial_audit :: "request \<Rightarrow> claims \<Rightarrow> world \<Rightarrow> world \<Rightarrow> bool" where
  "trial_audit rq c w w' \<longleftrightarrow> cl_role c = ''admin''
     \<and> (\<exists>eid after. w' = snd (record_audit rq (cl_org c) (cl_sub c) ''license'' eid ''trial_start'' None after w))"

text \<open>An action on both parts that leaves the first alone, and one that changes it at most once.\<close>

definition still :: "('a \<times> 'b, 'e, 'x) act \<Rightarrow> bool" where
  "still m \<longleftrightarrow> (\<forall>s. fst (snd (m s)) = fst s)"

definition once :: "('a \<Rightarrow> 'a \<Rightarrow> bool) \<Rightarrow> ('a \<times> 'b, 'e, 'x) act \<Rightarrow> bool" where
  "once R m \<longleftrightarrow> (\<forall>s. fst (snd (m s)) = fst s \<or> R (fst s) (fst (snd (m s))))"

lemma still_basic:
  "still (lift r)" "still (guardE b e)" "still (gets g)" "still (ok x)" "still (on_snd n)"
  by (simp_all add: still_def lift_def guardE_def gets_def ok_def throw_def on_snd_def split_beta Let_def)

lemma still_mapE: "still m \<Longrightarrow> still (mapE f m)"
  unfolding still_def mapE_def by (auto split: prod.splits sum.splits) (metis fst_conv snd_conv)+

lemma stillD: "still m \<Longrightarrow> fst (snd (m s)) = fst s"
  by (simp add: still_def del: split_paired_All)

lemma onceD: "once R m \<Longrightarrow> fst (snd (m s)) = fst s \<or> R (fst s) (fst (snd (m s)))"
  by (simp add: once_def del: split_paired_All)

lemma snd_bindE: "m s = (r, s1) \<Longrightarrow> snd (bindE m f s) = (case r of Inl e \<Rightarrow> s1 | Inr x \<Rightarrow> snd (f x s1))"
  by (simp add: bindE_def split: sum.split)

lemma still_bind:
  assumes "still m" and "\<And>x. still (f x)"
  shows "still (bindE m f)"
  unfolding still_def
proof
  fix s
  obtain r s1 where m: "m s = (r, s1)" by (cases "m s")
  with stillD [OF assms(1), of s] stillD [OF assms(2), of _ s1] show "fst (snd (bindE m f s)) = fst s"
    by (simp add: snd_bindE split: sum.split)
qed

lemma once_after_still:
  assumes "still m" and "\<And>x. once R (f x)"
  shows "once R (bindE m f)"
  unfolding once_def
proof
  fix s
  obtain r s1 where m: "m s = (r, s1)" by (cases "m s")
  with stillD [OF assms(1), of s] onceD [OF assms(2), of _ s1]
  show "fst (snd (bindE m f s)) = fst s \<or> R (fst s) (fst (snd (bindE m f s)))"
    by (simp add: snd_bindE split: sum.split)
qed

lemma once_then_still:
  assumes "once R m" and "\<And>x. still (f x)"
  shows "once R (bindE m f)"
  unfolding once_def
proof
  fix s
  obtain r s1 where m: "m s = (r, s1)" by (cases "m s")
  with onceD [OF assms(1), of s] stillD [OF assms(2), of _ s1]
  show "fst (snd (bindE m f s)) = fst s \<or> R (fst s) (fst (snd (bindE m f s)))"
    by (simp add: snd_bindE split: sum.split)
qed

lemma still_require_role: "still (on_fst (require_role c roles))"
  by (simp add: still_def on_fst_def require_role_def ok_def throw_def)

lemma trial_route_once: "once (trial_audit rq c) (start_trial_route ap rq net io texts c email)"
proof (cases "cl_role c = ''admin''")
  case True
  then have "once (trial_audit rq c) (on_fst (record_audit rq (cl_org c) (cl_sub c) ''license'' eid ''trial_start'' None after))" for eid after
    by (auto simp: once_def trial_audit_def on_fst_def split_beta Let_def)
  then show ?thesis
    unfolding start_trial_route_def
    by (intro once_after_still still_require_role still_basic still_mapE once_then_still still_bind)
next
  case False
  then show ?thesis
    by (simp add: once_def start_trial_route_def bindE_def on_fst_def require_role_def throw_def)
qed

lemma moved_trial: "moved (trial_audit rq c) (trial_reply ap ho rq c email)"
  using trial_route_once [of rq c ap "ho_post ho" "ho_store_error ho" "ho_error_text ho" email]
  by (simp add: moved_def once_def trial_reply_def split: prod.split sum.split) (metis fst_conv snd_conv)

definition http_step :: "app \<Rightarrow> request \<Rightarrow> claims \<Rightarrow> world \<Rightarrow> world \<Rightarrow> bool" where
  "http_step ap rq c w w' \<longleftrightarrow> api_step ap rq c w w' \<or> trial_audit rq c w w'"

lemma moved_mono: "moved R f \<Longrightarrow> (\<And>w w'. R w w' \<Longrightarrow> R' w w') \<Longrightarrow> moved R' f"
  by (auto simp: moved_def)

lemma moved_license: "moved (trial_audit rq c) (serve_license ap ho rq hr c e)"
proof (cases e)
  case E_license_status
  then show ?thesis by (simp add: moved_def)
next
  case E_start_trial
  then show ?thesis by (simp add: moved_with_json moved_trial)
qed

text \<open>
  What a request does to the world: nothing, a step under the claims of its token, or a login.
\<close>

definition logs_in :: "app \<Rightarrow> http_request \<Rightarrow> string \<Rightarrow> string \<Rightarrow> bool" where
  "logs_in ap hr email password \<longleftrightarrow> (\<exists>ps. dispatch (hr_method hr) (hr_path hr) = Target (Ep_Auth E_login) ps)
     \<and> json_extract ap read_login_request hr = Inr (email, password)"

lemma moved_with_claims:
  assumes "\<And>c. from_request_parts ap (rq_now rq) (hr_authorization hr) = Inr c \<Longrightarrow> moved (R c) (k c)"
  shows "moved (\<lambda>w w'. \<exists>c. from_request_parts ap (rq_now rq) (hr_authorization hr) = Inr c \<and> R c w w') (with_claims ap rq hr k)"
  using assms by (auto simp: with_claims_def moved_def reply_with_def split: sum.split)

lemmas moved_steps = moved_templates moved_files moved_connectors moved_jobs moved_secrets moved_batches moved_schedules
  moved_specs moved_llm

abbreviation claimed_step :: "app \<Rightarrow> request \<Rightarrow> http_request \<Rightarrow> world \<Rightarrow> world \<Rightarrow> bool" where
  "claimed_step ap rq hr \<equiv> (\<lambda>w w'. \<exists>c. from_request_parts ap (rq_now rq) (hr_authorization hr) = Inr c \<and> http_step ap rq c w w')"

lemma moved_step: "moved (api_step ap rq c) f \<Longrightarrow> moved (http_step ap rq c) f"
  "moved (trial_audit rq c) f \<Longrightarrow> moved (http_step ap rq c) f"
  by (auto elim: moved_mono simp: http_step_def)

lemma moved_endpoint:
  assumes "ep \<noteq> Ep_Auth E_login"
  shows "moved (claimed_step ap rq hr) (serve_endpoint ap ho rq hr ps ep)"
proof (cases ep)
  case (Ep_Health e)
  then show ?thesis by (cases e) (auto simp: moved_def reply_with_def split: prod.split)
next
  case (Ep_Described e)
  then show ?thesis by (cases e) auto
next
  case (Ep_Auth e)
  with assms have "ep = Ep_Auth E_me" by (cases e) simp_all
  then show ?thesis by (simp add: moved_with_claims moved_step(1) moved_answer api_step.intros)
next
  case (Ep_Connectors e)
  then show ?thesis
    by (cases e) (auto intro!: moved_with_query moved_with_claims moved_step(1) moved_connectors simp del: serve_connectors.simps)
next
  case (Ep_Preview e)
  then show ?thesis by (auto intro!: moved_with_claims moved_with_json split: prod.split)
qed (auto intro!: moved_with_claims moved_step(1) moved_steps moved_step(2) [OF moved_license])

lemma moved_endpoint_run:
  "moved R (serve_endpoint ap ho rq hr ps ep) \<Longrightarrow> serve_endpoint ap ho rq hr ps ep s = (r, s') \<Longrightarrow> fst s' = fst s \<or> R (fst s) (fst s')"
  unfolding moved_def by (metis snd_conv)

lemma serve_login_run:
  assumes "serve_login ap rq hr s = (r, s')"
  obtains status where "s' = s" and "r = Refused status"
  | email password e w where "json_extract ap read_login_request hr = Inr (email, password)"
      "login ap rq email password (fst s) = (Inl e, w)" "r = error_reply e" "s' = (w, snd s)"
  | email password resp w where "json_extract ap read_login_request hr = Inr (email, password)"
      "login ap rq email password (fst s) = (Inr resp, w)" "r = ok_json (login_json resp)" "s' = (w, snd s)"
  using assms by (auto simp: serve_login_def with_json_def answer_def refuse_def split: sum.splits prod.splits)

lemma request_is_one_step:
  assumes "serve ap ho rq hr s = (r, s')"
  shows "fst s' = fst s \<or> claimed_step ap (under_license rq s) hr (fst s) (fst s')
    \<or> (\<exists>email password. logs_in ap hr email password \<and> fst s' = snd (login ap (under_license rq s) email password (fst s)))"
proof (cases "fst s' = fst s")
  case False
  with assms obtain ep ps r0 where d: "dispatch (hr_method hr) (hr_path hr) = Target ep ps"
    and run: "serve_endpoint ap ho (under_license rq s) hr ps ep s = (r0, s')"
    by (auto simp: serve_def split: if_splits target.splits prod.splits)
  show ?thesis
  proof (cases "ep = Ep_Auth E_login")
    case True
    with run have "serve_login ap (under_license rq s) hr s = (r0, s')" by simp
    then show ?thesis using False d True by (cases rule: serve_login_run) (force simp: logs_in_def)+
  next
    case other: False
    from moved_endpoint_run [OF moved_endpoint [OF other] run] show ?thesis by blast
  qed
qed simp

section \<open>Runs of requests\<close>

text \<open>Any number of requests, one after the other, each under conditions \<open>A\<close> on the state it meets.\<close>

inductive http_run :: "app \<Rightarrow> (site \<Rightarrow> request \<Rightarrow> http_request \<Rightarrow> bool) \<Rightarrow> site \<Rightarrow> site \<Rightarrow> bool" for ap A where
  http_idle: "http_run ap A s s"
| http_more: "http_run ap A s s1 \<Longrightarrow> A s1 rq hr \<Longrightarrow> serve ap ho rq hr s1 = (r, s2) \<Longrightarrow> http_run ap A s s2"

lemma http_once: "A s rq hr \<Longrightarrow> http_run ap A s (snd (serve ap ho rq hr s))"
  by (rule http_more [OF http_idle, where ho = ho and r = "fst (serve ap ho rq hr s)"]) simp_all

lemma relies_under_license [simp]: "relies Q (under_license rq s) = relies Q rq"
  by (simp add: relies_def under_license_def)

lemma alone_under_license [simp]: "alone (under_license rq s) = alone rq"
  by (simp add: alone_def under_license_def)

lemma under_license_simps [simp]:
  "rq_now (under_license rq s) = rq_now rq" "rq_license (under_license rq s) = lw_proc (snd s)"
  by (simp_all add: under_license_def)

context store_laws
begin

text \<open>What every statement stays within, every step of a request stays within.\<close>

lemma http_step_within:
  assumes "http_step ap rq c w w'" and "relies Q rq" and "cl_org c = own"
  shows "Q (w_db w) (w_db w')"
  using assms(1) unfolding http_step_def
proof
  assume "api_step ap rq c w w'"
  then show ?thesis using assms(2,3) by (rule api_step_within)
next
  assume "trial_audit rq c w w'"
  then show ?thesis using assms(2,3) by (auto simp: trial_audit_def intro!: preserves_run pres_audit)
qed

lemma login_step_within: "relies Q rq \<Longrightarrow> Q (w_db w) (w_db (snd (login ap rq email password w)))"
  by (intro preserves_run pres_other_reads)

end

lemma request_within:
  assumes "\<And>own. store_laws Q own" and "serve ap ho rq hr s = (r, s')" and "relies Q rq"
  shows "Q (w_db (fst s)) (w_db (fst s'))"
  using request_is_one_step [OF assms(2)]
proof (elim disjE exE conjE)
  assume "fst s' = fst s"
  then show ?thesis using assms(1) [of 0] by (simp add: store_laws_def statement_laws_def db_framing.db_refl)
next
  fix c assume "http_step ap (under_license rq s) c (fst s) (fst s')"
  then show ?thesis by (rule store_laws.http_step_within [OF assms(1)]) (simp_all add: assms(3))
next
  fix email password assume "fst s' = snd (login ap (under_license rq s) email password (fst s))"
  then show ?thesis using store_laws.login_step_within [OF assms(1)] assms(3) by simp
qed

context framing
begin

lemma http_run_frame:
  assumes "http_run ap A s s'"
    and "\<And>v v' ho rq hr r. A v rq hr \<Longrightarrow> serve ap ho rq hr v = (r, v') \<Longrightarrow> R (f v) (f v')"
  shows "R (f s) (f s')"
  using assms by (induction rule: http_run.induct) (blast intro: frame_refl frame_trans)+

end

lemma http_run_within:
  assumes "\<And>own. store_laws Q own" and "http_run ap A s s'" and "\<And>v rq hr. A v rq hr \<Longrightarrow> relies Q rq"
  shows "Q (w_db (fst s)) (w_db (fst s'))"
proof -
  have "framing Q"
    using assms(1) [of 0] by (simp add: framing_def store_laws_def statement_laws_def db_framing_def)
  then show ?thesis
    using framing.http_run_frame [where f = "\<lambda>s. w_db (fst s)" and R = Q, OF _ assms(2)] request_within [OF assms(1)] assms(3) by blast
qed

section \<open>Without a token\<close>

definition untouched :: "world \<Rightarrow> world \<Rightarrow> bool" where
  "untouched w w' \<longleftrightarrow> w_db w' = w_db w \<and> w_sent w' = w_sent w \<and> w_out w' = w_out w"

interpretation untouched: framing untouched
  by unfold_locales (simp_all add: untouched_def)

lemma query_untouched: "alone rq \<Longrightarrow> preserves untouched (query rq f)"
  by (simp add: preserves_def untouched_def query_def sqlE_def alone_def Let_def split: option.split)

lemma login_untouched: "alone rq \<Longrightarrow> preserves untouched (login ap rq email password)"
  unfolding login_def by (intro untouched.pres_rules query_untouched)

lemma refused_endpoint:
  assumes "from_request_parts ap (rq_now rq) (hr_authorization hr) = Inl rej" and "\<not> public_endpoint ep"
  shows "serve_endpoint ap ho rq hr ps ep s = (rejection_reply rej, s)"
proof (cases ep)
  case (Ep_Auth e)
  with assms show ?thesis by (cases e) (simp_all add: with_claims_def reply_with_def)
next
  case (Ep_Connectors e)
  with assms show ?thesis by (cases e) (simp_all add: with_claims_def reply_with_def)
qed (use assms in \<open>simp_all add: with_claims_def reply_with_def\<close>)

lemma public_endpoint_run:
  assumes "serve_endpoint ap ho rq hr ps ep s = (r, s')" and "public_endpoint ep" and "alone rq"
  shows "untouched (fst s) (fst s') \<and> snd s' = snd s"
proof (cases ep)
  case (Ep_Health e)
  with assms(1) show ?thesis by (cases e) (auto simp: reply_with_def untouched.frame_refl split: prod.splits)
next
  case (Ep_Described e)
  with assms(1) show ?thesis by (cases e) (auto simp: reply_with_def untouched.frame_refl)
next
  case (Ep_Auth e)
  with assms(1,2) have "serve_login ap rq hr s = (r, s')" by (cases e) simp_all
  moreover have "login ap rq email password w = (x, w') \<Longrightarrow> untouched w w'" for email password w x w'
    using login_untouched [OF assms(3), of ap email password] by (metis preserves_def snd_conv)
  ultimately show ?thesis by (cases rule: serve_login_run) (auto simp: untouched.frame_refl)
next
  case (Ep_Connectors e)
  with assms(1,2) show ?thesis
    by (cases e) (auto simp: with_query_def reply_with_def refuse_def untouched.frame_refl split: option.splits)
qed (use assms(2) in simp_all)


definition demo_host :: host where
  "demo_host = \<lparr>ho_db_ok = True, ho_bridge_token = None, ho_post = (\<lambda>_ _ _. ClientFailed []), ho_store_error = None,
     ho_error_text = (\<lambda>_. []), ho_later = 0\<rparr>"

definition demo_lic :: lic_world where
  "demo_lic = \<lparr>lw_proc = demo_proc, lw_files = (\<lambda>_. None)\<rparr>"

definition demo_cancel :: "string option \<Rightarrow> http_request" where
  "demo_cancel header = \<lparr>hr_method = POST, hr_path = ''/jobs/9/cancel'', hr_query = [], hr_authorization = header, hr_body = Other_body\<rparr>"

lemma demo_cancel_route: "dispatch POST ''/jobs/9/cancel'' = Target (Ep_Jobs E_cancel_job) [''9'']"
  by code_simp


section \<open>Sessions of strangers\<close>

text \<open>
  A caller that knows some passwords and keeps the tokens it is given. It may ask anything, with any header; the premise on
  signatures is that a token it was not given is not accepted. The license server, the probes and the rest of the
  surroundings may differ from request to request.
\<close>

definition reply_tokens :: "reply \<Rightarrow> string list" where
  "reply_tokens r = (case r of Answered _ (R_json j) \<Rightarrow> (case jget_str j ''token'' of None \<Rightarrow> [] | Some token \<Rightarrow> [token]) | _ \<Rightarrow> [])"

definition within_means :: "app \<Rightarrow> request \<Rightarrow> (string \<Rightarrow> bool) \<Rightarrow> string list \<Rightarrow> http_request \<Rightarrow> bool" where
  "within_means ap rq knows tokens hr \<longleftrightarrow>
     (\<forall>c. from_request_parts ap (rq_now rq) (hr_authorization hr) = Inr c \<longrightarrow>
        (\<exists>auth token. hr_authorization hr = Some auth \<and> bearer_of auth = Some token \<and> token \<in> set tokens))
     \<and> (\<forall>email password. logs_in ap hr email password \<longrightarrow> knows password)"

definition is_login :: "app \<Rightarrow> http_request \<Rightarrow> bool" where
  "is_login ap hr \<longleftrightarrow> (\<exists>email password. logs_in ap hr email password)"

inductive session :: "app \<Rightarrow> (request \<Rightarrow> bool) \<Rightarrow> (string \<Rightarrow> bool) \<Rightarrow> site \<Rightarrow> site \<Rightarrow> string list \<Rightarrow> bool" for ap A knows s0 where
  session_start: "session ap A knows s0 s0 []"
| session_login: "session ap A knows s0 s tokens \<Longrightarrow> A rq \<Longrightarrow> within_means ap rq knows tokens hr \<Longrightarrow> is_login ap hr \<Longrightarrow>
    serve ap ho rq hr s = (r, s') \<Longrightarrow> session ap A knows s0 s' (reply_tokens r @ tokens)"
| session_call: "session ap A knows s0 s tokens \<Longrightarrow> A rq \<Longrightarrow> within_means ap rq knows tokens hr \<Longrightarrow> \<not> is_login ap hr \<Longrightarrow>
    serve ap ho rq hr s = (r, s') \<Longrightarrow> session ap A knows s0 s' tokens"

lemma error_reply_tokens: "reply_tokens (head_only m (error_reply e)) = []"
  by (simp add: reply_tokens_def head_only_def error_reply_def into_response_def error_envelope_def jget_str_def split_beta split: prod.split)

lemma login_reply_tokens: "set (reply_tokens (head_only m (ok_json (login_json resp)))) \<subseteq> {lr_token resp}"
  by (simp add: reply_tokens_def head_only_def ok_json_def login_json_def jget_str_def)

lemma login_tokens:
  assumes "serve ap ho rq hr s = (r, s')" and "logs_in ap hr email password" and "token \<in> set (reply_tokens r)"
  obtains resp w' where "login ap (under_license rq s) email password (fst s) = (Inr resp, w')" and "token = lr_token resp"
proof -
  from assms(2) obtain ps where d: "dispatch (hr_method hr) (hr_path hr) = Target (Ep_Auth E_login) ps"
    and x: "json_extract ap read_login_request hr = Inr (email, password)" by (auto simp: logs_in_def)
  show thesis
  proof (cases "hr_method hr = OPTIONS")
    case True
    with assms(1,3) show thesis by (auto simp: serve_def reply_tokens_def)
  next
    case False
    with assms(1) d obtain r0 where "serve_login ap (under_license rq s) hr s = (r0, s')" and r: "r = head_only (hr_method hr) r0"
      by (auto simp: serve_def split: prod.splits)
    then show thesis
    proof (cases rule: serve_login_run)
      case 1
      with assms(3) r show thesis by (simp add: reply_tokens_def head_only_def)
    next
      case (2 email' password' e w)
      with assms(3) r show thesis by (simp add: error_reply_tokens)
    next
      case (3 email' password' resp w)
      with x have "login ap (under_license rq s) email password (fst s) = (Inr resp, w)" by simp
      moreover have "token = lr_token resp" using 3 assms(3) r login_reply_tokens by blast
      ultimately show thesis by (rule that)
    qed
  qed
qed

text \<open>One request of a caller whose tokens are all of other organizations.\<close>

lemma foreign_request_within:
  assumes "serve ap ho rq hr s = (r, s')" and "\<And>own. relies (leaves_tenant ten own) rq"
    and "\<And>c. from_request_parts ap (rq_now rq) (hr_authorization hr) = Inr c \<Longrightarrow> cl_org c \<noteq> ten"
  shows "leaves_tenant ten (ten + 1) (w_db (fst s)) (w_db (fst s'))"
  using request_is_one_step [OF assms(1)]
proof (elim disjE exE conjE)
  assume "fst s' = fst s"
  then show ?thesis by (simp add: tenant.db_refl)
next
  fix c assume "from_request_parts ap (rq_now (under_license rq s)) (hr_authorization hr) = Inr c"
    and step: "http_step ap (under_license rq s) c (fst s) (fst s')"
  then have "cl_org c \<noteq> ten" using assms(3) by simp
  moreover have "leaves_tenant ten (cl_org c) (w_db (fst s)) (w_db (fst s'))"
    using step assms(2) by (auto intro: tenant.http_step_within)
  ultimately show ?thesis by (simp add: leaves_tenant_def)
next
  fix email password assume "fst s' = snd (login ap (under_license rq s) email password (fst s))"
  then show ?thesis using tenant.login_step_within assms(2) by simp
qed

lemma foreign_means:
  assumes "within_means ap rq knows tokens hr" and "list_all (foreign_token ap ten) tokens" and "jwt_ok ap"
    and "from_request_parts ap (rq_now rq) (hr_authorization hr) = Inr c"
  shows "cl_org c \<noteq> ten"
proof -
  from assms(1,4) obtain auth token where "hr_authorization hr = Some auth" "bearer_of auth = Some token" "token \<in> set tokens"
    by (auto simp: within_means_def)
  with assms(2-4) show ?thesis by (intro foreign_token_claims [of ap ten token auth]) (auto simp: list_all_iff)
qed

text \<open>
  C2: Strangers change nothing: whoever knows no password of an enabled account of an organization leaves every row of that
  organization, and every account, as it is, through any sequence of HTTP requests: logins with any address and any of the passwords it
  knows, and requests of any method, path and body under any token that was handed out on the way. The rest of the system must
  leave the organization's rows and the accounts alone as well.
\<close>

theorem strangers_change_nothing:
  assumes "session ap (\<lambda>rq. (\<forall>own. relies (leaves_tenant ten own) rq) \<and> relies accounts_kept rq) knows s s' tokens"
    and "jwt_ok ap" and "ids_fresh (w_db (fst s))"
    and "\<And>u password. u \<in> set (db_users (w_db (fst s))) \<Longrightarrow> us_org_id u = ten \<Longrightarrow> \<not> us_disabled u \<Longrightarrow> knows password \<Longrightarrow>
       verify_password ap password (us_password_hash u) \<noteq> Inr True"
  shows "tenant_rows ten (w_db (fst s')) = tenant_rows ten (w_db (fst s)) \<and> db_users (w_db (fst s')) = db_users (w_db (fst s))"
proof -
  have "leaves_tenant ten (ten + 1) (w_db (fst s)) (w_db (fst s')) \<and> db_users (w_db (fst s')) = db_users (w_db (fst s))
      \<and> list_all (foreign_token ap ten) tokens"
    using assms(1)
  proof (induction rule: session.induct)
    case session_start
    show ?case by (simp add: tenant.db_refl)
  next
    case (session_login v tokens rq hr ho r v')
    have new: "foreign_token ap ten token" if tok: "token \<in> set (reply_tokens r)" for token
    proof -
      obtain email password where l: "logs_in ap hr email password" using session_login(4) by (auto simp: is_login_def)
      then have k: "knows password" using session_login(3) by (auto simp: within_means_def)
      obtain resp w' where run: "login ap (under_license rq v) email password (fst v) = (Inr resp, w')" and t: "token = lr_token resp"
        using login_tokens [OF session_login(5) l tok] .
      have "us_org_id u \<noteq> ten" if "u \<in> set (db_users (w_db (fst v)))" "\<not> us_disabled u"
          "verify_password ap password (us_password_hash u) = Inr True" for u
        using that session_login.IH assms(4) k by metis
      with login_token_foreign [OF run] session_login(2) show ?thesis by (simp add: t)
    qed
    have "leaves_tenant ten (ten + 1) (w_db (fst v)) (w_db (fst v'))"
      by (rule foreign_request_within [OF session_login(5)])
        (use session_login(2) session_login.IH foreign_means [OF session_login(3) _ assms(2)] in auto)
    moreover have "accounts_kept (w_db (fst v)) (w_db (fst v'))"
      using request_within [OF accounts.store_laws_axioms session_login(5)] session_login(2) by simp
    ultimately show ?case using session_login.IH new by (auto simp: list_all_iff accounts_kept_def intro: tenant.db_trans)
  next
    case (session_call v tokens rq hr ho r v')
    have "leaves_tenant ten (ten + 1) (w_db (fst v)) (w_db (fst v'))"
      by (rule foreign_request_within [OF session_call(5)])
        (use session_call(2) session_call.IH foreign_means [OF session_call(3) _ assms(2)] in auto)
    moreover have "accounts_kept (w_db (fst v)) (w_db (fst v'))"
      using request_within [OF accounts.store_laws_axioms session_call(5)] session_call(2) by simp
    ultimately show ?case using session_call.IH by (auto simp: accounts_kept_def intro: tenant.db_trans)
  qed
  with assms(3) show ?thesis by (simp add: leaves_tenant_def)
qed

text \<open>An editor of organization 1 logs in and tries to cancel the running job of organization 2, which has an account as well.\<close>

definition demo_http_app :: app where
  "demo_http_app = demo_token_app\<lparr>ap_libs := demo_json_libs\<lparr>lib_parse :=
     (\<lambda>_. Some (JObj [(''email'', JStr ''A@b''), (''password'', JStr ''pw'')]))\<rparr>\<rparr>"

definition demo_accounts :: world where
  "demo_accounts = demo_account\<lparr>w_db := (w_db demo_account)\<lparr>db_users := db_users (w_db demo_account)
     @ [demo_user\<lparr>us_id := 6, us_org_id := 2, us_email := Some ''c@d'', us_password_hash := ''other''\<rparr>]\<rparr>\<rparr>"

definition demo_login :: http_request where
  "demo_login = \<lparr>hr_method = POST, hr_path = ''/auth/login'', hr_query = [], hr_authorization = None, hr_body = Json_body []\<rparr>"

lemma demo_login_route: "dispatch POST ''/auth/login'' = Target (Ep_Auth E_login) []"
  by code_simp

lemma demo_login_body: "json_extract demo_http_app read_login_request demo_login = Inr (''A@b'', ''pw'')"
  by (simp add: json_extract_def demo_login_def demo_http_app_def read_login_request_def struct_def struct_form_def req_def jget_def)

lemma demo_login_token:
  "\<exists>s1. serve demo_http_app demo_host demo_rq demo_login (demo_accounts, demo_lic) = (ok_json (login_json
     \<lparr>lr_token = ''t'', lr_role = ''editor'', lr_org_id = 1, lr_user_id = 5\<rparr>), s1)"
proof -
  have num: "show_int 5 = ''5''" "to_ascii_lowercase ''a@b'' = to_ascii_lowercase ''A@b''" by code_simp+
  have "\<exists>w1. login demo_http_app (under_license demo_rq (demo_accounts, demo_lic)) ''A@b'' ''pw'' demo_accounts = (Inr
      \<lparr>lr_token = ''t'', lr_role = ''editor'', lr_org_id = 1, lr_user_id = 5\<rparr>, w1)"
    by (simp add: login_def act_simps user_by_email_def verify_password_def issue_def demo_http_app_def demo_token_app_def demo_app_def
        demo_crates_def demo_accounts_def demo_account_def demo_user_def demo_rq_def under_license_def num timestamp_def hours_def
        secs_def nanos_per_sec_def)
  then show ?thesis
    using demo_login_route demo_login_body
    by (auto simp: serve_def demo_login_def serve_login_def with_json_def answer_def head_only_def ok_json_def)
qed

theorem strangers_change_nothing_witness:
  "\<exists>r1 s1 r2 s2. serve demo_http_app demo_host demo_rq demo_login (demo_accounts, demo_lic) = (r1, s1) \<and> reply_tokens r1 = [''t'']
     \<and> serve demo_http_app demo_host demo_rq (demo_cancel (Some ''Bearer t'')) s1 = (r2, s2)
     \<and> tenant_rows 2 (w_db (fst s2)) = tenant_rows 2 (w_db demo_accounts)"
proof -
  let ?A = "\<lambda>rq. (\<forall>own. relies (leaves_tenant 2 own) rq) \<and> relies accounts_kept rq" and ?knows = "\<lambda>p. p = ''pw''"
  have ws: "\<not> is_whitespace ''t''" by code_simp
  have A: "?A demo_rq" by (simp add: relies_def demo_rq_def tenant.db_refl accounts.db_refl)
  obtain r1 s1 where run1: "serve demo_http_app demo_host demo_rq demo_login (demo_accounts, demo_lic) = (r1, s1)"
    and t: "reply_tokens r1 = [''t'']"
    using demo_login_token by (auto simp: reply_tokens_def ok_json_def login_json_def jget_str_def)
  obtain r2 s2 where run2: "serve demo_http_app demo_host demo_rq (demo_cancel (Some ''Bearer t'')) s1 = (r2, s2)"
    by (metis surj_pair)
  have "session demo_http_app ?A ?knows (demo_accounts, demo_lic) s1 (reply_tokens r1 @ [])"
    by (rule session_login [where A = ?A, OF session_start A _ _ run1])
      (auto simp: within_means_def is_login_def logs_in_def demo_login_body from_request_parts_def, auto simp: demo_login_def demo_login_route)
  then have "session demo_http_app ?A ?knows (demo_accounts, demo_lic) s2 (reply_tokens r1 @ [])"
    by (rule session_call [where A = ?A, OF _ A _ _ run2])
      (use ws in \<open>auto simp: within_means_def is_login_def logs_in_def demo_cancel_def demo_cancel_route t bearer_of_def strip_prefix_def trim_id\<close>)
  moreover have "jwt_ok demo_http_app"
    unfolding jwt_ok_def by (auto simp: demo_http_app_def demo_token_app_def ws split: if_splits)
  moreover have "ids_fresh (w_db (fst (demo_accounts, demo_lic)))"
    using demo_site_facts(1) by (simp add: demo_accounts_def demo_account_def demo_site_world_def ids_fresh_def)
  ultimately have "tenant_rows 2 (w_db (fst s2)) = tenant_rows 2 (w_db (fst (demo_accounts, demo_lic)))"
    by (rule strangers_change_nothing [THEN conjunct1])
      (auto simp: demo_accounts_def demo_account_def demo_user_def verify_password_def demo_http_app_def demo_token_app_def demo_app_def
        demo_crates_def)
  then have "tenant_rows 2 (w_db (fst s2)) = tenant_rows 2 (w_db demo_accounts)" by simp
  with run1 run2 t show ?thesis by blast
qed

end
