(* ===== verification/Telemetry.thy ===== *)
theory Telemetry
  imports Serve
begin

text \<open>
  Logs and metrics (\<^verbatim>\<open>src/apps/api/src/telemetry.rs\<close>, \<^verbatim>\<open>routes/metrics.rs\<close> and the counters and gauges of
  \<^verbatim>\<open>security/license.rs\<close> and \<^verbatim>\<open>routes/jobs.rs\<close>). What an operation reports is the list of its emissions, in order; what becomes of them
  depends on whether a recorder is installed: as the metrics facade documents, emissions before that are dropped.
  The exporters and the log subscriber are library code, whose answers are arguments.
\<close>

section \<open>The recorder\<close>

datatype emission = Count string "(string \<times> string) list" | Set_gauge string int

text \<open>\<open>None\<close>: no recorder yet. A series is a name with its labels.\<close>

record series =
  se_counters :: "string \<times> (string \<times> string) list \<Rightarrow> nat"
  se_gauges :: "string \<Rightarrow> int option"

type_synonym recorder = "series option"

definition no_series :: series where
  "no_series = \<lparr>se_counters = (\<lambda>_. 0), se_gauges = (\<lambda>_. None)\<rparr>"

definition incremented :: "string \<times> (string \<times> string) list \<Rightarrow> series \<Rightarrow> series" where
  "incremented k s = s\<lparr>se_counters := (se_counters s)(k := se_counters s k + 1)\<rparr>"

definition emit :: "emission \<Rightarrow> recorder \<Rightarrow> recorder" where
  "emit e m = map_option (\<lambda>s. case e of
      Count name labels \<Rightarrow> incremented (name, labels) s
    | Set_gauge name v \<Rightarrow> s\<lparr>se_gauges := (se_gauges s)(name \<mapsto> v)\<rparr>) m"

definition emit_all :: "emission list \<Rightarrow> recorder \<Rightarrow> recorder" where
  "emit_all es m = fold emit es m"

text \<open>\<open>refused\<close> is the error of the exporter, such as that of a recorder that is already there.\<close>

definition init_metrics :: "string option \<Rightarrow> recorder \<Rightarrow> string + recorder" where
  "init_metrics refused m =
     (case refused of Some _ \<Rightarrow> Inl ''install prometheus recorder''
      | None \<Rightarrow> (case m of Some _ \<Rightarrow> Inl ''install prometheus recorder'' | None \<Rightarrow> Inr (Some no_series)))"

section \<open>The scrape endpoint\<close>

definition METRICS_CONTENT_TYPE :: string where
  "METRICS_CONTENT_TYPE = ''text/plain; version=0.0.4''"

text \<open>The page is served on a listener of its own; \<open>page\<close> is the text form of the exporter.\<close>

definition render :: "(series \<Rightarrow> string) \<Rightarrow> series \<Rightarrow> string \<times> string" where
  "render page s = (METRICS_CONTENT_TYPE, page s)"

definition metrics_router :: "(series \<Rightarrow> string) \<Rightarrow> series \<Rightarrow> meth \<Rightarrow> string \<Rightarrow> reply" where
  "metrics_router page s m path =
     (if path \<noteq> ''/metrics'' then Answered 404 R_none
      else if m = GET \<or> m = HEAD then head_only m (Answered 200 (R_text (snd (render page s))))
      else Answered 405 R_none)"

section \<open>What the license code reports\<close>

definition gauge_emissions :: "license_proc \<Rightarrow> instant \<Rightarrow> instant \<Rightarrow> emission list" where
  "gauge_emissions p now now' =
     (let g = publish_gauges p now now' in
      [Set_gauge ''license_valid'' (ga_license_valid g),
       Set_gauge ''license_heartbeat_grace_seconds_remaining'' (ga_grace_seconds g)])"

fun kind_label :: "license_kind \<Rightarrow> string" where
  "kind_label Trial = ''trial''"
| "kind_label Commercial = ''commercial''"

definition activate_emissions :: "loaded_license \<Rightarrow> instant \<Rightarrow> lic_world \<Rightarrow> emission list" where
  "activate_emissions loaded now w =
     Count ''license_activation_total'' [(''kind'', kind_label (ld_kind (ll_doc loaded)))]
     # gauge_emissions (lw_proc (activate loaded w)) now now"

definition reload_emissions :: "libs \<Rightarrow> env \<Rightarrow> instant \<Rightarrow> lic_world \<Rightarrow> emission list" where
  "reload_emissions L env now w =
     (let path = store_path env; fs = lw_files w; current = lp_state (lw_proc w) in
      case file_stamp fs path of
        None \<Rightarrow> []
      | Some st \<Rightarrow>
          if ls_store_stamp current = Some st then []
          else
            (let fp = process_fingerprint (lw_proc w) in
             case load_public_key L env fs of
               Inl _ \<Rightarrow> []
             | Inr key \<Rightarrow>
                 (case load_and_verify_path L env fs now path key fp of
                    Inr loaded \<Rightarrow> if should_adopt current (ll_doc loaded) fp now then activate_emissions loaded now w else []
                  | Inl _ \<Rightarrow> [])))"

fun outcome_label :: "heartbeat_outcome \<Rightarrow> string" where
  "outcome_label (Refreshed _) = ''ok''"
| "outcome_label (Denied _ _) = ''denied''"
| "outcome_label (Unavailable _) = ''unavailable''"

text \<open>
  What a tick reports, branch by branch as in \<open>heartbeat_tick\<close>; \<open>later\<close> is the clock when the gauges are published. Two early returns
  publish nothing.
\<close>

definition tick_emissions ::
    "libs \<Rightarrow> env \<Rightarrow> post \<Rightarrow> string option \<Rightarrow> (lic_world \<Rightarrow> lic_world) \<Rightarrow> instant \<Rightarrow> instant \<Rightarrow> lic_world \<Rightarrow> emission list" where
  "tick_emissions L env net io meanwhile now later w0 =
     reload_emissions L env now w0 @
     (let w = reload_store_if_changed L env now w0; state = lp_state (lw_proc w);
          final = heartbeat_tick L env net io meanwhile now w0 in
      if \<not> heartbeat_due env state now then gauge_emissions (lw_proc final) later later
      else (case (ls_raw state, ls_doc state) of
         (Some raw, Some doc) \<Rightarrow>
           (case server_from_env env of
              None \<Rightarrow> Count ''license_heartbeat_total'' [(''result'', ''unconfigured'')] # gauge_emissions (lw_proc final) later later
            | Some server \<Rightarrow>
                (case load_public_key L env (lw_files w) of
                   Inl _ \<Rightarrow> []
                 | Inr key \<Rightarrow>
                     Count ''license_heartbeat_total''
                       [(''result'', outcome_label (heartbeat_once L net now server (process_fingerprint (lw_proc w)) raw key))]
                     # gauge_emissions (lw_proc final) later later))
       | _ \<Rightarrow> []))"

definition gate_emissions :: "license_proc \<Rightarrow> instant \<Rightarrow> emission list" where
  "gate_emissions p now =
     (if \<not> enforce_enabled p then []
      else
        (let problem = problem_for (lp_state p) (process_fingerprint p) now in
         if ls_doc (lp_state p) \<noteq> None \<and> problem = None then []
         else Count ''license_denied_total'' [(''reason'', case problem of Some x \<Rightarrow> problem_as_str x | None \<Rightarrow> ''missing'')]
              # (if problem = Some Expired then [Count ''license_expired_denied_total'' []] else [])))"

text \<open>The job counter is incremented last, when the job is started and the audit record written.\<close>

definition create_job_emissions :: "api_error + job_row \<Rightarrow> emission list" where
  "create_job_emissions res = (case res of Inl _ \<Rightarrow> [] | Inr _ \<Rightarrow> [Count ''jobs_created_total'' []])"

section \<open>Logs\<close>

definition DEFAULT_LOG_FILTER :: string where
  "DEFAULT_LOG_FILTER = ''info,sqlx=warn,hyper=warn''"

record tracing_setup =
  tr_filter :: string
  tr_service :: string
  tr_otlp :: "string option"

text \<open>
  \<open>filter_ok\<close> is the parser of log filters, \<open>install_otlp\<close> the error of installing the trace exporter for a service and an endpoint;
  a subscriber that is already installed makes \<^verbatim>\<open>init\<close> panic (\<open>None\<close>).
\<close>

definition init_tracing ::
    "env \<Rightarrow> (string \<Rightarrow> bool) \<Rightarrow> (string \<Rightarrow> string \<Rightarrow> string option) \<Rightarrow> string \<Rightarrow> string option \<Rightarrow> tracing_setup option
     \<Rightarrow> (string + tracing_setup) option" where
  "init_tracing env filter_ok install_otlp service_name otlp_endpoint installed =
     (let fil = unwrap_or DEFAULT_LOG_FILTER (opt_filter filter_ok (env ''RUST_LOG''));
          setup = \<lparr>tr_filter = fil, tr_service = service_name, tr_otlp = otlp_endpoint\<rparr>;
          init = (if installed = None then Some (Inr setup) else None) in
      case otlp_endpoint of
        Some endpoint \<Rightarrow>
          (case install_otlp service_name endpoint of
             Some _ \<Rightarrow> Some (Inl ''failed to install OTLP tracer'')
           | None \<Rightarrow> init)
      | None \<Rightarrow> init)"

end
