(* ===== verification/Startup.thy ===== *)
theory Startup
  imports Serve Commands Telemetry
begin

text \<open>
  The processes around the handlers: key material (\<^verbatim>\<open>src/apps/api/src/security/secrets.rs\<close>, \<^verbatim>\<open>security/jwt.rs\<close>), the license
  service behind HTTP and the schema of its store (\<^verbatim>\<open>license_server.rs\<close>), the subcommands of both tools (\<^verbatim>\<open>bin/admin.rs\<close>,
  \<^verbatim>\<open>bin/license_server.rs\<close>) and the start of the API (\<^verbatim>\<open>main.rs\<close>,
  \<^verbatim>\<open>state.rs\<close>). Connections, random keys and file systems are arguments that say how each attempt ends.
\<close>

section \<open>Keys\<close>

definition master_key_error :: string where
  "master_key_error = ''MASTER_KEY must be base64 of 32 bytes or a raw string >= 32 chars''"

definition decode_master_key :: "(string \<Rightarrow> string option) \<Rightarrow> (string \<Rightarrow> string) \<Rightarrow> string \<Rightarrow> string + string" where
  "decode_master_key b64 sha256 v =
     (case opt_filter (\<lambda>bytes. length bytes = 32) (b64 v) of
        Some bytes \<Rightarrow> Inr bytes
      | None \<Rightarrow> if length v < 32 then Inl master_key_error else Inr (sha256 v))"

definition from_env_value :: "(string \<Rightarrow> string option) \<Rightarrow> (string \<Rightarrow> string) \<Rightarrow> string \<Rightarrow> string + string" where
  "from_env_value b64 sha256 v = decode_master_key b64 sha256 v"

record jwt_keys =
  jk_private_pem :: string
  jk_public_pem :: string
  jk_issuer :: string
  jk_audience :: string

text \<open>The new key, if the random generator gives one, and how its halves are written as PEM.\<close>

definition generate_ephemeral_keypair :: "'k option \<Rightarrow> ('k \<Rightarrow> string option) \<Rightarrow> ('k \<Rightarrow> string option) \<Rightarrow> string + string \<times> string" where
  "generate_ephemeral_keypair priv_key private_pem public_pem =
     (case priv_key of None \<Rightarrow> Inl ''generate RSA'' | Some k \<Rightarrow>
     (case private_pem k of None \<Rightarrow> Inl ''encode private PEM'' | Some priv_pem \<Rightarrow>
     (case public_pem k of None \<Rightarrow> Inl ''encode public PEM'' | Some pub_pem \<Rightarrow> Inr (priv_pem, pub_pem))))"

text \<open>\<open>generated\<close> is the outcome of generating a key pair.\<close>

definition jwt_load ::
    "(string \<Rightarrow> bool) \<Rightarrow> (string \<Rightarrow> bool) \<Rightarrow> string + string \<times> string \<Rightarrow> files \<Rightarrow> config \<Rightarrow> string + jwt_keys" where
  "jwt_load private_ok public_ok generated fs cfg =
     (case (case (cf_jwt_private_key_path cfg, cf_jwt_public_key_path cfg) of
              (Some priv_path, Some pub_path) \<Rightarrow>
                (case fs priv_path of None \<Rightarrow> Inl ''read JWT private key'' | Some a \<Rightarrow>
                (case fs pub_path of None \<Rightarrow> Inl ''read JWT public key'' | Some b \<Rightarrow> Inr (f_content a, f_content b)))
            | _ \<Rightarrow> generated) of
        Inl e \<Rightarrow> Inl e
      | Inr (private_pem, public_pem) \<Rightarrow>
          if \<not> private_ok private_pem then Inl ''parse RSA private key''
          else if \<not> public_ok public_pem then Inl ''parse RSA public key''
          else Inr \<lparr>jk_private_pem = private_pem, jk_public_pem = public_pem, jk_issuer = cf_jwt_issuer cfg,
                 jk_audience = cf_jwt_audience cfg\<rparr>)"

section \<open>The license service behind HTTP\<close>

definition read_trial_start :: "json \<Rightarrow> trial_start_req option" where
  "read_trial_start v0 = Option.bind (struct_form [''fingerprint'', ''email'', ''product'', ''version''] 1 v0) (\<lambda>v.
     Option.bind (req v ''fingerprint'' as_str) (\<lambda>fp. Option.bind (opt v ''email'' as_str) (\<lambda>email.
     Option.bind (opt v ''product'' as_str) (\<lambda>product. Option.bind (opt v ''version'' as_str) (\<lambda>version.
     Some \<lparr>ts_fingerprint = fp, ts_email = email, ts_product = product, ts_version = version\<rparr>)))))"

definition read_heartbeat :: "json \<Rightarrow> heartbeat_req option" where
  "read_heartbeat v0 = Option.bind (struct_form [''fingerprint'', ''license_file'', ''product'', ''version''] 2 v0) (\<lambda>v.
     Option.bind (req v ''fingerprint'' as_str) (\<lambda>fp. Option.bind (req v ''license_file'' Some) (\<lambda>file.
     Option.bind (opt v ''product'' as_str) (\<lambda>product. Option.bind (opt v ''version'' as_str) (\<lambda>version.
     Some \<lparr>hb_fingerprint = fp, hb_license_file = file, hb_product = product, hb_version = version\<rparr>)))))"

definition server_error_reply :: "server_error \<Rightarrow> reply" where
  "server_error_reply e = Answered (se_status e) (R_json (error_envelope (se_code e) (se_message e)))"

definition LICENSE_BODY_LIMIT :: nat where
  "LICENSE_BODY_LIMIT = 32768"

definition license_json :: "libs \<Rightarrow> (json \<Rightarrow> 'a option) \<Rightarrow> http_request \<Rightarrow> nat + 'a" where
  "license_json L f hr =
     (case hr_body hr of
        Json_body text \<Rightarrow>
          if LICENSE_BODY_LIMIT < length text then Inl 413
          else (case lib_parse L text of None \<Rightarrow> Inl 400 | Some v \<Rightarrow> (case f v of None \<Rightarrow> Inl 422 | Some x \<Rightarrow> Inr x))
      | _ \<Rightarrow> Inl 415)"

definition license_reply ::
    "('a \<Rightarrow> json) \<Rightarrow> (server_error + 'a) \<times> server_state \<Rightarrow> reply \<times> server_state" where
  "license_reply f rs = (case rs of (Inl e, s) \<Rightarrow> (server_error_reply e, s) | (Inr x, s) \<Rightarrow> (ok_json (f x), s))"

text \<open>A request that is answered within the ten seconds of the timeout layer.\<close>

definition license_service ::
    "libs \<Rightarrow> server_config \<Rightarrow> instant \<Rightarrow> instant \<Rightarrow> bool \<Rightarrow> http_request \<Rightarrow> server_state \<Rightarrow> reply \<times> server_state" where
  "license_service L cfg now clk wild_first hr s =
     (if hr_path hr \<in> {''/healthz'', ''/readyz''} then
        (if hr_method hr \<in> {GET, HEAD} then (head_only (hr_method hr) (Answered 200 (R_text ''ok'')), s) else (Answered 405 R_none, s))
      else if hr_path hr = ''/v1/trial/start'' then
        (if hr_method hr \<noteq> POST then (Answered 405 R_none, s)
         else (case license_json L read_trial_start hr of
                 Inl status \<Rightarrow> (Refused status, s)
               | Inr r \<Rightarrow> license_reply (trial_response_json L) (trial_start L cfg now clk (hr_authorization hr) r s)))
      else if hr_path hr = ''/v1/heartbeat'' then
        (if hr_method hr \<noteq> POST then (Answered 405 R_none, s)
         else (case license_json L read_heartbeat hr of
                 Inl status \<Rightarrow> (Refused status, s)
               | Inr r \<Rightarrow> license_reply (heartbeat_response_json L) (heartbeat L cfg now clk wild_first (hr_authorization hr) r s)))
      else (Answered 404 R_none, s))"

section \<open>The schema of the trial store\<close>

text \<open>The tables with their column names; adding a column fails when the table has one of that name in other letter case.\<close>

type_synonym schema = "(string \<times> string list) list"

definition create_table :: "string \<Rightarrow> string list \<Rightarrow> schema \<Rightarrow> schema" where
  "create_table t cols sch = (if map_of sch t = None then sch @ [(t, cols)] else sch)"

definition ensure_column :: "string \<Rightarrow> string \<Rightarrow> schema \<Rightarrow> schema option" where
  "ensure_column t c sch =
     (case map_of sch t of
        None \<Rightarrow> None
      | Some cols \<Rightarrow>
          if c \<in> set cols then Some sch
          else if to_ascii_lowercase c \<in> to_ascii_lowercase ` set cols then None
          else Some (map (\<lambda>(t', cs). if t' = t then (t', cs @ [c]) else (t', cs)) sch))"

definition trial_columns :: "string list" where
  "trial_columns = [''fingerprint'', ''email'', ''started_at'', ''expires_at'', ''product'', ''version'', ''created_at'']"

definition added_columns :: "string list" where
  "added_columns = [''last_heartbeat_at'', ''heartbeat_count'', ''revoked_at'', ''revoked_reason'']"

fun ensure_columns :: "string \<Rightarrow> string list \<Rightarrow> schema \<Rightarrow> schema option" where
  "ensure_columns t [] sch = Some sch"
| "ensure_columns t (c # cs) sch = Option.bind (ensure_column t c sch) (ensure_columns t cs)"

definition open_db :: "schema \<Rightarrow> schema option" where
  "open_db sch = ensure_columns ''trials'' added_columns
     (create_table ''revocations'' [''fingerprint'', ''licensee'', ''reason'', ''revoked_at''] (create_table ''trials'' trial_columns sch))"

section \<open>Subcommands\<close>

fun keygen_flags :: "string \<Rightarrow> string list \<Rightarrow> cli_error + string" where
  "keygen_flags out_dir [] = Inr out_dir"
| "keygen_flags out_dir (flag # rest) =
     (if flag \<noteq> ''--out-dir'' then Inl (unknown_flag flag)
      else (case rest of [] \<Rightarrow> Inl CliPanics | v # rest' \<Rightarrow> keygen_flags v rest'))"

text \<open>\<open>generated\<close> is the new key pair, \<open>io\<close> the error of the file system if it has one before anything is written.\<close>

definition license_keygen ::
    "string + string \<times> string \<Rightarrow> string option \<Rightarrow> instant \<Rightarrow> string list \<Rightarrow> files \<Rightarrow> (cli_error + string \<times> string) \<times> files" where
  "license_keygen generated io now args fs =
     (case keygen_flags ''.'' args of
        Inl e \<Rightarrow> (Inl e, fs)
      | Inr out_dir \<Rightarrow>
          (case generated of
             Inl e \<Rightarrow> (Inl (CliFails e), fs)
           | Inr (priv_pem, pub_pem) \<Rightarrow>
               (case io of
                  Some e \<Rightarrow> (Inl (CliFails e), fs)
                | None \<Rightarrow>
                    (let priv_path = out_dir @ ''/license_signing_key.pem''; pub_path = out_dir @ ''/license_public_key.pem'' in
                     (Inr (priv_path, pub_path), fs(priv_path \<mapsto> \<lparr>f_content = priv_pem, f_mtime = now\<rparr>,
                        pub_path \<mapsto> \<lparr>f_content = pub_pem, f_mtime = now\<rparr>))))))"

fun org_flags :: "string option \<Rightarrow> string list \<Rightarrow> cli_error + string option" where
  "org_flags name [] = Inr name"
| "org_flags name [flag] =
     (if flag = ''--name'' then Inl CliPanics else if flag = ''--slug'' then Inr name else Inl (unknown_flag flag))"
| "org_flags name (flag # v # rest) =
     (if flag = ''--name'' then org_flags (Some v) rest
      else if flag = ''--slug'' then org_flags name rest else Inl (unknown_flag flag))"

text \<open>The organizations, by id and name, and the next value of their sequence.\<close>

definition create_org :: "string list \<Rightarrow> (int \<times> string) list \<times> int \<Rightarrow> (cli_error + int) \<times> (int \<times> string) list \<times> int" where
  "create_org args st =
     (case st of (orgs, next) \<Rightarrow>
     (case org_flags None args of
        Inl e \<Rightarrow> (Inl e, st)
      | Inr found \<Rightarrow>
          (case required ''--name'' found of
             Inl e \<Rightarrow> (Inl e, st)
           | Inr name \<Rightarrow>
               (case List.find (\<lambda>(_, n). n = name) orgs of
                  Some (oid, _) \<Rightarrow> (Inr oid, orgs, next + 1)
                | None \<Rightarrow> (Inr next, orgs @ [(next, name)], next + 1)))))"

definition help_lines :: "string list" where
  "help_lines =
    [''migration-admin CLI'',
     '''',
     ''    admin migrate'',
     ''    admin create-org     --name <name> [--slug <slug>]'',
     ''    admin create-user    --org <id> --email <email> --role <role> --password <pw>'',
     ''    admin upsert-secret  --org <id> --name <n>       --value <raw_string>'',
     ''    admin license-keygen --out-dir <dir>'',
     ''    admin license-sign   --key <private.pem> --licensee <name> --expires <YYYY-MM-DD>'',
     ''                         [--features a,b] [--max-seats <n>] [--kind trial|commercial]'',
     ''                         [--fingerprint <hex>] [--require-heartbeat] --out <license.json>'',
     ''                         (--require-heartbeat needs --fingerprint; the install must then'',
     ''                          reach the license server every 24h, with 72h offline grace)'',
     ''    admin license-verify --file <license.json> [--public-key <public.pem>]'']"

definition print_help :: string where
  "print_help = concat (map (\<lambda>l. l @ [CHR 0x0A]) help_lines) @ [CHR 0x0A]"

text \<open>The errors of connecting to the database and of applying the migrations.\<close>

definition migrate :: "string option \<Rightarrow> string option \<Rightarrow> cli_error + string" where
  "migrate connect run =
     (case connect of Some e \<Rightarrow> Inl (CliFails e)
      | None \<Rightarrow> (case run of Some e \<Rightarrow> Inl (CliFails e) | None \<Rightarrow> Inr ''migrations applied''))"

datatype admin_command =
    Admin_help | Admin_keygen "string list" | Admin_sign "string list" | Admin_verify "string list"
  | Admin_migrate config | Admin_create_org config "string list" | Admin_create_user config "string list"
  | Admin_upsert_secret config "string list"

definition admin_main :: "env \<Rightarrow> string list \<Rightarrow> cli_error + admin_command" where
  "admin_main env args =
     (case args of
        [] \<Rightarrow> Inr Admin_help
      | cmd # rest \<Rightarrow>
          if cmd = ''license-keygen'' then Inr (Admin_keygen rest)
          else if cmd = ''license-sign'' then Inr (Admin_sign rest)
          else if cmd = ''license-verify'' then Inr (Admin_verify rest)
          else if cmd \<in> {''help'', ''-h'', ''--help''} then Inr Admin_help
          else (case from_env env of
                  Inl e \<Rightarrow> Inl (CliFails e)
                | Inr cfg \<Rightarrow>
                    if cmd = ''migrate'' then Inr (Admin_migrate cfg)
                    else if cmd = ''create-org'' then Inr (Admin_create_org cfg rest)
                    else if cmd = ''create-user'' then Inr (Admin_create_user cfg rest)
                    else if cmd = ''upsert-secret'' then Inr (Admin_upsert_secret cfg rest)
                    else Inl (CliFails (''unknown subcommand '' @ cmd @ ''; run `admin help` for usage''))))"

datatype service_command = Service_revoke "string list" | Service_unrevoke "string list" | Service_help | Service_run server_config string string

definition DEFAULT_BIND :: string where "DEFAULT_BIND = ''0.0.0.0:8090''"
definition DEFAULT_DB :: string where "DEFAULT_DB = ''./data/trials.db''"

definition DEFAULT_TRIAL_DAYS :: int where
  "DEFAULT_TRIAL_DAYS = 10"

fun config_error_text :: "config_error \<Rightarrow> string" where
  "config_error_text TokenTooShort = ''LICENSE_SERVER_TOKEN must contain at least 32 characters''"
| "config_error_text TrialDaysRange = ''TRIAL_DAYS must be between 1 and 30''"
| "config_error_text SigningKeyUnreadable = ''parsing signing key''"

text \<open>The errors of opening the store, of reading the address to listen on and of listening on it.\<close>

record service_attempts =
  sa_open :: "string \<Rightarrow> string option"
  sa_addr :: "string \<Rightarrow> string option"
  sa_port :: "string \<Rightarrow> string option"

definition service_main :: "libs \<Rightarrow> env \<Rightarrow> files \<Rightarrow> service_attempts \<Rightarrow> string list \<Rightarrow> cli_error + service_command" where
  "service_main L env fs at args =
     (let db_path = env_default env ''LICENSE_TRIAL_DB'' DEFAULT_DB in
      case args of
        cmd # rest \<Rightarrow>
          if cmd = ''revoke'' then Inr (Service_revoke rest)
          else if cmd = ''unrevoke'' then Inr (Service_unrevoke rest)
          else if cmd \<in> {''help'', ''-h'', ''--help''} then Inr Service_help
          else Inl (CliFails (''unknown subcommand '' @ cmd @ ''; run with --help''))
      | [] \<Rightarrow>
          (case ok_or (CliFails ''LICENSE_SIGNING_KEY_PATH required (path to PKCS#8 PEM; keep offline in production)'')
              (env ''LICENSE_SIGNING_KEY_PATH'') of Inl e \<Rightarrow> Inl e | Inr key_path \<Rightarrow>
          (case ok_or (CliFails (''reading '' @ key_path)) (fs key_path) of Inl e \<Rightarrow> Inl e | Inr f \<Rightarrow>
          (case ok_or (CliFails ''LICENSE_SERVER_TOKEN is required'') (env ''LICENSE_SERVER_TOKEN'') of Inl e \<Rightarrow> Inl e | Inr token \<Rightarrow>
          (let cfg = \<lparr>cfg_signing_key_pem = f_content f, cfg_activation_token = token,
                 cfg_trial_days = unwrap_or DEFAULT_TRIAL_DAYS (Option.bind (env ''TRIAL_DAYS'') parse_i64)\<rparr>;
               bind = env_default env ''LICENSE_SERVER_BIND'' DEFAULT_BIND in
           case sa_open at db_path of Some e \<Rightarrow> Inl (CliFails e) | None \<Rightarrow>
           (case validate_config L cfg of Inl e \<Rightarrow> Inl (CliFails (config_error_text e)) | Inr _ \<Rightarrow>
           (case sa_addr at bind of Some _ \<Rightarrow> Inl (CliFails ''LICENSE_SERVER_BIND'') | None \<Rightarrow>
           (case sa_port at bind of Some e \<Rightarrow> Inl (CliFails e) | None \<Rightarrow> Inr (Service_run cfg db_path bind)))))))))"

section \<open>The start of the API\<close>

text \<open>How each attempt of the start ends, as the text of its error.\<close>

record attempts =
  at_log_filter :: "string \<Rightarrow> bool"
  at_otlp :: "string \<Rightarrow> string \<Rightarrow> string option"
  at_metrics :: "string option"
  at_database :: "string option"
  at_migrations :: "string option"
  at_redis_url :: "string option"
  at_bucket_head :: bool
  at_bucket_create :: "string option"
  at_rsa_key :: "string option"
  at_private_pem :: "string \<Rightarrow> string option"
  at_public_pem :: "string \<Rightarrow> string option"
  at_metrics_addr :: "string option"
  at_metrics_port :: "string option"
  at_api_addr :: "string option"
  at_api_port :: "string option"

definition build_s3_client :: "attempts \<Rightarrow> string + unit" where
  "build_s3_client at = (if at_bucket_head at then Inr () else (case at_bucket_create at of None \<Rightarrow> Inr () | Some e \<Rightarrow> Inl ''creating bucket''))"

definition attempt :: "string \<Rightarrow> string option \<Rightarrow> string + unit" where
  "attempt context e = (case e of None \<Rightarrow> Inr () | Some _ \<Rightarrow> Inl context)"

record started =
  st_config :: config
  st_temporal :: temporal_client
  st_jwt :: jwt_keys
  st_master_key :: string

definition api_main ::
    "libs \<Rightarrow> env \<Rightarrow> post \<Rightarrow> string option \<Rightarrow> license_error + string \<Rightarrow> instant \<Rightarrow> (string \<Rightarrow> string) \<Rightarrow> attempts \<Rightarrow> lic_world
     \<Rightarrow> (string + started) \<times> lic_world" where
  "api_main L env net io install_fp now sha256 at w =
     (case from_env env of Inl _ \<Rightarrow> (Inl ''loading API config'', w) | Inr cfg \<Rightarrow>
     (case init_tracing env (at_log_filter at) (at_otlp at) ''migration-api'' (cf_otlp_endpoint cfg) None of
        None \<Rightarrow> (Inl ''panicked'', w) | Some (Inl _) \<Rightarrow> (Inl ''initialising tracing'', w) | Some (Inr _) \<Rightarrow>
     (case enforce_at_startup L env net io install_fp now w of (Inl _, w1) \<Rightarrow> (Inl ''license check'', w1) | (Inr _, w1) \<Rightarrow>
     (case init_metrics (at_metrics at) None of Inl _ \<Rightarrow> (Inl ''initialising prometheus metrics'', w1) | Inr _ \<Rightarrow>
     (case attempt ''connecting to postgres'' (at_database at) of Inl e \<Rightarrow> (Inl e, w1) | Inr _ \<Rightarrow>
     (case attempt ''running migrations'' (at_migrations at) of Inl e \<Rightarrow> (Inl e, w1) | Inr _ \<Rightarrow>
     (case attempt ''parsing redis url'' (at_redis_url at) of Inl e \<Rightarrow> (Inl e, w1) | Inr _ \<Rightarrow>
     (case build_s3_client at of Inl e \<Rightarrow> (Inl e, w1) | Inr _ \<Rightarrow>
     (case jwt_load (lib_private_key L) (lib_public_key L) 
        (generate_ephemeral_keypair (at_rsa_key at) (at_private_pem at) (at_public_pem at)) (lw_files w1) cfg of Inl e \<Rightarrow> (Inl e, w1) | Inr jwt \<Rightarrow>
     (case from_env_value (lib_b64_decode L) sha256 (cf_master_key cfg) of Inl e \<Rightarrow> (Inl e, w1) | Inr key \<Rightarrow>
     (case attempt ''parsing METRICS_BIND'' (at_metrics_addr at) of Inl e \<Rightarrow> (Inl e, w1) | Inr _ \<Rightarrow>
     (case attempt ''binding metrics port'' (at_metrics_port at) of Inl e \<Rightarrow> (Inl e, w1) | Inr _ \<Rightarrow>
     (case attempt ''parsing API_BIND'' (at_api_addr at) of Inl e \<Rightarrow> (Inl e, w1) | Inr _ \<Rightarrow>
     (case attempt ''binding api port'' (at_api_port at) of Inl e \<Rightarrow> (Inl e, w1) | Inr _ \<Rightarrow>
       (Inr \<lparr>st_config = cfg,
          st_temporal = temporal_new (cf_orchestrator_bridge_url cfg) (unwrap_or [] (cf_bridge_token cfg)) (cf_temporal_namespace cfg),
          st_jwt = jwt, st_master_key = key\<rparr>, w1)))))))))))))))"

end
