(* ===== verification/Startup_Facts.thy ===== *)
theory Startup_Facts
  imports Startup Serve_Facts License_Server_Facts
begin

text \<open>
  What holds of the processes around the handlers: the store of the license service is upgraded once and for all, every request to the
  service is a step of it, and a new install that asks it for a trial is granted one.
\<close>

section \<open>What holds of the start\<close>

text \<open>Opening the store is idempotent, and brings a store of any earlier version up to date without touching its columns.\<close>

lemma map_of_create_table: "map_of (create_table t cols sch) x = (if x = t then Some (unwrap_or cols (map_of sch t)) else map_of sch x)"
  by (auto simp: create_table_def map_add_def split: option.split)

lemma ensure_column_Some:
  assumes "ensure_column t c sch = Some sch'" and "map_of sch t = Some cols"
  shows "\<exists>more. map_of sch' t = Some (cols @ more) \<and> c \<in> set (cols @ more) \<and> set more \<subseteq> {c}"
proof (cases "c \<in> set cols")
  case True
  with assms show ?thesis by (auto simp: ensure_column_def)
next
  case False
  have "map_of (map (\<lambda>(t', cs). if t' = t then (t', cs @ [c]) else (t', cs)) s) t = map_option (\<lambda>cs. cs @ [c]) (map_of s t)" for s
    by (induction s) auto
  with False assms show ?thesis by (auto simp: ensure_column_def split: if_splits)
qed

lemma ensure_columns_Some:
  assumes "ensure_columns t cs sch = Some sch'" and "map_of sch t = Some cols"
  shows "\<exists>more. map_of sch' t = Some (cols @ more) \<and> set cs \<subseteq> set (cols @ more)"
  using assms
proof (induction cs arbitrary: sch cols)
  case (Cons c cs)
  then obtain sch1 where s: "ensure_column t c sch = Some sch1" "ensure_columns t cs sch1 = Some sch'"
    by (auto simp: bind_eq_Some_conv)
  from ensure_column_Some [OF s(1) Cons.prems(2)] obtain more where m: "map_of sch1 t = Some (cols @ more)" "c \<in> set (cols @ more)" by blast
  from Cons.IH [OF s(2) m(1)] m(2) show ?case by auto
qed auto

lemma ensure_columns_done: "map_of sch t = Some cols \<Longrightarrow> set cs \<subseteq> set cols \<Longrightarrow> ensure_columns t cs sch = Some sch"
  by (induction cs) (auto simp: ensure_column_def)

lemma ensure_column_other: "ensure_column t c sch = Some sch' \<Longrightarrow> x \<noteq> t \<Longrightarrow> map_of sch' x = map_of sch x"
proof -
  have "x \<noteq> t \<Longrightarrow> map_of (map (\<lambda>(t', cs). if t' = t then (t', cs @ [c]) else (t', cs)) s) x = map_of s x" for s
    by (induction s) auto
  then show "ensure_column t c sch = Some sch' \<Longrightarrow> x \<noteq> t \<Longrightarrow> map_of sch' x = map_of sch x"
    by (auto simp: ensure_column_def split: option.splits if_splits)
qed

lemma ensure_columns_other: "ensure_columns t cs sch = Some sch' \<Longrightarrow> x \<noteq> t \<Longrightarrow> map_of sch' x = map_of sch x"
  by (induction cs arbitrary: sch) (auto simp: bind_eq_Some_conv ensure_column_other)

theorem store_upgrade_idempotent:
  assumes "open_db sch = Some sch'"
  shows "open_db sch' = Some sch'"
    and "\<exists>more. map_of sch' ''trials'' = Some (unwrap_or trial_columns (map_of sch ''trials'') @ more)
       \<and> set added_columns \<subseteq> set (unwrap_or trial_columns (map_of sch ''trials'') @ more)"
proof -
  let ?s0 = "create_table ''revocations'' [''fingerprint'', ''licensee'', ''reason'', ''revoked_at''] (create_table ''trials'' trial_columns sch)"
  have t: "map_of ?s0 ''trials'' = Some (unwrap_or trial_columns (map_of sch ''trials''))" by (simp add: map_of_create_table)
  have run: "ensure_columns ''trials'' added_columns ?s0 = Some sch'" using assms by (simp add: open_db_def)
  from ensure_columns_Some [OF run t] show "\<exists>more. map_of sch' ''trials'' = Some (unwrap_or trial_columns (map_of sch ''trials'') @ more)
       \<and> set added_columns \<subseteq> set (unwrap_or trial_columns (map_of sch ''trials'') @ more)" .
  from ensure_columns_Some [OF run t] obtain cols where cols: "map_of sch' ''trials'' = Some cols" "set added_columns \<subseteq> set cols" by blast
  have "map_of sch' ''revocations'' \<noteq> None" using ensure_columns_other [OF run, of "''revocations''"] by (simp add: map_of_create_table)
  with cols have "create_table ''revocations'' [''fingerprint'', ''licensee'', ''reason'', ''revoked_at'']
      (create_table ''trials'' trial_columns sch') = sch'" by (auto simp: create_table_def)
  with ensure_columns_done [OF cols] show "open_db sch' = Some sch'" by (simp add: open_db_def)
qed

text \<open>A key that is too short stops the start.\<close>

lemma short_master_key_refused: "length v < 32 \<Longrightarrow> b64 v = None \<Longrightarrow> decode_master_key b64 sha256 v = Inl master_key_error"
  by (simp add: decode_master_key_def opt_filter_def)

lemma master_key_length:
  "from_env_value b64 sha256 v = Inr key \<Longrightarrow> (\<And>x. length (sha256 x) = 32) \<Longrightarrow> length key = 32"
  by (auto simp: from_env_value_def decode_master_key_def opt_filter_def split: option.splits if_splits)

lemma jwt_load_keys:
  "jwt_load private_ok public_ok generated fs cfg = Inr k \<Longrightarrow> private_ok (jk_private_pem k) \<and> public_ok (jk_public_pem k)
     \<and> jk_issuer k = cf_jwt_issuer cfg \<and> jk_audience k = cf_jwt_audience cfg"
  by (auto simp: jwt_load_def split: sum.splits prod.splits if_splits)

text \<open>
  The API serves only what it can protect: when its start succeeds, its configuration was complete, the license check passed and left the state
  the process serves with, every connection and listener it needs was there, tokens are signed and checked with keys that parse, issued for the configured issuer
  and audience, and secrets are encrypted with a key of 32 bytes.
\<close>

theorem api_starts_ready:
  assumes "api_main L env net io install_fp now sha256 at w = (Inr st, w')" and "\<And>x. length (sha256 x) = 32"
  shows "from_env env = Inr (st_config st) \<and> enforce_at_startup L env net io install_fp now w = (Inr (), w')
    \<and> lib_private_key L (jk_private_pem (st_jwt st)) \<and> lib_public_key L (jk_public_pem (st_jwt st))
    \<and> jk_issuer (st_jwt st) = cf_jwt_issuer (st_config st) \<and> jk_audience (st_jwt st) = cf_jwt_audience (st_config st)
    \<and> length (st_master_key st) = 32 \<and> (at_bucket_head at \<or> at_bucket_create at = None)
    \<and> list_all (\<lambda>e. e = None) [at_metrics at, at_database at, at_migrations at, at_redis_url at, at_metrics_addr at, at_metrics_port at,
        at_api_addr at, at_api_port at]"
proof -
  from assms(1) obtain cfg jwt key where c: "from_env env = Inr cfg" and e: "enforce_at_startup L env net io install_fp now w = (Inr (), w')"
    and j: "jwt_load (lib_private_key L) (lib_public_key L)
        (generate_ephemeral_keypair (at_rsa_key at) (at_private_pem at) (at_public_pem at)) (lw_files w') cfg = Inr jwt"
    and k: "from_env_value (lib_b64_decode L) sha256 (cf_master_key cfg) = Inr key" and b: "build_s3_client at = Inr ()"
    and st: "st_config st = cfg" "st_jwt st = jwt" "st_master_key st = key"
    and ok: "init_metrics (at_metrics at) None \<noteq> Inl ''install prometheus recorder''" "at_database at = None" "at_migrations at = None"
      "at_redis_url at = None" "at_metrics_addr at = None" "at_metrics_port at = None" "at_api_addr at = None" "at_api_port at = None"
    unfolding api_main_def attempt_def by (auto split: sum.splits prod.splits option.splits)
  have "at_metrics at = None" using ok(1) by (auto simp: init_metrics_def split: option.splits)
  moreover have "at_bucket_head at \<or> at_bucket_create at = None" using b by (auto simp: build_s3_client_def split: if_splits option.splits)
  ultimately show ?thesis using c e st ok(2-) jwt_load_keys [OF j] master_key_length [OF k assms(2)] by simp
qed

definition demo_attempts :: attempts where
  "demo_attempts = \<lparr>at_log_filter = (\<lambda>_. True), at_otlp = (\<lambda>_ _. None), at_metrics = None, at_database = None, at_migrations = None,
     at_redis_url = None, at_bucket_head = True, at_bucket_create = None, at_rsa_key = Some ''K'', at_private_pem = Some, at_public_pem = Some,
     at_metrics_addr = None, at_metrics_port = None, at_api_addr = None, at_api_port = None\<rparr>"

definition demo_boot_env :: env where
  "demo_boot_env = [''MASTER_KEY'' \<mapsto> replicate 32 (CHR ''m''), ''DATABASE_URL'' \<mapsto> ''postgres://d'']"

theorem api_starts_ready_witness:
  "\<exists>st w'. api_main demo_libs demo_boot_env (\<lambda>_ _ _. ConnectFailed []) None (Inr demo_fp) 0 (\<lambda>_. replicate 32 (CHR ''h'')) demo_attempts
       \<lparr>lw_proc = initial_proc, lw_files = (\<lambda>_. None)\<rparr> = (Inr st, w') \<and> length (st_master_key st) = 32"
proof -
  let ?w = "\<lparr>lw_proc = initial_proc, lw_files = (\<lambda>_. None)\<rparr>"
  have "trim [] = []" by code_simp
  then have "try_load_local demo_libs demo_boot_env (\<lambda>_. None) 0 demo_fp = Inr None" "env_flag demo_boot_env ''LICENSE_ENFORCE'' = False"
    by (simp_all add: try_load_local_def local_candidates_def load_public_key_def demo_boot_env_def opt_filter_def demo_libs_def env_flag_def)
  then obtain w1 where e: "enforce_at_startup demo_libs demo_boot_env (\<lambda>_ _ _. ConnectFailed []) None (Inr demo_fp) 0 ?w = (Inr (), w1)"
    by (simp add: enforce_at_startup_def Let_def)
  obtain cfg where c: "from_env demo_boot_env = Inr cfg" "cf_otlp_endpoint cfg = None" "cf_jwt_private_key_path cfg = None"
      "cf_master_key cfg = replicate 32 (CHR ''m'')"
    by (simp add: from_env_def demo_boot_env_def)
  obtain jwt where j: "jwt_load (lib_private_key demo_libs) (lib_public_key demo_libs) (generate_ephemeral_keypair (Some ''K'') Some Some) (lw_files w1) cfg = Inr jwt"
    by (simp add: jwt_load_def generate_ephemeral_keypair_def c demo_libs_def)
  obtain key where k: "from_env_value (lib_b64_decode demo_libs) (\<lambda>_. replicate 32 (CHR ''h'')) (cf_master_key cfg) = Inr key"
    by (simp add: from_env_value_def decode_master_key_def c opt_filter_def demo_libs_def)
  have "\<exists>st w'. api_main demo_libs demo_boot_env (\<lambda>_ _ _. ConnectFailed []) None (Inr demo_fp) 0 (\<lambda>_. replicate 32 (CHR ''h'')) demo_attempts ?w = (Inr st, w')"
    using j k by (simp add: api_main_def c e init_tracing_def init_metrics_def attempt_def build_s3_client_def demo_attempts_def Let_def)
  then obtain st w' where r: "api_main demo_libs demo_boot_env (\<lambda>_ _ _. ConnectFailed []) None (Inr demo_fp) 0 (\<lambda>_. replicate 32 (CHR ''h''))
      demo_attempts ?w = (Inr st, w')" by blast
  from api_starts_ready [OF r] r show ?thesis by auto
qed

section \<open>The license service as a network peer\<close>

text \<open>Every request to the service is a step of the service, or leaves it as it is.\<close>

lemma snd_license_reply: "snd (license_reply f rs) = snd rs"
  by (auto simp: license_reply_def split: prod.split sum.split)

lemma license_service_step:
  "snd (license_service L cfg now clk wild hr s) = s \<or> srv_step L cfg keep s (snd (license_service L cfg now clk wild hr s))"
  by (auto simp: license_service_def snd_license_reply split: sum.split intro: srv_step.intros)

text \<open>What a client of the service sees of a POST to it, when the service is at \<open>base\<close> and in state \<open>s\<close>.\<close>

definition service_post :: "libs \<Rightarrow> server_config \<Rightarrow> string \<Rightarrow> instant \<Rightarrow> instant \<Rightarrow> bool \<Rightarrow> server_state \<Rightarrow> post" where
  "service_post L cfg base now clk wild s url token body =
     (case strip_prefix base url of
        None \<Rightarrow> ConnectFailed ''unreachable''
      | Some path \<Rightarrow>
          (case fst (license_service L cfg now clk wild \<lparr>hr_method = POST, hr_path = path, hr_query = [],
                hr_authorization = Some (''Bearer '' @ token), hr_body = Json_body (lib_print L body)\<rparr> s) of
             Answered status (R_json j) \<Rightarrow> Reply status (lib_print L j)
           | Answered status (R_text text) \<Rightarrow> Reply status text
           | Answered status _ \<Rightarrow> Reply status []
           | Refused status \<Rightarrow> Reply status []
           | Aborted \<Rightarrow> SendFailed ''connection closed''))"

lemma email_normal: "validate_trial_email raw = Inr mail \<Longrightarrow> trim mail = mail \<and> mail \<noteq> [] \<and> validate_trial_email mail = Inr mail"
proof -
  assume v: "validate_trial_email raw = Inr mail"
  then have m: "mail = to_ascii_lowercase (trim raw)" "6 \<le> length mail" and ws: "\<not> list_ex is_whitespace (chars mail)"
    by (auto simp: validate_trial_email_def Let_def list_ex_iff split: if_splits option.splits prod.splits)
  then have "trim mail = mail" by (intro trim_id)
  moreover have "to_ascii_lowercase mail = to_ascii_lowercase (trim raw)" using m(1) by simp
  ultimately have "validate_trial_email mail = validate_trial_email raw" by (simp only: validate_trial_email_def)
  with v m(2) \<open>trim mail = mail\<close> show ?thesis by auto
qed

definition trial_body :: "string \<Rightarrow> string \<Rightarrow> json" where
  "trial_body fp mail = json_obj [(''fingerprint'', JStr fp), (''email'', JStr mail), (''product'', JStr PRODUCT_NAME),
     (''version'', JStr PRODUCT_VERSION)]"

lemma read_trial_body: "read_trial_start (trial_body fp mail) =
    Some \<lparr>ts_fingerprint = fp, ts_email = Some mail, ts_product = Some PRODUCT_NAME, ts_version = Some PRODUCT_VERSION\<rparr>"
proof -
  have "struct_form ks n (trial_body fp mail) = Some (trial_body fp mail)" for ks n
    by (simp add: struct_form_def trial_body_def json_obj_def)
  then show ?thesis
    by (simp add: read_trial_start_def) (simp add: trial_body_def req_def opt_def read_opt_def)
qed

lemma service_grants_trial:
  assumes "json_text_ok L" and "signatures_ok L (cfg_signing_key_pem cfg)" and "validate_config L cfg = Inr ()"
    and "normalize_fingerprint fp = Some fp" and "validate_trial_email raw = Inr mail"
    and "ss_trials s fp = None" and "rate_limit clk fp s = (Inr (), s1)"
    and "length (lib_print L (trial_body fp mail)) \<le> LICENSE_BODY_LIMIT"
  shows "\<exists>lf. sign L cfg (trial_doc now mail (now + days (cfg_trial_days cfg)) fp) = Inr lf
    \<and> service_post L cfg base now clk wild s (base @ ''/v1/trial/start'') (cfg_activation_token cfg) (trial_body fp mail)
      = Reply 200 (lib_print L (trial_response_json L
          \<lparr>tp_license_file = lf, tp_expires_at = now + days (cfg_trial_days cfg), tp_reused = False\<rparr>))"
proof -
  let ?doc = "trial_doc now mail (now + days (cfg_trial_days cfg)) fp"
  have "seats_ok ?doc" by (simp add: seats_ok_def trial_doc_def)
  then obtain lf where lf: "sign L cfg ?doc = Inr lf" using sign_total [OF assms(1,2)] by blast
  have "json_wf (trial_body fp mail)" unfolding trial_body_def by (rule json_wf_json_obj) simp
  then have parse: "lib_parse L (lib_print L (trial_body fp mail)) = Some (trial_body fp mail)"
    using assms(1) by (simp add: json_text_ok_def)
  have auth: "authorize cfg (Some (''Bearer '' @ cfg_activation_token cfg)) = Inr ()"
    by (simp add: authorize_def strip_prefix_def constant_time_eq_iff)
  have mail: "trial_email (Some mail) = Inr mail"
    using email_normal [OF assms(5)] by (simp add: trial_email_def opt_filter_def)
  have none: "ss_trials s1 fp = None" using frame_of_rate_limit [OF assms(7)] assms(6) by simp
  have "fst (trial_start L cfg now clk (Some (''Bearer '' @ cfg_activation_token cfg))
      \<lparr>ts_fingerprint = fp, ts_email = Some mail, ts_product = Some PRODUCT_NAME, ts_version = Some PRODUCT_VERSION\<rparr> s)
    = Inr \<lparr>tp_license_file = lf, tp_expires_at = now + days (cfg_trial_days cfg), tp_reused = False\<rparr>"
    using auth mail none lf assms(4,7) by (simp add: trial_start_def trial_record_def Let_def)
  then obtain s2 where "trial_start L cfg now clk (Some (''Bearer '' @ cfg_activation_token cfg))
      \<lparr>ts_fingerprint = fp, ts_email = Some mail, ts_product = Some PRODUCT_NAME, ts_version = Some PRODUCT_VERSION\<rparr> s
    = (Inr \<lparr>tp_license_file = lf, tp_expires_at = now + days (cfg_trial_days cfg), tp_reused = False\<rparr>, s2)"
    by (metis prod.collapse)
  then show ?thesis
    using lf parse assms(8)
    by (auto simp: service_post_def strip_prefix_def license_service_def license_json_def read_trial_body license_reply_def ok_json_def)
qed

text \<open>A process that is answered with a signed trial document for its fingerprint adopts it, and its gate opens.\<close>

lemma signed_trial_opens_gate:
  assumes fp_def: "fp = process_fingerprint (lw_proc w)" and doc_def: "doc = trial_doc now licensee (tp_expires_at resp) fp"
    and "json_text_ok L" and "timestamps_ok L" and "signatures_ok L (cfg_signing_key_pem cfg)"
    and "sign L cfg doc = Inr (tp_license_file resp)"
    and "t < now + days 1" and "t < tp_expires_at resp"
    and "fp \<noteq> ''unavailable''" and "load_public_key L env (lw_files w) = Inr (lib_public_of L (cfg_signing_key_pem cfg))"
    and "validate_trial_email email = Inr mail" and "server_from_env env = Some server"
    and "net (sv_base_url server @ ''/v1/trial/start'') (sv_token server) (trial_body fp mail)
      = Reply 200 (lib_print L (trial_response_json L resp))"
  shows "\<exists>w'. start_trial L env net None t email w = (Inr doc, w') \<and> ls_doc (lp_state (lw_proc w')) = Some doc
     \<and> require_licensed (lw_proc w') t = Inr ()"
proof -
  have seats: "seats_ok doc" by (simp add: seats_ok_def doc_def trial_doc_def)
  note signed = sign_presentable [OF assms(3-5) seats assms(6)]
  have "json_wf (trial_response_json L resp)"
    unfolding trial_response_json_def by (rule json_wf_json_obj) (simp add: signed(1))
  then have parse: "lib_parse L (lib_print L (trial_response_json L resp)) = Some (trial_response_json L resp)"
    using assms(3) by (simp add: json_text_ok_def)
  have unwrap: "unwrap_license_response L (lib_print L (trial_response_json L resp)) = lib_print L (tp_license_file resp)"
    by (simp add: unwrap_license_response_def parse) (simp add: trial_response_json_def)
  have ver: "verify_license L t (lib_print L (tp_license_file resp)) (lib_public_of L (cfg_signing_key_pem cfg)) = Inr doc"
    using signed(3) [of t] assms(8) by (simp add: doc_def trial_doc_def)
  have doc: "ld_kind doc = Trial" "ld_fingerprint doc = Some fp" by (simp_all add: doc_def trial_doc_def)
  obtain w' where run: "start_trial L env net None t email w = (Inr doc, w')"
    and st: "ls_doc (lp_state (lw_proc w')) = Some doc" "ls_revoked_reason (lp_state (lw_proc w')) = None"
      "process_fingerprint (lw_proc w') = fp"
    using assms(9-13) ver unwrap doc
    by (auto simp: start_trial_def activate_trial_phone_home_def persist_license_def activate_def trial_body_def
        process_fingerprint_def is_success_def Let_def fp_def)
  have "validity doc fp t = Inr ()"
    using assms(7,8) by (auto simp: validity_iff bound_here_def deadline_def grace_until_def doc_def trial_doc_def
        HEARTBEAT_GRACE_def hours_def days_def secs_def nanos_per_sec_def)
  then have "require_licensed (lw_proc w') t = Inr ()"
    using st by (simp add: require_licensed_def problem_for_None)
  with run st show ?thesis by blast
qed

end
