(* ===== verification/Event_Stream.thy ===== *)
theory Event_Stream
  imports Jobs Sources_Facts "HOL-Library.Sublist"
begin

text \<open>
  The live progress of a job (\<^verbatim>\<open>stream_updates\<close> and \<^verbatim>\<open>publish_progress\<close> of \<^verbatim>\<open>src/apps/api/src/routes/jobs.rs\<close>). Once a
  request for the stream is admitted, three parties go on side by side: a spawned task that subscribes to the job's channel in Redis and copies
  every message into a bounded broadcast channel, the response that is polled for the next server-sent event, and the client, which may
  leave at any time. Each of their steps is a definition on the state \<open>feed\<close>; \<open>feed_step\<close> lets them happen in any order.

  The broadcast channel, the text form of an event and the test for UTF-8 are library code: they are the arguments of
  \<open>stream_libs\<close>. What the code relies on is \<open>broadcast_ok\<close>, the documented behaviour of the broadcast channel:
  a sender is never blocked, the oldest value is overwritten when the channel is full, a receiver that missed values is told their number
  once and goes on with the oldest value kept, sending without a receiver fails, and a receiver sees the end only when everything kept was read.
\<close>

section \<open>Publishing\<close>

text \<open>\<open>connect\<close> and \<open>publish\<close> are the outcomes of the two calls to Redis; the message is what reaches the channel.\<close>

definition publish_progress ::
    "libs \<Rightarrow> string option \<Rightarrow> string option \<Rightarrow> int \<Rightarrow> json \<Rightarrow> api_error + string \<times> string" where
  "publish_progress L connect publish jid payload =
     (case connect of
        Some e \<Rightarrow> Inl (External (''redis: '' @ e))
      | None \<Rightarrow>
          (case publish of
             Some e \<Rightarrow> Inl (External (''redis publish: '' @ e))
           | None \<Rightarrow> Inr (progress_channel jid, lib_print L payload)))"

section \<open>The stream\<close>

datatype received = Got string | Lagged nat | Nothing_yet | Closed

record 'c stream_libs =
  sl_channel :: "nat \<Rightarrow> 'c"
  sl_send :: "string \<Rightarrow> 'c \<Rightarrow> 'c option"
  sl_recv :: "'c \<Rightarrow> received \<times> 'c"
  sl_drop_tx :: "'c \<Rightarrow> 'c"
  sl_drop_rx :: "'c \<Rightarrow> 'c"
  sl_event :: "string \<Rightarrow> string option"
  sl_is_utf8 :: "string \<Rightarrow> bool"

text \<open>The task connects, subscribes, listens and ends; an event is data or the comment that keeps the connection alive.\<close>

datatype task = Connecting | Subscribing | Listening | Ended

datatype item = Data string | Keep_alive

record 'c feed =
  fd_task :: task
  fd_chan :: 'c
  fd_open :: bool
  fd_items :: "item list"
  fd_last :: instant

definition PROGRESS_BUFFER :: nat where "PROGRESS_BUFFER = 256"

definition keep_alive_interval :: int where "keep_alive_interval = secs 15"

text \<open>\<open>fd_open\<close>: the response is still being polled. \<open>fd_last\<close> is when the last item left.\<close>

definition open_feed :: "'c stream_libs \<Rightarrow> instant \<Rightarrow> 'c feed" where
  "open_feed S now = \<lparr>fd_task = Connecting, fd_chan = sl_channel S PROGRESS_BUFFER, fd_open = True, fd_items = [], fd_last = now\<rparr>"

text \<open>The task returns: its end of the channel is dropped with it.\<close>

definition end_task :: "'c stream_libs \<Rightarrow> 'c feed \<Rightarrow> 'c feed" where
  "end_task S f = f\<lparr>fd_task := Ended, fd_chan := sl_drop_tx S (fd_chan f)\<rparr>"

definition on_connected :: "'c stream_libs \<Rightarrow> string + unit \<Rightarrow> 'c feed \<Rightarrow> 'c feed" where
  "on_connected S r f = (case r of Inl _ \<Rightarrow> end_task S f | Inr _ \<Rightarrow> f\<lparr>fd_task := Subscribing\<rparr>)"

definition on_subscribed :: "'c stream_libs \<Rightarrow> string + unit \<Rightarrow> 'c feed \<Rightarrow> 'c feed" where
  "on_subscribed S r f = (case r of Inl _ \<Rightarrow> end_task S f | Inr _ \<Rightarrow> f\<lparr>fd_task := Listening\<rparr>)"

definition on_message :: "'c stream_libs \<Rightarrow> string \<Rightarrow> 'c feed \<Rightarrow> 'c feed" where
  "on_message S payload f =
     (if sl_is_utf8 S payload
      then (case sl_send S payload (fd_chan f) of
              None \<Rightarrow> end_task S f
            | Some ch \<Rightarrow> f\<lparr>fd_chan := ch\<rparr>)
      else f)"

text \<open>The response ends, because its stream did, because making an event panicked, or because the client left: the receiver is dropped.\<close>

definition close_stream :: "'c stream_libs \<Rightarrow> 'c feed \<Rightarrow> 'c feed" where
  "close_stream S f = f\<lparr>fd_open := False, fd_chan := sl_drop_rx S (fd_chan f)\<rparr>"

text \<open>
  One poll of the response. A report of missed values is filtered out, and the stream is polled again at once (here: by the next poll).
  When nothing has come for the interval, the comment is sent.
\<close>

definition poll_stream :: "'c stream_libs \<Rightarrow> instant \<Rightarrow> 'c feed \<Rightarrow> 'c feed" where
  "poll_stream S now f =
     (case sl_recv S (fd_chan f) of
        (Got payload, ch) \<Rightarrow>
          (case sl_event S payload of
             None \<Rightarrow> close_stream S (f\<lparr>fd_chan := ch\<rparr>)
           | Some ev \<Rightarrow> f\<lparr>fd_chan := ch, fd_items := fd_items f @ [Data ev], fd_last := now\<rparr>)
      | (Lagged _, ch) \<Rightarrow> f\<lparr>fd_chan := ch\<rparr>
      | (Nothing_yet, ch) \<Rightarrow>
          if fd_last f + keep_alive_interval \<le> now
          then f\<lparr>fd_chan := ch, fd_items := fd_items f @ [Keep_alive], fd_last := now\<rparr>
          else f\<lparr>fd_chan := ch\<rparr>
      | (Closed, ch) \<Rightarrow> close_stream S (f\<lparr>fd_chan := ch\<rparr>))"

text \<open>
  What can happen. Redis hands a message to those who are subscribed to its channel at that moment, in the order of
  publication; whatever is published before or elsewhere does not reach this task.
\<close>

datatype happening =
  Connect_result "string + unit" | Subscribe_result "string + unit" | Published string string | Pubsub_ended
| Poll instant | Client_left

inductive feed_step :: "'c stream_libs \<Rightarrow> int \<Rightarrow> happening \<Rightarrow> 'c feed \<Rightarrow> 'c feed \<Rightarrow> bool" for S jid where
  connected: "fd_task f = Connecting \<Longrightarrow> feed_step S jid (Connect_result r) f (on_connected S r f)"
| subscribed: "fd_task f = Subscribing \<Longrightarrow> feed_step S jid (Subscribe_result r) f (on_subscribed S r f)"
| message: "fd_task f = Listening \<Longrightarrow> ch = progress_channel jid \<Longrightarrow> feed_step S jid (Published ch p) f (on_message S p f)"
| elsewhere: "fd_task f \<noteq> Listening \<or> ch \<noteq> progress_channel jid \<Longrightarrow> feed_step S jid (Published ch p) f f"
| pubsub_ended: "fd_task f = Listening \<Longrightarrow> feed_step S jid Pubsub_ended f (end_task S f)"
| polled: "fd_open f \<Longrightarrow> feed_step S jid (Poll now) f (poll_stream S now f)"
| left: "fd_open f \<Longrightarrow> feed_step S jid Client_left f (close_stream S f)"

inductive_cases published_step: "feed_step S jid (Published ch p) f f'"
inductive_cases poll_step: "feed_step S jid (Poll now) f f'"

text \<open>A run of the feed, with what happened and the state in which it did.\<close>

inductive feed_run :: "'c stream_libs \<Rightarrow> int \<Rightarrow> instant \<Rightarrow> (happening \<times> 'c feed) list \<Rightarrow> 'c feed \<Rightarrow> bool" for S jid t0 where
  start: "feed_run S jid t0 [] (open_feed S t0)"
| step: "feed_run S jid t0 tr f \<Longrightarrow> feed_step S jid a f f' \<Longrightarrow> feed_run S jid t0 (tr @ [(a, f)]) f'"

section \<open>The broadcast channel\<close>

text \<open>How a channel with one receiver looks: the values kept for it, how many it missed since it was last told, and who is still there.\<close>

record chan_view =
  vw_kept :: "string list"
  vw_missed :: nat
  vw_tx :: bool
  vw_rx :: bool

definition broadcast_ok :: "'c stream_libs \<Rightarrow> ('c \<Rightarrow> chan_view) \<Rightarrow> bool" where
  "broadcast_ok S view \<longleftrightarrow>
     view (sl_channel S PROGRESS_BUFFER) = \<lparr>vw_kept = [], vw_missed = 0, vw_tx = True, vw_rx = True\<rparr>
   \<and> (\<forall>x c. case sl_send S x c of
        None \<Rightarrow> \<not> vw_rx (view c)
      | Some c' \<Rightarrow> vw_rx (view c) \<and> view c' =
          (if length (vw_kept (view c)) < PROGRESS_BUFFER then (view c)\<lparr>vw_kept := vw_kept (view c) @ [x]\<rparr>
           else (view c)\<lparr>vw_kept := tl (vw_kept (view c)) @ [x], vw_missed := vw_missed (view c) + 1\<rparr>))
   \<and> (\<forall>c. case sl_recv S c of (r, c') \<Rightarrow>
        if 0 < vw_missed (view c) then r = Lagged (vw_missed (view c)) \<and> view c' = (view c)\<lparr>vw_missed := 0\<rparr>
        else (case vw_kept (view c) of
            x # xs \<Rightarrow> r = Got x \<and> view c' = (view c)\<lparr>vw_kept := xs\<rparr>
          | [] \<Rightarrow> r = (if vw_tx (view c) then Nothing_yet else Closed) \<and> view c' = view c))
   \<and> (\<forall>c. view (sl_drop_tx S c) = (view c)\<lparr>vw_tx := False\<rparr>)
   \<and> (\<forall>c. view (sl_drop_rx S c) = (view c)\<lparr>vw_rx := False\<rparr>)"

end
