(* ===== verification/Event_Stream_Facts.thy ===== *)
theory Event_Stream_Facts
  imports Event_Stream Examples
begin

text \<open>
  What a client of a job's progress stream gets. \<open>feed_ok\<close> is the invariant of the feed: what was delivered, followed by what is kept for
  the client, is a subsequence of the messages the task saw. A client that never falls a whole buffer behind misses nothing, pending
  messages are delivered by polling, and the progress of another job never shows up.
\<close>

section \<open>What was published, seen and delivered\<close>

fun publications :: "(happening \<times> 'f) list \<Rightarrow> (string \<times> string) list" where
  "publications [] = []"
| "publications ((Published ch p, _) # tr) = (ch, p) # publications tr"
| "publications (_ # tr) = publications tr"

text \<open>The messages that reached the listening task and are text.\<close>

fun seen :: "'c stream_libs \<Rightarrow> int \<Rightarrow> (happening \<times> 'c feed) list \<Rightarrow> string list" where
  "seen S jid [] = []"
| "seen S jid ((Published ch p, f) # tr) =
     (if fd_task f = Listening \<and> ch = progress_channel jid \<and> sl_is_utf8 S p then [p] else []) @ seen S jid tr"
| "seen S jid (_ # tr) = seen S jid tr"

fun data_of :: "item list \<Rightarrow> string list" where
  "data_of [] = []"
| "data_of (Data e # xs) = e # data_of xs"
| "data_of (Keep_alive # xs) = data_of xs"

definition texts :: "'c feed \<Rightarrow> string list" where
  "texts f = data_of (fd_items f)"

lemma data_of_append [simp]: "data_of (xs @ ys) = data_of xs @ data_of ys"
  by (induction xs rule: data_of.induct) simp_all

lemma seen_append [simp]: "seen S jid (xs @ ys) = seen S jid xs @ seen S jid ys"
  by (induction S jid xs rule: seen.induct) simp_all

lemma publications_append [simp]: "publications (xs @ ys) = publications xs @ publications ys"
  by (induction xs rule: publications.induct) simp_all

lemma seen_published: "subseq (seen S jid tr) (map snd (filter (\<lambda>(ch, p). ch = progress_channel jid) (publications tr)))"
  by (induction S jid tr rule: seen.induct) auto

lemma progress_channel_inj: "progress_channel a = progress_channel b \<Longrightarrow> a = b"
  using show_int_inj
  by (auto simp: progress_channel_def)

section \<open>Steps of the channel\<close>

lemma view_laws:
  assumes "broadcast_ok S view"
  shows start_view: "view (sl_channel S PROGRESS_BUFFER) = \<lparr>vw_kept = [], vw_missed = 0, vw_tx = True, vw_rx = True\<rparr>"
    and drop_tx_view: "view (sl_drop_tx S c) = (view c)\<lparr>vw_tx := False\<rparr>"
    and drop_rx_view: "view (sl_drop_rx S c) = (view c)\<lparr>vw_rx := False\<rparr>"
  using assms unfolding broadcast_ok_def by blast+

lemma send_laws:
  assumes "broadcast_ok S view"
  shows send_None: "sl_send S x c = None \<longleftrightarrow> \<not> vw_rx (view c)"
    and send_Some: "sl_send S x c = Some c' \<Longrightarrow> view c' =
          (if length (vw_kept (view c)) < PROGRESS_BUFFER then (view c)\<lparr>vw_kept := vw_kept (view c) @ [x]\<rparr>
           else (view c)\<lparr>vw_kept := tl (vw_kept (view c)) @ [x], vw_missed := vw_missed (view c) + 1\<rparr>)"
proof -
  have law: "case sl_send S x c of
        None \<Rightarrow> \<not> vw_rx (view c)
      | Some c' \<Rightarrow> vw_rx (view c) \<and> view c' =
          (if length (vw_kept (view c)) < PROGRESS_BUFFER then (view c)\<lparr>vw_kept := vw_kept (view c) @ [x]\<rparr>
           else (view c)\<lparr>vw_kept := tl (vw_kept (view c)) @ [x], vw_missed := vw_missed (view c) + 1\<rparr>)"
    using assms unfolding broadcast_ok_def by blast
  show "sl_send S x c = None \<longleftrightarrow> \<not> vw_rx (view c)" using law by (cases "sl_send S x c") simp_all
  show "sl_send S x c = Some c' \<Longrightarrow> view c' =
          (if length (vw_kept (view c)) < PROGRESS_BUFFER then (view c)\<lparr>vw_kept := vw_kept (view c) @ [x]\<rparr>
           else (view c)\<lparr>vw_kept := tl (vw_kept (view c)) @ [x], vw_missed := vw_missed (view c) + 1\<rparr>)" using law by simp
qed

text \<open>The four ways a receive can go.\<close>

lemma recv_cases:
  assumes "broadcast_ok S view"
  obtains (missed) n c' where "sl_recv S c = (Lagged n, c')" "0 < n" "vw_missed (view c) = n" "view c' = (view c)\<lparr>vw_missed := 0\<rparr>"
  | (got) x xs c' where "sl_recv S c = (Got x, c')" "vw_missed (view c) = 0" "vw_kept (view c) = x # xs" "view c' = (view c)\<lparr>vw_kept := xs\<rparr>"
  | (idle) c' where "sl_recv S c = (Nothing_yet, c')" "vw_missed (view c) = 0" "vw_kept (view c) = []" "vw_tx (view c)" "view c' = view c"
  | (closed) c' where "sl_recv S c = (Closed, c')" "vw_missed (view c) = 0" "vw_kept (view c) = []" "\<not> vw_tx (view c)" "view c' = view c"
proof -
  obtain r c' where r: "sl_recv S c = (r, c')" by fastforce
  have law: "case sl_recv S c of (r, c') \<Rightarrow>
        if 0 < vw_missed (view c) then r = Lagged (vw_missed (view c)) \<and> view c' = (view c)\<lparr>vw_missed := 0\<rparr>
        else (case vw_kept (view c) of
            x # xs \<Rightarrow> r = Got x \<and> view c' = (view c)\<lparr>vw_kept := xs\<rparr>
          | [] \<Rightarrow> r = (if vw_tx (view c) then Nothing_yet else Closed) \<and> view c' = view c)"
    using assms unfolding broadcast_ok_def by (elim conjE) (rule spec [where x = c], assumption)
  show thesis
  proof (cases "0 < vw_missed (view c)")
    case True
    then show thesis using law r missed by simp
  next
    case False
    then show thesis using law r got idle closed by (cases "vw_kept (view c)"; cases "vw_tx (view c)") simp_all
  qed
qed

section \<open>The invariant\<close>

abbreviation kept_by :: "('c \<Rightarrow> chan_view) \<Rightarrow> 'c feed \<Rightarrow> string list" where
  "kept_by view f \<equiv> vw_kept (view (fd_chan f))"

text \<open>
  What was delivered and what is kept come from what the task saw, in its order and without repetition; what is kept is the latest of it
  as long as the client listens.
\<close>

definition feed_ok :: "'c stream_libs \<Rightarrow> ('c \<Rightarrow> chan_view) \<Rightarrow> string list \<Rightarrow> 'c feed \<Rightarrow> bool" where
  "feed_ok S view saw f \<longleftrightarrow>
     (\<exists>got. map Some (texts f) = map (sl_event S) got \<and> subseq (got @ kept_by view f) saw)
   \<and> (fd_open f \<longrightarrow> suffix (kept_by view f) saw)
   \<and> length (kept_by view f) \<le> PROGRESS_BUFFER
   \<and> (vw_rx (view (fd_chan f)) \<longleftrightarrow> fd_open f) \<and> (vw_tx (view (fd_chan f)) \<longleftrightarrow> fd_task f \<noteq> Ended)"

lemma feed_ok_start: "broadcast_ok S view \<Longrightarrow> feed_ok S view [] (open_feed S t)"
  by (simp add: feed_ok_def open_feed_def start_view texts_def)

lemma feed_ok_task:
  assumes "broadcast_ok S view" and "feed_ok S view saw f" and "fd_task f \<noteq> Ended"
  shows "feed_ok S view saw (end_task S f)" "feed_ok S view saw (on_connected S r f)" "feed_ok S view saw (on_subscribed S r f)"
  using assms by (auto simp: feed_ok_def end_task_def on_connected_def on_subscribed_def drop_tx_view texts_def split: sum.split)

lemma feed_ok_close: "broadcast_ok S view \<Longrightarrow> feed_ok S view saw f \<Longrightarrow> feed_ok S view saw (close_stream S f)"
  by (auto simp: feed_ok_def close_stream_def drop_rx_view texts_def)

lemma subseq_push: "subseq (got @ kept) saw \<Longrightarrow> subseq (got @ kept @ [p]) (saw @ [p])"
  by (metis append.assoc subseq_append)

lemma subseq_skip: "subseq (got @ x # kept) saw \<Longrightarrow> subseq (got @ kept) saw"
  by (rule subseq_order.trans [of _ "got @ x # kept"]) (simp_all add: subseq_append' list_emb_Cons)

lemma subseq_shift: "subseq (got @ kept) saw \<Longrightarrow> subseq (got @ tl kept @ [p]) (saw @ [p])"
  by (rule subseq_push) (cases kept; auto intro: subseq_skip)

lemma suffix_shift: "suffix kept saw \<Longrightarrow> suffix (tl kept) saw"
  by (metis suffix_tl suffix_order.trans)

lemma buffer_pos: "Suc (PROGRESS_BUFFER - Suc 0) = PROGRESS_BUFFER"
  by (simp add: PROGRESS_BUFFER_def)

lemma feed_ok_message:
  assumes "broadcast_ok S view" and "feed_ok S view saw f" and "fd_task f = Listening"
  shows "feed_ok S view (saw @ (if sl_is_utf8 S p then [p] else [])) (on_message S p f)"
proof (cases "sl_is_utf8 S p")
  case False
  then show ?thesis using assms(2) by (simp add: on_message_def)
next
  case True
  show ?thesis
  proof (cases "sl_send S p (fd_chan f)")
    case None
    then have "\<not> fd_open f" using send_None [OF assms(1)] assms(2) by (auto simp: feed_ok_def)
    then show ?thesis
      using True None assms by (auto simp: feed_ok_def on_message_def end_task_def drop_tx_view texts_def intro: subseq_rev_drop_many)
  next
    case (Some ch)
    then have "vw_rx (view (fd_chan f))" using send_None [OF assms(1), of p "fd_chan f"] by simp
    with Some True assms(2,3) show ?thesis
      using send_Some [OF assms(1) Some]
      by (auto simp: feed_ok_def on_message_def texts_def buffer_pos intro: subseq_push subseq_shift suffix_shift)
  qed
qed

lemma feed_ok_poll:
  assumes "broadcast_ok S view" and "feed_ok S view saw f"
  shows "feed_ok S view saw (poll_stream S now f)"
  using assms(1)
proof (cases rule: recv_cases [where c = "fd_chan f"])
  case (got x xs c')
  from assms(2) got(3) obtain g where g: "map Some (texts f) = map (sl_event S) g" "subseq (g @ x # xs) saw" by (auto simp: feed_ok_def)
  show ?thesis
  proof (cases "sl_event S x")
    case None
    have "subseq (g @ xs) saw" using g(2) by (rule subseq_skip)
    with g(1) have "feed_ok S view saw (f\<lparr>fd_chan := c'\<rparr>)"
      using assms(2) got by (auto simp: feed_ok_def texts_def dest: suffix_ConsD)
    then show ?thesis using got(1) None feed_ok_close [OF assms(1)] by (simp add: poll_stream_def)
  next
    case (Some e)
    have "\<exists>h. map Some (texts f @ [e]) = map (sl_event S) h \<and> subseq (h @ xs) saw"
      using g Some by (intro exI [of _ "g @ [x]"]) simp
    moreover have "texts (poll_stream S now f) = texts f @ [e]" using got(1) Some by (simp add: poll_stream_def texts_def)
    ultimately show ?thesis
      using assms(2) got Some unfolding feed_ok_def by (simp add: poll_stream_def) (blast dest: suffix_ConsD)
  qed
qed (use assms(2) feed_ok_close [OF assms(1)] in \<open>auto simp: poll_stream_def feed_ok_def texts_def close_stream_def drop_rx_view [OF assms(1)]\<close>)

lemma feed_ok_step:
  assumes "feed_step S jid a f f'" and "broadcast_ok S view" and "feed_ok S view (seen S jid tr) f"
  shows "feed_ok S view (seen S jid (tr @ [(a, f)])) f'"
  using assms(1,3)
proof cases
  case (message ch p)
  then show ?thesis using feed_ok_message [OF assms(2,3), of p] by auto
qed (auto intro: feed_ok_task [OF assms(2)] feed_ok_poll [OF assms(2)] feed_ok_close [OF assms(2)])

theorem feed_invariant:
  assumes "feed_run S jid t0 tr f" and "broadcast_ok S view"
  shows "feed_ok S view (seen S jid tr) f"
  using assms(1)
proof induction
  case start
  then show ?case by (simp add: feed_ok_start [OF assms(2)])
next
  case (step tr f a f')
  then show ?case using feed_ok_step [OF _ assms(2)] by blast
qed

section \<open>A broadcast channel and a run\<close>

text \<open>For the witnesses: the channel as its own view, an event as its payload, and a run in which two jobs make progress.\<close>

definition demo_stream :: "chan_view stream_libs" where
  "demo_stream = \<lparr>
     sl_channel = (\<lambda>_. \<lparr>vw_kept = [], vw_missed = 0, vw_tx = True, vw_rx = True\<rparr>),
     sl_send = (\<lambda>x c. if \<not> vw_rx c then None
       else Some (if length (vw_kept c) < PROGRESS_BUFFER then c\<lparr>vw_kept := vw_kept c @ [x]\<rparr>
         else c\<lparr>vw_kept := tl (vw_kept c) @ [x], vw_missed := vw_missed c + 1\<rparr>)),
     sl_recv = (\<lambda>c. if 0 < vw_missed c then (Lagged (vw_missed c), c\<lparr>vw_missed := 0\<rparr>)
       else (case vw_kept c of
           x # xs \<Rightarrow> (Got x, c\<lparr>vw_kept := xs\<rparr>)
         | [] \<Rightarrow> (if vw_tx c then Nothing_yet else Closed, c))),
     sl_drop_tx = (\<lambda>c. c\<lparr>vw_tx := False\<rparr>), sl_drop_rx = (\<lambda>c. c\<lparr>vw_rx := False\<rparr>),
     sl_event = Some, sl_is_utf8 = (\<lambda>_. True)\<rparr>"

lemma demo_stream_ok: "broadcast_ok demo_stream (\<lambda>c. c)"
  by (auto simp: broadcast_ok_def demo_stream_def split: list.split)

definition demo_feed :: "task \<Rightarrow> string list \<Rightarrow> item list \<Rightarrow> chan_view feed" where
  "demo_feed t kept items = \<lparr>fd_task = t, fd_chan = \<lparr>vw_kept = kept, vw_missed = 0, vw_tx = True, vw_rx = True\<rparr>,
     fd_open = True, fd_items = items, fd_last = 0\<rparr>"

definition demo_trace :: "(happening \<times> chan_view feed) list" where
  "demo_trace = [(Connect_result (Inr ()), demo_feed Connecting [] []), (Subscribe_result (Inr ()), demo_feed Subscribing [] []),
     (Published (progress_channel 8) (lib_print demo_json_libs JNull), demo_feed Listening [] []),
     (Published (progress_channel 9) (lib_print demo_json_libs JNull), demo_feed Listening [lib_print demo_json_libs JNull] []),
     (Poll 0, demo_feed Listening [lib_print demo_json_libs JNull] [])]"

definition demo_delivered :: "chan_view feed" where
  "demo_delivered = demo_feed Listening [] [Data (lib_print demo_json_libs JNull)]"

lemma feed_run_last:
  "feed_run S jid t0 tr f \<Longrightarrow> feed_step S jid a f f' \<Longrightarrow> f' = g \<Longrightarrow> tr' = tr @ [(a, f)] \<Longrightarrow> feed_run S jid t0 tr' g"
  by (simp add: feed_run.step)

lemma demo_feed_run: "feed_run demo_stream 8 0 demo_trace demo_delivered"
proof -
  let ?m = "lib_print demo_json_libs JNull"
  have nine: "progress_channel 9 \<noteq> progress_channel 8" using progress_channel_inj [of 9 8] by auto
  have "feed_run demo_stream 8 0 [] (demo_feed Connecting [] [])"
    using feed_run.start [of demo_stream 8 0] by (simp add: open_feed_def demo_feed_def demo_stream_def)
  from feed_run_last [OF this connected [where r = "Inr ()"] _ refl, of "demo_feed Subscribing [] []"]
  have "feed_run demo_stream 8 0 (take 1 demo_trace) (demo_feed Subscribing [] [])"
    by (simp add: demo_feed_def on_connected_def demo_trace_def)
  from feed_run_last [OF this subscribed [where r = "Inr ()"] _ refl, of "demo_feed Listening [] []"]
  have "feed_run demo_stream 8 0 (take 2 demo_trace) (demo_feed Listening [] [])"
    by (simp add: demo_feed_def on_subscribed_def demo_trace_def)
  from feed_run_last [OF this message [where p = ?m, OF _ refl] _ refl, of "demo_feed Listening [?m] []"]
  have "feed_run demo_stream 8 0 (take 3 demo_trace) (demo_feed Listening [?m] [])"
    by (simp add: demo_feed_def on_message_def demo_trace_def demo_stream_def PROGRESS_BUFFER_def)
  from feed_run_last [OF this elsewhere [where p = ?m and ch = "progress_channel 9"] refl refl]
  have "feed_run demo_stream 8 0 (take 4 demo_trace) (demo_feed Listening [?m] [])"
    using nine by (simp add: demo_trace_def)
  from feed_run_last [OF this polled [where now = 0] _ refl, of demo_delivered]
  show ?thesis
    by (simp add: demo_feed_def poll_stream_def demo_trace_def demo_stream_def demo_delivered_def)
qed

lemma demo_texts: "texts demo_delivered = [lib_print demo_json_libs JNull]"
  by (simp add: texts_def demo_delivered_def demo_feed_def)

lemma demo_publications:
  "publications demo_trace = map (\<lambda>(j, v). (progress_channel j, lib_print demo_json_libs v)) [(8, JNull), (9, JNull)]"
  by (simp add: demo_trace_def)

section \<open>Order and confidentiality\<close>

text \<open>
  C19: The progress of a job reaches only those who may see it, and in order: a stream is only opened for a job of the caller's organization,
  and whatever happens afterwards (publications for any job, polls, a lost connection, a slow or vanished client), the events the client has
  received are a subsequence, in the order of publication, of what was published for this job.
\<close>

theorem progress_of_own_job_in_order:
  assumes "stream_updates rq c jid w = (Inr ch, w')" and "broadcast_ok S view" and "feed_run S jid t0 tr f"
    and "publications tr = map (\<lambda>(j, v). (progress_channel j, lib_print L v)) calls"
  shows "job_by_id (cl_org c) jid (rq_other rq (w_steps w) (w_db w)) \<noteq> None \<and> ch = progress_channel jid
    \<and> subseq (map Some (texts f)) (map (sl_event S \<circ> lib_print L \<circ> snd) (filter (\<lambda>(j, v). j = jid) calls))"
proof -
  have "job_by_id (cl_org c) jid (rq_other rq (w_steps w) (w_db w)) \<noteq> None" "ch = progress_channel jid"
    using assms(1) by (auto simp: stream_updates_def require_owned_def act_simps throw_def split: if_splits)
  moreover obtain got where got: "map Some (texts f) = map (sl_event S) got" "subseq (got @ kept_by view f) (seen S jid tr)"
    using feed_invariant [OF assms(3,2)] by (auto simp: feed_ok_def)
  have own: "map snd (filter (\<lambda>(ch, p). ch = progress_channel jid) (map (\<lambda>(j, v). (progress_channel j, lib_print L v)) cs))
      = map (lib_print L \<circ> snd) (filter (\<lambda>(j, v). j = jid) cs)" for cs
    by (induction cs) (auto dest: progress_channel_inj)
  have "subseq got (map (lib_print L \<circ> snd) (filter (\<lambda>(j, v). j = jid) calls))"
    using got(2) seen_published [of S jid tr] unfolding assms(4) own
    by (meson prefixI prefix_imp_subseq subseq_order.trans)
  from subseq_map [OF this, of "sl_event S"]
  have "subseq (map Some (texts f)) (map (sl_event S \<circ> lib_print L \<circ> snd) (filter (\<lambda>(j, v). j = jid) calls))"
    unfolding got(1) by (simp add: comp_assoc)
  ultimately show ?thesis by blast
qed

theorem progress_of_own_job_in_order_witness:
  "\<exists>w'. stream_updates demo_rq demo_claims 8 demo_site_world = (Inr (progress_channel 8), w')
     \<and> feed_run demo_stream 8 0 demo_trace demo_delivered \<and> length (publications demo_trace) = 2
     \<and> subseq (map Some (texts demo_delivered)) [Some (lib_print demo_json_libs JNull)] \<and> texts demo_delivered \<noteq> []"
proof -
  have "job_by_id (cl_org demo_claims) 8 (w_db demo_site_world) \<noteq> None"
    by (simp add: job_by_id_def demo_claims_def demo_site_world_def demo_site_def demo_job_def)
  then obtain w' where r: "stream_updates demo_rq demo_claims 8 demo_site_world = (Inr (progress_channel 8), w')"
    by (simp add: stream_updates_def require_owned_def bindE_def query_up demo_rq_def ok_def)
  from progress_of_own_job_in_order [OF r demo_stream_ok demo_feed_run demo_publications] r demo_feed_run demo_publications
  show ?thesis by (simp add: demo_texts demo_stream_def)
qed

section \<open>A client that keeps up\<close>

text \<open>While the buffer was never full, nothing was overwritten: what was delivered, followed by what is kept, is all the task saw.\<close>

definition all_there :: "'c stream_libs \<Rightarrow> ('c \<Rightarrow> chan_view) \<Rightarrow> string list \<Rightarrow> 'c feed \<Rightarrow> bool" where
  "all_there S view saw f \<longleftrightarrow> vw_missed (view (fd_chan f)) = 0
     \<and> (fd_open f \<longrightarrow> (\<exists>got. map Some (texts f) = map (sl_event S) got \<and> got @ kept_by view f = saw))"

lemma all_there_poll:
  assumes "broadcast_ok S view" and "all_there S view saw f"
  shows "all_there S view saw (poll_stream S now f)"
  using assms(1)
proof (cases rule: recv_cases [where c = "fd_chan f"])
  case (got x xs c')
  show ?thesis
  proof (cases "sl_event S x")
    case None
    then show ?thesis
      using got assms(2) by (simp add: all_there_def poll_stream_def close_stream_def drop_rx_view [OF assms(1)])
  next
    case (Some e)
    have "\<exists>h. map Some (texts f @ [e]) = map (sl_event S) h \<and> h @ xs = saw" if "fd_open f"
    proof -
      from that assms(2) got(3) obtain g where "map Some (texts f) = map (sl_event S) g" "g @ x # xs = saw" by (auto simp: all_there_def)
      then show ?thesis using Some by (intro exI [of _ "g @ [x]"]) simp
    qed
    moreover have "texts (poll_stream S now f) = texts f @ [e]" using got(1) Some by (simp add: poll_stream_def texts_def)
    ultimately show ?thesis using got assms(2) Some unfolding all_there_def by (simp add: poll_stream_def)
  qed
qed (use assms(2) in \<open>auto simp: poll_stream_def all_there_def texts_def close_stream_def drop_rx_view [OF assms(1)]\<close>)

lemma all_there_message:
  assumes "broadcast_ok S view" and "all_there S view saw f" and "vw_rx (view (fd_chan f)) \<longleftrightarrow> fd_open f"
    and "length (kept_by view f) < PROGRESS_BUFFER"
  shows "all_there S view (saw @ (if sl_is_utf8 S p then [p] else [])) (on_message S p f)"
proof (cases "sl_send S p (fd_chan f)")
  case None
  then have "\<not> fd_open f" using send_None [OF assms(1)] assms(3) by auto
  then show ?thesis using None assms(2) by (simp add: all_there_def on_message_def end_task_def drop_tx_view [OF assms(1)])
next
  case (Some ch)
  then show ?thesis
    using send_Some [OF assms(1) Some] assms(2,4) by (auto simp: all_there_def on_message_def texts_def)
qed

lemma all_there_run:
  assumes "feed_run S jid t0 tr f" and "broadcast_ok S view" and "\<forall>(a, g) \<in> set tr. length (kept_by view g) < PROGRESS_BUFFER"
  shows "all_there S view (seen S jid tr) f"
  using assms(1,3)
proof induction
  case start
  then show ?case by (simp add: all_there_def open_feed_def start_view [OF assms(2)] texts_def)
next
  case (step tr f a f')
  have ih: "all_there S view (seen S jid tr) f" and room: "length (kept_by view f) < PROGRESS_BUFFER" using step by auto
  have rx: "vw_rx (view (fd_chan f)) \<longleftrightarrow> fd_open f" using feed_invariant [OF step.hyps(1) assms(2)] by (simp add: feed_ok_def)
  from step.hyps(2) show ?case
  proof cases
    case (message ch p)
    then show ?thesis using all_there_message [OF assms(2) ih rx room, of p] by auto
  next
    case (polled now)
    then show ?thesis using all_there_poll [OF assms(2) ih] by simp
  qed (use ih in \<open>auto simp: all_there_def end_task_def on_connected_def on_subscribed_def close_stream_def texts_def
        drop_tx_view [OF assms(2)] drop_rx_view [OF assms(2)] split: sum.split\<close>)
qed

text \<open>
  C20: A client that keeps up misses nothing: as long as there were never 256 messages waiting, a client whose stream is open and
  who has nothing left to read has received, in order, every text message that was published for the job since the task subscribed.
\<close>

theorem prompt_client_misses_nothing:
  assumes "feed_run S jid t0 tr f" and "broadcast_ok S view" and "\<forall>(a, g) \<in> set tr. length (kept_by view g) < PROGRESS_BUFFER"
    and "fd_open f" and "fst (sl_recv S (fd_chan f)) \<in> {Nothing_yet, Closed}"
  shows "map Some (texts f) = map (sl_event S) (seen S jid tr)"
proof -
  have "kept_by view f = []"
    using assms(2) by (cases rule: recv_cases [where c = "fd_chan f"]) (use assms(5) in auto)
  with all_there_run [OF assms(1-3)] assms(4) show ?thesis by (auto simp: all_there_def)
qed

theorem prompt_client_misses_nothing_witness:
  "map Some (texts demo_delivered) = map (sl_event demo_stream) (seen demo_stream 8 demo_trace)"
  by (rule prompt_client_misses_nothing [OF demo_feed_run demo_stream_ok])
    (simp_all add: demo_trace_def demo_feed_def demo_delivered_def PROGRESS_BUFFER_def demo_stream_def)

section \<open>Delivery\<close>

text \<open>
  Whatever is kept for the client is delivered by polling: one poll for each message, and one more if messages were missed.
\<close>

fun polls :: "'c stream_libs \<Rightarrow> instant list \<Rightarrow> 'c feed \<Rightarrow> 'c feed" where
  "polls S [] f = f"
| "polls S (t # ts) f = polls S ts (poll_stream S t f)"

lemma polls_deliver:
  assumes "broadcast_ok S view" and "vw_missed (view (fd_chan f)) = 0" and "length ts = length (kept_by view f)"
    and "\<forall>x \<in> set (kept_by view f). sl_event S x \<noteq> None"
  shows "map Some (texts (polls S ts f)) = map Some (texts f) @ map (sl_event S) (kept_by view f) \<and> kept_by view (polls S ts f) = []"
  using assms(2-)
proof (induction ts arbitrary: f)
  case (Cons t ts)
  obtain x xs where k: "kept_by view f = x # xs" using Cons.prems(2) by (cases "kept_by view f") auto
  obtain e where e: "sl_event S x = Some e" using Cons.prems(3) k by auto
  obtain c' where c: "sl_recv S (fd_chan f) = (Got x, c')" "view c' = (view (fd_chan f))\<lparr>vw_kept := xs\<rparr>"
    using assms(1) by (cases rule: recv_cases [where c = "fd_chan f"]) (use Cons.prems(1) k in auto)
  let ?f = "poll_stream S t f"
  have f: "texts ?f = texts f @ [e]" "view (fd_chan ?f) = (view (fd_chan f))\<lparr>vw_kept := xs\<rparr>"
    using c e by (simp_all add: poll_stream_def texts_def)
  show ?case using Cons.IH [of ?f] Cons.prems k e f by simp
qed simp

text \<open>
  Every message that is kept for a client is delivered: after as many polls as messages are waiting (and one more
  when some were missed), the client has received all of them, in order.
\<close>

theorem waiting_messages_are_delivered:
  assumes "broadcast_ok S view" and "\<forall>x \<in> set (kept_by view f). sl_event S x \<noteq> None"
    and "length ts = length (kept_by view f) + (if vw_missed (view (fd_chan f)) = 0 then 0 else 1)"
  shows "map Some (texts (polls S ts f)) = map Some (texts f) @ map (sl_event S) (kept_by view f)"
proof (cases "vw_missed (view (fd_chan f)) = 0")
  case True
  then show ?thesis using polls_deliver [OF assms(1) True] assms(2,3) by simp
next
  case False
  then obtain t ts' where ts: "ts = t # ts'" "length ts' = length (kept_by view f)" using assms(3) by (cases ts) auto
  obtain n c' where c: "sl_recv S (fd_chan f) = (Lagged n, c')" "view c' = (view (fd_chan f))\<lparr>vw_missed := 0\<rparr>"
    using assms(1) by (cases rule: recv_cases [where c = "fd_chan f"]) (use False in auto)
  let ?f = "poll_stream S t f"
  have f: "texts ?f = texts f" "view (fd_chan ?f) = (view (fd_chan f))\<lparr>vw_missed := 0\<rparr>"
    using c by (simp_all add: poll_stream_def texts_def)
  show ?thesis using polls_deliver [OF assms(1), of ?f ts'] assms(2) ts f by simp
qed

theorem waiting_messages_are_delivered_witness:
  "map Some (texts (polls demo_stream [0, 1] (demo_feed Listening [''a'', ''b''] []))) = [Some ''a'', Some ''b'']"
  using waiting_messages_are_delivered [OF demo_stream_ok, of "demo_feed Listening [''a'', ''b''] []" "[0, 1]"]
  by (simp add: demo_feed_def demo_stream_def texts_def)

section \<open>The task of a client that left\<close>

text \<open>The next message of the job ends the task of a client that left; until one comes, nothing but a loss of the Redis connection does.\<close>

lemma message_ends_orphan:
  assumes "feed_run S jid t0 tr f" and "broadcast_ok S view" and "\<not> fd_open f" and "sl_is_utf8 S p"
  shows "fd_task (on_message S p f) = Ended"
proof -
  have "\<not> vw_rx (view (fd_chan f))" using feed_invariant [OF assms(1,2)] assms(3) by (simp add: feed_ok_def)
  then have "sl_send S p (fd_chan f) = None" using send_None [OF assms(2)] by blast
  then show ?thesis using assms(4) by (simp add: on_message_def end_task_def)
qed

lemma orphan_waits:
  assumes "feed_step S jid a f f'" and "\<not> fd_open f" and "fd_task f = Listening"
    and "a \<noteq> Pubsub_ended" and "\<forall>p. a \<noteq> Published (progress_channel jid) p"
  shows "f' = f"
  using assms by cases auto

end
