(* ===== verification/Telemetry_Facts.thy ===== *)
theory Telemetry_Facts
  imports Telemetry Serve_Facts
begin

text \<open>
  What the metrics are worth: after a tick the gauge that operators alert on says exactly what the gate does, the counters of denials count
  the denials, the page with the metrics is not served to clients of the API, and what is reported before the recorder is there is lost.
\<close>

section \<open>Emissions\<close>

lemma emit_all_append: "emit_all (xs @ ys) m = emit_all ys (emit_all xs m)"
  by (simp add: emit_all_def)

lemma emit_all_Nil [simp]: "emit_all [] m = m"
  by (simp add: emit_all_def)

lemma emit_all_Cons: "emit_all (e # es) m = emit_all es (emit e m)"
  by (simp add: emit_all_def)

lemma emit_dropped: "emit_all es None = None"
  by (induction es) (simp_all add: emit_all_Cons emit_def)

lemma emit_all_recorded: obtains s' where "emit_all es (Some s) = Some s'"
  by (induction es arbitrary: s) (auto simp: emit_all_Cons emit_def)

text \<open>
  The license is validated before the recorder is installed, so whatever that activation reports is lost: the first page has no gauge
  and counts no activation.
\<close>

lemma start_reports_nothing:
  assumes "init_metrics None (emit_all (activate_emissions loaded now w) None) = Inr m"
  shows "m = Some no_series"
  using assms by (simp add: emit_dropped init_metrics_def)

section \<open>The gauge and the gate\<close>

text \<open>For the witness: a process that enforces licenses and has none.\<close>

definition demo_unlicensed :: lic_world where
  "demo_unlicensed = \<lparr>lw_proc = initial_proc\<lparr>lp_enforce := Some True\<rparr>, lw_files = (\<lambda>_. None)\<rparr>"

lemma gauges_published:
  "\<exists>s'. emit_all (es @ gauge_emissions p now now') (Some s) = Some s' \<and> se_gauges s' ''license_valid'' = Some (ga_license_valid (publish_gauges p now now'))"
proof -
  obtain s1 where "emit_all es (Some s) = Some s1" by (rule emit_all_recorded)
  then show ?thesis by (simp add: emit_all_append gauge_emissions_def Let_def emit_all_Cons emit_def)
qed

lemma gauge_is_gate:
  "enforce_enabled p \<Longrightarrow> ga_license_valid (publish_gauges p now now') = (if require_licensed p now = Inr () then 1 else 0)"
  by (simp add: publish_gauges_def require_licensed_def Let_def)

text \<open>A state that holds a document holds the file it came from; activation and reloading keep it so.\<close>

definition has_file :: "lic_world \<Rightarrow> bool" where
  "has_file w \<longleftrightarrow> ls_doc (lp_state (lw_proc w)) = None \<or> ls_raw (lp_state (lw_proc w)) \<noteq> None"

lemma has_file_reload: "has_file w \<Longrightarrow> has_file (reload_store_if_changed L env now w)"
  by (auto simp: has_file_def reload_store_if_changed_def activate_def Let_def split: option.split sum.split)

lemma due_has_doc: "heartbeat_due env state now \<Longrightarrow> ls_doc state \<noteq> None"
  by (auto simp: heartbeat_due_def split: option.splits)

lemma tick_emissions_end:
  assumes "has_file w0" and "load_public_key L env (lw_files (reload_store_if_changed L env now w0)) = Inr key"
  shows "\<exists>es. tick_emissions L env net io meanwhile now later w0 =
    es @ gauge_emissions (lw_proc (heartbeat_tick L env net io meanwhile now w0)) later later"
proof -
  let ?w = "reload_store_if_changed L env now w0"
  let ?g = "gauge_emissions (lw_proc (heartbeat_tick L env net io meanwhile now w0)) later later"
  let ?n = "Count ''license_heartbeat_total''"
  show ?thesis
  proof (cases "heartbeat_due env (lp_state (lw_proc ?w)) now")
    case False
    then show ?thesis by (simp add: tick_emissions_def Let_def)
  next
    case True
    obtain raw doc where r: "ls_raw (lp_state (lw_proc ?w)) = Some raw" "ls_doc (lp_state (lw_proc ?w)) = Some doc"
      using due_has_doc [OF True] has_file_reload [OF assms(1), of L env now] by (auto simp: has_file_def)
    have "\<exists>l. tick_emissions L env net io meanwhile now later w0 = reload_emissions L env now w0 @ ?n l # ?g"
      using True r assms(2) by (cases "server_from_env env") (simp_all add: tick_emissions_def Let_def)
    then obtain l where "tick_emissions L env net io meanwhile now later w0 = (reload_emissions L env now w0 @ [?n l]) @ ?g" by auto
    then show ?thesis by blast
  qed
qed



text \<open>The tick that cannot load the public key reports nothing, although the gate may have closed since the last one.\<close>

lemma gauge_goes_stale:
  assumes "reload_store_if_changed L env now w0 = w0" and "heartbeat_due env (lp_state (lw_proc w0)) now"
    and "server_from_env env = Some server" and "load_public_key L env (lw_files w0) = Inl e" and "reload_emissions L env now w0 = []"
  shows "tick_emissions L env net io meanwhile now later w0 = []"
  using assms by (auto simp: tick_emissions_def Let_def split: option.split)

section \<open>Denials\<close>

definition denial_reasons :: "string set" where
  "denial_reasons = insert ''missing'' (problem_as_str ` UNIV)"

definition denials :: "series \<Rightarrow> nat" where
  "denials s = (\<Sum>r \<in> denial_reasons. se_counters s (''license_denied_total'', [(''reason'', r)]))"

lemma finite_reasons: "finite denial_reasons"
proof -
  have "x \<in> {Expired, FingerprintMismatch, HeartbeatGraceExpired, MissingIssuedAt, Revoked}" for x by (cases x) simp_all
  then have "finite (UNIV :: license_problem set)" by (meson finite.emptyI finite.insertI finite_subset subsetI)
  then show ?thesis by (simp add: denial_reasons_def)
qed

lemma denials_incremented:
  "denials (incremented k s) = denials s + (if \<exists>r \<in> denial_reasons. k = (''license_denied_total'', [(''reason'', r)]) then 1 else 0)"
proof -
  let ?k = "\<lambda>r. (''license_denied_total'', [(''reason'', r)])"
  have "denials (incremented k s) = (\<Sum>r \<in> denial_reasons. se_counters s (?k r) + (if ?k r = k then 1 else 0))"
    unfolding denials_def by (rule sum.cong) (auto simp: incremented_def)
  also have "\<dots> = denials s + (\<Sum>r \<in> denial_reasons. if ?k r = k then 1 else 0)" by (simp add: sum.distrib denials_def)
  also have "(\<Sum>r \<in> denial_reasons. if ?k r = k then 1 else 0) = (if \<exists>r \<in> denial_reasons. k = ?k r then 1 else (0 :: nat))"
    using finite_reasons by (cases "\<exists>r \<in> denial_reasons. k = ?k r") (auto simp: sum.delta)
  finally show ?thesis .
qed

lemma denials_gate:
  "\<exists>s'. emit_all (gate_emissions p now) (Some s) = Some s' \<and> denials s' = denials s + (if require_licensed p now = Inr () then 0 else 1)"
proof (cases "require_licensed p now = Inr ()")
  case True
  then have "gate_emissions p now = []" by (auto simp: gate_emissions_def require_licensed_def Let_def split: if_splits)
  then show ?thesis using True by simp
next
  case False
  let ?problem = "problem_for (lp_state p) (process_fingerprint p) now"
  let ?r = "case ?problem of Some x \<Rightarrow> problem_as_str x | None \<Rightarrow> ''missing''"
  have r: "?r \<in> denial_reasons" by (simp add: denial_reasons_def split: option.split)
  have "gate_emissions p now = Count ''license_denied_total'' [(''reason'', ?r)]
      # (if ?problem = Some Expired then [Count ''license_expired_denied_total'' []] else [])"
    using False unfolding gate_emissions_def require_licensed_def Let_def by (simp split: if_splits)
  then have "emit_all (gate_emissions p now) (Some s) = Some (if ?problem = Some Expired
      then incremented (''license_expired_denied_total'', []) (incremented (''license_denied_total'', [(''reason'', ?r)]) s)
      else incremented (''license_denied_total'', [(''reason'', ?r)]) s)"
    by (simp add: emit_all_Cons emit_def)
  then show ?thesis using False r by (auto simp: denials_incremented)
qed

text \<open>
  The counters of denials are exact: after any sequence of checks by the runtime gate, of any processes' states at any times, the denials counted over all
  reasons have grown by the number of checks that refused.
\<close>

theorem denials_are_counted:
  "\<exists>s'. emit_all (concat (map (\<lambda>(p, now). gate_emissions p now) checks)) (Some s) = Some s'
     \<and> denials s' = denials s + length (filter (\<lambda>(p, now). require_licensed p now \<noteq> Inr ()) checks)"
proof (induction checks arbitrary: s)
  case (Cons c checks)
  obtain p now where c: "c = (p, now)" by fastforce
  obtain s1 where s1: "emit_all (gate_emissions p now) (Some s) = Some s1"
    "denials s1 = denials s + (if require_licensed p now = Inr () then 0 else 1)" using denials_gate by blast
  from Cons.IH [of s1] s1 c show ?case by (auto simp: emit_all_append)
qed simp

section \<open>The page\<close>

text \<open>
  The metrics stay off the public listener: no method on \<^verbatim>\<open>/metrics\<close> reaches an endpoint of the API, and nothing changes.
\<close>

theorem metrics_stay_off_the_api:
  assumes "hr_path hr = ''/metrics''"
  shows "serve ap ho rq hr s = (if hr_method hr = OPTIONS then Answered 200 R_none else Answered 404 R_none, s)"
proof -
  have "dispatch m ''/metrics'' = No_route" for m by (cases m; code_simp)
  then show ?thesis using assms by (simp add: serve_def)
qed

definition demo_scrape :: http_request where
  "demo_scrape = \<lparr>hr_method = GET, hr_path = ''/metrics'', hr_query = [], hr_authorization = Some ''Bearer t'', hr_body = Json_body []\<rparr>"

theorem metrics_stay_off_the_api_witness:
  "fst (serve demo_app demo_host demo_rq demo_scrape (demo_site_world, demo_unlicensed)) = Answered 404 R_none"
  using metrics_stay_off_the_api [of demo_scrape] by (simp add: demo_scrape_def)

text \<open>On its own listener the page is served to \<^verbatim>\<open>GET\<close>, and nothing else is.\<close>

lemma metrics_page: "metrics_router page s m path = Answered 200 (R_text t) \<longleftrightarrow> m = GET \<and> path = ''/metrics'' \<and> t = page s"
  by (auto simp: metrics_router_def render_def head_only_def)

section \<open>Logs\<close>

text \<open>Without an endpoint for traces, logging always starts; a filter that does not parse is replaced.\<close>

lemma tracing_starts:
  "init_tracing env filter_ok install_otlp service None None = Some (Inr \<lparr>
     tr_filter = (case env ''RUST_LOG'' of Some f \<Rightarrow> if filter_ok f then f else DEFAULT_LOG_FILTER | None \<Rightarrow> DEFAULT_LOG_FILTER),
     tr_service = service, tr_otlp = None\<rparr>)"
  by (simp add: init_tracing_def opt_filter_def Let_def split: option.split)

end
