(* ===== verification/Spec2Isabelle.thy ===== *)
theory Spec2Isabelle
  imports License_Facts License_Server_Facts Templates_Facts Jobs_Facts Operations_Facts
    Specs_Facts Llm_Facts Sampling_Facts Auth_Facts Dry_Run_Facts License_Routes_Facts Commands_Facts Files_Facts Serve_Facts
    Startup_Facts Event_Stream_Facts Telemetry_Facts
begin

text \<open>
  \<^bold>\<open>A verification library of the migration platform's API server and license service\<close>

  The platform moves records from files and watched locations into the APIs of other systems. Its Rust part
  (\<^verbatim>\<open>src/apps/api\<close>) consists of an HTTP API over PostgreSQL, an object store and the Temporal orchestrator (\<^verbatim>\<open>main.rs\<close>),
  a license service of the vendor (\<^verbatim>\<open>bin/license_server.rs\<close>) and an administration tool (\<^verbatim>\<open>bin/admin.rs\<close>). All three are modelled
  here as executable functions, from the text of a request to the text of a reply. The paths below are relative to
  \<^verbatim>\<open>src/apps/api/src\<close>.

  \<^bold>\<open>How the parts interact.\<close> A request is routed to a handler; extractors check the token and read path, query and body; the
  handler checks the role of the caller and, where it starts work, the license gate; it runs SQL statements, calls the
  orchestrator's bridge, the object store, a provider or a host on the network, writes the audit log, and replies. The license
  state belongs to the process: it is loaded at the start, renewed by heartbeats to the license service, started as a trial
  through the API, and read by the gate. The orchestrator works on the same tables beside the API.

  \<^bold>\<open>State and effects.\<close> A handler is a function of type \<open>'a handler\<close> (theories \<open>Prelude\<close>, \<open>App_State\<close>): it takes the world (tables,
  messages sent to the bridge, requests sent elsewhere, a count of statements) and gives an \<open>api_error\<close> or a result, and a world.
  Errors are values; a world changed before an error stays changed, as in the code. Tables are lists of
  rows; every SQL statement, and every transaction, is one atomic step, with the constraints it can violate. Before each statement
  the rest of the system may change the database by \<open>rq_other\<close> of the request: the theorems say with \<open>relies\<close> or \<open>alone\<close> what they need of
  it. Any statement may also fail without effect because the database does not answer (\<open>rq_outage\<close>): theorems with \<open>relies\<close> hold through such
  outages, the few that promise an outcome ask for a \<open>healthy\<close> database. \<open>ids_fresh\<close> says that sequences are ahead of the ids in use. Panics are values as well: \<open>fault\<close> in \<open>Llm\<close>,
  \<open>Aborted\<close> for a reply, \<open>CliPanics\<close> for the tools. Strings are lists of UTF-8 bytes; 64-bit ids are integers with their
  range checked where the code parses them; token comparison and addresses are on machine words. Loops are recursive functions that are
  structural or have a termination proof; there is no fuel. The bounds that occur (seven levels of nesting in \<open>resolve_schema\<close>, two attempts in
  \<open>suggest_loop\<close>, two hundred sample rows, eight megabytes of sampled input, the two body limits) are those of the code.

  \<^bold>\<open>What is an argument.\<close> Code that is not part of the repository enters through records of functions: \<open>libs\<close> (JSON text, base64, RSA
  signatures, time stamps), \<open>crates\<close> (tokens, Argon2, AES-GCM, regular expressions, CSV and XML readers), \<open>app\<close> (configuration,
  compiled JSON Schema, cron grammar), \<open>request\<close> (clock, identifiers, replies of bridge, object store and network), \<open>host\<close> and
  \<open>attempts\<close> (replies of the license service, listeners, pools), \<open>stream_libs\<close> (the broadcast channel). What the theorems need of them is stated:
  \<open>json_text_ok\<close>, \<open>timestamps_ok\<close>, \<open>stored_ts_ok\<close>, \<open>signatures_ok\<close>, \<open>jwt_ok\<close>, \<open>broadcast_ok\<close>.

  \<^bold>\<open>Theories of the model.\<close>
  \<^item> \<open>Prelude\<close>: Rust's string functions, JSON values, handlers and their rules, the locales \<open>framing\<close> and \<open>kept_by_steps\<close>.
  \<^item> \<open>Api_Error\<close> (\<^verbatim>\<open>error.rs\<close>), \<open>App_State\<close> (\<^verbatim>\<open>db.rs\<close>, \<^verbatim>\<open>security/audit.rs\<close>, the migrations), \<open>Net_Addr\<close> (addresses of \<^verbatim>\<open>routes/specs.rs\<close>).
  \<^item> \<open>License\<close> (\<^verbatim>\<open>security/license.rs\<close>, \<^verbatim>\<open>security/fingerprint.rs\<close>), \<open>License_Server\<close> (\<^verbatim>\<open>license_server.rs\<close>),
    \<open>License_Routes\<close> (\<^verbatim>\<open>routes/license.rs\<close>), \<open>Commands\<close> (\<^verbatim>\<open>bin/\<close>).
  \<^item> \<open>Temporal\<close> (\<^verbatim>\<open>temporal.rs\<close>), \<open>Auth\<close> (\<^verbatim>\<open>security/jwt.rs\<close>, \<^verbatim>\<open>security/passwords.rs\<close>, \<^verbatim>\<open>middleware/auth.rs\<close>, \<^verbatim>\<open>routes/auth.rs\<close>),
    \<open>Sources\<close> (\<^verbatim>\<open>sources.rs\<close>, \<^verbatim>\<open>job_source.rs\<close>), \<open>Template_Types\<close> (\<^verbatim>\<open>rule_template_types.rs\<close>).
  \<^item> \<open>Templates\<close>, \<open>Jobs\<close>, \<open>Schedules\<close>, \<open>Batches\<close>, \<open>Connectors\<close> (with \<^verbatim>\<open>secrets.rs\<close>), \<open>Specs\<close>, \<open>Llm\<close>, \<open>Files\<close>, \<open>Dry_Run\<close>: the files of
    \<^verbatim>\<open>routes/\<close> with these names, one definition per handler and per statement; \<open>Sampling\<close>: \<^verbatim>\<open>sampling/\<close>.
  \<^item> \<open>Server\<close> (\<^verbatim>\<open>config.rs\<close>, \<^verbatim>\<open>routes/health.rs\<close>, \<^verbatim>\<open>middleware/\<close>), \<open>Routing\<close> (every \<^verbatim>\<open>router\<close> function, merged, and dispatch),
    \<open>Http\<close> (the forms of bodies, queries and replies), \<open>Serve\<close> (extractors and endpoints, composed to \<open>serve\<close>: the function the
    API computes on a request), \<open>Startup\<close> (\<^verbatim>\<open>main.rs\<close>, \<^verbatim>\<open>state.rs\<close>, key material, the license service as an HTTP server, the tools' main functions).
  \<^item> \<open>Event_Stream\<close> (the end of \<^verbatim>\<open>stream_updates\<close> in \<^verbatim>\<open>routes/jobs.rs\<close>: task, channel, response and client as a step relation, in any interleaving) and
    \<open>Telemetry\<close> (\<^verbatim>\<open>telemetry.rs\<close>, \<^verbatim>\<open>routes/metrics.rs\<close>, the counters and gauges of the license code: what is reported and when it is recorded).

  \<^bold>\<open>Interfaces.\<close> \<open>store_laws\<close> (theory \<open>Handler_Frame\<close>) is the contract between handlers and store: a relation on databases that every
  statement keeps. Inside it every handler is shown to keep the relation once and for all; \<open>uniform_laws\<close> is the case without regard to the
  caller. It is interpreted for isolation of tenants, growth of the audit log, published templates, the lifecycle of jobs, credentials and
  accounts. \<open>sending\<close> is the same for what reaches the orchestrator. \<open>sort_order\<close> serves the paginated queries, and
  \<open>kept_by_steps\<close> the invariants of the license service along its step relation.

  \<^bold>\<open>What is shown.\<close>
  \<^item> Of the served API as a whole, along any run of HTTP requests (this theory, \<open>Serve_Facts\<close>): tenants are isolated; a caller that knows no password of
    an organization changes nothing of it, whatever it logs in as; jobs follow their lifecycle; published templates and the audit
    log are immutable; viewers change nothing; requests without a token have no effect; an unlicensed process starts no work;
    credentials are out of reach; and a trial works from the button to the open gate, through both servers.
    \<open>request_is_one_step\<close> reduces a request to one handler run under the claims of its token.
  \<^item> Of the license: the gate is exact, active documents are authentic, outages never deny, refusals block at once (\<open>License_Facts\<close>); one trial per
    install, revocation, renewal, limits (\<open>License_Server_Facts\<close>); status and trial route (\<open>License_Routes_Facts\<close>); signed files are usable
    (\<open>Commands_Facts\<close>); the upgrade of the store is idempotent, and an API that starts has its keys (\<open>Startup_Facts\<close>); the gauge agrees with the gate, denials
    are counted, and the metrics stay off the API (\<open>Telemetry_Facts\<close>).
  \<^item> Of the progress stream, in every interleaving: order, no foreign job, nothing missed by a client that keeps up, delivery of what is waiting
    (\<open>Event_Stream_Facts\<close>).
  \<^item> Of single components: creation, start failures, retries and pages of jobs (\<open>Jobs_Facts\<close>); references and versions of templates (\<open>Templates_Facts\<close>), their
    round trip (\<open>Template_Types_Facts\<close>); schedules and secrets (\<open>Operations_Facts\<close>); sources and watched locations (\<open>Sources_Facts\<close>); specifications,
    with termination on cyclic ones (\<open>Specs_Facts\<close>); redaction and validity of suggestions (\<open>Llm_Facts\<close>); samples (\<open>Sampling_Facts\<close>, \<open>Files_Facts\<close>);
    previews (\<open>Dry_Run_Facts\<close>); login (\<open>Auth_Facts\<close>, \<open>Session_Facts\<close>); dispatch is sound and complete for the route table, and the routers do not
    overlap (\<open>Routing\<close>).

  \<^bold>\<open>Not modelled.\<close> The Go orchestrator, the Python worker, the web front end and the deployment files (other languages: the
  orchestrator appears as replies of the bridge and as changes beside the API); the exporters of logs, traces and metrics behind \<open>Telemetry\<close> and the text of log lines; the
  cryptography, regular expressions, parsers and grammars of libraries (arguments, see above); tracing, and of CORS everything but the answer
  to \<^verbatim>\<open>OPTIONS\<close>; the request id and security headers of a reply are modelled (\<open>Server\<close>) but not part of the replies of \<open>serve\<close>; a
  request that is dropped because its client disconnects; a statement that takes effect although its answer is lost; texts with a NUL character, which the database
  refuses; the tests.
\<close>

section \<open>What holds of the served API\<close>

text \<open>
  C1: Tenants are isolated: whatever requests callers of other organizations (or callers without a token) make, with whatever
  outcome, every row that belongs to an organization (templates, connectors, sources, secrets, schedules, jobs
  with their row results, batches, audit entries, imported specifications, LLM configuration) stays as it is, up to the references that go when
  a schedule or connector is deleted. The rest of the system must leave the organization alone as well.
\<close>

theorem tenant_isolation:
  assumes "http_run ap (\<lambda>s rq hr. (\<forall>own. relies (leaves_tenant ten own) rq)
      \<and> (\<forall>c. from_request_parts ap (rq_now rq) (hr_authorization hr) = Inr c \<longrightarrow> cl_org c \<noteq> ten)) s s'"
    and "ids_fresh (w_db (fst s))"
  shows "tenant_rows ten (w_db (fst s')) = tenant_rows ten (w_db (fst s))"
proof -
  have "on_db (leaves_tenant ten (ten + 1)) (fst s) (fst s')"
    by (rule tenant.http_run_frame [where f = fst, OF assms(1)]) (auto simp: on_db_def intro!: foreign_request_within)
  with assms(2) show ?thesis by (simp add: on_db_def leaves_tenant_def)
qed

text \<open>For the witnesses: a deployment that accepts one token, for given claims.\<close>

definition demo_as :: "claims \<Rightarrow> app" where
  "demo_as c = demo_app\<lparr>ap_crates := demo_crates\<lparr>cr_jwt_decode := (\<lambda>_ _ _ _. Some c)\<rparr>\<rparr>"

definition demo_call :: "meth \<Rightarrow> string \<Rightarrow> http_request" where
  "demo_call m path = \<lparr>hr_method = m, hr_path = path, hr_query = [], hr_authorization = Some ''Bearer t'', hr_body = Json_body []\<rparr>"

definition demo_db_after :: "claims \<Rightarrow> meth \<Rightarrow> string \<Rightarrow> world \<Rightarrow> db" where
  "demo_db_after c m path w = w_db (fst (snd (serve (demo_as c) demo_host demo_rq (demo_call m path) (w, demo_lic))))"

lemma demo_token_caller:
  assumes "cr_jwt_decode (ap_crates ap) = (\<lambda>_ _ _ _. Some c)"
  shows "from_request_parts ap now (Some ''Bearer t'') = Inr c"
proof -
  have "\<not> list_ex is_whitespace (chars ''t'')" by code_simp
  from bearer_token [OF this] assms show ?thesis by (simp add: verify_def ok_or_def)
qed

lemma demo_caller: "from_request_parts (demo_as c) now (hr_authorization (demo_call m path)) = Inr c"
  by (simp add: demo_call_def demo_token_caller demo_as_def)

lemma demo_relies:
  "relies (leaves_tenant ten own) demo_rq" "relies jobs_advance demo_rq" "relies audit_grows demo_rq"
  "relies published_kept demo_rq" "relies internal_kept demo_rq"
  using tenant.db_refl lifecycle.db_refl audit.db_refl published.db_refl internal.db_refl
  by (simp_all add: relies_def demo_rq_def)

definition demo_other :: claims where
  "demo_other = demo_claims\<lparr>cl_org := 2\<rparr>"

theorem tenant_isolation_witness:
  "tenant_rows 1 (demo_db_after demo_other POST ''/jobs/8/cancel'' demo_site_world) = tenant_rows 1 demo_site"
  unfolding demo_db_after_def using demo_site_facts(1)
  by (subst tenant_isolation [OF http_once]) (simp_all add: demo_relies demo_caller demo_other_def demo_site_world_def)





text \<open>
  C25: The audit log is append-only: after any run of requests the old log is still there, unchanged,
  below what was added.
\<close>

theorem audit_log_append_only:
  assumes "http_run ap (\<lambda>s rq hr. relies audit_grows rq) s s'"
  shows "\<exists>new. db_audit (w_db (fst s')) = new @ db_audit (w_db (fst s))"
  using http_run_within [OF audit.store_laws_axioms assms] by (simp add: audit_grows_def suffix_def)

theorem audit_log_append_only_witness:
  "\<exists>new. db_audit (demo_db_after demo_claims POST ''/rule-templates/4/publish'' demo_site_world) = new @ db_audit demo_site"
proof -
  have "http_run (demo_as demo_claims) (\<lambda>s rq hr. relies audit_grows rq) (demo_site_world, demo_lic)
      (snd (serve (demo_as demo_claims) demo_host demo_rq (demo_call POST ''/rule-templates/4/publish'') (demo_site_world, demo_lic)))"
    by (rule http_once) (rule demo_relies)
  from audit_log_append_only [OF this] show ?thesis by (simp add: demo_db_after_def demo_site_world_def)
qed



text \<open>
  C5: Without a valid license no migration work is started: while the license of the process keeps the gate closed, every request that
  leaves for the orchestrator stops or pauses something, changes or deletes a schedule, tests a connector or
  exports the results of a finished job; none starts, resumes, retries, triggers or schedules work.
\<close>

theorem unlicensed_starts_nothing:
  assumes "http_run ap (\<lambda>s rq hr. require_licensed (lw_proc (snd s)) (rq_now rq) \<noteq> Inr ()) s s'"
  shows "\<exists>new. w_sent (fst s') = new @ w_sent (fst s) \<and> list_all harmless new"
proof -
  have "sends_only harmless (fst s) (fst s')"
  proof (rule unlicensed.http_run_frame [where f = fst, OF assms])
    fix v v' ho rq hr r
    assume A: "require_licensed (lw_proc (snd v)) (rq_now rq) \<noteq> Inr ()" and run: "serve ap ho rq hr v = (r, v')"
    then obtain e where e: "require_licensed (rq_license (under_license rq v)) (rq_now (under_license rq v)) = Inl e"
      by (cases "require_licensed (lw_proc (snd v)) (rq_now rq)") auto
    have "sends_only harmless (fst v) (snd (login ap (under_license rq v) email password (fst v)))" for email password
      by (rule unlicensed_step [OF api_step.intros(52) e])
    then show "sends_only harmless (fst v) (fst v')"
      using request_is_one_step [OF run] unlicensed_step [OF _ e]
      by (auto simp: http_step_def trial_audit_def unlicensed.frame_refl intro!: runs_sends [of harmless "record_audit _ _ _ _ _ _ _ _"]
          unlicensed.sends_rules)
  qed
  then show ?thesis by (simp add: sends_only_def)
qed

theorem unlicensed_starts_nothing_witness:
  "list_all harmless (w_sent (fst (snd (serve (demo_as demo_claims) demo_host demo_late_rq (demo_call POST ''/jobs'')
     (demo_site_world, demo_lic)))))"
proof -
  have "require_licensed (lw_proc demo_lic) (rq_now demo_late_rq) \<noteq> Inr ()"
    using demo_license(2) by (auto simp: demo_lic_def demo_late_rq_def demo_rq_def)
  then have "http_run (demo_as demo_claims) (\<lambda>s rq hr. require_licensed (lw_proc (snd s)) (rq_now rq) \<noteq> Inr ()) (demo_site_world, demo_lic)
      (snd (serve (demo_as demo_claims) demo_host demo_late_rq (demo_call POST ''/jobs'') (demo_site_world, demo_lic)))"
    by (intro http_once) simp
  from unlicensed_starts_nothing [OF this] demo_site_facts(3) show ?thesis by auto
qed



section \<open>From the license server to the gate\<close>

text \<open>
  C12: A trial works end to end, over both HTTP servers: when an administrator of an install that has no license yet posts a valid
  email address to the API's \<^verbatim>\<open>/license/trial\<close>, and the license service the API is configured for is running, has not seen the install
  before and does not limit it, then the API answers 200, its process holds a trial for that address that is bound to it and
  expires when the service said, and its gate is open. The two clocks may differ by up to a day, and the API's database answers.
\<close>

theorem trial_end_to_end:
  assumes L_def: "L = ap_libs ap" and "json_text_ok L" and "timestamps_ok L" and "signatures_ok L (cfg_signing_key_pem cfg)" and "validate_config L cfg = Inr ()"
    and "hr_method hr = POST" and "hr_path hr = ''/license/trial''" and "hr_body hr = Json_body sent" and "length sent \<le> BODY_LIMIT"
    and "lib_parse L sent = Some (json_obj [(''email'', JStr raw)])" and "validate_trial_email raw = Inr mail"
    and "from_request_parts ap (rq_now rq) (hr_authorization hr) = Inr c" and "cl_role c = ''admin''"
    and "alone rq" and "org_exists (w_db w) (cl_org c)"
    and "server_from_env (ap_env ap) = Some server" and "sv_token server = cfg_activation_token cfg"
    and "load_public_key L (ap_env ap) (lw_files lw) = Inr (lib_public_of L (cfg_signing_key_pem cfg))"
    and "ls_doc (lp_state (lw_proc lw)) = None" and "process_fingerprint (lw_proc lw) = fp" and "normalize_fingerprint fp = Some fp"
    and "ss_trials s fp = None" and "rate_limit clk fp s = (Inr (), s1)" and "rq_now rq < now + days 1"
    and "length (lib_print L (trial_body fp mail)) \<le> LICENSE_BODY_LIMIT"
    and "ho_post ho = service_post L cfg (sv_base_url server) now clk wild s" and "ho_store_error ho = None" and "healthy rq"
  shows "\<exists>body w' lw' doc. serve ap ho rq hr (w, lw) = (Answered 200 (R_json body), (w', lw'))
     \<and> ls_doc (lp_state (lw_proc lw')) = Some doc \<and> ld_kind doc = Trial \<and> ld_licensee doc = mail \<and> ld_fingerprint doc = Some fp
     \<and> ld_expires_at doc = now + days (cfg_trial_days cfg) \<and> require_licensed (lw_proc lw') (rq_now rq) = Inr ()"
proof -
  let ?until = "now + days (cfg_trial_days cfg)"
  from service_grants_trial [OF assms(2,4,5,21,11,22,23,25), of now "sv_base_url server" wild]
  obtain lf where sign: "sign L cfg (trial_doc now mail ?until fp) = Inr lf"
    and reply: "ho_post ho (sv_base_url server @ ''/v1/trial/start'') (sv_token server) (trial_body fp mail)
      = Reply 200 (lib_print L (trial_response_json L \<lparr>tp_license_file = lf, tp_expires_at = ?until, tp_reused = False\<rparr>))"
    using assms(17,26) by auto
  have later: "rq_now rq < ?until"
    using assms(5,24) by (auto simp: validate_config_def days_def hours_def secs_def nanos_per_sec_def split: if_splits)
  have "normalize_fingerprint ''unavailable'' = None" by code_simp
  with assms(21) have un: "fp \<noteq> ''unavailable''" by auto
  have norm: "validate_trial_email mail = Inr mail" using email_normal [OF assms(11)] by simp
  let ?doc = "trial_doc now mail ?until fp"
  from signed_trial_opens_gate [OF assms(20) [symmetric] refl assms(2-4), where resp = "\<lparr>tp_license_file = lf, tp_expires_at = ?until, tp_reused = False\<rparr>"
      and licensee = mail and t = "rq_now rq" and email = mail and net = "ho_post ho" and env = "ap_env ap" and server = server and now = now]
  obtain lw' where run: "start_trial L (ap_env ap) (ho_post ho) None (rq_now rq) mail lw = (Inr ?doc, lw')"
    and st: "ls_doc (lp_state (lw_proc lw')) = Some ?doc" "require_licensed (lw_proc lw') (rq_now rq) = Inr ()"
    using sign reply later un norm assms(16,18,24) by auto
  have route: "dispatch POST ''/license/trial'' = Target (Ep_Licensing E_start_trial) []" by code_simp
  have body: "json_extract ap (read_one ''email'' as_str) hr = Inr raw"
    using assms(8-10) by (simp add: json_extract_def L_def read_one_def struct_def struct_form_def req_def json_obj_def jget_def)
  have "\<exists>body w'. start_trial_route ap (under_license rq (w, lw)) (ho_post ho) (ho_store_error ho) (ho_error_text ho) c raw (w, lw) = (Inr body, (w', lw'))"
    using assms(11,13-16,19,27) run
    by (simp add: start_trial_route_def bindE_def on_fst_def on_snd_def mapE_def require_role_def lift_def guardE_def gets_def ok_def
        record_audit_def sqlE_up healthyD [OF assms(28)] under_license_def Let_def alone_def L_def)
  then obtain body w' where "serve_endpoint ap ho (under_license rq (w, lw)) hr [] (Ep_Licensing E_start_trial) (w, lw) = (ok_json body, (w', lw'))"
    using assms(12) body by (auto simp: with_claims_def under_license_def with_json_def trial_reply_def)
  then have "serve ap ho rq hr (w, lw) = (Answered 200 (R_json body), (w', lw'))"
    using route assms(6,7) by (simp add: serve_def head_only_def ok_json_def)
  with st show ?thesis by (auto simp: trial_doc_def)
qed

text \<open>
  For the witness: a text format in which the two bodies of the exchange are short, an install and a service that share a token, and
  a request of its administrator.
\<close>

definition demo_compact_libs :: libs where
  "demo_compact_libs = demo_libs\<lparr>
     lib_print := (\<lambda>v. if v = trial_body demo_fp ''a@b.co'' then [] else replicate (Suc (to_nat v)) (CHR ''x'')),
     lib_parse := (\<lambda>s. if s = [] then Some (trial_body demo_fp ''a@b.co'') else if s = ''e'' then Some (json_obj [(''email'', JStr ''a@b.co'')])
       else Some (from_nat (length s - 1))),
     lib_pretty := (\<lambda>v. replicate (Suc (to_nat v)) (CHR ''x''))\<rparr>"

definition demo_trial_app :: app where
  "demo_trial_app = (demo_as demo_admin)\<lparr>ap_libs := demo_compact_libs,
     ap_env := [''LICENSE_SERVER_URL'' \<mapsto> ''https://l'', ''LICENSE_SERVER_TOKEN'' \<mapsto> cfg_activation_token demo_cfg]\<rparr>"

definition demo_install :: lic_world where
  "demo_install = \<lparr>lw_proc = initial_proc\<lparr>lp_enforce := Some True, lp_fingerprint := Some demo_fp\<rparr>, lw_files = (\<lambda>_. None)\<rparr>"

definition demo_trial_host :: host where
  "demo_trial_host = demo_host\<lparr>ho_post := service_post demo_compact_libs demo_cfg ''https://l'' 0 0 False (new_state 0)\<rparr>"

lemma demo_compact_libs_ok:
  "json_text_ok demo_compact_libs" "timestamps_ok demo_compact_libs" "signatures_ok demo_compact_libs priv"
  "validate_config demo_compact_libs demo_cfg = Inr ()"
proof -
  have "CHR ''x'' # replicate n (CHR ''x'') \<noteq> ''e''" for n by simp
  then show "json_text_ok demo_compact_libs" by (simp add: json_text_ok_def demo_compact_libs_def demo_libs_def)
  show "timestamps_ok demo_compact_libs" "signatures_ok demo_compact_libs priv"
    using demo_libs_ok(2,3) by (simp_all add: timestamps_ok_def signatures_ok_def demo_compact_libs_def)
  show "validate_config demo_compact_libs demo_cfg = Inr ()"
    by (simp add: validate_config_def demo_cfg_def MIN_TOKEN_LEN_def demo_compact_libs_def demo_libs_def)
qed

lemma demo_trial_env:
  "server_from_env (ap_env demo_trial_app) = Some \<lparr>sv_base_url = ''https://l'', sv_token = cfg_activation_token demo_cfg\<rparr>"
  "load_public_key demo_compact_libs (ap_env demo_trial_app) (lw_files demo_install) = Inr (lib_public_of demo_compact_libs (cfg_signing_key_pem demo_cfg))"
proof -
  have "trim_end_matches (CHR ''/'') (trim ''https://l'') = ''https://l''" "trim ''https://l'' \<noteq> []" "trim (cfg_activation_token demo_cfg) \<noteq> []"
    by code_simp+
  then show "server_from_env (ap_env demo_trial_app) = Some \<lparr>sv_base_url = ''https://l'', sv_token = cfg_activation_token demo_cfg\<rparr>"
    by (simp add: server_from_env_def demo_trial_app_def opt_filter_def)
  show "load_public_key demo_compact_libs (ap_env demo_trial_app) (lw_files demo_install) = Inr (lib_public_of demo_compact_libs (cfg_signing_key_pem demo_cfg))"
    by (simp add: load_public_key_def demo_trial_app_def demo_compact_libs_def demo_libs_def demo_cfg_def opt_filter_def)
qed

theorem trial_end_to_end_witness:
  "\<exists>body w' lw' doc. serve demo_trial_app demo_trial_host demo_rq ((demo_call POST ''/license/trial'')\<lparr>hr_body := Json_body ''e''\<rparr>)
       (demo_site_world, demo_install) = (Answered 200 (R_json body), (w', lw'))
     \<and> ls_doc (lp_state (lw_proc lw')) = Some doc \<and> ld_expires_at doc = days 10 \<and> require_licensed (lw_proc lw') 0 = Inr ()"
proof -
  let ?hr = "(demo_call POST ''/license/trial'')\<lparr>hr_body := Json_body ''e''\<rparr>"
  have L: "demo_compact_libs = ap_libs demo_trial_app" by (simp add: demo_trial_app_def)
  have mail: "validate_trial_email ''a@b.co'' = Inr ''a@b.co''" by code_simp
  have c: "from_request_parts demo_trial_app (rq_now demo_rq) (hr_authorization ?hr) = Inr demo_admin"
    by (simp add: demo_call_def demo_token_caller demo_trial_app_def demo_as_def)
  have rl: "rate_limit 0 demo_fp (new_state 0) = (Inr (), snd (rate_limit 0 demo_fp (new_state 0)))"
    by (simp add: rate_limit_def new_state_def since_def GLOBAL_PER_SECOND_def Let_def secs_def nanos_per_sec_def)
  from trial_end_to_end [where sent = "''e''" and raw = "''a@b.co''" and hr = ?hr and ho = demo_trial_host and w = demo_site_world and now = 0 and wild = False,
      OF L demo_compact_libs_ok _ _ _ _ _ mail c _ _ _ demo_trial_env(1) _ demo_trial_env(2) _ _ demo_guards(2) _ rl]
  show ?thesis
    using demo_site_facts
    by (auto simp: demo_call_def BODY_LIMIT_def LICENSE_BODY_LIMIT_def demo_compact_libs_def demo_admin_def demo_claims_def alone_def healthy_def demo_rq_def
        demo_install_def initial_proc_def initial_state_def process_fingerprint_def new_state_def demo_cfg_def days_def hours_def
        secs_def nanos_per_sec_def demo_trial_host_def demo_host_def demo_site_world_def demo_site_def org_exists_def)
qed

end
